(* ===== verification/Prelude.thy ===== *)
theory Prelude
  imports Main "HOL-Library.Word" "HOL-Library.Sublist"
begin

unbundle bit_operations_syntax

text \<open>
  Shared vocabulary of the development: the machine integers and byte strings of the server's
  C and C++ code, byte order conversions (\<open>boost::endian\<close>), slices of byte buffers, and the
  list lemmas that several components use. Theorem collections: \<open>buf\<close> holds the rules about
  buffer slices, \<open>endian\<close> the byte order ones.
\<close>

named_theorems buf "lengths and elements of buffer slices"
named_theorems endian "byte order conversions"

type_synonym u8 = "8 word"
type_synonym u16 = "16 word"
type_synonym u32 = "32 word"
type_synonym u64 = "64 word"
type_synonym bytes = "8 word list"

section \<open>Buffers\<close>

text \<open>
  A region of memory is a list of bytes. \<open>bslice\<close> reads \<open>len\<close> bytes at an offset, \<open>patch\<close>
  overwrites the bytes at an offset with a block. Both are used only where the region is known to
  lie inside the buffer; code that may run out of bounds checks this first in its model.
\<close>

definition bslice :: "'a list \<Rightarrow> nat \<Rightarrow> nat \<Rightarrow> 'a list" where
  "bslice xs off len = take len (drop off xs)"

definition patch :: "'a list \<Rightarrow> nat \<Rightarrow> 'a list \<Rightarrow> 'a list" where
  "patch xs off ys = take off xs @ ys @ drop (off + length ys) xs"

lemma length_bslice [buf, simp]: "off + len \<le> length xs \<Longrightarrow> length (bslice xs off len) = len"
  by (simp add: bslice_def)

lemma nth_bslice [buf]:
  "i < len \<Longrightarrow> off + len \<le> length xs \<Longrightarrow> bslice xs off len ! i = xs ! (off + i)"
  by (simp add: bslice_def)

lemma length_patch [buf, simp]:
  "off + length ys \<le> length xs \<Longrightarrow> length (patch xs off ys) = length xs"
  by (simp add: patch_def)

lemma nth_patch [buf]:
  assumes "off + length ys \<le> length xs" and "i < length xs"
  shows "patch xs off ys ! i =
    (if off \<le> i \<and> i < off + length ys then ys ! (i - off) else xs ! i)"
proof -
  consider "i < off" | "off \<le> i" "i < off + length ys" | "off + length ys \<le> i" by linarith
  then show ?thesis
  proof cases
    case 3
    then have "patch xs off ys ! i = drop (off + length ys) xs ! (i - off - length ys)"
      using assms by (auto simp: patch_def nth_append)
    with 3 assms show ?thesis by auto
  qed (use assms in \<open>auto simp: patch_def nth_append\<close>)
qed

text \<open>The two-dimensional index arithmetic of a row-major matrix.\<close>

lemma row_index_less: "i < m \<Longrightarrow> j < n \<Longrightarrow> i * n + j < m * (n::nat)"
proof -
  assume "i < m" "j < n"
  then have "i * n + j < Suc i * n" by simp
  also have "\<dots> \<le> m * n" using \<open>i < m\<close> by (intro mult_le_mono1) simp
  finally show ?thesis .
qed

lemma row_index_eq:
  assumes "j < n" and "l < (n::nat)"
  shows "i * n + j = k * n + l \<longleftrightarrow> i = k \<and> j = l"
proof
  assume eq: "i * n + j = k * n + l"
  have "(i * n + j) div n = i" "(k * n + l) div n = k" using assms by simp_all
  with eq have "i = k" by simp
  with eq show "i = k \<and> j = l" by simp
qed simp

lemma row_index_range:
  assumes "j < (n::nat)"
  shows "k * n \<le> i * n + j \<and> i * n + j < k * n + n \<longleftrightarrow> i = k"
proof
  assume r: "k * n \<le> i * n + j \<and> i * n + j < k * n + n"
  have "(i * n + j) div n = i" using assms by simp
  moreover have "(i * n + j) div n = k"
  proof (rule div_nat_eqI)
    show "n * k \<le> i * n + j" using r by (simp add: mult.commute)
    show "i * n + j < n * Suc k" using r by (simp add: mult.commute)
  qed
  ultimately show "i = k" by simp
qed (use assms in simp)

text \<open>Rounding a quotient up.\<close>

lemma ceil_div_eq:
  assumes "a * b < m" and "m \<le> a * b + b"
  shows "(m + b - 1) div b = Suc a"
  using assms by (intro div_nat_eqI) (simp_all add: mult.commute)

lemma ceil_div_mult: "0 < b \<Longrightarrow> (a * b + b - 1) div b = (a :: nat)"
  by (rule div_nat_eqI) (simp_all add: mult.commute)

lemma ceil_div_bounds:
  assumes "0 < (b :: nat)" and "0 < m"
  shows "((m + b - 1) div b - 1) * b < m" and "m \<le> (m + b - 1) div b * b" and "0 < (m + b - 1) div b"
proof -
  define q where "q = (m - 1) div b"
  have "q * b \<le> m - 1" "m - 1 < q * b + b"
    using assms(1) div_mult_mod_eq [of "m - 1" b] mod_less_divisor [of b "m - 1"]
    unfolding q_def by linarith+
  then have b: "q * b < m" "m \<le> q * b + b" using assms(2) by linarith+
  then have "(m + b - 1) div b = Suc q" by (rule ceil_div_eq)
  with b show "((m + b - 1) div b - 1) * b < m" "m \<le> (m + b - 1) div b * b" "0 < (m + b - 1) div b"
    by simp_all
qed

text \<open>Cutting a list into pieces.\<close>

definition chunk :: "nat \<Rightarrow> 'a list \<Rightarrow> nat \<Rightarrow> 'a list" where
  "chunk n xs i = take n (drop (i * n) xs)"

lemma concat_chunks: "concat (map (chunk n xs) [0..<m]) = take (m * n) xs"
proof (induction m)
  case (Suc m)
  have "take (Suc m * n) xs = take (m * n) xs @ take n (drop (m * n) xs)"
    by (simp only: mult_Suc add.commute [of n] take_add)
  with Suc show ?case by (simp add: chunk_def)
qed simp

lemma bslice_concat:
  assumes "\<forall>x\<in>set xs. length x = n" and "i < length xs"
  shows "bslice (concat xs) (i * n) n = xs ! i"
  using assms
proof (induction xs arbitrary: i)
  case (Cons x xs)
  show ?case
  proof (cases i)
    case (Suc k)
    have "bslice (concat (x # xs)) (i * n) n = bslice (concat xs) (k * n) n"
      using Cons.prems(1) by (simp add: bslice_def Suc)
    then show ?thesis using Cons Suc by simp
  qed (use Cons.prems(1) in \<open>simp add: bslice_def\<close>)
qed simp

lemma length_concat_uniform: "\<forall>x\<in>set xs. length x = n \<Longrightarrow> length (concat xs) = length xs * n"
  by (induction xs) simp_all

lemma those_map: "(\<And>x. x \<in> set xs \<Longrightarrow> f x = Some (g x)) \<Longrightarrow> those (map f xs) = Some (map g xs)"
  by (induction xs) simp_all

section \<open>Byte order\<close>

text \<open>
  The target machine is little endian, so \<open>little_to_native\<close> is the identity and
  \<open>native_to_big\<close> reverses the bytes. Structures are written field by field in memory order.
\<close>

definition le16 :: "u16 \<Rightarrow> bytes" where
  "le16 w = [ucast w, ucast (drop_bit 8 w)]"

definition le32 :: "u32 \<Rightarrow> bytes" where
  "le32 w = [ucast w, ucast (drop_bit 8 w), ucast (drop_bit 16 w), ucast (drop_bit 24 w)]"

definition be16 :: "u16 \<Rightarrow> bytes" where
  "be16 w = rev (le16 w)"

definition be32 :: "u32 \<Rightarrow> bytes" where
  "be32 w = rev (le32 w)"

definition get_le16 :: "bytes \<Rightarrow> u16" where
  "get_le16 bs = ucast (bs ! 0) OR push_bit 8 (ucast (bs ! 1))"

definition get_le32 :: "bytes \<Rightarrow> u32" where
  "get_le32 bs = ucast (bs ! 0) OR push_bit 8 (ucast (bs ! 1)) OR push_bit 16 (ucast (bs ! 2))
     OR push_bit 24 (ucast (bs ! 3))"

definition get_be16 :: "bytes \<Rightarrow> u16" where
  "get_be16 bs = get_le16 [bs ! 1, bs ! 0]"

definition get_be32 :: "bytes \<Rightarrow> u32" where
  "get_be32 bs = get_le32 [bs ! 3, bs ! 2, bs ! 1, bs ! 0]"

lemma length_endian [endian, simp]:
  "length (le16 w) = 2" "length (be16 w) = 2" "length (le32 v) = 4" "length (be32 v) = 4"
  by (simp_all add: le16_def be16_def le32_def be32_def)

lemma get_le16_le16 [endian, simp]: "get_le16 (le16 w @ r) = w"
  by (rule bit_word_eqI)
    (auto simp: get_le16_def le16_def bit_simps not_less intro: arg_cong [where f = "bit w"])

lemma get_le32_le32 [endian, simp]: "get_le32 (le32 w @ r) = w"
proof (rule bit_word_eqI)
  fix n assume "n < LENGTH(32)"
  then consider "n < 8" | "8 \<le> n" "n < 16" | "16 \<le> n" "n < 24" | "24 \<le> n" "n < 32" by force
  then show "bit (get_le32 (le32 w @ r)) n = bit w n"
    by cases (auto simp: get_le32_def le32_def bit_simps)
qed

lemma get_be16_be16 [endian, simp]: "get_be16 (be16 w @ r) = w"
  using get_le16_le16 [of w "[]"] by (simp add: get_be16_def be16_def le16_def)

lemma get_be32_be32 [endian, simp]: "get_be32 (be32 w @ r) = w"
  using get_le32_le32 [of w "[]"] by (simp add: get_be32_def be32_def le32_def)

end
