(* ===== verification/GstUtils.thy ===== *)
theory GstUtils
  imports Prelude "HOL-Library.Char_ord"
begin

unbundle bit_operations_syntax

text \<open>
  The helpers of \<open>gst-plugin/utils.hpp\<close> and the packet header of \<open>moonlight/data-structures.hpp\<close>
  that both RTP payloaders use.

  A \<open>GstBuffer\<close> is its contents, its delta-unit flag and its timestamps; a \<open>GstBufferList\<close> is a
  list. The GStreamer calls (\<open>gst_buffer_append\<close>, \<open>gst_buffer_copy_region\<close>) have their documented
  effect: appending concatenates the memory and keeps flags and timestamps of the first buffer, a
  region beyond the end is refused. Memory that \<open>gst_buffer_copy\<close> shares between buffers is copied
  by the write maps of the payloaders before they change it, so buffers are values here.
\<close>

section \<open>Buffers\<close>

record timestamps =
  ts_pts :: u64
  ts_dts :: u64
  ts_offset :: u64
  ts_duration :: u64
  ts_offset_end :: u64

text \<open>\<open>GST_CLOCK_TIME_NONE\<close> and \<open>GST_BUFFER_OFFSET_NONE\<close>.\<close>

definition no_timestamps :: timestamps where
  "no_timestamps = \<lparr>ts_pts = -1, ts_dts = -1, ts_offset = -1, ts_duration = -1, ts_offset_end = -1\<rparr>"

record gst_buffer =
  gb_data :: bytes
  gb_delta :: bool
  gb_ts :: timestamps

definition gst_buffer_of :: "bytes \<Rightarrow> gst_buffer" where
  "gst_buffer_of d = \<lparr>gb_data = d, gb_delta = False, gb_ts = no_timestamps\<rparr>"

definition gst_buffer_get_size :: "gst_buffer \<Rightarrow> nat" where
  "gst_buffer_get_size b = length (gb_data b)"

definition gst_buffer_append :: "gst_buffer \<Rightarrow> gst_buffer \<Rightarrow> gst_buffer" where
  "gst_buffer_append a b = a\<lparr>gb_data := gb_data a @ gb_data b\<rparr>"

text \<open>A copy of a region of memory: flags and timestamps are copied too when it starts at 0.\<close>

definition gst_buffer_copy_region :: "gst_buffer \<Rightarrow> nat \<Rightarrow> nat \<Rightarrow> gst_buffer option" where
  "gst_buffer_copy_region b off len =
     (if off + len > length (gb_data b) then None else Some (b\<lparr>gb_data := bslice (gb_data b) off len\<rparr>))"

section \<open>\<open>utils.hpp\<close>\<close>

text \<open>\<open>std::copy\<close> into a destination of fixed len: \<open>None\<close> when the buffer does not fit.\<close>

definition gst_buffer_copy_into :: "gst_buffer \<Rightarrow> bytes \<Rightarrow> bytes option" where
  "gst_buffer_copy_into buf dest =
     (if gst_buffer_get_size buf > length dest then None else Some (patch dest 0 (gb_data buf)))"

definition gst_buffer_copy_content :: "gst_buffer \<Rightarrow> nat \<Rightarrow> nat \<Rightarrow> bytes option" where
  "gst_buffer_copy_content buf off len =
     (if len > 0 \<and> off + len > gst_buffer_get_size buf then None
      else Some (map (\<lambda>i. gb_data buf ! (i + off)) [0..<len]))"

definition gst_buffer_new_and_fill :: "nat \<Rightarrow> u8 \<Rightarrow> gst_buffer" where
  "gst_buffer_new_and_fill len val = gst_buffer_of (replicate len val)"

definition gst_buffer_list_unfold :: "gst_buffer list \<Rightarrow> gst_buffer" where
  "gst_buffer_list_unfold bufs = fold (\<lambda>b acc. gst_buffer_append acc b) bufs (gst_buffer_of [])"

definition gst_buffer_list_sub :: "gst_buffer list \<Rightarrow> nat \<Rightarrow> nat \<Rightarrow> gst_buffer list" where
  "gst_buffer_list_sub bufs start stop = map (\<lambda>i. bufs ! i) [start..<stop]"

definition gst_copy_timestamps :: "gst_buffer \<Rightarrow> gst_buffer \<Rightarrow> gst_buffer" where
  "gst_copy_timestamps src dest = dest\<lparr>gb_ts := gb_ts src\<rparr>"

text \<open>
  \<open>std::stoul\<close>: white space, an optional sign, at least one digit (\<open>invalid_argument\<close> otherwise),
  a value below \<open>2 ^ 64\<close> (\<open>out_of_range\<close> otherwise); what follows the digits is ignored.
\<close>

definition isspace :: "char \<Rightarrow> bool" where
  "isspace c = (of_char c = (32 :: nat) \<or> (9 \<le> (of_char c :: nat) \<and> of_char c \<le> (13 :: nat)))"

definition isdigit :: "char \<Rightarrow> bool" where
  "isdigit c = (48 \<le> (of_char c :: nat) \<and> of_char c \<le> (57 :: nat))"

definition dec_value :: "string \<Rightarrow> nat" where
  "dec_value ds = foldl (\<lambda>n c. 10 * n + (of_char c - 48)) 0 ds"

definition stoul :: "string \<Rightarrow> nat option" where
  "stoul s =
     (let t = dropWhile isspace s;
          neg = (t \<noteq> [] \<and> hd t = CHR ''-'');
          t = (if t \<noteq> [] \<and> (hd t = CHR ''-'' \<or> hd t = CHR ''+'') then tl t else t);
          ds = takeWhile isdigit t in
      if ds = [] \<or> dec_value ds \<ge> 2 ^ 64 then None
      else Some (if neg then nat ((- int (dec_value ds)) mod 2 ^ 64) else dec_value ds))"

definition derive_iv :: "string \<Rightarrow> int \<Rightarrow> bytes option" where
  "derive_iv aes_iv cur_seq_number =
     (case stoul aes_iv of
        None \<Rightarrow> None
      | Some input_iv \<Rightarrow> Some (be32 (word_of_nat input_iv + word_of_int cur_seq_number) @ replicate 12 0))"

text \<open>\<open>cbc\<close> stands for \<open>crypto::aes_encrypt_cbc(msg, key, iv, true)\<close>.\<close>

definition encrypt_payload ::
  "(bytes \<Rightarrow> bytes \<Rightarrow> bytes \<Rightarrow> bytes) \<Rightarrow> bytes \<Rightarrow> bytes \<Rightarrow> gst_buffer \<Rightarrow> gst_buffer" where
  "encrypt_payload cbc aes_key aes_iv inbuf = gst_buffer_of (cbc (gb_data inbuf) aes_key aes_iv)"

section \<open>Lemmas\<close>

lemma buffer_simps [simp]:
  "gb_data (gst_buffer_of d) = d" "gb_ts (gst_buffer_of d) = no_timestamps"
  "gb_delta (gst_buffer_of d) = False"
  "gb_data (gst_buffer_append a b) = gb_data a @ gb_data b" "gb_ts (gst_buffer_append a b) = gb_ts a"
  "gb_data (gst_buffer_new_and_fill n v) = replicate n v"
  "gb_data (gst_copy_timestamps src dst) = gb_data dst" "gb_ts (gst_copy_timestamps src dst) = gb_ts src"
  by (simp_all add: gst_buffer_of_def gst_buffer_append_def gst_buffer_new_and_fill_def gst_copy_timestamps_def)

lemma unfold_data [simp]: "gb_data (gst_buffer_list_unfold bufs) = concat (map gb_data bufs)"
proof -
  have "gb_data (fold (\<lambda>b acc. gst_buffer_append acc b) bufs a) = gb_data a @ concat (map gb_data bufs)" for a
    by (induction bufs arbitrary: a) simp_all
  then show ?thesis by (simp add: gst_buffer_list_unfold_def)
qed

lemma list_sub_eq: "e \<le> length bufs \<Longrightarrow> gst_buffer_list_sub bufs s e = drop s (take e bufs)"
  by (intro nth_equalityI) (simp_all add: gst_buffer_list_sub_def)

lemma copy_content_eq:
  "off + len \<le> gst_buffer_get_size b \<Longrightarrow> gst_buffer_copy_content b off len = Some (bslice (gb_data b) off len)"
  by (auto simp: gst_buffer_copy_content_def bslice_def gst_buffer_get_size_def add.commute
      intro!: nth_equalityI)

text \<open>Distinct packets of one session use distinct initialisation vectors until the counter wraps.\<close>

lemma be32_inject: "be32 v = be32 w \<longleftrightarrow> v = w"
  by (metis get_be32_be32)

lemma derive_iv_inject:
  assumes "derive_iv k m = Some a" "derive_iv k n = Some a"
  shows "(word_of_int m :: u32) = word_of_int n"
  using assms by (auto simp: derive_iv_def be32_inject split: option.splits)

lemma length_derive_iv: "derive_iv k n = Some iv \<Longrightarrow> length iv = 16"
  by (auto simp: derive_iv_def split: option.splits)

section \<open>\<open>RTP_PACKET\<close>\<close>

text \<open>The packed structure, its fields in memory order; \<open>sequenceNumber\<close> and \<open>timestamp\<close> are stored
  big endian by the code, and the record holds the value before the conversion.\<close>

record rtp_packet =
  rp_header :: u8
  rp_packetType :: u8
  rp_sequenceNumber :: u16
  rp_timestamp :: u32
  rp_ssrc :: u32

definition FLAG_EXTENSION :: u8 where "FLAG_EXTENSION = 0x10"
definition FLAG_CONTAINS_PIC_DATA :: u8 where "FLAG_CONTAINS_PIC_DATA = 0x1"
definition FLAG_EOF :: u8 where "FLAG_EOF = 0x2"
definition FLAG_SOF :: u8 where "FLAG_SOF = 0x4"
definition MAX_RTP_HEADER_SIZE :: int where "MAX_RTP_HEADER_SIZE = 16"

definition rtp_bytes :: "rtp_packet \<Rightarrow> bytes" where
  "rtp_bytes p = [rp_header p, rp_packetType p] @ be16 (rp_sequenceNumber p) @ be32 (rp_timestamp p) @ le32 (rp_ssrc p)"

definition read_rtp :: "bytes \<Rightarrow> rtp_packet" where
  "read_rtp b = \<lparr>rp_header = b ! 0, rp_packetType = b ! 1, rp_sequenceNumber = get_be16 (drop 2 b),
     rp_timestamp = get_be32 (drop 4 b), rp_ssrc = get_le32 (drop 8 b)\<rparr>"

lemma length_rtp_bytes [simp]: "length (rtp_bytes p) = 12"
  by (simp add: rtp_bytes_def)

lemma read_rtp_bytes [simp]: "read_rtp (rtp_bytes p @ r) = p"
  by (simp add: rtp_bytes_def read_rtp_def)

end
