(* ===== verification/Crypto.thy ===== *)
theory Crypto
  imports GstUtils
begin

unbundle bit_operations_syntax

text \<open>
  The crypto wrapper (\<open>crypto/src/crypto.cpp\<close>, \<open>crypto/src/aes.hpp\<close>): the hexadecimal codec and the
  authenticated encryption calls. The ciphers themselves belong to OpenSSL and are parameters:
  \<open>ctr\<close> and \<open>ctr'\<close> stand for the encryption and decryption of AES-128-GCM under a key and an
  initialisation vector, \<open>ghash\<close> for the tag of a ciphertext. \<open>gcm_law\<close> is the documented behaviour
  the code relies on.
\<close>

section \<open>Hexadecimal strings\<close>

definition hex_digits :: string where
  "hex_digits = ''0123456789ABCDEF''"

definition str_to_hex :: "bytes \<Rightarrow> string" where
  "str_to_hex input =
     concat (map (\<lambda>c. [hex_digits ! unat (drop_bit 4 c), hex_digits ! unat (c AND 15)]) input)"

text \<open>
  \<open>is_convertable\<close> and \<open>convert\<close>: letters up to z are accepted, not only up to f. Characters are
  taken as unsigned here; those above 127 are negative in the code and not convertible either way.
\<close>

definition is_convertable :: "char \<Rightarrow> bool" where
  "is_convertable ch =
     (if isdigit ch then True
      else let c = (of_char ch OR 32 :: u8) in 97 \<le> c \<and> c \<le> 122)"

definition convert :: "char \<Rightarrow> u8" where
  "convert ch =
     (if 48 \<le> (of_char ch :: u8) \<and> of_char ch \<le> (57 :: u8) then of_char ch - 48
      else (of_char ch OR 32) - 97 + 10)"

text \<open>
  The loop walks backwards from the end of the text. \<open>data\<close> is what lies before the pointer, last
  character first; \<open>None\<close> means that it runs past the beginning.
\<close>

fun next_digit :: "string \<Rightarrow> (u8 \<times> string) option" where
  "next_digit [] = None"
| "next_digit (c # data) = (if is_convertable c then Some (convert c, data) else next_digit data)"

fun fill_bytes :: "nat \<Rightarrow> string \<Rightarrow> bytes option" where
  "fill_bytes 0 data = Some []"
| "fill_bytes (Suc n) data =
     (case next_digit data of None \<Rightarrow> None
      | Some (ch_r, data) \<Rightarrow>
        (case next_digit data of None \<Rightarrow> None
         | Some (ch_l, data) \<Rightarrow> map_option ((#) (push_bit 4 ch_l OR ch_r)) (fill_bytes n data)))"

definition hex_to_str :: "string \<Rightarrow> bool \<Rightarrow> bytes option" where
  "hex_to_str hex reverse =
     (let buf_size = length (filter is_convertable hex) div 2 in
      map_option (\<lambda>buf. if reverse then rev buf else buf) (fill_bytes buf_size (rev hex)))"

section \<open>Authenticated encryption\<close>

definition AES_GCM_TAG_SIZE :: nat where
  "AES_GCM_TAG_SIZE = 16"

record gcm =
  gcm_enc :: "bytes \<Rightarrow> bytes \<Rightarrow> bytes \<Rightarrow> bytes"
  gcm_dec :: "bytes \<Rightarrow> bytes \<Rightarrow> bytes \<Rightarrow> bytes"
  gcm_tag :: "bytes \<Rightarrow> bytes \<Rightarrow> bytes \<Rightarrow> bytes"

text \<open>Documented behaviour of the cipher: decryption inverts encryption, lengths are kept, tags have 16 bytes.\<close>

definition gcm_law :: "gcm \<Rightarrow> bool" where
  "gcm_law g \<longleftrightarrow> (\<forall>k iv m. gcm_dec g k iv (gcm_enc g k iv m) = m \<and> length (gcm_enc g k iv m) = length m \<and>
     length (gcm_dec g k iv m) = length m \<and> length (gcm_tag g k iv m) = AES_GCM_TAG_SIZE)"

definition aes_encrypt_gcm :: "gcm \<Rightarrow> bytes \<Rightarrow> bytes \<Rightarrow> bytes \<Rightarrow> bytes \<times> bytes" where
  "aes_encrypt_gcm g msg key iv = (let c = gcm_enc g key iv msg in (c, gcm_tag g key iv c))"

text \<open>
  \<open>decrypt_authenticated\<close>: the plaintext is produced by \<open>EVP_DecryptUpdate\<close> before the tag is
  looked at. When \<open>EVP_DecryptFinal_ex\<close> then reports a mismatch, \<open>handle_openssl_error\<close> prints it
  (the first component) and the function returns the plaintext all the same.
\<close>

definition aes_decrypt_gcm :: "gcm \<Rightarrow> bytes \<Rightarrow> bytes \<Rightarrow> bytes \<Rightarrow> bytes \<Rightarrow> bool \<times> bytes" where
  "aes_decrypt_gcm g msg key tag iv = (tag \<noteq> gcm_tag g key iv msg, gcm_dec g key iv msg)"

section \<open>Digests, blocks and signatures\<close>

text \<open>
  What the pairing uses of OpenSSL: SHA-256, AES-128 on whole blocks, signatures, and certificates. A
  private or public key is the text it is read from.
\<close>

record openssl =
  os_sha256 :: "bytes \<Rightarrow> bytes"
  os_ecb_enc :: "bytes \<Rightarrow> bytes \<Rightarrow> bytes"
  os_ecb_dec :: "bytes \<Rightarrow> bytes \<Rightarrow> bytes"
  os_sign :: "string \<Rightarrow> bytes \<Rightarrow> bytes"
  os_verify :: "string \<Rightarrow> bytes \<Rightarrow> bytes \<Rightarrow> bool"

text \<open>Documented behaviour: digests have 32 bytes, block ciphers keep the length and are inverted by decryption.\<close>

definition openssl_law :: "openssl \<Rightarrow> bool" where
  "openssl_law l \<longleftrightarrow> (\<forall>m. length (os_sha256 l m) = 32) \<and>
     (\<forall>k m. length (os_ecb_enc l k m) = length m \<and> os_ecb_dec l k (os_ecb_enc l k m) = m)"

definition lower_digits :: string where
  "lower_digits = ''0123456789abcdef''"

definition sha256 :: "openssl \<Rightarrow> bytes \<Rightarrow> string" where
  "sha256 l str = concat (map (\<lambda>c. [lower_digits ! unat (drop_bit 4 c), lower_digits ! unat (c AND 15)]) (os_sha256 l str))"

text \<open>Without padding only whole blocks are processed; a rest makes the final call fail, which is printed.\<close>

definition whole_blocks :: "bytes \<Rightarrow> bytes" where
  "whole_blocks msg = take (16 * (length msg div 16)) msg"

definition aes_encrypt_ecb :: "openssl \<Rightarrow> bytes \<Rightarrow> bytes \<Rightarrow> bytes" where
  "aes_encrypt_ecb l msg key = os_ecb_enc l key (whole_blocks msg)"

definition aes_decrypt_ecb :: "openssl \<Rightarrow> bytes \<Rightarrow> bytes \<Rightarrow> bytes" where
  "aes_decrypt_ecb l msg key = os_ecb_dec l key (whole_blocks msg)"

section \<open>Lemmas\<close>

lemma next_digit_filter:
  "next_digit data = (case filter is_convertable data of [] \<Rightarrow> None
     | c # _ \<Rightarrow> Some (convert c, tl (dropWhile (\<lambda>c. \<not> is_convertable c) data)))"
  by (induction data) (auto split: list.splits)

lemma filter_after: "filter P data = c # cs \<Longrightarrow> filter P (tl (dropWhile (\<lambda>c. \<not> P c) data)) = cs"
  by (induction data) (auto split: if_splits)

text \<open>The bytes a list of digits stands for, last digit first.\<close>

fun byte_pairs :: "string \<Rightarrow> bytes" where
  "byte_pairs (r # l # cs) = (push_bit 4 (convert l) OR convert r) # byte_pairs cs"
| "byte_pairs cs = []"

lemma fill_bytes_filter:
  "2 * n \<le> length (filter is_convertable data) \<Longrightarrow>
   fill_bytes n data = Some (take n (byte_pairs (filter is_convertable data)))"
proof (induction n arbitrary: data)
  case (Suc n)
  then obtain r l cs where f: "filter is_convertable data = r # l # cs"
    by (cases "filter is_convertable data"; cases "tl (filter is_convertable data)") auto
  let ?d = "tl (dropWhile (\<lambda>c. \<not> is_convertable c) data)"
  let ?e = "tl (dropWhile (\<lambda>c. \<not> is_convertable c) ?d)"
  have d: "filter is_convertable ?d = l # cs" by (rule filter_after [OF f])
  have e: "filter is_convertable ?e = cs" by (rule filter_after [OF d])
  have "fill_bytes n ?e = Some (take n (byte_pairs cs))" using Suc f e by simp
  with f d show ?case by (simp add: next_digit_filter)
qed simp

lemma length_byte_pairs: "length (byte_pairs cs) = length cs div 2"
  by (induction cs rule: byte_pairs.induct) simp_all

text \<open>The walk never leaves the text, and the result is determined by the digits alone.\<close>

lemma hex_to_str_eq:
  "hex_to_str hex reverse = Some (let b = byte_pairs (rev (filter is_convertable hex)) in if reverse then rev b else b)"
proof -
  have "fill_bytes (length (filter is_convertable hex) div 2) (rev hex)
      = Some (byte_pairs (rev (filter is_convertable hex)))"
    using fill_bytes_filter [of "length (filter is_convertable hex) div 2" "rev hex"]
    by (simp add: length_byte_pairs flip: rev_filter)
  then show ?thesis by (simp add: hex_to_str_def Let_def)
qed

definition digit_table :: "string \<Rightarrow> bool" where
  "digit_table ds \<longleftrightarrow> (\<forall>k<16. is_convertable (ds ! k) \<and> convert (ds ! k) = word_of_nat k)"

lemma digit_tables: "digit_table hex_digits" "digit_table lower_digits"
  unfolding digit_table_def by code_simp+

lemma and_15: "c AND 15 = take_bit 4 (c :: u8)"
  using take_bit_eq_mask [of 4 c] by (simp add: mask_eq_exp_minus_1)

lemma nibbles: "unat (drop_bit 4 (c :: u8)) < 16" "unat (c AND 15) < 16"
proof -
  have "unat c < 2 ^ LENGTH(8)" by (rule unsigned_less)
  then show "unat (drop_bit 4 c) < 16" 
    unfolding unat_drop_bit_eq by (simp add: drop_bit_eq_div)
  show "unat (c AND 15) < 16" 
    unfolding and_15 unsigned_take_bit_eq by (simp add: take_bit_eq_mod)
qed

lemma byte_of_digits:
  assumes "digit_table ds"
  shows "push_bit 4 (convert (ds ! unat (drop_bit 4 c))) OR convert (ds ! unat (c AND 15)) = (c :: u8)"
proof -
  have "convert (ds ! unat (drop_bit 4 c)) = drop_bit 4 c" "convert (ds ! unat (c AND 15)) = c AND 15"
    using assms nibbles [of c] by (simp_all add: digit_table_def)
  then show ?thesis by (auto intro!: bit_word_eqI simp: bit_simps and_15 not_less)
qed

lemma byte_pairs_digits:
  assumes "digit_table ds"
  shows "byte_pairs (rev (filter is_convertable
    (concat (map (\<lambda>c. [ds ! unat (drop_bit 4 c), ds ! unat (c AND 15)]) bs)))) = rev bs"
proof (induction bs rule: rev_induct)
  case (snoc b bs)
  have "is_convertable (ds ! unat (drop_bit 4 b))" "is_convertable (ds ! unat (b AND 15))"
    using assms nibbles [of b] by (simp_all add: digit_table_def)
  then show ?case using snoc by (simp add: byte_of_digits [OF assms])
qed simp

lemma byte_pairs_hex: "byte_pairs (rev (filter is_convertable (str_to_hex bs))) = rev bs"
  using byte_pairs_digits [OF digit_tables(1)] by (simp add: str_to_hex_def)

lemma hex_to_str_sha256: "hex_to_str (sha256 l m) True = Some (os_sha256 l m)"
  using byte_pairs_digits [OF digit_tables(2)] by (simp add: sha256_def hex_to_str_eq)

lemma hex_to_str_hex: "hex_to_str (str_to_hex bs) True = Some bs"
  by (simp add: hex_to_str_eq byte_pairs_hex)

text \<open> Hexadecimal text decodes to the bytes it was made from: \<open>hex_to_str\<close> with \<open>reverse\<close> inverts
  \<open>str_to_hex\<close>, and its backward walk never leaves the text, whatever the text holds. \<close>

theorem hex_roundtrip:
  "hex_to_str (str_to_hex bs) True = Some bs \<and> hex_to_str (str_to_hex bs) False = Some (rev bs) \<and>
   hex_to_str txt reverse \<noteq> None"
  by (simp add: hex_to_str_eq byte_pairs_hex)

end
