(* ===== verification/StdMap.thy ===== *)
theory StdMap
  imports Prelude "HOL-Library.Char_ord" "HOL-Library.List_Lexorder"
begin

text \<open>
  \<open>std::map\<close> as the server uses it: an association list in strictly increasing key order, so that
  iteration (\<open>for (auto &[k, v] : m)\<close>) is the list itself. \<open>map_store\<close> is the interface the components
  use it through; the lemmas they need are proved there once. Also here: \<open>std::to_string\<close> and the text
  helpers that several components share.
\<close>

section \<open>Ordered maps\<close>

type_synonym ('k, 'v) std_map = "('k \<times> 'v) list"

fun mput :: "'k::linorder \<Rightarrow> 'v \<Rightarrow> ('k, 'v) std_map \<Rightarrow> ('k, 'v) std_map" where
  "mput k v [] = [(k, v)]"
| "mput k v ((k', v') # m) =
     (if k = k' then (k, v) # m
      else if k < k' then (k, v) # (k', v') # m
      else (k', v') # mput k v m)"

definition mfind :: "('k, 'v) std_map \<Rightarrow> 'k \<Rightarrow> 'v option" where
  "mfind m k = map_of m k"

definition merase :: "'k \<Rightarrow> ('k, 'v) std_map \<Rightarrow> ('k, 'v) std_map" where
  "merase k m = filter (\<lambda>(k', _). k' \<noteq> k) m"

definition mof :: "('k::linorder \<times> 'v) list \<Rightarrow> ('k, 'v) std_map" where
  "mof kvs = foldl (\<lambda>m (k, v). mput k v m) [] kvs"

definition map_ok :: "('k::linorder, 'v) std_map \<Rightarrow> bool" where
  "map_ok m \<longleftrightarrow> sorted_wrt (<) (map fst m)"

lemma mput_keys: "set (map fst (mput k v m)) = insert k (set (map fst m))"
  by (induction k v m rule: mput.induct) auto

lemma map_ok_mput: "map_ok m \<Longrightarrow> map_ok (mput k v m)"
proof (induction m)
  case (Cons x m)
  obtain k' v' where x: "x = (k', v')" by force
  have "\<forall>y\<in>set (map fst (mput k v m)). k' < y" if "k' < k"
    using Cons.prems mput_keys [of k v m] that by (auto simp: map_ok_def x)
  with Cons x show ?case by (auto simp: map_ok_def dest: less_trans)
qed (simp add: map_ok_def)

lemma mput_find: "mfind (mput k v m) k' = (if k' = k then Some v else mfind m k')"
  by (induction m) (auto simp: mfind_def)

lemma merase_find: "mfind (merase k m) k' = (if k' = k then None else mfind m k')"
  by (induction m) (auto simp: mfind_def merase_def)

lemma map_ok_merase: "map_ok m \<Longrightarrow> map_ok (merase k m)"
  by (induction m) (auto simp: map_ok_def merase_def)

lemma map_ok_foldl: "map_ok m \<Longrightarrow> map_ok (foldl (\<lambda>m (k, v). mput k v m) m kvs)"
  by (induction kvs arbitrary: m) (auto simp: map_ok_mput)

lemma map_ok_mof: "map_ok (mof kvs)"
  by (simp add: mof_def map_ok_foldl map_ok_def [of "[]"])

lemma map_ok_distinct: "map_ok m \<Longrightarrow> distinct (map fst m)"
  by (simp add: map_ok_def strict_sorted_iff)

lemma mfind_set: "map_ok m \<Longrightarrow> mfind m k = Some v \<longleftrightarrow> (k, v) \<in> set m"
  by (simp add: mfind_def map_ok_distinct)

section \<open>The interface\<close>

locale map_store =
  fixes ok :: "'m \<Rightarrow> bool"
    and nothing :: 'm
    and lookup :: "'m \<Rightarrow> 'k \<Rightarrow> 'v option"
    and store :: "'k \<Rightarrow> 'v \<Rightarrow> 'm \<Rightarrow> 'm"
    and erase :: "'k \<Rightarrow> 'm \<Rightarrow> 'm"
  assumes nothing_ok [simp]: "ok nothing"
    and store_ok [simp]: "ok m \<Longrightarrow> ok (store k v m)"
    and erase_ok [simp]: "ok m \<Longrightarrow> ok (erase k m)"
    and lookup_nothing [simp]: "lookup nothing k = None"
    and lookup_store: "ok m \<Longrightarrow> lookup (store k v m) k' = (if k' = k then Some v else lookup m k')"
    and lookup_erase: "ok m \<Longrightarrow> lookup (erase k m) k' = (if k' = k then None else lookup m k')"
begin

lemma store_same [simp]: "ok m \<Longrightarrow> lookup (store k v m) k = Some v"
  by (simp add: lookup_store)

lemma store_other: "ok m \<Longrightarrow> k' \<noteq> k \<Longrightarrow> lookup (store k v m) k' = lookup m k'"
  by (simp add: lookup_store)

lemma erased [simp]: "ok m \<Longrightarrow> lookup (erase k m) k = None"
  by (simp add: lookup_erase)

lemma erase_other: "ok m \<Longrightarrow> k' \<noteq> k \<Longrightarrow> lookup (erase k m) k' = lookup m k'"
  by (simp add: lookup_erase)

lemma erase_store: "ok m \<Longrightarrow> lookup (erase k (store k v m)) k' = lookup (erase k m) k'"
  by (simp add: lookup_store lookup_erase)

text \<open>A sequence of stores and erasures acts pointwise: only the last one of a key counts.\<close>

definition apply_all :: "('k \<times> 'v option) list \<Rightarrow> 'm \<Rightarrow> 'm" where
  "apply_all ops m = foldl (\<lambda>m (k, w). case w of Some v \<Rightarrow> store k v m | None \<Rightarrow> erase k m) m ops"

lemma apply_all_ok: "ok m \<Longrightarrow> ok (apply_all ops m)"
  unfolding apply_all_def by (induction ops arbitrary: m) (auto split: option.splits)

lemma apply_all_lookup:
  "ok m \<Longrightarrow> lookup (apply_all ops m) k = (case map_of (rev ops) k of Some w \<Rightarrow> w | None \<Rightarrow> lookup m k)"
proof (induction ops rule: rev_induct)
  case (snoc op ops)
  then show ?case using apply_all_ok [of m ops]
    by (cases op) (auto simp: apply_all_def lookup_store lookup_erase split: option.splits)
qed (simp add: apply_all_def)

end

interpretation std_map: map_store "map_ok :: ('k::linorder, 'v) std_map \<Rightarrow> bool" "[]" mfind mput merase
  by unfold_locales (simp_all add: map_ok_mput map_ok_merase mput_find merase_find map_ok_def [of "[]"] mfind_def [of "[]"])

section \<open>Text\<close>

definition digit :: "nat \<Rightarrow> char" where
  "digit n = char_of (48 + n)"

fun to_string :: "nat \<Rightarrow> string" where
  "to_string n = (if n < 10 then [digit n] else to_string (n div 10) @ [digit (n mod 10)])"

declare to_string.simps [simp del]

definition starts_with :: "string \<Rightarrow> string \<Rightarrow> bool" where
  "starts_with p s \<longleftrightarrow> prefix p s"

definition bytes_of :: "string \<Rightarrow> bytes" where
  "bytes_of s = map of_char s"

definition text_of :: "bytes \<Rightarrow> string" where
  "text_of b = map (\<lambda>w. char_of (unat w)) b"

lemma of_char_u8: "(of_char c :: u8) = word_of_nat (of_char c)"
  by (rule of_nat_of_char [symmetric])

lemma text_of_bytes_of [simp]: "text_of (bytes_of s) = s"
proof (induction s)
  case (Cons c s)
  have "unat (of_char c :: u8) = of_char c"
    unfolding of_char_u8 unat_of_nat by (simp add: take_bit_eq_mod)
  with Cons show ?case by (simp add: text_of_def bytes_of_def)
qed (simp add: text_of_def bytes_of_def)

lemma to_string_digits: "c \<in> set (to_string n) \<Longrightarrow> 48 \<le> (of_char c :: nat) \<and> of_char c \<le> (57 :: nat)"
proof (induction n rule: to_string.induct)
  case (1 n)
  have "48 \<le> (of_char (digit k) :: nat) \<and> of_char (digit k) \<le> (57 :: nat)" if "k < 10" for k
    using that by (simp add: digit_def)
  with 1 show ?case by (subst (asm) to_string.simps) (auto split: if_splits)
qed

lemma to_string_not_Nil [simp]: "to_string n \<noteq> []"
  by (subst to_string.simps) simp

end
