(* ===== verification/StdText.thy ===== *)
theory StdText
  imports GstUtils StdMap
begin

text \<open>
  Number parsing of the C and C++ libraries, as the server calls it: \<open>atol\<close>, \<open>std::stoi\<close> (\<open>None\<close> is
  one of its exceptions) and \<open>std::stol\<close>, with what they return for the numbers \<open>std::to_string\<close>
  prints.
\<close>

definition signed_digits :: "string \<Rightarrow> bool \<times> string" where
  "signed_digits s =
     (let t = dropWhile isspace s;
          neg = (t \<noteq> [] \<and> hd t = CHR ''-'');
          t = (if t \<noteq> [] \<and> (hd t = CHR ''-'' \<or> hd t = CHR ''+'') then tl t else t) in
      (neg, takeWhile isdigit t))"

definition signed_value :: "string \<Rightarrow> int" where
  "signed_value s = (case signed_digits s of (neg, ds) \<Rightarrow> if neg then - int (dec_value ds) else int (dec_value ds))"

text \<open>A value outside \<open>long\<close> saturates, as it does in the C library of the target.\<close>

definition atol :: "string \<Rightarrow> int" where
  "atol s = max (- (2 ^ 63)) (min (2 ^ 63 - 1) (signed_value s))"

definition stoi :: "string \<Rightarrow> int option" where
  "stoi s = (if snd (signed_digits s) = [] then None
     else if signed_value s < - (2 ^ 31) \<or> signed_value s \<ge> 2 ^ 31 then None else Some (signed_value s))"

definition stol :: "string \<Rightarrow> int option" where
  "stol s = (if snd (signed_digits s) = [] then None
     else if signed_value s < - (2 ^ 63) \<or> signed_value s \<ge> 2 ^ 63 then None else Some (signed_value s))"

text \<open>\<open>std::to_string\<close> of an \<open>int\<close> or \<open>long\<close>.\<close>

definition int_to_string :: "int \<Rightarrow> string" where
  "int_to_string n = (if n < 0 then CHR ''-'' # to_string (nat (- n)) else to_string (nat n))"

lemma isdigit_to_string: "c \<in> set (to_string n) \<Longrightarrow> isdigit c"
  using to_string_digits by (simp add: isdigit_def)

lemma dec_value_snoc: "dec_value (ds @ [c]) = 10 * dec_value ds + (of_char c - 48)"
  by (simp add: dec_value_def)

lemma dec_value_to_string: "dec_value (to_string n) = n"
proof (induction n rule: to_string.induct)
  case (1 n)
  have digit: "of_char (digit k) - (48 :: nat) = k" if "k < 10" for k
    using that by (simp add: digit_def)
  show ?case
  proof (cases "n < 10")
    case True
    then show ?thesis using digit by (subst to_string.simps) (simp add: dec_value_def)
  next
    case False
    have "dec_value (to_string n) = dec_value (to_string (n div 10) @ [digit (n mod 10)])"
      by (subst to_string.simps) (simp add: False)
    also have "\<dots> = 10 * (n div 10) + n mod 10" using 1 False digit by (simp add: dec_value_snoc)
    finally show ?thesis by simp
  qed
qed

lemma digit_facts:
  assumes "isdigit c"
  shows "\<not> isspace c" "c \<noteq> CHR ''-''" "c \<noteq> CHR ''+''"
  using assms by (auto simp: isdigit_def isspace_def)

lemma signed_digits_digits:
  assumes "ds \<noteq> []" "\<forall>c\<in>set ds. isdigit c" "r = [] \<or> \<not> isdigit (hd r)"
  shows "signed_digits (ds @ r) = (False, ds)"
proof -
  obtain c cs where ds: "ds = c # cs" using assms(1) by (cases ds) auto
  have c: "\<not> isspace c" "c \<noteq> CHR ''-''" "c \<noteq> CHR ''+''" using digit_facts [of c] assms(2) ds by simp_all
  have "takeWhile isdigit (ds @ r) = ds"
    using assms(2,3) by (cases r) (simp_all add: takeWhile_append)
  then show ?thesis using c by (simp add: signed_digits_def ds Let_def)
qed

lemma signed_digits_to_string:
  "signed_digits (to_string n @ r) = (False, to_string n)" if "r = [] \<or> \<not> isdigit (hd r)"
  using signed_digits_digits [of "to_string n" r] isdigit_to_string that by simp

lemma signed_value_to_string: "r = [] \<or> \<not> isdigit (hd r) \<Longrightarrow> signed_value (to_string n @ r) = int n"
  by (simp add: signed_value_def signed_digits_to_string dec_value_to_string)

lemma stoi_to_string: "n < 2 ^ 31 \<Longrightarrow> stoi (to_string n) = Some (int n)"
  using signed_value_to_string [of "[]" n] signed_digits_to_string [of "[]" n] by (simp add: stoi_def)

end
