(* ===== verification/MoonlightProto.thy ===== *)
theory MoonlightProto
  imports Crypto StdText
begin

text \<open>
  The GameStream documents and the cryptographic half of pairing (\<open>server/moonlight_proto.cpp\<close>). A
  document is the sequence of \<open>put\<close> and \<open>add_child\<close> calls on a property tree, with the path as the code
  writes it; reading a path back gives the last value put there.
\<close>

section \<open>Documents\<close>

datatype xml_op = Put string string | AddChild string "xml_op list"

type_synonym XML = "xml_op list"

fun xml_get :: "XML \<Rightarrow> string \<Rightarrow> string option" where
  "xml_get [] path = None"
| "xml_get (Put p v # ops) path =
     (case xml_get ops path of Some w \<Rightarrow> Some w | None \<Rightarrow> if p = path then Some v else None)"
| "xml_get (AddChild p c # ops) path = xml_get ops path"

definition put_int :: "string \<Rightarrow> int \<Rightarrow> xml_op" where
  "put_int path n = Put path (int_to_string n)"

definition status_code :: "int \<Rightarrow> xml_op" where
  "status_code n = put_int ''root.<xmlattr>.status_code'' n"

definition status_message :: "string \<Rightarrow> xml_op" where
  "status_message m = Put ''root.<xmlattr>.status_message'' m"

section \<open>Server information and applications\<close>

record DisplayMode =
  dm_width :: int
  dm_height :: int
  dm_refreshRate :: int

record App =
  app_title :: string
  app_ident :: string
  support_hdr :: bool

definition M_VERSION :: string where "M_VERSION = ''7.1.431.-1''"
definition M_GFE_VERSION :: string where "M_GFE_VERSION = ''3.23.0.74''"
definition VIDEO_FORMAT_H264 :: int where "VIDEO_FORMAT_H264 = 0x0001"
definition VIDEO_FORMAT_H265 :: int where "VIDEO_FORMAT_H265 = 0x0100"
definition VIDEO_FORMAT_AV1_MAIN8 :: int where "VIDEO_FORMAT_AV1_MAIN8 = 0x10000"

definition codec_support :: "bool \<Rightarrow> bool \<Rightarrow> int" where
  "codec_support hevc av1 =
     or (or VIDEO_FORMAT_H264 (if hevc then VIDEO_FORMAT_H265 else 0)) (if av1 then VIDEO_FORMAT_AV1_MAIN8 else 0)"

definition serverinfo_xml ::
  "bool \<Rightarrow> int \<Rightarrow> int \<Rightarrow> int \<Rightarrow> string \<Rightarrow> string \<Rightarrow> string \<Rightarrow> string \<Rightarrow> DisplayMode list \<Rightarrow> int \<Rightarrow> bool \<Rightarrow> bool \<Rightarrow> XML" where
  "serverinfo_xml busy current_appid https_port http_port uuid hostname mac local_ip modes pair_status hevc av1 =
     [status_code 200, Put ''root.hostname'' hostname, Put ''root.appversion'' M_VERSION,
      Put ''root.GfeVersion'' M_GFE_VERSION, Put ''root.uniqueid'' uuid,
      put_int ''root.MaxLumaPixelsHEVC'' (if hevc then 1869449984 else 0),
      put_int ''root.ServerCodecModeSupport'' (codec_support hevc av1),
      put_int ''root.HttpsPort'' https_port, put_int ''root.ExternalPort'' http_port, Put ''root.mac'' mac,
      Put ''root.LocalIP'' local_ip,
      AddChild ''root.SupportedDisplayMode''
        (map (\<lambda>m. AddChild ''DisplayMode'' [put_int ''Width'' (dm_width m), put_int ''Height'' (dm_height m),
           put_int ''RefreshRate'' (dm_refreshRate m)]) modes),
      put_int ''root.PairStatus'' pair_status, put_int ''root.currentgame'' current_appid,
      Put ''root.state'' (if busy then ''SUNSHINE_SERVER_BUSY'' else ''SUNSHINE_SERVER_FREE'')]"

definition applist :: "App list \<Rightarrow> XML" where
  "applist apps =
     [AddChild ''root'' (Put ''<xmlattr>.status_code'' ''200'' #
        map (\<lambda>app. AddChild ''App'' [put_int ''IsHdrSupported'' (if support_hdr app then 1 else 0),
          Put ''AppTitle'' (app_title app), Put ''ID'' (app_ident app)]) apps)]"

definition launch_success :: "string \<Rightarrow> string \<Rightarrow> XML" where
  "launch_success local_ip rtsp_port =
     [status_code 200, Put ''root.sessionUrl0'' (''rtsp://'' @ local_ip @ '':'' @ rtsp_port), put_int ''root.gamesession'' 1]"

definition launch_resume :: "string \<Rightarrow> string \<Rightarrow> XML" where
  "launch_resume local_ip rtsp_port =
     [status_code 200, Put ''root.sessionUrl0'' (''rtsp://'' @ local_ip @ '':'' @ rtsp_port), put_int ''root.resume'' 1]"

definition fail_pair :: "string \<Rightarrow> XML" where
  "fail_pair msg = [put_int ''root.paired'' 0, status_code 400, status_message msg]"

section \<open>Pairing\<close>

text \<open>\<open>hex_to_str\<close> with \<open>reverse\<close>; it always has a result (\<open>Crypto.hex_roundtrip\<close>).\<close>

definition unhex :: "string \<Rightarrow> bytes" where
  "unhex s = (case hex_to_str s True of Some b \<Rightarrow> b | None \<Rightarrow> [])"

definition gen_aes_key :: "openssl \<Rightarrow> string \<Rightarrow> string \<Rightarrow> bytes" where
  "gen_aes_key l salt pin = take 16 (unhex (sha256 l (unhex salt @ bytes_of pin)) @ replicate 16 0)"

definition get_server_cert :: "openssl \<Rightarrow> string \<Rightarrow> string \<Rightarrow> string \<Rightarrow> XML \<times> bytes" where
  "get_server_cert l user_pin salt server_cert_pem =
     ([put_int ''root.paired'' 1, Put ''root.plaincert'' (str_to_hex (bytes_of server_cert_pem)), status_code 200],
      gen_aes_key l salt user_pin)"

definition send_server_challenge ::
  "openssl \<Rightarrow> bytes \<Rightarrow> string \<Rightarrow> bytes \<Rightarrow> bytes \<Rightarrow> bytes \<Rightarrow> XML \<times> bytes \<times> bytes" where
  "send_server_challenge l aes_key client_challenge cert_signature server_secret server_challenge =
     (let decrypted_challenge = aes_decrypt_ecb l (unhex client_challenge) aes_key;
          hash = unhex (sha256 l (decrypted_challenge @ cert_signature @ server_secret));
          encrypted = aes_encrypt_ecb l (hash @ server_challenge) aes_key in
      ([put_int ''root.paired'' 1, Put ''root.challengeresponse'' (str_to_hex encrypted), status_code 200],
       server_secret, server_challenge))"

definition get_client_hash :: "openssl \<Rightarrow> bytes \<Rightarrow> bytes \<Rightarrow> string \<Rightarrow> string \<Rightarrow> XML \<times> bytes" where
  "get_client_hash l aes_key server_secret server_challenge_resp private_key =
     (let decrypted_challenge = aes_decrypt_ecb l (unhex server_challenge_resp) aes_key;
          signature = os_sign l private_key server_secret in
      ([Put ''root.pairingsecret'' (str_to_hex (server_secret @ signature)), put_int ''root.paired'' 1, status_code 200],
       decrypted_challenge))"

definition client_pair :: "openssl \<Rightarrow> bytes \<Rightarrow> bytes \<Rightarrow> bytes \<Rightarrow> string \<Rightarrow> bytes \<Rightarrow> string \<Rightarrow> XML" where
  "client_pair l aes_key server_challenge client_hash client_pairing_secret client_sig public_key =
     (let pairing_secret = unhex client_pairing_secret in
      if length pairing_secret < 256 then fail_pair ''Invalid pairing secret''
      else
        let client_secret = take 16 pairing_secret;
            client_signature = take 256 (drop 16 pairing_secret);
            hash = unhex (sha256 l (server_challenge @ client_sig @ client_secret)) in
        if hash \<noteq> client_hash then fail_pair ''Invalid client hash''
        else if os_verify l public_key client_secret client_signature
          then [put_int ''root.paired'' 1, status_code 200]
        else fail_pair ''Invalid client signature'')"

definition xml_paired :: "XML \<Rightarrow> bool" where
  "xml_paired xml = (xml_get xml ''root.paired'' = Some ''1'')"

section \<open>Lemmas\<close>

lemma unhex_hex [simp]: "unhex (str_to_hex b) = b"
  by (simp add: unhex_def hex_to_str_hex)

lemma unhex_sha256 [simp]: "unhex (sha256 l m) = os_sha256 l m"
  by (simp add: unhex_def hex_to_str_sha256)

lemma int_to_string_01: "int_to_string 1 = ''1''" "int_to_string 0 = ''0''"
  by code_simp+

lemma paths_differ:
  "''root.<xmlattr>.status_code'' \<noteq> ''root.paired''" "''root.<xmlattr>.status_message'' \<noteq> ''root.paired''"
  by simp_all

lemma xml_paired_simps [simp]:
  "xml_paired (fail_pair msg) = False" "xml_paired [put_int ''root.paired'' 1, status_code 200] = True"
  by (simp_all add: xml_paired_def fail_pair_def put_int_def status_code_def status_message_def int_to_string_01)

lemma client_pair_paired:
  "xml_paired (client_pair l k sc ch ps cs pk) \<longleftrightarrow>
     length (unhex ps) \<ge> 256 \<and> os_sha256 l (sc @ cs @ take 16 (unhex ps)) = ch \<and>
     os_verify l pk (take 16 (unhex ps)) (take 256 (drop 16 (unhex ps)))"
  by (auto simp: client_pair_def Let_def)

end
