(* ===== verification/Session.thy ===== *)
theory Session
  imports GstUtils
begin

text \<open>
  The sessions of \<open>server/session.hpp\<close>. A session is reached through a \<open>shared_ptr\<close> from the registry,
  from the ENet peers of the control server and from the media pipeline, and its fields are changed in
  place, so the registry keeps a heap: \<open>reg_heap\<close> maps a pointer to the object, \<open>reg_sessions\<close> is the
  vector of pointers. Removing a session takes its pointer out of the vector and leaves the object to
  whoever still holds it. Every operation takes the registry's lock for its whole body, so operations
  are atomic steps.

  The locale \<open>session_registry\<close> states what the HTTP, RTSP and control servers expect of a registry in
  terms of the list of live sessions, and is interpreted by the model of the class.
\<close>

section \<open>Sessions\<close>

text \<open>A scoped enumeration holds any \<open>int\<close>; only the colour space is set from a number that is not checked.\<close>

datatype VideoFormat = H264 | HEVC | AV1
datatype ColorRange = MPEG | JPEG
datatype ColorSpace = BT601 | BT709 | BT2020 | ColorSpace_other int

record VideoParams =
  v_width :: int
  v_height :: int
  v_fps :: int
  v_format :: VideoFormat
  v_packet_size :: int
  v_fec_percentage :: int
  v_min_required_fec_packets :: int
  v_bitrate_kbps :: int
  v_slices_per_frame :: int
  v_frames_with_invalid_ref_threshold :: int
  v_timeout_ms :: int
  v_color_range :: ColorRange
  v_color_space :: ColorSpace

definition default_video :: VideoParams where
  "default_video = \<lparr>v_width = 0, v_height = 0, v_fps = 0, v_format = H264, v_packet_size = 1392,
     v_fec_percentage = 20, v_min_required_fec_packets = 2, v_bitrate_kbps = 15500, v_slices_per_frame = 1,
     v_frames_with_invalid_ref_threshold = 0, v_timeout_ms = 7000, v_color_range = MPEG, v_color_space = BT601\<rparr>"

record AudioParams =
  a_encrypt :: bool
  a_channels :: int
  a_streams :: int
  a_coupled_streams :: int
  a_bitrate :: int
  a_packet_duration :: int

definition default_audio :: AudioParams where
  "default_audio = \<lparr>a_encrypt = False, a_channels = 2, a_streams = 1, a_coupled_streams = 1,
     a_bitrate = 96000, a_packet_duration = 5\<rparr>"

record StreamSession =
  session_id :: nat
  client_ip :: string
  rtsp_fake_ip :: string
  app_id :: string
  app_name :: string
  s_aes_key :: string
  s_aes_iv :: string
  client_width :: int
  client_height :: int
  client_fps :: int
  audio_channel_count :: int
  hevc_supported :: bool
  av1_supported :: bool
  video_stream_port :: nat
  audio_stream_port :: nat
  control_stream_port :: nat
  rtp_secret_payload :: string
  enet_secret_payload :: u32
  announced :: bool
  playing :: bool
  s_video :: VideoParams
  s_audio :: AudioParams

definition default_session :: StreamSession where
  "default_session = \<lparr>session_id = 0, client_ip = '''', rtsp_fake_ip = '''', app_id = '''', app_name = '''',
     s_aes_key = '''', s_aes_iv = '''', client_width = 0, client_height = 0, client_fps = 0,
     audio_channel_count = 2, hevc_supported = False, av1_supported = False, video_stream_port = 0,
     audio_stream_port = 0, control_stream_port = 0, rtp_secret_payload = replicate 16 (CHR 0x00),
     enet_secret_payload = 0, announced = False, playing = False, s_video = default_video, s_audio = default_audio\<rparr>"

section \<open>\<open>SessionRegistry\<close>\<close>

text \<open>
  \<open>std::make_shared\<close> returns a pointer that is not in use. The session identifiers come from an atomic
  counter and are not in use either, so the pointer of a new object is taken to be its identifier.
\<close>

type_synonym session_ptr = nat

record registry =
  reg_heap :: "session_ptr \<Rightarrow> StreamSession option"
  reg_sessions :: "session_ptr list"
  reg_next_id :: nat

definition empty_registry :: registry where
  "empty_registry = \<lparr>reg_heap = (\<lambda>_. None), reg_sessions = [], reg_next_id = 1\<rparr>"

definition deref :: "registry \<Rightarrow> session_ptr \<Rightarrow> StreamSession" where
  "deref r p = (case reg_heap r p of Some s \<Rightarrow> s | None \<Rightarrow> default_session)"

definition update_session :: "session_ptr \<Rightarrow> (StreamSession \<Rightarrow> StreamSession) \<Rightarrow> registry \<Rightarrow> registry" where
  "update_session p f r = r\<lparr>reg_heap := (reg_heap r)(p := map_option f (reg_heap r p))\<rparr>"

text \<open>The object is allocated when its pointer is added.\<close>

definition reg_add :: "StreamSession \<Rightarrow> registry \<Rightarrow> registry" where
  "reg_add s r = r\<lparr>reg_heap := (reg_heap r)(session_id s := Some s), reg_sessions := reg_sessions r @ [session_id s]\<rparr>"

definition reg_remove :: "nat \<Rightarrow> registry \<Rightarrow> registry" where
  "reg_remove i r = r\<lparr>reg_sessions := filter (\<lambda>p. session_id (deref r p) \<noteq> i) (reg_sessions r)\<rparr>"

definition get_by_client_ip :: "registry \<Rightarrow> string \<Rightarrow> session_ptr option" where
  "get_by_client_ip r ip = find (\<lambda>p. client_ip (deref r p) = ip) (reg_sessions r)"

fun get_for_rtsp_loop :: "registry \<Rightarrow> string \<Rightarrow> string \<Rightarrow> string \<Rightarrow> session_ptr list \<Rightarrow> session_ptr option" where
  "get_for_rtsp_loop r uri_ip host_opt peer_ip [] = None"
| "get_for_rtsp_loop r uri_ip host_opt peer_ip (p # ps) =
     (let s = deref r p in
      if rtsp_fake_ip s = uri_ip \<or> host_opt = rtsp_fake_ip s then Some p
      else if (host_opt = ''0.0.0.0'' \<or> host_opt = '''') \<and> client_ip s = peer_ip then Some p
      else get_for_rtsp_loop r uri_ip host_opt peer_ip ps)"

definition get_for_rtsp :: "registry \<Rightarrow> string \<Rightarrow> string \<Rightarrow> string \<Rightarrow> session_ptr option" where
  "get_for_rtsp r uri_ip host_opt peer_ip = get_for_rtsp_loop r uri_ip host_opt peer_ip (reg_sessions r)"

definition get_running :: "registry \<Rightarrow> session_ptr option" where
  "get_running r = (case reg_sessions r of [] \<Rightarrow> None | p # _ \<Rightarrow> Some p)"

definition get_by_id :: "registry \<Rightarrow> nat \<Rightarrow> session_ptr option" where
  "get_by_id r i = find (\<lambda>p. session_id (deref r p) = i) (reg_sessions r)"

definition reg_empty :: "registry \<Rightarrow> bool" where
  "reg_empty r \<longleftrightarrow> reg_sessions r = []"

definition next_id :: "registry \<Rightarrow> nat \<times> registry" where
  "next_id r = (reg_next_id r, r\<lparr>reg_next_id := reg_next_id r + 1\<rparr>)"

section \<open>Well-formed registries\<close>

definition live :: "registry \<Rightarrow> StreamSession list" where
  "live r = map (deref r) (reg_sessions r)"

definition reg_ok :: "registry \<Rightarrow> bool" where
  "reg_ok r \<longleftrightarrow> distinct (reg_sessions r) \<and> (\<forall>p\<in>set (reg_sessions r). p < reg_next_id r) \<and>
     (\<forall>p\<in>set (reg_sessions r). reg_heap r p \<noteq> None) \<and> (\<forall>p s. reg_heap r p = Some s \<longrightarrow> session_id s = p \<and> p < reg_next_id r)"

lemma deref_id: "reg_ok r \<Longrightarrow> p \<in> set (reg_sessions r) \<Longrightarrow> session_id (deref r p) = p"
  by (auto simp: reg_ok_def deref_def split: option.splits)

lemma deref_update [simp]:
  "deref (update_session p f r) q = (if q = p \<and> reg_heap r p \<noteq> None then f (deref r p) else deref r q)"
  by (auto simp: deref_def update_session_def split: option.splits)

lemma update_session_fields [simp]:
  "reg_sessions (update_session p f r) = reg_sessions r" "reg_next_id (update_session p f r) = reg_next_id r"
  by (simp_all add: update_session_def)

lemma reg_ok_empty: "reg_ok empty_registry"
  by (simp add: reg_ok_def empty_registry_def)

lemma reg_ok_update: "reg_ok r \<Longrightarrow> (\<And>s. session_id (f s) = session_id s) \<Longrightarrow> reg_ok (update_session p f r)"
  by (auto simp: reg_ok_def update_session_def)

lemma reg_ok_remove: "reg_ok r \<Longrightarrow> reg_ok (reg_remove i r)"
  by (auto simp: reg_ok_def reg_remove_def)

lemma reg_ok_next_add:
  assumes "reg_ok r" "next_id r = (i, r')" "session_id s = i"
  shows "reg_ok (reg_add s r')"
  using assms by (auto simp: reg_ok_def next_id_def reg_add_def less_Suc_eq)

lemma reg_remove_ids: "reg_ok r \<Longrightarrow> reg_sessions (reg_remove i r) = filter (\<lambda>p. p \<noteq> i) (reg_sessions r)"
  by (auto simp: reg_remove_def deref_id cong: filter_cong)

lemma find_deref: "find (\<lambda>p. P (deref r p)) ps = None \<longleftrightarrow> (\<forall>p\<in>set ps. \<not> P (deref r p))"
  by (auto simp: find_None_iff)

lemma find_SomeD: "find P xs = Some x \<Longrightarrow> x \<in> set xs \<and> P x"
  by (auto simp: find_Some_iff)

lemma get_by_id_eq: "reg_ok r \<Longrightarrow> get_by_id r i = (if i \<in> set (reg_sessions r) then Some i else None)"
proof -
  assume ok: "reg_ok r"
  show ?thesis
  proof (cases "find (\<lambda>p. session_id (deref r p) = i) (reg_sessions r)")
    case None
    then have "\<forall>p\<in>set (reg_sessions r). session_id (deref r p) \<noteq> i" by (simp add: find_None_iff)
    with ok None deref_id show ?thesis by (auto simp: get_by_id_def)
  next
    case (Some p)
    then have "p \<in> set (reg_sessions r)" "session_id (deref r p) = i" using find_SomeD by fastforce+
    with ok Some deref_id show ?thesis by (auto simp: get_by_id_def)
  qed
qed

section \<open>The interface\<close>

text \<open>
  What the servers rely on: the live sessions form a list that \<open>add\<close> extends and \<open>remove\<close> filters, and
  each lookup returns the first live session that fits, as a pointer to it.
\<close>

locale session_registry =
  fixes ok :: "'r \<Rightarrow> bool"
    and sessions :: "'r \<Rightarrow> StreamSession list"
    and add :: "StreamSession \<Rightarrow> 'r \<Rightarrow> 'r"
    and remove :: "nat \<Rightarrow> 'r \<Rightarrow> 'r"
    and object :: "'r \<Rightarrow> session_ptr \<Rightarrow> StreamSession"
    and by_ip :: "'r \<Rightarrow> string \<Rightarrow> session_ptr option"
    and by_id :: "'r \<Rightarrow> nat \<Rightarrow> session_ptr option"
    and running :: "'r \<Rightarrow> session_ptr option"
    and fresh :: "'r \<Rightarrow> nat \<Rightarrow> bool"
  assumes ids_distinct: "ok r \<Longrightarrow> distinct (map session_id (sessions r))"
    and add_ok: "ok r \<Longrightarrow> fresh r (session_id s) \<Longrightarrow> sessions (add s r) = sessions r @ [s]"
    and remove_ok: "ok r \<Longrightarrow> ok (remove i r)"
    and remove_sessions: "ok r \<Longrightarrow> sessions (remove i r) = filter (\<lambda>s. session_id s \<noteq> i) (sessions r)"
    and by_ip_find: "ok r \<Longrightarrow> map_option (object r) (by_ip r ip) = find (\<lambda>s. client_ip s = ip) (sessions r)"
    and by_id_find: "ok r \<Longrightarrow> map_option (object r) (by_id r i) = find (\<lambda>s. session_id s = i) (sessions r)"
    and running_first: "ok r \<Longrightarrow> map_option (object r) (running r) = (case sessions r of [] \<Rightarrow> None | s # _ \<Rightarrow> Some s)"
begin

text \<open>A session that has been removed is not found again.\<close>

lemma removed_not_found: "ok r \<Longrightarrow> by_id (remove i r) i = None"
proof -
  assume r: "ok r"
  have "find (\<lambda>s. session_id s = i) (sessions (remove i r)) = None"
    by (simp add: remove_sessions [OF r] find_None_iff)
  then show "by_id (remove i r) i = None" using by_id_find [OF remove_ok [OF r]] by (metis option.map_disc_iff)
qed

text \<open>Removing one session keeps the others.\<close>

lemma others_kept: "ok r \<Longrightarrow> s \<in> set (sessions r) \<Longrightarrow> session_id s \<noteq> i \<Longrightarrow> s \<in> set (sessions (remove i r))"
  by (simp add: remove_sessions)

lemma by_ip_None: "ok r \<Longrightarrow> by_ip r ip = None \<longleftrightarrow> (\<forall>s\<in>set (sessions r). client_ip s \<noteq> ip)"
  using by_ip_find [of r ip] find_None_iff [of "\<lambda>s. client_ip s = ip" "sessions r"] by (metis option.map_disc_iff)

lemma by_ip_Some: "ok r \<Longrightarrow> by_ip r ip = Some p \<Longrightarrow> object r p \<in> set (sessions r) \<and> client_ip (object r p) = ip"
  using by_ip_find [of r ip] by (auto dest!: sym find_SomeD)

end

lemma find_map_deref: "map_option (deref r) (find (\<lambda>p. P (deref r p)) ps) = find P (map (deref r) ps)"
  by (induction ps) auto

lemma live_distinct: "reg_ok r \<Longrightarrow> distinct (map session_id (live r))"
proof -
  assume ok: "reg_ok r"
  then have "map session_id (live r) = reg_sessions r" by (auto simp: live_def deref_id intro: map_idI)
  then show ?thesis using ok by (simp add: reg_ok_def)
qed

definition reg_fresh :: "registry \<Rightarrow> nat \<Rightarrow> bool" where
  "reg_fresh r i \<longleftrightarrow> reg_heap r i = None \<and> i \<notin> set (reg_sessions r)"

lemma live_add: "reg_ok r \<Longrightarrow> reg_fresh r (session_id s) \<Longrightarrow> live (reg_add s r) = live r @ [s]"
  by (auto simp: live_def reg_add_def deref_def reg_fresh_def)

lemma live_remove: "reg_ok r \<Longrightarrow> live (reg_remove i r) = filter (\<lambda>s. session_id s \<noteq> i) (live r)"
  by (simp add: live_def reg_remove_def deref_def filter_map comp_def)

interpretation reg: session_registry reg_ok live reg_add reg_remove deref get_by_client_ip get_by_id get_running reg_fresh
proof unfold_locales
  fix r :: registry and ip i
  show "map_option (deref r) (get_by_client_ip r ip) = find (\<lambda>s. client_ip s = ip) (live r)"
    by (simp add: get_by_client_ip_def live_def find_map_deref [where P = "\<lambda>s. client_ip s = ip"])
  show "map_option (deref r) (get_by_id r i) = find (\<lambda>s. session_id s = i) (live r)"
    by (simp add: get_by_id_def live_def find_map_deref [where P = "\<lambda>s. session_id s = i"])
  show "map_option (deref r) (get_running r) = (case live r of [] \<Rightarrow> None | s # _ \<Rightarrow> Some s)"
    by (simp add: get_running_def live_def split: list.splits)
qed (simp_all add: live_distinct live_add reg_ok_remove live_remove)

end
