(* ===== verification/EncoderConfig.thy ===== *)
theory EncoderConfig
  imports Session StdMap
begin

text \<open>
  The encoder configuration of \<open>server/encoder_config.cpp\<close>: the compiled-in defaults, the conversion to
  and from TOML, validation, and the choice of an encoder.

  A TOML document is a tree; a table lists its entries, which the code only looks up by their keys, so
  that the order in which the library keeps and prints them does not matter. The toml++ library is a parameter: \<open>parse\<close> and \<open>print\<close> between text and tables, and \<open>as_int\<close>, its
  conversion of a node to a 32 bit integer. Whether a GStreamer element can be made is the predicate
  \<open>have\<close>; files and environment are part of the record \<open>config_os\<close>.
\<close>

section \<open>Compiled-in pipelines\<close>

definition kDefaultSource :: string where
  \<open>kDefaultSource =
      ''waylanddisplaysrc name=wolf_wayland_source render-node={node} ! '' @
      ''video/x-raw,format=RGBx,width={width},height={height},framerate={fps}/1''\<close>

definition kDefaultSourceZeroCopy :: string where
  \<open>kDefaultSourceZeroCopy =
      ''waylanddisplaysrc name=wolf_wayland_source render-node={node} cuda-device-id=0 ! '' @
      ''video/x-raw(memory:CUDAMemory),width={width},height={height},framerate={fps}/1''\<close>

definition kDefaultSink :: string where
  \<open>kDefaultSink =
      ''rtpmoonlightpay_video name=moonlight_pay payload_size={payload_size} '' @
      ''fec_percentage={fec_percentage} min_required_fec_packets={min_required_fec_packets} ! '' @
      ''appsink name=video_sink sync=false max-buffers=1 drop=true''\<close>

definition kDefaultAudioSinkName :: string where
  \<open>kDefaultAudioSinkName =
      ''steam-stream''\<close>

definition kDefaultAudioSource :: string where
  \<open>kDefaultAudioSource =
      ''pulsesrc device="{sink_name}.monitor" server="{server}" ! '' @
      ''audiorate ! audioconvert ! audioresample''\<close>

definition kDefaultOpusEncoder :: string where
  \<open>kDefaultOpusEncoder =
      ''opusenc bitrate={bitrate} bitrate-type=cbr frame-size={packet_duration} bandwidth=fullband '' @
      ''audio-type=restricted-lowdelay max-payload-size=1400''\<close>

definition kNvVideoParams :: string where
  \<open>kNvVideoParams =
      ''cudaupload ! cudaconvertscale add-borders=true ! '' @
      ''video/x-raw(memory:CUDAMemory),width={width},height={height},chroma-site={color_range},'' @
      ''format=NV12,colorimetry={color_space},pixel-aspect-ratio=1/1''\<close>

definition kNvVideoParamsZeroCopy :: string where
  \<open>kNvVideoParamsZeroCopy =
      ''cudaconvertscale add-borders=true ! '' @
      ''video/x-raw(memory:CUDAMemory),width={width},height={height},chroma-site={color_range},'' @
      ''format=NV12,colorimetry={color_space},pixel-aspect-ratio=1/1''\<close>

definition kVaVideoParams :: string where
  \<open>kVaVideoParams =
      ''vapostproc ! video/x-raw(memory:VAMemory),format=NV12,width={width},height={height},'' @
      ''pixel-aspect-ratio=1/1''\<close>

definition kSwVideoParams :: string where
  \<open>kSwVideoParams =
      ''videoconvertscale ! videorate ! '' @
      ''video/x-raw,width={width},height={height},framerate={fps}/1,format=I420,'' @
      ''chroma-site={color_range},colorimetry={color_space}''\<close>

record GstEncoder =
  plugin_name :: string
  check_elements :: "string list"
  encoder_pipeline :: string
  video_params :: string
  video_params_zero_copy :: "string option"

definition nv_h264 :: GstEncoder where
  \<open>nv_h264 = \<lparr>plugin_name = ''nvcodec'', check_elements = [''nvh264enc'', ''cudaconvertscale'', ''cudaupload''],
    encoder_pipeline =
      ''nvh264enc name=video_encoder preset=low-latency-hq zerolatency=true gop-size=0 '' @
      ''rc-mode=cbr-ld-hq bitrate={bitrate} vbv-buffer-size={vbv_buffer_size} aud=false '' @
      ''repeat-sequence-header=true ! '' @
      ''h264parse config-interval=-1 ! video/x-h264,profile=main,stream-format=byte-stream'',
    video_params = kNvVideoParams, video_params_zero_copy = Some kNvVideoParamsZeroCopy\<rparr>\<close>

definition va_h264 :: GstEncoder where
  \<open>va_h264 = \<lparr>plugin_name = ''va'', check_elements = [''vah264enc'', ''vapostproc''],
    encoder_pipeline =
      ''vah264enc name=video_encoder aud=false b-frames=0 ref-frames=1 '' @
      ''num-slices={slices_per_frame} bitrate={bitrate} cpb-size={vbv_buffer_size} min-qp=20 '' @
      ''key-int-max=1024 rate-control=cbr target-usage=6 ! '' @
      ''h264parse config-interval=-1 ! video/x-h264,profile=main,stream-format=byte-stream'',
    video_params = kVaVideoParams, video_params_zero_copy = None\<rparr>\<close>

definition sw_h264 :: GstEncoder where
  \<open>sw_h264 = \<lparr>plugin_name = ''x264'', check_elements = [''x264enc''],
    encoder_pipeline =
      ''x264enc name=video_encoder pass=qual tune=zerolatency speed-preset=superfast '' @
      ''b-adapt=false bframes=0 ref=1 sliced-threads=true threads={slices_per_frame} '' @
      ''option-string="slices={slices_per_frame}:keyint=infinite:open-gop=0" '' @
      ''bitrate={bitrate} aud=false ! '' @
      ''h264parse config-interval=-1 ! video/x-h264,profile=high,stream-format=byte-stream'',
    video_params = kSwVideoParams, video_params_zero_copy = None\<rparr>\<close>

definition nv_hevc :: GstEncoder where
  \<open>nv_hevc = \<lparr>plugin_name = ''nvcodec'', check_elements = [''nvh265enc'', ''cudaconvertscale'', ''cudaupload''],
    encoder_pipeline =
      ''nvh265enc name=video_encoder gop-size=-1 bitrate={bitrate} '' @
      ''vbv-buffer-size={vbv_buffer_size} aud=false rc-mode=cbr zerolatency=true preset=p1 '' @
      ''tune=ultra-low-latency multi-pass=two-pass-quarter repeat-sequence-header=true ! '' @
      ''h265parse config-interval=-1 ! video/x-h265,profile=main,stream-format=byte-stream'',
    video_params = kNvVideoParams, video_params_zero_copy = Some kNvVideoParamsZeroCopy\<rparr>\<close>

definition va_hevc :: GstEncoder where
  \<open>va_hevc = \<lparr>plugin_name = ''va'', check_elements = [''vah265enc'', ''vapostproc''],
    encoder_pipeline =
      ''vah265enc name=video_encoder aud=false b-frames=0 ref-frames=1 '' @
      ''num-slices={slices_per_frame} bitrate={bitrate} cpb-size={vbv_buffer_size} min-qp=20 '' @
      ''key-int-max=1024 rate-control=cbr target-usage=6 ! '' @
      ''h265parse config-interval=-1 ! video/x-h265,profile=main,stream-format=byte-stream'',
    video_params = kVaVideoParams, video_params_zero_copy = None\<rparr>\<close>

definition nv_av1 :: GstEncoder where
  \<open>nv_av1 = \<lparr>plugin_name = ''nvcodec'', check_elements = [''nvav1enc'', ''cudaconvertscale'', ''cudaupload''],
    encoder_pipeline =
      ''nvav1enc name=video_encoder gop-size=-1 bitrate={bitrate} '' @
      ''vbv-buffer-size={vbv_buffer_size} rc-mode=cbr zerolatency=true preset=p1 '' @
      ''tune=ultra-low-latency multi-pass=two-pass-quarter ! '' @
      ''av1parse ! video/x-av1,stream-format=obu-stream,alignment=frame,profile=main'',
    video_params = kNvVideoParams, video_params_zero_copy = Some kNvVideoParamsZeroCopy\<rparr>\<close>
section \<open>Configuration\<close>

record GstVideoCfg =
  vc_default_source :: string
  vc_default_source_zero_copy :: "string option"
  vc_default_sink :: string
  vc_h264_encoders :: "GstEncoder list"
  vc_hevc_encoders :: "GstEncoder list"
  vc_av1_encoders :: "GstEncoder list"

record GstAudioCfg =
  ac_sink_name :: string
  ac_default_source :: string
  ac_default_opus_encoder :: string
  ac_bitrate_stereo :: int
  ac_bitrate_51 :: int
  ac_bitrate_71 :: int

record EncoderConfig =
  ec_video :: GstVideoCfg
  ec_audio :: GstAudioCfg

definition bitrate_for_channels :: "GstAudioCfg \<Rightarrow> int \<Rightarrow> int" where
  "bitrate_for_channels a channels =
     (if channels = 6 then ac_bitrate_51 a else if channels = 8 then ac_bitrate_71 a else ac_bitrate_stereo a)"

definition config_defaults :: EncoderConfig where
  "config_defaults = \<lparr>
     ec_video = \<lparr>vc_default_source = kDefaultSource, vc_default_source_zero_copy = Some kDefaultSourceZeroCopy,
       vc_default_sink = kDefaultSink, vc_h264_encoders = [nv_h264, va_h264, sw_h264],
       vc_hevc_encoders = [nv_hevc, va_hevc], vc_av1_encoders = [nv_av1]\<rparr>,
     ec_audio = \<lparr>ac_sink_name = kDefaultAudioSinkName, ac_default_source = kDefaultAudioSource,
       ac_default_opus_encoder = kDefaultOpusEncoder, ac_bitrate_stereo = 96000, ac_bitrate_51 = 256000,
       ac_bitrate_71 = 450000\<rparr>\<rparr>"

section \<open>TOML\<close>

datatype toml =
    TStr string
  | TInt int
  | TArr "toml list"
  | TTab "(string \<times> toml) list"
  | TOther nat

type_synonym toml_table = "(string \<times> toml) list"

fun toml_string :: "toml \<Rightarrow> string option" where
  "toml_string (TStr s) = Some s"
| "toml_string _ = None"

fun as_table :: "toml \<Rightarrow> toml_table option" where
  "as_table (TTab t) = Some t"
| "as_table _ = None"

fun as_array :: "toml \<Rightarrow> toml list option" where
  "as_array (TArr a) = Some a"
| "as_array _ = None"

text \<open>\<open>t[key].value<std::string>()\<close>, \<open>value_or\<close>, \<open>as_table()\<close> and \<open>as_array()\<close> of a possibly missing node.\<close>

definition get_string :: "toml_table \<Rightarrow> string \<Rightarrow> string option" where
  "get_string t k = Option.bind (map_of t k) toml_string"

definition string_or :: "toml_table \<Rightarrow> string \<Rightarrow> string \<Rightarrow> string" where
  "string_or t k d = (case get_string t k of Some s \<Rightarrow> s | None \<Rightarrow> d)"

definition int_or :: "(toml \<Rightarrow> int option) \<Rightarrow> toml_table \<Rightarrow> string \<Rightarrow> int \<Rightarrow> int" where
  "int_or as_int t k d = (case Option.bind (map_of t k) as_int of Some n \<Rightarrow> n | None \<Rightarrow> d)"

definition encoder_to_toml :: "GstEncoder \<Rightarrow> toml_table" where
  "encoder_to_toml e =
     [(''plugin_name'', TStr (plugin_name e)),
      (''check_elements'', TArr (map TStr (check_elements e))),
      (''encoder_pipeline'', TStr (encoder_pipeline e)),
      (''video_params'', TStr (video_params e))] @
     (case video_params_zero_copy e of Some z \<Rightarrow> [(''video_params_zero_copy'', TStr z)] | None \<Rightarrow> [])"

definition encoder_from_toml :: "toml_table \<Rightarrow> GstEncoder" where
  "encoder_from_toml t =
     \<lparr>plugin_name = string_or t ''plugin_name'' '''',
      check_elements = (case Option.bind (map_of t ''check_elements'') as_array of
          Some arr \<Rightarrow> List.map_filter toml_string arr | None \<Rightarrow> []),
      encoder_pipeline = string_or t ''encoder_pipeline'' '''',
      video_params = string_or t ''video_params'' '''',
      video_params_zero_copy = get_string t ''video_params_zero_copy''\<rparr>"

definition encoders_to_toml :: "GstEncoder list \<Rightarrow> toml" where
  "encoders_to_toml encs = TArr (map (\<lambda>e. TTab (encoder_to_toml e)) encs)"

definition encoders_from_toml :: "toml list option \<Rightarrow> GstEncoder list" where
  "encoders_from_toml arr =
     (case arr of None \<Rightarrow> [] | Some nodes \<Rightarrow> map encoder_from_toml (List.map_filter as_table nodes))"

section \<open>Files\<close>

record config_os =
  co_getenv :: "string \<Rightarrow> string option"
  co_files :: "string \<Rightarrow> string option"
  co_can_write :: "string \<Rightarrow> bool"
  co_parse :: "string \<Rightarrow> toml_table option"
  co_print :: "toml_table \<Rightarrow> string"
  co_as_int :: "toml \<Rightarrow> int option"

definition env_or :: "(string \<Rightarrow> string option) \<Rightarrow> string \<Rightarrow> string \<Rightarrow> string" where
  "env_or getenv k d = (case getenv k of Some v \<Rightarrow> v | None \<Rightarrow> d)"

definition config_path :: "config_os \<Rightarrow> string" where
  "config_path os =
     (case co_getenv os ''STEAM_STREAM_ENCODER_CONFIG'' of Some p \<Rightarrow> p
      | None \<Rightarrow> env_or (co_getenv os) ''STEAM_STREAM_STATE_DIR'' ''/var/lib/steam-stream'' @ ''/encoders.toml'')"

definition config_to_toml :: "EncoderConfig \<Rightarrow> toml_table" where
  "config_to_toml cfg =
     (let v = ec_video cfg; a = ec_audio cfg;
          video = [(''default_source'', TStr (vc_default_source v))] @
            (case vc_default_source_zero_copy v of Some z \<Rightarrow> [(''default_source_zero_copy'', TStr z)] | None \<Rightarrow> []) @
            [(''default_sink'', TStr (vc_default_sink v)),
             (''h264_encoders'', encoders_to_toml (vc_h264_encoders v)),
             (''hevc_encoders'', encoders_to_toml (vc_hevc_encoders v)),
             (''av1_encoders'', encoders_to_toml (vc_av1_encoders v))];
          audio = [(''sink_name'', TStr (ac_sink_name a)), (''default_source'', TStr (ac_default_source a)),
             (''default_opus_encoder'', TStr (ac_default_opus_encoder a)),
             (''bitrate_stereo'', TInt (ac_bitrate_stereo a)), (''bitrate_51'', TInt (ac_bitrate_51 a)),
             (''bitrate_71'', TInt (ac_bitrate_71 a))] in
      [(''video'', TTab video), (''audio'', TTab audio)])"

definition config_from_toml :: "(toml \<Rightarrow> int option) \<Rightarrow> toml_table \<Rightarrow> EncoderConfig option" where
  "config_from_toml as_int root =
     (case Option.bind (map_of root ''video'') as_table of None \<Rightarrow> None
      | Some video \<Rightarrow>
        let encs = (\<lambda>k. encoders_from_toml (Option.bind (map_of video k) as_array));
            d = ec_audio config_defaults;
            v = \<lparr>vc_default_source = string_or video ''default_source'' '''',
                 vc_default_source_zero_copy = get_string video ''default_source_zero_copy'',
                 vc_default_sink = string_or video ''default_sink'' '''',
                 vc_h264_encoders = encs ''h264_encoders'', vc_hevc_encoders = encs ''hevc_encoders'',
                 vc_av1_encoders = encs ''av1_encoders''\<rparr>;
            a = (case Option.bind (map_of root ''audio'') as_table of None \<Rightarrow> d
                 | Some audio \<Rightarrow>
                   \<lparr>ac_sink_name = string_or audio ''sink_name'' (ac_sink_name d),
                    ac_default_source = string_or audio ''default_source'' (ac_default_source d),
                    ac_default_opus_encoder = string_or audio ''default_opus_encoder'' (ac_default_opus_encoder d),
                    ac_bitrate_stereo = int_or as_int audio ''bitrate_stereo'' (ac_bitrate_stereo d),
                    ac_bitrate_51 = int_or as_int audio ''bitrate_51'' (ac_bitrate_51 d),
                    ac_bitrate_71 = int_or as_int audio ''bitrate_71'' (ac_bitrate_71 d)\<rparr>) in
        Some \<lparr>ec_video = v, ec_audio = a\<rparr>)"

definition config_load :: "config_os \<Rightarrow> string \<Rightarrow> EncoderConfig option" where
  "config_load os path =
     (case Option.bind (co_files os path) (co_parse os) of None \<Rightarrow> None
      | Some root \<Rightarrow> config_from_toml (co_as_int os) root)"

definition config_save :: "EncoderConfig \<Rightarrow> string \<Rightarrow> config_os \<Rightarrow> bool \<times> config_os" where
  "config_save cfg path os =
     (if \<not> co_can_write os path then (False, os)
      else (True, os\<lparr>co_files := (co_files os)(path \<mapsto> co_print os (config_to_toml cfg))\<rparr>))"

definition create_default_if_missing :: "string \<Rightarrow> config_os \<Rightarrow> config_os" where
  "create_default_if_missing path os =
     (if co_files os path \<noteq> None then os else snd (config_save config_defaults path os))"

definition load_or_seed :: "config_os \<Rightarrow> EncoderConfig \<times> config_os" where
  "load_or_seed os =
     (let path = config_path os; os = create_default_if_missing path os in
      (case config_load os path of Some cfg \<Rightarrow> (cfg, os) | None \<Rightarrow> (config_defaults, os)))"

section \<open>Validation and choice\<close>

text \<open>\<open>std::string::find\<close>, as far as the code asks: whether the text occurs.\<close>

fun has_substring :: "string \<Rightarrow> string \<Rightarrow> bool" where
  "has_substring needle [] = (needle = [])"
| "has_substring needle (c # s) = (if prefix needle (c # s) then True else has_substring needle s)"

definition check_encoder :: "string \<Rightarrow> nat \<Rightarrow> GstEncoder \<Rightarrow> string list" where
  "check_encoder name i e =
     (let item = name @ ''['' @ to_string i @ '']'' in
      (if plugin_name e = [] then [item @ '' has empty plugin_name''] else []) @
      (if encoder_pipeline e = [] then [item @ '' has empty encoder_pipeline''] else []) @
      (if \<not> has_substring ''name=video_encoder'' (encoder_pipeline e)
       then [item @ '' encoder_pipeline lacks 'name=video_encoder' (update_bitrate needs it)''] else []))"

definition check_list :: "string \<Rightarrow> GstEncoder list \<Rightarrow> string list" where
  "check_list name encs = concat (map (\<lambda>(i, e). check_encoder name i e) (enumerate 0 encs))"

definition config_validate :: "EncoderConfig \<Rightarrow> string list" where
  "config_validate cfg =
     (let v = ec_video cfg; a = ec_audio cfg in
      (if vc_default_source v = [] then [''video.default_source is empty''] else []) @
      (if vc_default_sink v = [] then [''video.default_sink is empty''] else []) @
      (if vc_h264_encoders v = [] then [''video.h264_encoders is empty (H264 is the required fallback codec)''] else []) @
      check_list ''h264_encoders'' (vc_h264_encoders v) @
      check_list ''hevc_encoders'' (vc_hevc_encoders v) @
      check_list ''av1_encoders'' (vc_av1_encoders v) @
      (if ac_sink_name a = [] then [''audio.sink_name is empty''] else []) @
      (if ac_default_source a = [] then [''audio.default_source is empty''] else []) @
      (if ac_default_opus_encoder a = [] then [''audio.default_opus_encoder is empty''] else []))"

definition is_available :: "(string \<Rightarrow> bool) \<Rightarrow> GstEncoder \<Rightarrow> bool" where
  "is_available have enc = list_all have (check_elements enc)"

definition first_available :: "(string \<Rightarrow> bool) \<Rightarrow> GstEncoder list \<Rightarrow> GstEncoder option" where
  "first_available have encs = find (is_available have) encs"

record Availability =
  av_h264 :: bool
  av_hevc :: bool
  av_av1 :: bool

definition available_encoders :: "(string \<Rightarrow> bool) \<Rightarrow> EncoderConfig \<Rightarrow> Availability" where
  "available_encoders have cfg =
     \<lparr>av_h264 = (first_available have (vc_h264_encoders (ec_video cfg)) \<noteq> None),
      av_hevc = (first_available have (vc_hevc_encoders (ec_video cfg)) \<noteq> None),
      av_av1 = (first_available have (vc_av1_encoders (ec_video cfg)) \<noteq> None)\<rparr>"

definition select_encoder :: "(string \<Rightarrow> bool) \<Rightarrow> EncoderConfig \<Rightarrow> VideoFormat \<Rightarrow> GstEncoder option" where
  "select_encoder have cfg fmt =
     (let v = ec_video cfg;
          encs = (case fmt of HEVC \<Rightarrow> vc_hevc_encoders v | AV1 \<Rightarrow> vc_av1_encoders v | H264 \<Rightarrow> vc_h264_encoders v) in
      case first_available have encs of
        Some e \<Rightarrow> Some e
      | None \<Rightarrow> if fmt \<noteq> H264 then first_available have (vc_h264_encoders v) else None)"

section \<open>Lemmas\<close>

lemma has_substring_sublist: "has_substring needle s \<longleftrightarrow> sublist needle s"
  by (induction needle s rule: has_substring.induct) (simp_all add: sublist_Cons_right)

lemma string_or_simps [simp]:
  "string_or ((k, TStr s) # t) k d = s" "k' \<noteq> k \<Longrightarrow> string_or ((k', v) # t) k d = string_or t k d"
  by (simp_all add: string_or_def get_string_def)

lemma strings_roundtrip: "List.map_filter toml_string (map TStr xs) = xs"
  by (induction xs) (simp_all add: map_filter_simps)

lemma encoder_roundtrip: "encoder_from_toml (encoder_to_toml e) = e"
  by (cases "video_params_zero_copy e")
    (simp_all add: encoder_from_toml_def encoder_to_toml_def get_string_def strings_roundtrip)

lemma encoders_roundtrip: "encoders_from_toml (as_array (encoders_to_toml es)) = es"
proof -
  have "List.map_filter as_table (map (\<lambda>e. TTab (encoder_to_toml e)) es) = map encoder_to_toml es"
    by (induction es) (simp_all add: map_filter_simps)
  then show ?thesis
    by (simp add: encoders_from_toml_def encoders_to_toml_def encoder_roundtrip comp_def)
qed

lemma config_roundtrip:
  assumes "\<forall>n. \<bar>n\<bar> < 2 ^ 31 \<longrightarrow> as_int (TInt n) = Some n"
    and "\<bar>ac_bitrate_stereo (ec_audio cfg)\<bar> < 2 ^ 31" "\<bar>ac_bitrate_51 (ec_audio cfg)\<bar> < 2 ^ 31"
      "\<bar>ac_bitrate_71 (ec_audio cfg)\<bar> < 2 ^ 31"
  shows "config_from_toml as_int (config_to_toml cfg) = Some cfg"
  using assms
  by (cases "vc_default_source_zero_copy (ec_video cfg)")
    (simp_all add: config_from_toml_def config_to_toml_def Let_def get_string_def int_or_def encoders_roundtrip)

lemma first_available_Some: "first_available have encs = Some e \<Longrightarrow> e \<in> set encs \<and> is_available have e"
  by (auto simp: first_available_def find_Some_iff)

lemma first_available_None: "first_available have encs = None \<longleftrightarrow> (\<forall>e\<in>set encs. \<not> is_available have e)"
  by (auto simp: first_available_def find_None_iff)

section \<open>Properties\<close>

text \<open> C33: A saved configuration is read back unchanged, by every later load of the same path: whatever the sources,
  encoders and optional entries, provided the bitrates are 32 bit integers, the file can be written and
  the TOML library reads what it prints. \<close>

theorem save_load:
  assumes "co_can_write os path" "co_parse os (co_print os (config_to_toml cfg)) = Some (config_to_toml cfg)"
    and "\<forall>n. \<bar>n\<bar> < 2 ^ 31 \<longrightarrow> co_as_int os (TInt n) = Some n"
      "\<bar>ac_bitrate_stereo (ec_audio cfg)\<bar> < 2 ^ 31" "\<bar>ac_bitrate_51 (ec_audio cfg)\<bar> < 2 ^ 31"
      "\<bar>ac_bitrate_71 (ec_audio cfg)\<bar> < 2 ^ 31"
  shows "fst (config_save cfg path os) \<and> config_load (snd (config_save cfg path os)) path = Some cfg \<and>
    config_load (create_default_if_missing path (snd (config_save cfg path os))) path = Some cfg"
  using assms config_roundtrip [OF assms(3-6)]
  by (simp add: config_save_def config_load_def create_default_if_missing_def)

text \<open>A one-document library: the printer writes an index, the parser knows the document behind it.\<close>

definition demo_config_os :: config_os where
  "demo_config_os = \<lparr>co_getenv = (\<lambda>_. None), co_files = (\<lambda>_. None), co_can_write = (\<lambda>_. True),
     co_parse = (\<lambda>s. if s = ''defaults'' then Some (config_to_toml config_defaults) else None),
     co_print = (\<lambda>t. ''defaults''),
     co_as_int = (\<lambda>v. case v of TInt n \<Rightarrow> Some n | _ \<Rightarrow> None)\<rparr>"

theorem save_load_witness:
  "config_load (snd (config_save config_defaults ''/x.toml'' demo_config_os)) ''/x.toml'' = Some config_defaults"
  using save_load [of demo_config_os "''/x.toml''" config_defaults]
  by (simp add: demo_config_os_def config_defaults_def)

text \<open> The choice of an encoder: the first available candidate of the codec asked for, else the first available one
  for H264. The chosen encoder is available and listed; there is none only if no candidate of the codec
  nor of H264 is available; and a codec whose availability is advertised is never replaced by H264. \<close>

theorem encoder_choice:
  "(case select_encoder have cfg fmt of
      Some e \<Rightarrow> is_available have e \<and> e \<in> set (vc_h264_encoders (ec_video cfg)) \<union>
        (case fmt of HEVC \<Rightarrow> set (vc_hevc_encoders (ec_video cfg)) | AV1 \<Rightarrow> set (vc_av1_encoders (ec_video cfg)) | H264 \<Rightarrow> {})
    | None \<Rightarrow> list_all (\<lambda>e. \<not> is_available have e) (vc_h264_encoders (ec_video cfg))) \<and>
   (av_hevc (available_encoders have cfg) = (\<exists>e. select_encoder have cfg HEVC = Some e \<and> first_available have (vc_hevc_encoders (ec_video cfg)) = Some e)) \<and>
   (av_av1 (available_encoders have cfg) = (\<exists>e. select_encoder have cfg AV1 = Some e \<and> first_available have (vc_av1_encoders (ec_video cfg)) = Some e)) \<and>
   (av_h264 (available_encoders have cfg) = (select_encoder have cfg H264 \<noteq> None))"
proof (intro conjI)
  show "case select_encoder have cfg fmt of
      Some e \<Rightarrow> is_available have e \<and> e \<in> set (vc_h264_encoders (ec_video cfg)) \<union>
        (case fmt of HEVC \<Rightarrow> set (vc_hevc_encoders (ec_video cfg)) | AV1 \<Rightarrow> set (vc_av1_encoders (ec_video cfg)) | H264 \<Rightarrow> {})
    | None \<Rightarrow> list_all (\<lambda>e. \<not> is_available have e) (vc_h264_encoders (ec_video cfg))"
    by (cases fmt)
      (auto simp: select_encoder_def Let_def list_all_iff first_available_None dest: first_available_Some split: option.splits)
qed (auto simp: available_encoders_def select_encoder_def Let_def split: option.splits)

text \<open> The compiled-in configuration is complete: it validates without an issue, so every encoder is named, has a
  pipeline and carries the element name that the bitrate update looks for; and loading always gives a
  usable configuration, the compiled-in one when the file is unreadable or has no video table. \<close>

theorem defaults_valid:
  "config_validate config_defaults = [] \<and>
   (let (cfg, os') = load_or_seed os in
    cfg = (case config_load os' (config_path os) of Some c \<Rightarrow> c | None \<Rightarrow> config_defaults))"
proof
  show "config_validate config_defaults = []" by code_simp
qed (simp add: load_or_seed_def Let_def split: option.split)

end
