(* ===== verification/AppState.thy ===== *)
theory AppState
  imports MoonlightProto Session EncoderConfig
begin

text \<open>
  The state of the server that outlives a connection (\<open>server/state.cpp\<close>, \<open>server/state.hpp\<close>) and the
  certificate helpers it uses (\<open>crypto/src/x509.cpp\<close>). The state directory is a map from paths to
  contents; directories exist implicitly. A function that writes returns the list of all disks the
  process passes through, oldest first, so that a crash leaves one of them; the last one is the disk
  after the call.
\<close>

section \<open>Certificates\<close>

text \<open>A parsed certificate: its text, its signature and its public key as \<open>get_cert_public_key\<close> prints it.\<close>

record certificate =
  x_pem :: string
  x_signature :: bytes
  x_public_key :: string

text \<open>
  OpenSSL's part: parsing a certificate and a private key (the key is represented by the text
  \<open>get_pkey_content\<close> prints), and the errors \<open>X509_verify_cert\<close> reports to its callback for a
  certificate against a store with one trusted certificate, in order, as long as each is let pass.
\<close>

record x509_lib =
  xl_cert :: "string \<Rightarrow> certificate option"
  xl_key :: "string \<Rightarrow> string option"
  xl_chain :: "certificate option \<Rightarrow> certificate \<Rightarrow> nat list"

definition X509_V_ERR_CERT_NOT_YET_VALID :: nat where "X509_V_ERR_CERT_NOT_YET_VALID = 9"
definition X509_V_ERR_CERT_HAS_EXPIRED :: nat where "X509_V_ERR_CERT_HAS_EXPIRED = 10"
definition X509_V_ERR_UNABLE_TO_GET_ISSUER_CERT_LOCALLY :: nat where
  "X509_V_ERR_UNABLE_TO_GET_ISSUER_CERT_LOCALLY = 20"

definition openssl_verify_cb :: "bool \<Rightarrow> nat \<Rightarrow> bool" where
  "openssl_verify_cb ok err_code =
     (if err_code = X509_V_ERR_UNABLE_TO_GET_ISSUER_CERT_LOCALLY then True
      else if err_code = X509_V_ERR_CERT_NOT_YET_VALID \<or> err_code = X509_V_ERR_CERT_HAS_EXPIRED then True
      else ok)"

definition verification_error :: "x509_lib \<Rightarrow> certificate option \<Rightarrow> certificate \<Rightarrow> nat option" where
  "verification_error x paired_cert untrusted_cert =
     find (\<lambda>e. \<not> openssl_verify_cb False e) (xl_chain x paired_cert untrusted_cert)"

section \<open>Files\<close>

type_synonym disk = "(string, string) std_map"

text \<open>
  What the system answers: the environment, whether a path can be opened for writing, how many bytes
  of it reach the disk, what the PEM writer reports before the file is closed, whether a rename
  succeeds and a directory can be made, the order of a directory listing, the random numbers from 0 to
  15, \<open>std::hash\<close>, a freshly generated key and certificate, the host name and the network interfaces
  (name, whether the address is IPv4, hardware address).
\<close>

record state_os =
  so_getenv :: "string \<Rightarrow> string option"
  so_open :: "string \<Rightarrow> bool"
  so_room :: "string \<Rightarrow> nat"
  so_writer_ok :: "string \<Rightarrow> bool"
  so_rename :: "string \<Rightarrow> bool"
  so_mkdir :: "string \<Rightarrow> bool"
  so_order :: "string list \<Rightarrow> string list"
  so_random :: "nat \<Rightarrow> nat"
  so_hash :: "string \<Rightarrow> nat"
  so_new_key :: string
  so_new_cert :: string
  so_hostname :: string
  so_socket :: bool
  so_ifaddrs :: "(string \<times> bool \<times> bytes option) list option"

text \<open>The disks while \<open>data\<close> is written to \<open>path\<close>: the file is first truncated.\<close>

definition put_file :: "state_os \<Rightarrow> string \<Rightarrow> string \<Rightarrow> disk \<Rightarrow> disk list" where
  "put_file os path data d =
     d # map (\<lambda>k. mput path (take k data) d) [0..<Suc (min (so_room os path) (length data))]"

definition rename :: "string \<Rightarrow> string \<Rightarrow> disk \<Rightarrow> disk" where
  "rename old new d = (case mfind d old of None \<Rightarrow> d | Some c \<Rightarrow> mput new c (merase old d))"

definition write_file :: "state_os \<Rightarrow> string \<Rightarrow> string \<Rightarrow> disk \<Rightarrow> disk list" where
  "write_file os path data d =
     (let tmp = path @ ''.tmp'' in
      if \<not> so_open os tmp then [d]
      else
        let ds = put_file os tmp data d in
        if so_room os tmp < length data then ds
        else if \<not> so_rename os path then ds
        else ds @ [rename tmp path (last ds)])"

text \<open>The lambda \<open>write_pem\<close>: only the writer's answer counts, what \<open>fclose\<close> returns is not looked at.\<close>

definition write_pem :: "state_os \<Rightarrow> string \<Rightarrow> string \<Rightarrow> disk \<Rightarrow> string option \<times> disk list" where
  "write_pem os path data d =
     (if \<not> so_open os path then (Some (''Unable to open '' @ path @ '' for writing.''), [d])
      else
        let ds = put_file os path data d in
        if so_writer_ok os path then (None, ds)
        else (Some (''Unable to write '' @ path @ '' to disk.''), ds @ [merase path (last ds)]))"

definition install :: "state_os \<Rightarrow> string \<Rightarrow> disk \<Rightarrow> string option \<times> disk list" where
  "install os path d =
     (if so_rename os path then (None, [rename (path @ ''.tmp'') path d])
      else (Some (''Unable to install '' @ path), []))"

definition write_to_disk ::
  "state_os \<Rightarrow> string \<Rightarrow> string \<Rightarrow> string \<Rightarrow> string \<Rightarrow> disk \<Rightarrow> string option \<times> disk list" where
  "write_to_disk os pkey pkey_path cert cert_path d =
     (case write_pem os (pkey_path @ ''.tmp'') pkey d of
        (Some e, ds) \<Rightarrow> (Some e, ds)
      | (None, ds1) \<Rightarrow>
        (case write_pem os (cert_path @ ''.tmp'') cert (last ds1) of
           (Some e, ds2) \<Rightarrow> (Some e, ds1 @ ds2)
         | (None, ds2) \<Rightarrow>
           (case install os pkey_path (last ds2) of
              (Some e, ds3) \<Rightarrow> (Some e, ds1 @ ds2 @ ds3)
            | (None, ds3) \<Rightarrow>
              (case install os cert_path (last ds3) of (e, ds4) \<Rightarrow> (e, ds1 @ ds2 @ ds3 @ ds4)))))"

definition file_ok :: "string \<Rightarrow> disk \<Rightarrow> bool" where
  "file_ok p d = (case mfind d p of None \<Rightarrow> False | Some c \<Rightarrow> c \<noteq> [])"

definition cert_exists :: "string \<Rightarrow> string \<Rightarrow> disk \<Rightarrow> bool" where
  "cert_exists pkey_filename cert_filename d = (file_ok pkey_filename d \<and> file_ok cert_filename d)"

definition read_file :: "string \<Rightarrow> disk \<Rightarrow> string" where
  "read_file path d = (case mfind d path of Some c \<Rightarrow> c | None \<Rightarrow> [])"

section \<open>Identity\<close>

fun fill_uuid :: "(nat \<Rightarrow> nat) \<Rightarrow> nat \<Rightarrow> string \<Rightarrow> string" where
  "fill_uuid rd n [] = []"
| "fill_uuid rd n (c # fmt) =
     (if c = CHR ''x'' then (lower_digits ! rd n) # fill_uuid rd (n + 1) fmt
      else if c = CHR ''y'' then (lower_digits ! nat (or (and (int (rd n)) 3) 8)) # fill_uuid rd (n + 1) fmt
      else c # fill_uuid rd n fmt)"

definition gen_uuid :: "state_os \<Rightarrow> string" where
  "gen_uuid os = fill_uuid (so_random os) 0 ''xxxxxxxx-xxxx-4xxx-yxxx-xxxxxxxxxxxx''"

definition hex2 :: "u8 \<Rightarrow> string" where
  "hex2 c = [lower_digits ! (unat c div 16), lower_digits ! (unat c mod 16)]"

fun mac_of :: "bool \<Rightarrow> (string \<times> bool \<times> bytes option) list \<Rightarrow> string" where
  "mac_of sock [] = ''00:00:00:00:00:00''"
| "mac_of sock ((name, inet, hw) # ifs) =
     (if \<not> inet \<or> name = ''lo'' then mac_of sock ifs
      else case (if sock then hw else None) of
        Some m \<Rightarrow> hex2 (m ! 0) @ '':'' @ hex2 (m ! 1) @ '':'' @ hex2 (m ! 2) @ '':'' @ hex2 (m ! 3) @ '':'' @
          hex2 (m ! 4) @ '':'' @ hex2 (m ! 5)
      | None \<Rightarrow> mac_of sock ifs)"

definition first_mac :: "state_os \<Rightarrow> string" where
  "first_mac os = (case so_ifaddrs os of None \<Rightarrow> ''00:00:00:00:00:00'' | Some ifs \<Rightarrow> mac_of (so_socket os) ifs)"

section \<open>The state\<close>

datatype PAIR_PHASE = PHASE_NONE | GETSERVERCERT | CLIENTCHALLENGE | SERVERCHALLENGERESP | CLIENTPAIRINGSECRET

record PairCache =
  pc_client_cert :: string
  pc_aes_key :: bytes
  pc_last_phase :: PAIR_PHASE
  pc_server_secret :: "bytes option"
  pc_server_challenge :: "bytes option"
  pc_client_hash :: "bytes option"

definition new_pair_cache :: PairCache where
  "new_pair_cache = \<lparr>pc_client_cert = [], pc_aes_key = [], pc_last_phase = PHASE_NONE, pc_server_secret = None,
     pc_server_challenge = None, pc_client_hash = None\<rparr>"

text \<open>The registry of sessions is behind a pointer that the other parts share; it is kept in their state.\<close>

record AppState =
  as_cert :: "certificate option"
  as_pkey :: "string option"
  as_cert_path :: string
  as_key_path :: string
  as_uuid :: string
  as_hostname :: string
  as_mac_address :: string
  as_http_port :: int
  as_https_port :: int
  as_rtsp_port :: int
  as_video_stream_port :: nat
  as_audio_stream_port :: nat
  as_control_stream_port :: nat
  as_support_hevc :: bool
  as_support_av1 :: bool
  as_display_modes :: "DisplayMode list"
  as_apps :: "App list"
  as_state_dir :: string
  as_pairing_cache :: "(string, PairCache) std_map"
  as_paired_clients :: "string list"

definition clients_dir :: "string \<Rightarrow> string" where
  "clients_dir state_dir = state_dir @ ''/clients''"

definition entry_name :: "string \<Rightarrow> string \<Rightarrow> string option" where
  "entry_name dir p =
     (if prefix (dir @ ''/'') p then
        let n = drop (length dir + 1) p in if n = [] \<or> CHR ''/'' \<in> set n then None else Some n
      else None)"

text \<open>\<open>path::extension\<close>: a name that only consists of \<open>.pem\<close> has none.\<close>

definition pem_name :: "string \<Rightarrow> bool" where
  "pem_name n = (suffix ''.pem'' n \<and> n \<noteq> ''.pem'')"

definition is_client_file :: "string \<Rightarrow> string \<Rightarrow> bool" where
  "is_client_file dir p = (case entry_name dir p of None \<Rightarrow> False | Some n \<Rightarrow> pem_name n)"

definition load_clients :: "state_os \<Rightarrow> string \<Rightarrow> disk \<Rightarrow> string list" where
  "load_clients os dir d =
     filter (\<lambda>pem. pem \<noteq> [])
       (map (\<lambda>p. read_file p d)
         (filter (is_client_file dir) (so_order os (filter (\<lambda>p. entry_name dir p \<noteq> None) (map fst d)))))"

text \<open>The identity part of \<open>init\<close>: the error it throws, or nothing, and the disks.\<close>

definition ensure_identity :: "state_os \<Rightarrow> string \<Rightarrow> string \<Rightarrow> disk \<Rightarrow> string option \<times> disk list" where
  "ensure_identity os key_path cert_path d =
     (let have_key = file_ok key_path d;
          have_cert = file_ok cert_path d;
          allow_new = so_getenv os ''STEAM_STREAM_ALLOW_NEW_IDENTITY'' \<noteq> None in
      if have_key \<noteq> have_cert \<and> \<not> allow_new then (Some ''inconsistent server identity'', [d])
      else if \<not> have_key \<or> \<not> have_cert
        then write_to_disk os (so_new_key os) key_path (so_new_cert os) cert_path d
      else (None, [d]))"

definition ensure_uuid :: "state_os \<Rightarrow> string \<Rightarrow> disk \<Rightarrow> string \<times> disk list" where
  "ensure_uuid os uuid_path d =
     (if file_ok uuid_path d then (read_file uuid_path d, [d])
      else let u = gen_uuid os in (u, write_file os uuid_path u d))"

definition init :: "state_os \<Rightarrow> x509_lib \<Rightarrow> string \<Rightarrow> disk \<Rightarrow> (string + AppState) \<times> disk list" where
  "init os x dir d =
     (if \<not> (so_mkdir os dir \<and> so_mkdir os (clients_dir dir)) then (Inl ''create_directories'', [d])
      else
        let clients = load_clients os (clients_dir dir) d;
            key_path = dir @ ''/key.pem''; cert_path = dir @ ''/cert.pem'' in
        (case ensure_identity os key_path cert_path d of
           (Some e, ds) \<Rightarrow> (Inl e, ds)
         | (None, ds1) \<Rightarrow>
           let d1 = last ds1 in
           (case (mfind d1 key_path, mfind d1 cert_path) of
              (Some key, Some cert) \<Rightarrow>
                (case ensure_uuid os (dir @ ''/uuid'') d1 of
                   (uuid, ds2) \<Rightarrow>
                     (Inr \<lparr>as_cert = xl_cert x cert, as_pkey = xl_key x key, as_cert_path = cert_path,
                        as_key_path = key_path, as_uuid = uuid,
                        as_hostname = (if so_hostname os \<noteq> [] then so_hostname os else ''steam-stream''),
                        as_mac_address = first_mac os, as_http_port = 47989, as_https_port = 47984,
                        as_rtsp_port = 48010, as_video_stream_port = 48100, as_audio_stream_port = 48200,
                        as_control_stream_port = 47999, as_support_hevc = False, as_support_av1 = False,
                        as_display_modes = [\<lparr>dm_width = 1920, dm_height = 1080, dm_refreshRate = 60\<rparr>,
                          \<lparr>dm_width = 1280, dm_height = 720, dm_refreshRate = 60\<rparr>],
                        as_apps = [\<lparr>app_title = ''Steam Big Picture'', app_ident = ''1'', support_hdr = False\<rparr>,
                          \<lparr>app_title = ''Steam Desktop'', app_ident = ''2'', support_hdr = False\<rparr>],
                        as_state_dir = dir, as_pairing_cache = [], as_paired_clients = clients\<rparr>, ds1 @ ds2))
            | (None, _) \<Rightarrow> (Inl ''Error reading private key'', ds1)
            | (Some _, None) \<Rightarrow> (Inl ''Error reading certificate'', ds1))))"

definition get_pair_cache :: "string \<Rightarrow> AppState \<Rightarrow> PairCache option" where
  "get_pair_cache key s = mfind (as_pairing_cache s) key"

definition set_pair_cache :: "string \<Rightarrow> PairCache \<Rightarrow> AppState \<Rightarrow> AppState" where
  "set_pair_cache key v s = s\<lparr>as_pairing_cache := mput key v (as_pairing_cache s)\<rparr>"

definition remove_pair_cache :: "string \<Rightarrow> AppState \<Rightarrow> AppState" where
  "remove_pair_cache key s = s\<lparr>as_pairing_cache := merase key (as_pairing_cache s)\<rparr>"

definition client_file :: "state_os \<Rightarrow> string \<Rightarrow> string \<Rightarrow> string" where
  "client_file os state_dir pem = clients_dir state_dir @ ''/'' @ to_string (so_hash os pem) @ ''.pem''"

definition add_paired_client :: "state_os \<Rightarrow> string \<Rightarrow> AppState \<Rightarrow> disk \<Rightarrow> AppState \<times> disk list" where
  "add_paired_client os pem s d =
     (s\<lparr>as_paired_clients := as_paired_clients s @ [pem]\<rparr>, write_file os (client_file os (as_state_dir s) pem) pem d)"

definition remove_paired_client :: "state_os \<Rightarrow> string \<Rightarrow> AppState \<Rightarrow> disk \<Rightarrow> AppState \<times> disk" where
  "remove_paired_client os pem s d =
     (s\<lparr>as_paired_clients := filter (\<lambda>c. c \<noteq> pem) (as_paired_clients s)\<rparr>,
      merase (client_file os (as_state_dir s) pem) d)"

definition get_client_via_ssl :: "x509_lib \<Rightarrow> certificate option \<Rightarrow> AppState \<Rightarrow> string option" where
  "get_client_via_ssl x client_cert s =
     (case client_cert of None \<Rightarrow> None
      | Some c \<Rightarrow> find (\<lambda>pem. verification_error x (xl_cert x pem) c = None) (as_paired_clients s))"

end
