(* ===== verification/Simulation.thy ===== *)
theory Simulation
  imports Main
begin

text \<open>
  Runs of a machine that takes one input at a time, and the contract between a component and its
  specification: every step of the component is the step of the specification on the abstracted state,
  with the same output. The components that are driven by sequences of events interpret the locale.
\<close>

text \<open>A run; \<open>None\<close> is a step whose behaviour the code leaves open.\<close>

fun run :: "('i \<Rightarrow> 's \<Rightarrow> ('s \<times> 'o) option) \<Rightarrow> 'i list \<Rightarrow> 's \<Rightarrow> ('s \<times> 'o list) option" where
  "run step [] s = Some (s, [])"
| "run step (i # is) s =
     (case step i s of None \<Rightarrow> None
      | Some (s, out) \<Rightarrow> (case run step is s of None \<Rightarrow> None | Some (s, outs) \<Rightarrow> Some (s, out # outs)))"

fun spec_run :: "('i \<Rightarrow> 'a \<Rightarrow> 'a \<times> 'o) \<Rightarrow> 'i list \<Rightarrow> 'a \<Rightarrow> 'a \<times> 'o list" where
  "spec_run step [] a = (a, [])"
| "spec_run step (i # is) a =
     (case step i a of (a, out) \<Rightarrow> (case spec_run step is a of (a, outs) \<Rightarrow> (a, out # outs)))"

lemma run_ConsE:
  assumes "run step (i # is) s = Some (s', outs)"
  obtains s1 out outs1 where "step i s = Some (s1, out)" "run step is s1 = Some (s', outs1)" "outs = out # outs1"
  using assms by (auto split: option.splits prod.splits)

lemma run_append:
  "run step (is @ js) s =
     (case run step is s of None \<Rightarrow> None
      | Some (s, outs) \<Rightarrow> map_option (\<lambda>(s, outs'). (s, outs @ outs')) (run step js s))"
proof (induction "is" arbitrary: s)
  case Nil
  show ?case by (cases "run step js s") auto
qed (auto split: option.splits)

lemma run_None_iff:
  assumes "\<And>i s. step i s = None \<longleftrightarrow> bad i"
  shows "run step is s = None \<longleftrightarrow> list_ex bad is"
proof (induction "is" arbitrary: s)
  case (Cons i "is")
  show ?case
  proof (cases "step i s")
    case None
    with assms [of i s] show ?thesis by simp
  next
    case (Some x)
    obtain s1 out where x: "x = (s1, out)" by force
    have "\<not> bad i" using Some assms [of i s] by simp
    with Some Cons.IH [of s1] show ?thesis by (auto simp: x split: option.splits)
  qed
qed simp

locale simulation =
  fixes step :: "'i \<Rightarrow> 's \<Rightarrow> ('s \<times> 'o) option"
    and spec :: "'i \<Rightarrow> 'a \<Rightarrow> 'a \<times> 'o"
    and abs_of :: "'s \<Rightarrow> 'a"
    and ok :: "'s \<Rightarrow> bool"
    and allowed :: "'i \<Rightarrow> bool"
  assumes step_ok: "ok s \<Longrightarrow> allowed i \<Longrightarrow> step i s = Some (s', out) \<Longrightarrow> ok s'"
    and step_refines: "ok s \<Longrightarrow> allowed i \<Longrightarrow> step i s = Some (s', out) \<Longrightarrow> spec i (abs_of s) = (abs_of s', out)"
begin

lemma run_refines:
  "ok s \<Longrightarrow> list_all allowed is \<Longrightarrow> run step is s = Some (s', outs) \<Longrightarrow>
   ok s' \<and> spec_run spec is (abs_of s) = (abs_of s', outs)"
proof (induction "is" arbitrary: s outs)
  case (Cons i "is")
  from Cons.prems(3) obtain s1 out outs1
    where r: "step i s = Some (s1, out)" "run step is s1 = Some (s', outs1)" "outs = out # outs1"
    by (rule run_ConsE)
  have "ok s1" by (rule step_ok [OF Cons.prems(1) _ r(1)]) (use Cons.prems in simp)
  with Cons.IH [of s1 outs1] Cons.prems r step_refines [of s i s1 out] show ?case by simp
qed simp

end

end
