(* ===== verification/Pairing.thy ===== *)
theory Pairing
  imports AppState Simulation
begin

text \<open>
  Pairing over HTTP (\<open>server/servers.cpp\<close>): the four requests of a client under its key
  \<open>uniqueid@address\<close>, the page on which the user enters the PIN, and the request that gives a pairing up.
  The first request is answered by a thread that waits for the PIN; it is a thread record here, and the
  end of its wait is an event of its own. Every event is one step: the pairing cache, the pending PINs and
  the clients are each behind a mutex, and a client sends its next request after the answer to the last.
\<close>

section \<open>Requests and replies\<close>

type_synonym headers = "(string \<times> string) list"

definition to_lower :: "char \<Rightarrow> char" where
  "to_lower c = (if 65 \<le> (of_char c :: nat) \<and> of_char c \<le> (90 :: nat) then char_of (of_char c + 32 :: nat) else c)"

definition get_header :: "headers \<Rightarrow> string \<Rightarrow> string option" where
  "get_header headers key =
     map_option snd (find (\<lambda>(k, _). map to_lower k = map to_lower key) headers)"

datatype reply = xml_reply nat XML | text_reply nat string

section \<open>State\<close>

text \<open>The promise of a pending PIN belongs to the thread that waits for it and is named by its number.\<close>

record PendingPin =
  pp_pin :: nat
  pp_client_ip :: string

record pin_thread =
  pt_secret :: string
  pt_salt :: string
  pt_client_cert :: string
  pt_cache_key :: string
  pt_pin :: "string option"

record pairing =
  pr_app :: AppState
  pr_disk :: disk
  pr_pending :: "(string, PendingPin) std_map"
  pr_threads :: "(nat, pin_thread) std_map"
  pr_next :: nat

text \<open>The libraries: OpenSSL, certificates, the system, and the JSON reader (pin and secret of a body).\<close>

record pairing_env =
  pv_ssl :: openssl
  pv_x509 :: x509_lib
  pv_os :: state_os
  pv_json :: "string \<Rightarrow> (string \<times> string) option"

section \<open>\<open>http_pair\<close>\<close>

definition update_app :: "(AppState \<Rightarrow> AppState) \<Rightarrow> pairing \<Rightarrow> pairing" where
  "update_app f st = st\<lparr>pr_app := f (pr_app st)\<rparr>"

text \<open>A refusal; the request's key may lose its cache entry.\<close>

definition refuse :: "string \<Rightarrow> string \<Rightarrow> pairing \<Rightarrow> (pairing \<times> reply list) option" where
  "refuse key msg st = Some (update_app (remove_pair_cache key) st, [xml_reply 400 (fail_pair msg)])"

definition pair_phase1 ::
  "bytes \<Rightarrow> string \<Rightarrow> string \<Rightarrow> string \<Rightarrow> string \<Rightarrow> pairing \<Rightarrow> (pairing \<times> reply list) option" where
  "pair_phase1 rnd ip cache_key salt client_cert_str st =
     (if get_pair_cache cache_key (pr_app st) \<noteq> None then refuse cache_key ''Out of order pair request (phase 1)'' st
      else
        let pid = pr_next st; secret = str_to_hex rnd;
            pending = filter (\<lambda>(_, p). pp_client_ip p \<noteq> ip) (pr_pending st) in
        Some (st\<lparr>pr_pending := mput secret \<lparr>pp_pin = pid, pp_client_ip = ip\<rparr> pending,
            pr_threads := mput pid \<lparr>pt_secret = secret, pt_salt = salt, pt_client_cert = client_cert_str,
              pt_cache_key = cache_key, pt_pin = None\<rparr> (pr_threads st), pr_next := pid + 1\<rparr>, []))"

text \<open>The end of a thread's wait: its PIN has arrived, or 180 seconds are over.\<close>

definition cert_pem :: "certificate option \<Rightarrow> string" where
  "cert_pem c = (case c of None \<Rightarrow> [] | Some c \<Rightarrow> x_pem c)"

definition wait_over :: "pairing_env \<Rightarrow> nat \<Rightarrow> pairing \<Rightarrow> pairing \<times> reply list" where
  "wait_over env pid st =
     (case mfind (pr_threads st) pid of
        None \<Rightarrow> (st, [])
      | Some t \<Rightarrow>
        let st = st\<lparr>pr_threads := merase pid (pr_threads st)\<rparr> in
        (case pt_pin t of
           None \<Rightarrow> (st\<lparr>pr_pending := merase (pt_secret t) (pr_pending st)\<rparr>,
                   [xml_reply 400 (fail_pair ''Timed out waiting for PIN'')])
         | Some pin \<Rightarrow>
           (case get_server_cert (pv_ssl env) pin (pt_salt t) (cert_pem (as_cert (pr_app st))) of
              (xml, aes_key) \<Rightarrow>
                (update_app (set_pair_cache (pt_cache_key t)
                   (new_pair_cache\<lparr>pc_client_cert := text_of (unhex (pt_client_cert t)), pc_aes_key := aes_key,
                      pc_last_phase := GETSERVERCERT\<rparr>)) st,
                 [xml_reply 200 xml]))))"

text \<open>The server's certificate or key may have failed to parse; its use is then a null dereference (\<open>None\<close>).\<close>

definition pair_phase2 ::
  "pairing_env \<Rightarrow> bytes \<Rightarrow> bytes \<Rightarrow> string \<Rightarrow> PairCache \<Rightarrow> string \<Rightarrow> pairing \<Rightarrow> (pairing \<times> reply list) option" where
  "pair_phase2 env server_secret server_challenge cache_key cache client_challenge st =
     (if pc_last_phase cache \<noteq> GETSERVERCERT then refuse cache_key ''Out of order pair request (phase 2)'' st
      else case as_cert (pr_app st) of
        None \<Rightarrow> None
      | Some cert \<Rightarrow>
        (case send_server_challenge (pv_ssl env) (pc_aes_key cache) client_challenge (x_signature cert)
            server_secret server_challenge of
           (xml, secret, challenge) \<Rightarrow>
             Some (update_app (set_pair_cache cache_key
                 (cache\<lparr>pc_last_phase := CLIENTCHALLENGE, pc_server_secret := Some secret,
                    pc_server_challenge := Some challenge\<rparr>)) st,
               [xml_reply 200 xml])))"

definition pair_phase3 ::
  "pairing_env \<Rightarrow> string \<Rightarrow> PairCache \<Rightarrow> bytes \<Rightarrow> string \<Rightarrow> pairing \<Rightarrow> (pairing \<times> reply list) option" where
  "pair_phase3 env cache_key cache server_secret server_challenge_resp st =
     (if pc_last_phase cache \<noteq> CLIENTCHALLENGE then refuse cache_key ''Out of order pair request (phase 3)'' st
      else case as_pkey (pr_app st) of
        None \<Rightarrow> None
      | Some pkey \<Rightarrow>
        (case get_client_hash (pv_ssl env) (pc_aes_key cache) server_secret server_challenge_resp pkey of
           (xml, client_hash) \<Rightarrow>
             Some (update_app (set_pair_cache cache_key
                 (cache\<lparr>pc_last_phase := SERVERCHALLENGERESP, pc_client_hash := Some client_hash\<rparr>)) st,
               [xml_reply 200 xml])))"

definition pair_phase4 ::
  "pairing_env \<Rightarrow> string \<Rightarrow> PairCache \<Rightarrow> bytes \<Rightarrow> bytes \<Rightarrow> string \<Rightarrow> pairing \<Rightarrow> (pairing \<times> reply list) option" where
  "pair_phase4 env cache_key cache server_challenge client_hash client_secret st =
     (if pc_last_phase cache \<noteq> SERVERCHALLENGERESP then refuse cache_key ''Out of order pair request (phase 4)'' st
      else case xl_cert (pv_x509 env) (pc_client_cert cache) of
        None \<Rightarrow> refuse cache_key ''Unable to parse client certificate'' st
      | Some client_cert \<Rightarrow>
        let xml = client_pair (pv_ssl env) (pc_aes_key cache) server_challenge client_hash client_secret
              (x_signature client_cert) (x_public_key client_cert) in
        if xml_paired xml then
          (case add_paired_client (pv_os env) (pc_client_cert cache) (pr_app st) (pr_disk st) of
             (app, ds) \<Rightarrow>
               Some (update_app (remove_pair_cache cache_key) (st\<lparr>pr_app := app, pr_disk := last ds\<rparr>), [xml_reply 200 xml]))
        else Some (update_app (remove_pair_cache cache_key) st, [xml_reply 400 xml]))"

definition request_key :: "headers \<Rightarrow> string \<Rightarrow> string option" where
  "request_key headers ip = map_option (\<lambda>client_id. client_id @ ''@'' @ ip) (get_header headers ''uniqueid'')"

text \<open>The random numbers the phases may draw are arguments: the PIN's secret, the server's secret and challenge.\<close>

definition http_pair ::
  "pairing_env \<Rightarrow> headers \<Rightarrow> string \<Rightarrow> bytes \<Rightarrow> bytes \<Rightarrow> bytes \<Rightarrow> pairing \<Rightarrow> (pairing \<times> reply list) option" where
  "http_pair env headers ip rnd server_secret server_challenge st =
     (case request_key headers ip of
        None \<Rightarrow> Some (st, [xml_reply 400 (fail_pair ''Received pair request without uniqueid, stopping.'')])
      | Some cache_key \<Rightarrow>
        (case (get_header headers ''salt'', get_header headers ''clientcert'') of
           (Some salt, Some client_cert_str) \<Rightarrow> pair_phase1 rnd ip cache_key salt client_cert_str st
         | _ \<Rightarrow>
           (case get_pair_cache cache_key (pr_app st) of
              None \<Rightarrow> Some (st, [xml_reply 400 (fail_pair (''Unable to find '' @ cache_key @ '' in the pairing cache''))])
            | Some cache \<Rightarrow>
              (case get_header headers ''clientchallenge'' of
                 Some client_challenge \<Rightarrow> pair_phase2 env server_secret server_challenge cache_key cache client_challenge st
               | None \<Rightarrow>
                 (case (get_header headers ''serverchallengeresp'', pc_server_secret cache) of
                    (Some resp, Some secret) \<Rightarrow> pair_phase3 env cache_key cache secret resp st
                  | _ \<Rightarrow>
                    (case (get_header headers ''clientpairingsecret'', pc_server_challenge cache, pc_client_hash cache) of
                       (Some client_secret, Some challenge, Some client_hash) \<Rightarrow>
                         pair_phase4 env cache_key cache challenge client_hash client_secret st
                     | _ \<Rightarrow> Some (st, [])))))))"

section \<open>The PIN page and unpairing\<close>

text \<open>A promise that already has its value throws, which is answered like a body that does not parse.\<close>

definition post_pin :: "pairing_env \<Rightarrow> string \<Rightarrow> pairing \<Rightarrow> pairing \<times> reply list" where
  "post_pin env body st =
     (case pv_json env body of
        None \<Rightarrow> (st, [text_reply 400 ''''])
      | Some (pin, secret) \<Rightarrow>
        (case mfind (pr_pending st) secret of
           None \<Rightarrow> (st, [text_reply 404 ''unknown secret''])
         | Some p \<Rightarrow>
           (case mfind (pr_threads st) (pp_pin p) of
              None \<Rightarrow> (st\<lparr>pr_pending := merase secret (pr_pending st)\<rparr>, [text_reply 200 ''OK''])
            | Some t \<Rightarrow>
              if pt_pin t \<noteq> None then (st, [text_reply 400 ''''])
              else (st\<lparr>pr_threads := mput (pp_pin p) (t\<lparr>pt_pin := Some pin\<rparr>) (pr_threads st),
                       pr_pending := merase secret (pr_pending st)\<rparr>, [text_reply 200 ''OK'']))))"

definition unpair :: "pairing_env \<Rightarrow> headers \<Rightarrow> string \<Rightarrow> pairing \<Rightarrow> pairing \<times> reply list" where
  "unpair env headers ip st =
     (let reply = [xml_reply 200 [status_code 200]] in
      case Option.bind (request_key headers ip) (\<lambda>key. get_pair_cache key (pr_app st)) of
        None \<Rightarrow> (st, reply)
      | Some cache \<Rightarrow>
        (case remove_paired_client (pv_os env) (pc_client_cert cache) (pr_app st) (pr_disk st) of
           (app, d) \<Rightarrow> (st\<lparr>pr_app := app, pr_disk := d\<rparr>, reply)))"

section \<open>Events\<close>

datatype pair_event =
    pair_request headers string bytes bytes bytes
  | pin_wait_over nat
  | pin_post string
  | unpair_request headers string

fun pair_step :: "pairing_env \<Rightarrow> pair_event \<Rightarrow> pairing \<Rightarrow> (pairing \<times> reply list) option" where
  "pair_step env (pair_request headers ip rnd secret challenge) st = http_pair env headers ip rnd secret challenge st"
| "pair_step env (pin_wait_over pid) st = Some (wait_over env pid st)"
| "pair_step env (pin_post body) st = Some (post_pin env body st)"
| "pair_step env (unpair_request headers ip) st = Some (unpair env headers ip st)"

end
