(* ===== verification/FakeUdev.thy ===== *)
theory FakeUdev
  imports StdMap
begin

unbundle bit_operations_syntax

text \<open>
  The in-process udev of \<open>server/fake_udev.cpp\<close>: the netlink message that announces or withdraws a
  virtual device, the hardware database file under \<open>/run/udev/data\<close>, and the lookup of a device.

  The state is what other processes see: the files and the messages multicast so far. The answers of
  the kernel (sockets, \<open>ioctl\<close>, \<open>stat\<close>, directory listings, the clock) are a record of parameters.
\<close>

section \<open>State and environment\<close>

record Device =
  devnode :: string
  syspath :: string
  dev_major :: nat
  dev_minor :: nat
  id_input_class :: string

definition default_device :: Device where
  "default_device = \<lparr>devnode = '''', syspath = '''', dev_major = 13, dev_minor = 0, id_input_class = ''joystick''\<rparr>"

record udev_world =
  uw_files :: "string \<Rightarrow> string option"
  uw_sent :: "bytes list"

record udev_os =
  os_socket_ok :: bool
  os_bind_ok :: bool
  os_sendmsg_ok :: bool
  os_can_write :: "string \<Rightarrow> bool"
  os_now :: nat
  os_sysname :: "int \<Rightarrow> string option"
  os_children :: "string \<Rightarrow> string list"
  os_stat :: "string \<Rightarrow> (nat \<times> nat) option"
  os_canonical :: "string \<Rightarrow> string option"

definition kUdevDataDir :: string where "kUdevDataDir = ''/run/udev/data''"
definition kUdevCtrlPath :: string where "kUdevCtrlPath = ''/run/udev/control''"

section \<open>The subsystem hash\<close>

definition murmur_m :: u32 where "murmur_m = 0x5bd1e995"

fun murmur2_loop :: "bytes \<Rightarrow> u32 \<Rightarrow> u32" where
  "murmur2_loop (d0 # d1 # d2 # d3 # data) h =
     (let k = get_le32 [d0, d1, d2, d3] * murmur_m;
          k = (k XOR drop_bit 24 k) * murmur_m in
      murmur2_loop data (h * murmur_m XOR k))"
| "murmur2_loop [d0, d1, d2] h = (h XOR push_bit 16 (ucast d2) XOR push_bit 8 (ucast d1) XOR ucast d0) * murmur_m"
| "murmur2_loop [d0, d1] h = (h XOR push_bit 8 (ucast d1) XOR ucast d0) * murmur_m"
| "murmur2_loop [d0] h = (h XOR ucast d0) * murmur_m"
| "murmur2_loop [] h = h"

definition murmur2 :: "bytes \<Rightarrow> u32 \<Rightarrow> u32" where
  "murmur2 key seed =
     (let h = murmur2_loop key (seed XOR word_of_nat (length key));
          h = h XOR drop_bit 13 h;
          h = h * murmur_m in
      h XOR drop_bit 15 h)"

section \<open>Events\<close>

record MonitorNetlinkHeader =
  nl_prefix :: bytes
  nl_magic :: u32
  nl_header_size :: u32
  nl_properties_off :: u32
  nl_properties_len :: u32
  nl_subsystem_hash :: u32
  nl_devtype_hash :: u32
  nl_bloom_hi :: u32
  nl_bloom_lo :: u32

text \<open>The structure in memory: \<open>magic\<close> and the hash are converted with \<open>htobe32\<close> before.\<close>

definition header_bytes :: "MonitorNetlinkHeader \<Rightarrow> bytes" where
  "header_bytes h = nl_prefix h @ le32 (nl_magic h) @ le32 (nl_header_size h) @ le32 (nl_properties_off h)
     @ le32 (nl_properties_len h) @ le32 (nl_subsystem_hash h) @ le32 (nl_devtype_hash h)
     @ le32 (nl_bloom_hi h) @ le32 (nl_bloom_lo h)"

definition htobe32 :: "u32 \<Rightarrow> u32" where
  "htobe32 w = get_le32 (be32 w)"

definition class_props :: "Device \<Rightarrow> string list" where
  "class_props dev =
     (if id_input_class dev = ''mouse'' then [''ID_INPUT_MOUSE'']
      else if id_input_class dev = ''keyboard'' then [''ID_INPUT_KEYBOARD'', ''ID_INPUT_KEY'']
      else [''ID_INPUT_JOYSTICK''])"

definition base_event :: "nat \<Rightarrow> Device \<Rightarrow> string \<Rightarrow> (string, string) std_map" where
  "base_event ts dev action =
     foldl (\<lambda>ev p. mput p ''1'' ev)
       (mof [(''ACTION'', action), (''SEQNUM'', ''7''), (''USEC_INITIALIZED'', to_string ts),
             (''SUBSYSTEM'', ''input''), (''ID_INPUT'', ''1''), (''ID_SERIAL'', ''noserial''),
             (''TAGS'', '':seat:uaccess:''), (''CURRENT_TAGS'', '':seat:uaccess:''),
             (''DEVNAME'', devnode dev), (''DEVPATH'', syspath dev),
             (''MAJOR'', to_string (dev_major dev)), (''MINOR'', to_string (dev_minor dev))])
       (class_props dev)"

definition serialize_props :: "(string, string) std_map \<Rightarrow> bytes" where
  "serialize_props props = concat (map (\<lambda>(k, v). bytes_of k @ bytes_of ''='' @ bytes_of v @ [0]) props)"

definition uevent_header :: "nat \<Rightarrow> MonitorNetlinkHeader" where
  "uevent_header payload_size =
     \<lparr>nl_prefix = bytes_of ''libudev'' @ [0], nl_magic = htobe32 0xfeedcafe, nl_header_size = 40,
      nl_properties_off = 40, nl_properties_len = word_of_nat payload_size,
      nl_subsystem_hash = htobe32 (murmur2 (bytes_of ''input'') 0), nl_devtype_hash = 0,
      nl_bloom_hi = 0, nl_bloom_lo = 0\<rparr>"

definition send_uevent :: "udev_os \<Rightarrow> (string, string) std_map \<Rightarrow> udev_world \<Rightarrow> bool \<times> udev_world" where
  "send_uevent os props w =
     (if \<not> os_socket_ok os then (False, w)
      else if \<not> os_bind_ok os then (False, w)
      else
        let payload = serialize_props props; msg = header_bytes (uevent_header (length payload)) @ payload in
        if os_sendmsg_ok os then (True, w\<lparr>uw_sent := uw_sent w @ [msg]\<rparr>) else (False, w))"

section \<open>The hardware database\<close>

definition hwdb_path :: "Device \<Rightarrow> string" where
  "hwdb_path dev = kUdevDataDir @ ''/c'' @ to_string (dev_major dev) @ '':'' @ to_string (dev_minor dev)"

definition nl :: string where "nl = [CHR 0x0A]"

definition hwdb_entry :: "Device \<Rightarrow> string" where
  "hwdb_entry dev = ''E:ID_INPUT=1'' @ nl @ concat (map (\<lambda>p. ''E:'' @ p @ ''=1'' @ nl) (class_props dev))
     @ ''E:ID_BUS=usb'' @ nl @ ''G:seat'' @ nl @ ''G:uaccess'' @ nl @ ''Q:seat'' @ nl @ ''Q:uaccess'' @ nl @ ''V:1'' @ nl"

definition write_hwdb :: "udev_os \<Rightarrow> Device \<Rightarrow> udev_world \<Rightarrow> udev_world" where
  "write_hwdb os dev w =
     (if \<not> os_can_write os (hwdb_path dev) then w
      else w\<lparr>uw_files := (uw_files w)(hwdb_path dev \<mapsto> hwdb_entry dev)\<rparr>)"

definition remove_hwdb :: "udev_os \<Rightarrow> Device \<Rightarrow> udev_world \<Rightarrow> udev_world" where
  "remove_hwdb os dev w =
     (if \<not> os_can_write os (hwdb_path dev) then w else w\<lparr>uw_files := (uw_files w)(hwdb_path dev := None)\<rparr>)"

definition ensure_udev_control :: "udev_os \<Rightarrow> udev_world \<Rightarrow> udev_world" where
  "ensure_udev_control os w =
     (if uw_files w kUdevCtrlPath \<noteq> None then w
      else if \<not> os_can_write os kUdevCtrlPath then w
      else w\<lparr>uw_files := (uw_files w)(kUdevCtrlPath \<mapsto> '''')\<rparr>)"

section \<open>Devices\<close>

definition device_from_uinput_fd :: "udev_os \<Rightarrow> int \<Rightarrow> Device \<Rightarrow> bool \<times> Device" where
  "device_from_uinput_fd os fd out =
     (case os_sysname os fd of None \<Rightarrow> (False, out)
      | Some sysname \<Rightarrow>
        let sys_input = ''/sys/devices/virtual/input/'' @ sysname in
        (case find (starts_with ''event'') (os_children os sys_input) of None \<Rightarrow> (False, out)
         | Some event_name \<Rightarrow>
           let out = out\<lparr>devnode := ''/dev/input/'' @ event_name,
                         syspath := ''/devices/virtual/input/'' @ sysname @ ''/'' @ event_name\<rparr> in
           (case os_stat os (devnode out) of
              Some (ma, mi) \<Rightarrow> (True, out\<lparr>dev_major := ma, dev_minor := mi\<rparr>)
            | None \<Rightarrow> (False, out))))"

text \<open>\<open>filename\<close> is what follows the last slash.\<close>

definition filename :: "string \<Rightarrow> string" where
  "filename path = rev (takeWhile (\<lambda>c. c \<noteq> CHR ''/'') (rev path))"

definition device_from_event_node :: "udev_os \<Rightarrow> string \<Rightarrow> Device \<Rightarrow> bool \<times> Device" where
  "device_from_event_node os node out =
     (case os_canonical os (''/sys/class/input/'' @ filename node) of None \<Rightarrow> (False, out)
      | Some sys \<Rightarrow>
        let out = out\<lparr>syspath := (if starts_with ''/sys'' sys then drop 4 sys else sys), devnode := node\<rparr> in
        (case os_stat os node of None \<Rightarrow> (False, out)
         | Some (ma, mi) \<Rightarrow> (True, out\<lparr>dev_major := ma, dev_minor := mi\<rparr>)))"

definition plug :: "udev_os \<Rightarrow> Device \<Rightarrow> udev_world \<Rightarrow> udev_world" where
  "plug os dev w =
     (let w = ensure_udev_control os w; w = write_hwdb os dev w in
      snd (send_uevent os (base_event (os_now os) dev ''add'') w))"

definition unplug :: "udev_os \<Rightarrow> Device \<Rightarrow> udev_world \<Rightarrow> udev_world" where
  "unplug os dev w = remove_hwdb os dev (snd (send_uevent os (base_event (os_now os) dev ''remove'') w))"

section \<open>The receiving side\<close>

text \<open>
  What libudev does with a message, as the specification of the encoding: check prefix and magic, take
  the properties at the announced offset and length, split them at the zero bytes and each at its
  first equals sign.
\<close>

fun nul_chunks :: "bytes \<Rightarrow> bytes \<Rightarrow> bytes list" where
  "nul_chunks acc [] = []"
| "nul_chunks acc (b # bs) = (if b = 0 then rev acc # nul_chunks [] bs else nul_chunks (b # acc) bs)"

definition split_property :: "bytes \<Rightarrow> string \<times> string" where
  "split_property c = (text_of (takeWhile (\<lambda>b. b \<noteq> 61) c), text_of (drop 1 (dropWhile (\<lambda>b. b \<noteq> 61) c)))"

definition read_uevent :: "bytes \<Rightarrow> (string \<times> string) list option" where
  "read_uevent msg =
     (if take 8 msg = bytes_of ''libudev'' @ [0] \<and> get_be32 (drop 8 msg) = 0xfeedcafe
      then Some (map split_property
        (nul_chunks [] (bslice msg (unat (get_le32 (drop 16 msg))) (unat (get_le32 (drop 20 msg))))))
      else None)"

section \<open>Lemmas\<close>

definition clean :: "string \<Rightarrow> bool" where
  "clean s \<longleftrightarrow> CHR 0x00 \<notin> set s"

definition property_ok :: "string \<times> string \<Rightarrow> bool" where
  "property_ok p \<longleftrightarrow> clean (fst p) \<and> CHR ''='' \<notin> set (fst p) \<and> clean (snd p)"

lemma of_char_u8_eq: "(of_char c :: u8) = of_char d \<longleftrightarrow> c = d"
proof
  assume "(of_char c :: u8) = of_char d"
  then have "text_of (bytes_of [c]) = text_of (bytes_of [d])" by (simp add: bytes_of_def)
  then show "c = d" by simp
qed simp

lemma nul_byte: "(of_char c :: u8) = 0 \<longleftrightarrow> c = CHR 0x00"
  using of_char_u8_eq [of c "CHR 0x00"] by simp

lemma equals_byte: "(of_char c :: u8) = 61 \<longleftrightarrow> c = CHR ''=''"
  using of_char_u8_eq [of c "CHR ''=''"] by simp

lemma clean_bytes: "clean s \<Longrightarrow> 0 \<notin> set (bytes_of s)"
  unfolding clean_def bytes_of_def by (metis (no_types, lifting) imageE list.set_map nul_byte)

lemma nul_chunks_step: "0 \<notin> set xs \<Longrightarrow> nul_chunks acc (xs @ 0 # ys) = (rev acc @ xs) # nul_chunks [] ys"
  by (induction xs arbitrary: acc) auto

lemma split_property_text:
  "CHR ''='' \<notin> set k \<Longrightarrow> split_property (bytes_of k @ bytes_of ''='' @ bytes_of v) = (k, v)"
proof -
  assume "CHR ''='' \<notin> set k"
  then have k: "\<forall>b\<in>set (bytes_of k). b \<noteq> 61" by (auto simp: bytes_of_def equals_byte)
  have "takeWhile (\<lambda>b. b \<noteq> 61) (bytes_of k @ bytes_of ''='' @ bytes_of v) = bytes_of k"
    "dropWhile (\<lambda>b. b \<noteq> 61) (bytes_of k @ bytes_of ''='' @ bytes_of v) = 61 # bytes_of v"
    using k by (simp_all add: takeWhile_append dropWhile_append bytes_of_def [of "''=''"])
  then show ?thesis by (simp add: split_property_def)
qed

lemma parse_serialized:
  "\<forall>p\<in>set props. property_ok p \<Longrightarrow> map split_property (nul_chunks [] (serialize_props props)) = props"
proof (induction props)
  case (Cons p props)
  obtain k v where p: "p = (k, v)" by force
  have "0 \<notin> set (bytes_of k @ bytes_of ''='' @ bytes_of v)"
    using Cons.prems by (auto simp: p property_ok_def dest!: clean_bytes) (simp add: bytes_of_def)
  from nul_chunks_step [OF this, of "[]" "serialize_props props"] Cons show ?case
    by (simp add: p serialize_props_def split_property_text [unfolded append.assoc] property_ok_def)
qed (simp add: serialize_props_def)

lemma header_layout:
  fixes n p
  defines "m \<equiv> header_bytes (uevent_header n) @ p"
  shows "take 8 m = bytes_of ''libudev'' @ [0]" "get_be32 (drop 8 m) = 0xfeedcafe"
    "get_le32 (drop 16 m) = 40" "get_le32 (drop 20 m) = word_of_nat n" "drop 40 m = p"
proof -
  have p8: "length (bytes_of ''libudev'' @ [0]) = 8" by (simp add: bytes_of_def)
  have m: "m = (bytes_of ''libudev'' @ [0]) @ le32 (htobe32 0xfeedcafe) @ le32 40 @ le32 40 @ le32 (word_of_nat n)
    @ le32 (htobe32 (murmur2 (bytes_of ''input'') 0)) @ le32 0 @ le32 0 @ le32 0 @ p"
    by (simp add: m_def header_bytes_def uevent_header_def)
  show "take 8 m = bytes_of ''libudev'' @ [0]" unfolding m using p8 by simp
  have d8: "drop 8 m = le32 (htobe32 0xfeedcafe) @ le32 40 @ le32 40 @ le32 (word_of_nat n)
    @ le32 (htobe32 (murmur2 (bytes_of ''input'') 0)) @ le32 0 @ le32 0 @ le32 0 @ p"
    unfolding m using p8 by simp
  have be: "le32 (htobe32 (0xfeedcafe :: u32)) = be32 0xfeedcafe" by code_simp
  show "get_be32 (drop 8 m) = 0xfeedcafe" unfolding d8 be by simp
  have d16: "drop 16 m = drop 8 (drop 8 m)" "drop 20 m = drop 12 (drop 8 m)" "drop 40 m = drop 32 (drop 8 m)"
    by simp_all
  show "get_le32 (drop 16 m) = 40" "get_le32 (drop 20 m) = word_of_nat n" "drop 40 m = p"
    unfolding d16 d8 by simp_all
qed

lemma read_sent:
  assumes "\<forall>p\<in>set props. property_ok p" "length (serialize_props props) < 2 ^ 32"
  shows "read_uevent (header_bytes (uevent_header (length (serialize_props props))) @ serialize_props props) = Some props"
proof -
  define n where "n = length (serialize_props props)"
  define m where "m = header_bytes (uevent_header n) @ serialize_props props"
  have n: "unat (word_of_nat n :: u32) = n"
    using assms(2) by (simp add: unat_of_nat take_bit_eq_mod n_def)
  have "read_uevent m = Some (map split_property (nul_chunks [] (bslice m 40 n)))"
    using header_layout [of n "serialize_props props", folded m_def] n by (simp add: read_uevent_def)
  also have "bslice m 40 n = serialize_props props"
    using header_layout(5) [of n "serialize_props props", folded m_def] by (simp add: bslice_def n_def)
  finally show ?thesis using parse_serialized [OF assms(1)] by (simp add: m_def n_def)
qed

lemma mput_all: "P (k, v) \<Longrightarrow> \<forall>p\<in>set m. P p \<Longrightarrow> \<forall>p\<in>set (mput k v m). P p"
  by (induction k v m rule: mput.induct) auto

lemma foldl_mput_all: "\<forall>p\<in>set kvs. P p \<Longrightarrow> \<forall>p\<in>set m. P p \<Longrightarrow> \<forall>p\<in>set (foldl (\<lambda>m (k, v). mput k v m) m kvs). P p"
proof (induction kvs arbitrary: m)
  case (Cons p kvs)
  obtain k v where p: "p = (k, v)" by force
  have "\<forall>p\<in>set (mput k v m). P p" by (rule mput_all) (use Cons.prems in \<open>simp_all add: p\<close>)
  with Cons show ?case by (simp add: p)
qed simp

lemma clean_to_string: "clean (to_string n)"
  using to_string_digits [of "CHR 0x00" n] unfolding clean_def by auto

lemma clean_class: "\<forall>p\<in>set (class_props dev). property_ok (p, ''1'')"
proof -
  have "list_all (\<lambda>p. property_ok (p, ''1'')) [''ID_INPUT_MOUSE'', ''ID_INPUT_KEYBOARD'', ''ID_INPUT_KEY'', ''ID_INPUT_JOYSTICK'']"
    by code_simp
  then show ?thesis by (simp add: class_props_def)
qed

lemma base_event_ok:
  assumes "clean action" "clean (devnode dev)" "clean (syspath dev)"
  shows "\<forall>p\<in>set (base_event ts dev action). property_ok p"
proof -
  define kvs where "kvs = [(''ACTION'', action), (''SEQNUM'', ''7''), (''USEC_INITIALIZED'', to_string ts),
             (''SUBSYSTEM'', ''input''), (''ID_INPUT'', ''1''), (''ID_SERIAL'', ''noserial''),
             (''TAGS'', '':seat:uaccess:''), (''CURRENT_TAGS'', '':seat:uaccess:''),
             (''DEVNAME'', devnode dev), (''DEVPATH'', syspath dev),
             (''MAJOR'', to_string (dev_major dev)), (''MINOR'', to_string (dev_minor dev))]"
  have fixed: "list_all property_ok [(''SEQNUM'', ''7''), (''SUBSYSTEM'', ''input''), (''ID_INPUT'', ''1''),
      (''ID_SERIAL'', ''noserial''), (''TAGS'', '':seat:uaccess:''), (''CURRENT_TAGS'', '':seat:uaccess:'')]"
    and keys: "list_all (\<lambda>k. property_ok (k, '''')) [''ACTION'', ''USEC_INITIALIZED'', ''DEVNAME'', ''DEVPATH'', ''MAJOR'', ''MINOR'']"
    by code_simp+
  have value_ok: "property_ok (k, '''') \<Longrightarrow> clean v \<Longrightarrow> property_ok (k, v)" for k v
    by (simp add: property_ok_def)
  have "\<forall>p\<in>set kvs. property_ok p"
    using fixed keys assms clean_to_string unfolding kvs_def by (simp add: value_ok)
  then have m: "\<forall>p\<in>set (mof kvs). property_ok p" unfolding mof_def by (intro foldl_mput_all) simp_all
  have "base_event ts dev action = foldl (\<lambda>m (k, v). mput k v m) (mof kvs) (map (\<lambda>p. (p, ''1'')) (class_props dev))"
    by (simp add: base_event_def kvs_def foldl_map)
  moreover have "\<forall>q\<in>set (map (\<lambda>p. (p, ''1'')) (class_props dev)). property_ok q"
    using clean_class [of dev] by simp
  ultimately show ?thesis using foldl_mput_all [OF _ m] by (metis (lifting))
qed

lemma foldl_classes_find:
  "mfind (foldl (\<lambda>ev p. mput p ''1'' ev) m ps) k = (if k \<in> set ps then Some ''1'' else mfind m k)"
  by (induction ps arbitrary: m) (auto simp: mput_find)

lemma base_event_find:
  "mfind (base_event ts dev action) ''ACTION'' = Some action"
  "mfind (base_event ts dev action) ''SUBSYSTEM'' = Some ''input''"
  "mfind (base_event ts dev action) ''DEVNAME'' = Some (devnode dev)"
  "mfind (base_event ts dev action) ''DEVPATH'' = Some (syspath dev)"
  "p \<in> set (class_props dev) \<Longrightarrow> mfind (base_event ts dev action) p = Some ''1''"
  by (simp_all add: base_event_def foldl_classes_find mof_def mput_find class_props_def del: mput.simps)

section \<open>Properties\<close>

definition cooperative :: "udev_os \<Rightarrow> bool" where
  "cooperative os \<longleftrightarrow> os_socket_ok os \<and> os_bind_ok os \<and> os_sendmsg_ok os \<and> (\<forall>p. os_can_write os p)"

lemma send_read:
  assumes "cooperative os" "clean action" "clean (devnode dev)" "clean (syspath dev)"
    "length (serialize_props (base_event ts dev action)) < 2 ^ 32"
  shows "fst (send_uevent os (base_event ts dev action) w)"
    "read_uevent (last (uw_sent (snd (send_uevent os (base_event ts dev action) w)))) = Some (base_event ts dev action)"
    "uw_files (snd (send_uevent os (base_event ts dev action) w)) = uw_files w"
  using assms(1) read_sent [OF base_event_ok [OF assms(2-4)] assms(5)]
  by (simp_all add: send_uevent_def cooperative_def Let_def)

text \<open> C32: Plugging a device makes it visible to a udev client: the control file and the hardware database
  entry exist, and the last message multicast decodes to an add event of the input subsystem that
  names the device node, its path and every class of the device. \<close>

theorem plug_announces:
  assumes "cooperative os" "clean (devnode dev)" "clean (syspath dev)"
    "length (serialize_props (base_event (os_now os) dev ''add'')) < 2 ^ 32"
  shows "\<exists>ev. read_uevent (last (uw_sent (plug os dev w))) = Some ev \<and> map_of ev ''ACTION'' = Some ''add'' \<and>
    map_of ev ''SUBSYSTEM'' = Some ''input'' \<and> map_of ev ''DEVNAME'' = Some (devnode dev) \<and>
    map_of ev ''DEVPATH'' = Some (syspath dev) \<and> list_all (\<lambda>p. map_of ev p = Some ''1'') (class_props dev) \<and>
    uw_files (plug os dev w) (hwdb_path dev) = Some (hwdb_entry dev) \<and> uw_files (plug os dev w) kUdevCtrlPath \<noteq> None"
proof (intro exI [of _ "base_event (os_now os) dev ''add''"] conjI)
  have "clean ''add''" by code_simp
  note s = send_read [OF assms(1) this assms(2-4)]
  show "read_uevent (last (uw_sent (plug os dev w))) = Some (base_event (os_now os) dev ''add'')"
    using s(2) by (simp add: plug_def)
  have f: "uw_files (plug os dev w) = uw_files (write_hwdb os dev (ensure_udev_control os w))"
    using s(3) by (simp add: plug_def)
  have w: "uw_files (write_hwdb os dev u) = (uw_files u)(hwdb_path dev \<mapsto> hwdb_entry dev)" for u
    using assms(1) by (simp add: write_hwdb_def cooperative_def)
  have "uw_files (ensure_udev_control os w) kUdevCtrlPath \<noteq> None"
    using assms(1) by (simp add: ensure_udev_control_def cooperative_def)
  then show "uw_files (plug os dev w) kUdevCtrlPath \<noteq> None" by (simp add: f w)
  show "uw_files (plug os dev w) (hwdb_path dev) = Some (hwdb_entry dev)" by (simp add: f w)
qed (use base_event_find in \<open>auto simp: mfind_def list_all_iff\<close>)

definition demo_os :: udev_os where
  "demo_os = \<lparr>os_socket_ok = True, os_bind_ok = True, os_sendmsg_ok = True, os_can_write = (\<lambda>_. True), os_now = 1700,
     os_sysname = (\<lambda>_. Some ''input42''), os_children = (\<lambda>_. [''power'', ''event31'']),
     os_stat = (\<lambda>_. Some (13, 95)), os_canonical = (\<lambda>_. None)\<rparr>"

definition demo_device :: Device where
  "demo_device = snd (device_from_uinput_fd demo_os 7 default_device)"

lemma demo_device_ok:
  "clean (devnode demo_device)" "clean (syspath demo_device)"
  "devnode demo_device = ''/dev/input/event31''" "hwdb_path demo_device = ''/run/udev/data/c13:95''"
  "length (serialize_props (base_event (os_now demo_os) demo_device ''add'')) = 248"
  "length (serialize_props (base_event (os_now demo_os) demo_device ''remove'')) = 251"
  by code_simp+

theorem plug_announces_witness:
  "\<exists>ev. read_uevent (last (uw_sent (plug demo_os demo_device \<lparr>uw_files = (\<lambda>_. None), uw_sent = []\<rparr>))) = Some ev \<and>
     map_of ev ''DEVNAME'' = Some ''/dev/input/event31''"
  using plug_announces [of demo_os demo_device "\<lparr>uw_files = (\<lambda>_. None), uw_sent = []\<rparr>"] demo_device_ok
  by (auto simp: cooperative_def demo_os_def)

text \<open> Unplugging withdraws what plugging announced: the hardware database entry is gone, every other
  file is as plugging left it, and the last message decodes to a remove event of the same device. \<close>

theorem unplug_withdraws:
  assumes "cooperative os" "clean (devnode dev)" "clean (syspath dev)"
    "length (serialize_props (base_event (os_now os) dev ''remove'')) < 2 ^ 32"
  shows "(\<exists>ev. read_uevent (last (uw_sent (unplug os dev w))) = Some ev \<and> map_of ev ''ACTION'' = Some ''remove'' \<and>
      map_of ev ''DEVNAME'' = Some (devnode dev) \<and> map_of ev ''DEVPATH'' = Some (syspath dev)) \<and>
    uw_files (unplug os dev w) = (uw_files w)(hwdb_path dev := None)"
proof -
  have "clean ''remove''" by code_simp
  note s = send_read [OF assms(1) this assms(2-4), of w]
  then show ?thesis using assms(1) base_event_find [where dev = dev and action = "''remove''"]
    by (simp add: unplug_def remove_hwdb_def cooperative_def mfind_def)
qed

theorem unplug_withdraws_witness:
  "uw_files (unplug demo_os demo_device \<lparr>uw_files = [''/run/udev/data/c13:95'' \<mapsto> ''x'', ''/run/udev/control'' \<mapsto> ''''],
     uw_sent = []\<rparr>) = [''/run/udev/control'' \<mapsto> '''']"
  using unplug_withdraws [of demo_os demo_device "\<lparr>uw_files = [''/run/udev/data/c13:95'' \<mapsto> ''x'',
     ''/run/udev/control'' \<mapsto> ''''], uw_sent = []\<rparr>"] demo_device_ok
  by (auto simp: cooperative_def demo_os_def)

end
