(* ===== verification/Uinput.thy ===== *)
theory Uinput
  imports FakeUdev
begin

unbundle bit_operations_syntax

text \<open>
  The virtual input devices of \<open>server/uinput.cpp\<close>: key and button tables, the creation of mouse,
  keyboard and gamepad through \<open>/dev/uinput\<close>, the events each operation writes, and the gamepad's
  state machine that turns a held Back button into a press of Home.

  Writes to the device are lists of \<open>input_event\<close>, creation is a list of \<open>ioctl\<close> requests; whether
  opening and creating succeeds is a parameter. A failed \<open>write\<close> is only logged by the code, so the
  lists are what is attempted. The clock is an argument. Event codes are those of the kernel's
  \<open>input-event-codes.h\<close>.
\<close>

section \<open>Event codes\<close>

abbreviation (input) KEY_ESC :: int where "KEY_ESC \<equiv> 1"
abbreviation (input) KEY_1 :: int where "KEY_1 \<equiv> 2"
abbreviation (input) KEY_2 :: int where "KEY_2 \<equiv> 3"
abbreviation (input) KEY_3 :: int where "KEY_3 \<equiv> 4"
abbreviation (input) KEY_4 :: int where "KEY_4 \<equiv> 5"
abbreviation (input) KEY_5 :: int where "KEY_5 \<equiv> 6"
abbreviation (input) KEY_6 :: int where "KEY_6 \<equiv> 7"
abbreviation (input) KEY_7 :: int where "KEY_7 \<equiv> 8"
abbreviation (input) KEY_8 :: int where "KEY_8 \<equiv> 9"
abbreviation (input) KEY_9 :: int where "KEY_9 \<equiv> 10"
abbreviation (input) KEY_0 :: int where "KEY_0 \<equiv> 11"
abbreviation (input) KEY_MINUS :: int where "KEY_MINUS \<equiv> 12"
abbreviation (input) KEY_EQUAL :: int where "KEY_EQUAL \<equiv> 13"
abbreviation (input) KEY_BACKSPACE :: int where "KEY_BACKSPACE \<equiv> 14"
abbreviation (input) KEY_TAB :: int where "KEY_TAB \<equiv> 15"
abbreviation (input) KEY_Q :: int where "KEY_Q \<equiv> 16"
abbreviation (input) KEY_W :: int where "KEY_W \<equiv> 17"
abbreviation (input) KEY_E :: int where "KEY_E \<equiv> 18"
abbreviation (input) KEY_R :: int where "KEY_R \<equiv> 19"
abbreviation (input) KEY_T :: int where "KEY_T \<equiv> 20"
abbreviation (input) KEY_Y :: int where "KEY_Y \<equiv> 21"
abbreviation (input) KEY_U :: int where "KEY_U \<equiv> 22"
abbreviation (input) KEY_I :: int where "KEY_I \<equiv> 23"
abbreviation (input) KEY_O :: int where "KEY_O \<equiv> 24"
abbreviation (input) KEY_P :: int where "KEY_P \<equiv> 25"
abbreviation (input) KEY_LEFTBRACE :: int where "KEY_LEFTBRACE \<equiv> 26"
abbreviation (input) KEY_RIGHTBRACE :: int where "KEY_RIGHTBRACE \<equiv> 27"
abbreviation (input) KEY_ENTER :: int where "KEY_ENTER \<equiv> 28"
abbreviation (input) KEY_LEFTCTRL :: int where "KEY_LEFTCTRL \<equiv> 29"
abbreviation (input) KEY_A :: int where "KEY_A \<equiv> 30"
abbreviation (input) KEY_S :: int where "KEY_S \<equiv> 31"
abbreviation (input) KEY_D :: int where "KEY_D \<equiv> 32"
abbreviation (input) KEY_F :: int where "KEY_F \<equiv> 33"
abbreviation (input) KEY_G :: int where "KEY_G \<equiv> 34"
abbreviation (input) KEY_H :: int where "KEY_H \<equiv> 35"
abbreviation (input) KEY_J :: int where "KEY_J \<equiv> 36"
abbreviation (input) KEY_K :: int where "KEY_K \<equiv> 37"
abbreviation (input) KEY_L :: int where "KEY_L \<equiv> 38"
abbreviation (input) KEY_SEMICOLON :: int where "KEY_SEMICOLON \<equiv> 39"
abbreviation (input) KEY_APOSTROPHE :: int where "KEY_APOSTROPHE \<equiv> 40"
abbreviation (input) KEY_GRAVE :: int where "KEY_GRAVE \<equiv> 41"
abbreviation (input) KEY_LEFTSHIFT :: int where "KEY_LEFTSHIFT \<equiv> 42"
abbreviation (input) KEY_BACKSLASH :: int where "KEY_BACKSLASH \<equiv> 43"
abbreviation (input) KEY_Z :: int where "KEY_Z \<equiv> 44"
abbreviation (input) KEY_X :: int where "KEY_X \<equiv> 45"
abbreviation (input) KEY_C :: int where "KEY_C \<equiv> 46"
abbreviation (input) KEY_V :: int where "KEY_V \<equiv> 47"
abbreviation (input) KEY_B :: int where "KEY_B \<equiv> 48"
abbreviation (input) KEY_N :: int where "KEY_N \<equiv> 49"
abbreviation (input) KEY_M :: int where "KEY_M \<equiv> 50"
abbreviation (input) KEY_COMMA :: int where "KEY_COMMA \<equiv> 51"
abbreviation (input) KEY_DOT :: int where "KEY_DOT \<equiv> 52"
abbreviation (input) KEY_SLASH :: int where "KEY_SLASH \<equiv> 53"
abbreviation (input) KEY_RIGHTSHIFT :: int where "KEY_RIGHTSHIFT \<equiv> 54"
abbreviation (input) KEY_KPASTERISK :: int where "KEY_KPASTERISK \<equiv> 55"
abbreviation (input) KEY_LEFTALT :: int where "KEY_LEFTALT \<equiv> 56"
abbreviation (input) KEY_SPACE :: int where "KEY_SPACE \<equiv> 57"
abbreviation (input) KEY_CAPSLOCK :: int where "KEY_CAPSLOCK \<equiv> 58"
abbreviation (input) KEY_F1 :: int where "KEY_F1 \<equiv> 59"
abbreviation (input) KEY_F2 :: int where "KEY_F2 \<equiv> 60"
abbreviation (input) KEY_F3 :: int where "KEY_F3 \<equiv> 61"
abbreviation (input) KEY_F4 :: int where "KEY_F4 \<equiv> 62"
abbreviation (input) KEY_F5 :: int where "KEY_F5 \<equiv> 63"
abbreviation (input) KEY_F6 :: int where "KEY_F6 \<equiv> 64"
abbreviation (input) KEY_F7 :: int where "KEY_F7 \<equiv> 65"
abbreviation (input) KEY_F8 :: int where "KEY_F8 \<equiv> 66"
abbreviation (input) KEY_F9 :: int where "KEY_F9 \<equiv> 67"
abbreviation (input) KEY_F10 :: int where "KEY_F10 \<equiv> 68"
abbreviation (input) KEY_NUMLOCK :: int where "KEY_NUMLOCK \<equiv> 69"
abbreviation (input) KEY_SCROLLLOCK :: int where "KEY_SCROLLLOCK \<equiv> 70"
abbreviation (input) KEY_KP7 :: int where "KEY_KP7 \<equiv> 71"
abbreviation (input) KEY_KP8 :: int where "KEY_KP8 \<equiv> 72"
abbreviation (input) KEY_KP9 :: int where "KEY_KP9 \<equiv> 73"
abbreviation (input) KEY_KPMINUS :: int where "KEY_KPMINUS \<equiv> 74"
abbreviation (input) KEY_KP4 :: int where "KEY_KP4 \<equiv> 75"
abbreviation (input) KEY_KP5 :: int where "KEY_KP5 \<equiv> 76"
abbreviation (input) KEY_KP6 :: int where "KEY_KP6 \<equiv> 77"
abbreviation (input) KEY_KPPLUS :: int where "KEY_KPPLUS \<equiv> 78"
abbreviation (input) KEY_KP1 :: int where "KEY_KP1 \<equiv> 79"
abbreviation (input) KEY_KP2 :: int where "KEY_KP2 \<equiv> 80"
abbreviation (input) KEY_KP3 :: int where "KEY_KP3 \<equiv> 81"
abbreviation (input) KEY_KP0 :: int where "KEY_KP0 \<equiv> 82"
abbreviation (input) KEY_KPDOT :: int where "KEY_KPDOT \<equiv> 83"
abbreviation (input) KEY_102ND :: int where "KEY_102ND \<equiv> 86"
abbreviation (input) KEY_F11 :: int where "KEY_F11 \<equiv> 87"
abbreviation (input) KEY_F12 :: int where "KEY_F12 \<equiv> 88"
abbreviation (input) KEY_RIGHTCTRL :: int where "KEY_RIGHTCTRL \<equiv> 97"
abbreviation (input) KEY_KPSLASH :: int where "KEY_KPSLASH \<equiv> 98"
abbreviation (input) KEY_SYSRQ :: int where "KEY_SYSRQ \<equiv> 99"
abbreviation (input) KEY_RIGHTALT :: int where "KEY_RIGHTALT \<equiv> 100"
abbreviation (input) KEY_HOME :: int where "KEY_HOME \<equiv> 102"
abbreviation (input) KEY_UP :: int where "KEY_UP \<equiv> 103"
abbreviation (input) KEY_PAGEUP :: int where "KEY_PAGEUP \<equiv> 104"
abbreviation (input) KEY_LEFT :: int where "KEY_LEFT \<equiv> 105"
abbreviation (input) KEY_RIGHT :: int where "KEY_RIGHT \<equiv> 106"
abbreviation (input) KEY_END :: int where "KEY_END \<equiv> 107"
abbreviation (input) KEY_DOWN :: int where "KEY_DOWN \<equiv> 108"
abbreviation (input) KEY_PAGEDOWN :: int where "KEY_PAGEDOWN \<equiv> 109"
abbreviation (input) KEY_INSERT :: int where "KEY_INSERT \<equiv> 110"
abbreviation (input) KEY_DELETE :: int where "KEY_DELETE \<equiv> 111"
abbreviation (input) KEY_PAUSE :: int where "KEY_PAUSE \<equiv> 119"
abbreviation (input) KEY_LEFTMETA :: int where "KEY_LEFTMETA \<equiv> 125"
abbreviation (input) KEY_RIGHTMETA :: int where "KEY_RIGHTMETA \<equiv> 126"
abbreviation (input) KEY_CLEAR :: int where "KEY_CLEAR \<equiv> 355"
abbreviation (input) BTN_LEFT :: int where "BTN_LEFT \<equiv> 0x110"
abbreviation (input) BTN_RIGHT :: int where "BTN_RIGHT \<equiv> 0x111"
abbreviation (input) BTN_MIDDLE :: int where "BTN_MIDDLE \<equiv> 0x112"
abbreviation (input) BTN_SIDE :: int where "BTN_SIDE \<equiv> 0x113"
abbreviation (input) BTN_EXTRA :: int where "BTN_EXTRA \<equiv> 0x114"
abbreviation (input) BTN_A :: int where "BTN_A \<equiv> 0x130"
abbreviation (input) BTN_B :: int where "BTN_B \<equiv> 0x131"
abbreviation (input) BTN_X :: int where "BTN_X \<equiv> 0x133"
abbreviation (input) BTN_Y :: int where "BTN_Y \<equiv> 0x134"
abbreviation (input) BTN_TL :: int where "BTN_TL \<equiv> 0x136"
abbreviation (input) BTN_TR :: int where "BTN_TR \<equiv> 0x137"
abbreviation (input) BTN_SELECT :: int where "BTN_SELECT \<equiv> 0x13a"
abbreviation (input) BTN_START :: int where "BTN_START \<equiv> 0x13b"
abbreviation (input) BTN_MODE :: int where "BTN_MODE \<equiv> 0x13c"
abbreviation (input) BTN_THUMBL :: int where "BTN_THUMBL \<equiv> 0x13d"
abbreviation (input) BTN_THUMBR :: int where "BTN_THUMBR \<equiv> 0x13e"
abbreviation (input) EV_SYN :: int where "EV_SYN \<equiv> 0"
abbreviation (input) EV_KEY :: int where "EV_KEY \<equiv> 1"
abbreviation (input) EV_REL :: int where "EV_REL \<equiv> 2"
abbreviation (input) EV_ABS :: int where "EV_ABS \<equiv> 3"
abbreviation (input) SYN_REPORT :: int where "SYN_REPORT \<equiv> 0"
abbreviation (input) REL_X :: int where "REL_X \<equiv> 0"
abbreviation (input) REL_Y :: int where "REL_Y \<equiv> 1"
abbreviation (input) REL_HWHEEL :: int where "REL_HWHEEL \<equiv> 6"
abbreviation (input) REL_WHEEL :: int where "REL_WHEEL \<equiv> 8"
abbreviation (input) ABS_X :: int where "ABS_X \<equiv> 0"
abbreviation (input) ABS_Y :: int where "ABS_Y \<equiv> 1"
abbreviation (input) ABS_Z :: int where "ABS_Z \<equiv> 2"
abbreviation (input) ABS_RX :: int where "ABS_RX \<equiv> 3"
abbreviation (input) ABS_RY :: int where "ABS_RY \<equiv> 4"
abbreviation (input) ABS_RZ :: int where "ABS_RZ \<equiv> 5"
abbreviation (input) ABS_HAT0X :: int where "ABS_HAT0X \<equiv> 0x10"
abbreviation (input) ABS_HAT0Y :: int where "ABS_HAT0Y \<equiv> 0x11"

section \<open>The device file\<close>

record input_event =
  ie_type :: int
  ie_code :: int
  ie_value :: int

datatype ioctl =
    UI_SET_EVBIT int
  | UI_SET_KEYBIT int
  | UI_SET_RELBIT int
  | UI_SET_ABSBIT int
  | UI_ABS_SETUP int int int
  | UI_DEV_SETUP string nat nat
  | UI_DEV_CREATE
  | UI_DEV_DESTROY

record uinput_os =
  ui_open :: "string \<Rightarrow> int"
  ui_access :: "string \<Rightarrow> bool"
  ui_setup_ok :: bool
  ui_create_ok :: bool

definition emit :: "int \<Rightarrow> int \<Rightarrow> int \<Rightarrow> int \<Rightarrow> input_event list" where
  "emit fd ty code val = (if fd < 0 then [] else [\<lparr>ie_type = ty, ie_code = code, ie_value = val\<rparr>])"

definition syn :: "int \<Rightarrow> input_event list" where
  "syn fd = emit fd EV_SYN SYN_REPORT 0"

definition open_uinput :: "uinput_os \<Rightarrow> int" where
  "open_uinput os =
     (let fd = ui_open os ''/dev/uinput'' in
      if fd < 0 then ui_open os ''/dev/input/uinput'' else fd)"

definition finish_create :: "uinput_os \<Rightarrow> string \<Rightarrow> nat \<Rightarrow> nat \<Rightarrow> bool \<times> ioctl list" where
  "finish_create os name vendor product =
     (let setup = UI_DEV_SETUP (take 79 name) vendor product in
      if \<not> ui_setup_ok os then (False, [setup])
      else if \<not> ui_create_ok os then (False, [setup, UI_DEV_CREATE])
      else (True, [setup, UI_DEV_CREATE]))"

definition uinput_available :: "uinput_os \<Rightarrow> bool" where
  "uinput_available os \<longleftrightarrow> ui_access os ''/dev/uinput'' \<or> ui_access os ''/dev/input/uinput''"

section \<open>Tables\<close>

definition key_mappings :: "(int \<times> int) list" where
  "key_mappings =
     [(0x08, KEY_BACKSPACE), (0x09, KEY_TAB), (0x0C, KEY_CLEAR), (0x0D, KEY_ENTER), (0x10, KEY_LEFTSHIFT), 
     (0x11, KEY_LEFTCTRL), (0x12, KEY_LEFTALT), (0x13, KEY_PAUSE), (0x14, KEY_CAPSLOCK), (0x1B, KEY_ESC), 
     (0x20, KEY_SPACE), (0x21, KEY_PAGEUP), (0x22, KEY_PAGEDOWN), (0x23, KEY_END), (0x24, KEY_HOME), 
     (0x25, KEY_LEFT), (0x26, KEY_UP), (0x27, KEY_RIGHT), (0x28, KEY_DOWN), (0x2C, KEY_SYSRQ), 
     (0x2D, KEY_INSERT), (0x2E, KEY_DELETE), (0x30, KEY_0), (0x31, KEY_1), (0x32, KEY_2), (0x33, KEY_3), 
     (0x34, KEY_4), (0x35, KEY_5), (0x36, KEY_6), (0x37, KEY_7), (0x38, KEY_8), (0x39, KEY_9), (0x41, KEY_A), 
     (0x42, KEY_B), (0x43, KEY_C), (0x44, KEY_D), (0x45, KEY_E), (0x46, KEY_F), (0x47, KEY_G), (0x48, KEY_H), 
     (0x49, KEY_I), (0x4A, KEY_J), (0x4B, KEY_K), (0x4C, KEY_L), (0x4D, KEY_M), (0x4E, KEY_N), (0x4F, KEY_O), 
     (0x50, KEY_P), (0x51, KEY_Q), (0x52, KEY_R), (0x53, KEY_S), (0x54, KEY_T), (0x55, KEY_U), (0x56, KEY_V), 
     (0x57, KEY_W), (0x58, KEY_X), (0x59, KEY_Y), (0x5A, KEY_Z), (0x5B, KEY_LEFTMETA), (0x5C, KEY_RIGHTMETA), 
     (0x60, KEY_KP0), (0x61, KEY_KP1), (0x62, KEY_KP2), (0x63, KEY_KP3), (0x64, KEY_KP4), (0x65, KEY_KP5), 
     (0x66, KEY_KP6), (0x67, KEY_KP7), (0x68, KEY_KP8), (0x69, KEY_KP9), (0x6A, KEY_KPASTERISK), 
     (0x6B, KEY_KPPLUS), (0x6D, KEY_KPMINUS), (0x6E, KEY_KPDOT), (0x6F, KEY_KPSLASH), (0x70, KEY_F1), 
     (0x71, KEY_F2), (0x72, KEY_F3), (0x73, KEY_F4), (0x74, KEY_F5), (0x75, KEY_F6), (0x76, KEY_F7), 
     (0x77, KEY_F8), (0x78, KEY_F9), (0x79, KEY_F10), (0x7A, KEY_F11), (0x7B, KEY_F12), (0x90, KEY_NUMLOCK), 
     (0x91, KEY_SCROLLLOCK), (0xA0, KEY_LEFTSHIFT), (0xA1, KEY_RIGHTSHIFT), (0xA2, KEY_LEFTCTRL), 
     (0xA3, KEY_RIGHTCTRL), (0xA4, KEY_LEFTALT), (0xA5, KEY_RIGHTALT), (0xBA, KEY_SEMICOLON), 
     (0xBB, KEY_EQUAL), (0xBC, KEY_COMMA), (0xBD, KEY_MINUS), (0xBE, KEY_DOT), (0xBF, KEY_SLASH), 
     (0xC0, KEY_GRAVE), (0xDB, KEY_LEFTBRACE), (0xDC, KEY_BACKSLASH), (0xDD, KEY_RIGHTBRACE), 
     (0xDE, KEY_APOSTROPHE), (0xE2, KEY_102ND)]"
definition moonlight_button_to_linux :: "int \<Rightarrow> int" where
  "moonlight_button_to_linux moonlight_button =
     (if moonlight_button = 1 then BTN_LEFT
      else if moonlight_button = 2 then BTN_MIDDLE
      else if moonlight_button = 3 then BTN_RIGHT
      else if moonlight_button = 4 then BTN_SIDE
      else BTN_EXTRA)"

definition moonlight_key_to_linux :: "int \<Rightarrow> int" where
  "moonlight_key_to_linux moonlight_key = (case map_of key_mappings moonlight_key of None \<Rightarrow> -1 | Some c \<Rightarrow> c)"

section \<open>Mouse and keyboard\<close>

definition abs_axis :: "int \<Rightarrow> int \<Rightarrow> int \<Rightarrow> ioctl list" where
  "abs_axis code mini maxi = [UI_SET_ABSBIT code, UI_ABS_SETUP code mini maxi]"

definition mouse_ioctls :: "ioctl list" where
  "mouse_ioctls = [UI_SET_EVBIT EV_KEY]
     @ map UI_SET_KEYBIT [BTN_LEFT, BTN_RIGHT, BTN_MIDDLE, BTN_SIDE, BTN_EXTRA]
     @ [UI_SET_EVBIT EV_REL] @ map UI_SET_RELBIT [REL_X, REL_Y, REL_WHEEL, REL_HWHEEL]
     @ [UI_SET_EVBIT EV_ABS] @ concat (map (\<lambda>a. abs_axis a 0 65535) [ABS_X, ABS_Y])"

text \<open>The descriptor of the new device, if there is one, and the requests made.\<close>

definition VirtualMouse_create :: "uinput_os \<Rightarrow> int option \<times> ioctl list" where
  "VirtualMouse_create os =
     (let fd = open_uinput os in
      if fd < 0 then (None, [])
      else case finish_create os ''steam-stream virtual mouse'' 0xDEAD 1 of
        (created, reqs) \<Rightarrow> (if created then Some fd else None, mouse_ioctls @ reqs))"

definition VirtualMouse_move_rel :: "int \<Rightarrow> int \<Rightarrow> int \<Rightarrow> input_event list" where
  "VirtualMouse_move_rel fd dx dy =
     (if dx \<noteq> 0 then emit fd EV_REL REL_X dx else []) @ (if dy \<noteq> 0 then emit fd EV_REL REL_Y dy else []) @ syn fd"

definition VirtualMouse_move_abs :: "int \<Rightarrow> int \<Rightarrow> int \<Rightarrow> input_event list" where
  "VirtualMouse_move_abs fd x y = emit fd EV_ABS ABS_X x @ emit fd EV_ABS ABS_Y y @ syn fd"

definition VirtualMouse_button :: "int \<Rightarrow> int \<Rightarrow> bool \<Rightarrow> input_event list" where
  "VirtualMouse_button fd b pressed = emit fd EV_KEY (moonlight_button_to_linux b) (if pressed then 1 else 0) @ syn fd"

definition VirtualMouse_vscroll :: "int \<Rightarrow> int \<Rightarrow> input_event list" where
  "VirtualMouse_vscroll fd amount = emit fd EV_REL REL_WHEEL (if amount > 0 then 1 else if amount < 0 then -1 else 0) @ syn fd"

definition VirtualMouse_hscroll :: "int \<Rightarrow> int \<Rightarrow> input_event list" where
  "VirtualMouse_hscroll fd amount = emit fd EV_REL REL_HWHEEL (if amount > 0 then 1 else if amount < 0 then -1 else 0) @ syn fd"

definition device_destroy :: "int \<Rightarrow> ioctl list" where
  "device_destroy fd = (if fd \<ge> 0 then [UI_DEV_DESTROY] else [])"

definition keyboard_ioctls :: "ioctl list" where
  "keyboard_ioctls = [UI_SET_EVBIT EV_KEY, UI_SET_KEYBIT KEY_BACKSPACE] @ map (\<lambda>(vk, code). UI_SET_KEYBIT code) key_mappings"

definition VirtualKeyboard_create :: "uinput_os \<Rightarrow> int option \<times> ioctl list" where
  "VirtualKeyboard_create os =
     (let fd = open_uinput os in
      if fd < 0 then (None, [])
      else case finish_create os ''steam-stream virtual keyboard'' 0xDEAD 2 of
        (created, reqs) \<Rightarrow> (if created then Some fd else None, keyboard_ioctls @ reqs))"

definition VirtualKeyboard_key :: "int \<Rightarrow> int \<Rightarrow> bool \<Rightarrow> input_event list" where
  "VirtualKeyboard_key fd moonlight_key pressed =
     (case map_of key_mappings moonlight_key of None \<Rightarrow> []
      | Some code \<Rightarrow> emit fd EV_KEY code (if pressed then 1 else 0) @ syn fd)"

section \<open>Gamepad\<close>

definition kPadButtons :: "(u32 \<times> int) list" where
  "kPadButtons =
     [(0x0010, BTN_START), (0x0020, BTN_SELECT), (0x0400, BTN_MODE),
      (0x0040, BTN_THUMBL), (0x0080, BTN_THUMBR), (0x0100, BTN_TL),
      (0x0200, BTN_TR), (0x1000, BTN_A), (0x2000, BTN_B),
      (0x4000, BTN_X), (0x8000, BTN_Y)]"

record gamepad =
  gp_fd :: int
  gp_udev_dev :: Device
  gp_udev_plugged :: bool
  back_held :: bool
  home_fired :: bool
  home_down :: bool
  back_press_ms :: int
  home_press_ms :: int

definition gamepad_ioctls :: "ioctl list" where
  "gamepad_ioctls = [UI_SET_EVBIT EV_KEY] @ map (\<lambda>(ml, code). UI_SET_KEYBIT code) kPadButtons @ [UI_SET_EVBIT EV_ABS]
     @ abs_axis ABS_X (-32768) 32767 @ abs_axis ABS_Y (-32768) 32767
     @ abs_axis ABS_RX (-32768) 32767 @ abs_axis ABS_RY (-32768) 32767
     @ abs_axis ABS_Z 0 255 @ abs_axis ABS_RZ 0 255
     @ abs_axis ABS_HAT0X (-1) 1 @ abs_axis ABS_HAT0Y (-1) 1"

definition new_gamepad :: "int \<Rightarrow> gamepad" where
  "new_gamepad fd = \<lparr>gp_fd = fd, gp_udev_dev = default_device, gp_udev_plugged = False, back_held = False,
     home_fired = False, home_down = False, back_press_ms = 0, home_press_ms = 0\<rparr>"

definition VirtualGamepad_create ::
  "uinput_os \<Rightarrow> udev_os \<Rightarrow> udev_world \<Rightarrow> gamepad option \<times> ioctl list \<times> udev_world" where
  "VirtualGamepad_create os uos w =
     (let fd = open_uinput os in
      if fd < 0 then (None, [], w)
      else case finish_create os ''steam-stream virtual gamepad'' 0x045E 0x02EA of
        (False, reqs) \<Rightarrow> (None, gamepad_ioctls @ reqs, w)
      | (True, reqs) \<Rightarrow>
        let pad = new_gamepad fd in
        (case device_from_uinput_fd uos fd (gp_udev_dev pad) of
           (True, dev) \<Rightarrow> (Some (pad\<lparr>gp_udev_dev := dev, gp_udev_plugged := True\<rparr>), gamepad_ioctls @ reqs, plug uos dev w)
         | (False, dev) \<Rightarrow> (Some (pad\<lparr>gp_udev_dev := dev\<rparr>), gamepad_ioctls @ reqs, w)))"

definition VirtualGamepad_destroy :: "udev_os \<Rightarrow> gamepad \<Rightarrow> udev_world \<Rightarrow> ioctl list \<times> udev_world" where
  "VirtualGamepad_destroy uos pad w =
     (let w = (if gp_udev_plugged pad then unplug uos (gp_udev_dev pad) w else w) in
      (device_destroy (gp_fd pad), w))"

definition kBackFlag :: u32 where "kBackFlag = 0x0020"
definition kHoldMs :: int where "kHoldMs = 750"
definition kHomeHoldMs :: int where "kHomeHoldMs = 120"

record pad_state =
  ps_buttons :: u32
  ps_left_trigger :: int
  ps_right_trigger :: int
  ps_left_x :: int
  ps_left_y :: int
  ps_right_x :: int
  ps_right_y :: int

definition flag :: "u32 \<Rightarrow> u32 \<Rightarrow> bool" where
  "flag flags m \<longleftrightarrow> flags AND m \<noteq> 0"

definition flag_int :: "u32 \<Rightarrow> u32 \<Rightarrow> int" where
  "flag_int flags m = (if flag flags m then 1 else 0)"

text \<open>The chord part of \<open>update\<close>: the new state and the events of a synthesised Back tap.\<close>

definition chord_step :: "gamepad \<Rightarrow> bool \<Rightarrow> int \<Rightarrow> gamepad \<times> input_event list" where
  "chord_step g back_now now_ms =
     (let fd = gp_fd g;
          (g, tap) =
            (if back_now \<and> \<not> back_held g
             then (g\<lparr>back_held := True, back_press_ms := now_ms, home_fired := False\<rparr>, [])
             else if \<not> back_now \<and> back_held g
             then (g\<lparr>back_held := False\<rparr>,
                   if \<not> home_fired g
                   then emit fd EV_KEY BTN_SELECT 1 @ syn fd @ emit fd EV_KEY BTN_SELECT 0 @ syn fd else [])
             else (g, []));
          g = (if back_held g \<and> \<not> home_fired g \<and> now_ms - back_press_ms g \<ge> kHoldMs
               then g\<lparr>home_fired := True, home_down := True, home_press_ms := now_ms\<rparr> else g);
          g = (if home_down g \<and> now_ms - home_press_ms g \<ge> kHomeHoldMs then g\<lparr>home_down := False\<rparr> else g) in
      (g, tap))"

definition pad_button_events :: "gamepad \<Rightarrow> u32 \<Rightarrow> input_event list" where
  "pad_button_events g flags =
     concat (map (\<lambda>(ml, code).
       if code = BTN_SELECT then []
       else emit (gp_fd g) EV_KEY code (if flag flags ml \<or> code = BTN_MODE \<and> home_down g then 1 else 0)) kPadButtons)"

definition pad_axis_events :: "int \<Rightarrow> pad_state \<Rightarrow> input_event list" where
  "pad_axis_events fd p =
     (let b = ps_buttons p;
          hat_x = flag_int b 0x0008 - flag_int b 0x0004;
          hat_y = flag_int b 0x0002 - flag_int b 0x0001 in
      emit fd EV_ABS ABS_HAT0X hat_x @ emit fd EV_ABS ABS_HAT0Y hat_y
      @ emit fd EV_ABS ABS_X (ps_left_x p) @ emit fd EV_ABS ABS_Y (- ps_left_y p - 1)
      @ emit fd EV_ABS ABS_RX (ps_right_x p) @ emit fd EV_ABS ABS_RY (- ps_right_y p - 1)
      @ emit fd EV_ABS ABS_Z (ps_left_trigger p) @ emit fd EV_ABS ABS_RZ (ps_right_trigger p) @ syn fd)"

definition VirtualGamepad_update :: "gamepad \<Rightarrow> pad_state \<Rightarrow> int \<Rightarrow> gamepad \<times> input_event list" where
  "VirtualGamepad_update g p now_ms =
     (let back_now = flag (ps_buttons p) kBackFlag;
          (g, tap) = chord_step g back_now now_ms in
      (g, tap @ pad_button_events g (ps_buttons p) @ pad_axis_events (gp_fd g) p))"

end
