(* ===== verification/Control.thy ===== *)
theory Control
  imports Complex_Main Session Crypto StdMap Uinput
begin

unbundle bit_operations_syntax

text \<open>
  The control stream: packet layout (\<open>server/control_packets.hpp\<close>, \<open>moonlight/control.hpp\<close>) and the
  ENet server of \<open>server/control.cpp\<close>. A packet is the list of its bytes; a read outside it is \<open>None\<close>,
  as is every other step whose behaviour the language leaves open. ENet is the source of events and
  the receiver of actions; the media session is called through the type \<open>media_call\<close>, whose meaning is
  in theory \<open>Media\<close>. Little endian is the native order.
\<close>

section \<open>Packet types\<close>

datatype PACKET_TYPE =
    START_A | START_B | INVALIDATE_REF_FRAMES | LOSS_STATS | FRAME_STATS | INPUT_DATA | TERMINATION
  | PERIODIC_PING | IDR_FRAME | ENCRYPTED | HDR_MODE | RUMBLE_DATA | RUMBLE_TRIGGERS | MOTION_EVENT
  | RGB_LED_EVENT | ADAPTIVE_TRIGGER_EVENT

fun packet_code :: "PACKET_TYPE \<Rightarrow> u16" where
  "packet_code START_A = 0x0305"
| "packet_code START_B = 0x0307"
| "packet_code INVALIDATE_REF_FRAMES = 0x0301"
| "packet_code LOSS_STATS = 0x0201"
| "packet_code FRAME_STATS = 0x0204"
| "packet_code INPUT_DATA = 0x0206"
| "packet_code TERMINATION = 0x0109"
| "packet_code PERIODIC_PING = 0x0200"
| "packet_code IDR_FRAME = 0x0302"
| "packet_code ENCRYPTED = 0x0001"
| "packet_code HDR_MODE = 0x010e"
| "packet_code RUMBLE_DATA = 0x010b"
| "packet_code RUMBLE_TRIGGERS = 0x5500"
| "packet_code MOTION_EVENT = 0x5501"
| "packet_code RGB_LED_EVENT = 0x5502"
| "packet_code ADAPTIVE_TRIGGER_EVENT = 0x5503"

text \<open>The server's own header knows five of them; other codes are values outside its enumeration.\<close>

definition server_packet_types :: "PACKET_TYPE list" where
  "server_packet_types = [INPUT_DATA, TERMINATION, PERIODIC_PING, IDR_FRAME, ENCRYPTED]"

definition packet_type_of :: "u16 \<Rightarrow> PACKET_TYPE option" where
  "packet_type_of c = find (\<lambda>p. packet_code p = c) server_packet_types"

definition packet_type_to_str :: "u16 \<Rightarrow> string" where
  "packet_type_to_str c =
     (case packet_type_of c of
        Some INPUT_DATA \<Rightarrow> ''INPUT_DATA'' | Some TERMINATION \<Rightarrow> ''TERMINATION''
      | Some PERIODIC_PING \<Rightarrow> ''PERIODIC_PING'' | Some IDR_FRAME \<Rightarrow> ''IDR_FRAME''
      | Some ENCRYPTED \<Rightarrow> ''ENCRYPTED'' | _ \<Rightarrow> ''Unrecognised'')"

text \<open>The printer of the protocol header knows all of them.\<close>

fun packet_type_name :: "PACKET_TYPE \<Rightarrow> string" where
  "packet_type_name START_A = ''START_A''"
| "packet_type_name START_B = ''START_B''"
| "packet_type_name INVALIDATE_REF_FRAMES = ''INVALIDATE_REF_FRAMES''"
| "packet_type_name LOSS_STATS = ''LOSS_STATS''"
| "packet_type_name FRAME_STATS = ''FRAME_STATS''"
| "packet_type_name INPUT_DATA = ''INPUT_DATA''"
| "packet_type_name RUMBLE_DATA = ''RUMBLE_DATA''"
| "packet_type_name TERMINATION = ''TERMINATION''"
| "packet_type_name PERIODIC_PING = ''PERIODIC_PING''"
| "packet_type_name IDR_FRAME = ''IDR_FRAME''"
| "packet_type_name ENCRYPTED = ''ENCRYPTED''"
| "packet_type_name HDR_MODE = ''HDR_MODE''"
| "packet_type_name RUMBLE_TRIGGERS = ''RUMBLE_TRIGGERS''"
| "packet_type_name MOTION_EVENT = ''MOTION_EVENT''"
| "packet_type_name RGB_LED_EVENT = ''RGB_LED_EVENT''"
| "packet_type_name ADAPTIVE_TRIGGER_EVENT = ''ADAPTIVE_TRIGGER_EVENT''"

datatype INPUT_TYPE =
    MOUSE_MOVE_REL | MOUSE_MOVE_ABS | MOUSE_BUTTON_PRESS | MOUSE_BUTTON_RELEASE | KEY_PRESS | KEY_RELEASE
  | MOUSE_SCROLL | MOUSE_HSCROLL | CONTROLLER_MULTI | CONTROLLER_ARRIVAL

fun input_code :: "INPUT_TYPE \<Rightarrow> u32" where
  "input_code MOUSE_MOVE_REL = 0x00000007"
| "input_code MOUSE_MOVE_ABS = 0x00000005"
| "input_code MOUSE_BUTTON_PRESS = 0x00000008"
| "input_code MOUSE_BUTTON_RELEASE = 0x00000009"
| "input_code KEY_PRESS = 0x00000003"
| "input_code KEY_RELEASE = 0x00000004"
| "input_code MOUSE_SCROLL = 0x0000000A"
| "input_code MOUSE_HSCROLL = 0x55000001"
| "input_code CONTROLLER_MULTI = 0x0000000C"
| "input_code CONTROLLER_ARRIVAL = 0x55000004"

definition input_types :: "INPUT_TYPE list" where
  "input_types = [MOUSE_MOVE_REL, MOUSE_MOVE_ABS, MOUSE_BUTTON_PRESS, MOUSE_BUTTON_RELEASE, KEY_PRESS,
     KEY_RELEASE, MOUSE_SCROLL, MOUSE_HSCROLL, CONTROLLER_MULTI, CONTROLLER_ARRIVAL]"

definition input_type_of :: "u32 \<Rightarrow> INPUT_TYPE option" where
  "input_type_of c = find (\<lambda>p. input_code p = c) input_types"

section \<open>Packet layout\<close>

text \<open>
  The packed structures. Each record has its fields in memory order as stored; \<open>_bytes\<close> is the memory
  of the part behind \<open>INPUT_PKT\<close>, \<open>read_\<close> looks at such memory, \<open>None\<close> if it is too short.
\<close>

record INPUT_PKT =
  ip_packet_type :: u16
  ip_packet_len :: u16
  ip_data_size :: u32
  ip_type :: u32

definition input_pkt_bytes :: "INPUT_PKT \<Rightarrow> bytes" where
  "input_pkt_bytes p = le16 (ip_packet_type p) @ le16 (ip_packet_len p) @ le32 (ip_data_size p) @ le32 (ip_type p)"

definition read_input_type :: "bytes \<Rightarrow> u32 option" where
  "read_input_type b = (if length b < 12 then None else Some (get_le32 (drop 8 b)))"

text \<open>Signed 16 bit fields, read in network and in native order.\<close>

definition be_short :: "bytes \<Rightarrow> nat \<Rightarrow> int option" where
  "be_short b off = (if length b < off + 2 then None else Some (sint (get_be16 (drop off b))))"

definition le_short :: "bytes \<Rightarrow> nat \<Rightarrow> int option" where
  "le_short b off = (if length b < off + 2 then None else Some (sint (get_le16 (drop off b))))"

definition le_ushort :: "bytes \<Rightarrow> nat \<Rightarrow> u16 option" where
  "le_ushort b off = (if length b < off + 2 then None else Some (get_le16 (drop off b)))"

definition byte_at :: "bytes \<Rightarrow> nat \<Rightarrow> u8 option" where
  "byte_at b off = (if length b < off + 1 then None else Some (b ! off))"

section \<open>Calls into the media session\<close>

datatype media_call =
    mouse_move_rel int int
  | mouse_move_abs rat rat
  | mouse_button int bool
  | mouse_axis int int
  | keyboard_key int bool
  | gamepad_arrival int
  | gamepad_update int u16 u32 int int int int int int

text \<open>
  IEEE single precision on the numbers that occur here (no overflow, no subnormals): round to a
  significand of 24 bits, ties to even. A positive number \<open>p / q\<close> lies between \<open>2 ^ (k - 1)\<close> and
  \<open>2 ^ (k + 1)\<close> for the difference \<open>k\<close> of the bit lengths.
\<close>

fun bit_count :: "nat \<Rightarrow> nat" where
  "bit_count n = (if n = 0 then 0 else Suc (bit_count (n div 2)))"

declare bit_count.simps [simp del]

definition round_even :: "nat \<Rightarrow> nat \<Rightarrow> nat" where
  "round_even a b = (let q = a div b; r = a mod b in if 2 * r > b \<or> 2 * r = b \<and> odd q then q + 1 else q)"

definition shifted :: "nat \<Rightarrow> nat \<Rightarrow> int \<Rightarrow> nat \<times> nat" where
  "shifted p q s = (p * 2 ^ nat s, q * 2 ^ nat (- s))"

definition fl32_pos :: "nat \<Rightarrow> nat \<Rightarrow> rat" where
  "fl32_pos p q =
     (let s = 24 - (int (bit_count p) - int (bit_count q));
          (a, b) = shifted p q s;
          s = (if a < 2 ^ 24 * b then s else s - 1);
          (a, b) = shifted p q s in
      of_nat (round_even a b) * (if s \<ge> 0 then 1 / 2 ^ nat s else 2 ^ nat (- s)))"

definition fl32 :: "rat \<Rightarrow> rat" where
  "fl32 x = (case quotient_of x of (p, q) \<Rightarrow>
     if p = 0 then 0 else if p > 0 then fl32_pos (nat p) (nat q) else - fl32_pos (nat (- p)) (nat q))"

text \<open>\<open>x / w * out\<close>: both operations round, and so does the conversion of \<open>out\<close>.\<close>

definition scale_axis :: "int \<Rightarrow> int \<Rightarrow> int \<Rightarrow> rat" where
  "scale_axis x w out = fl32 (fl32 (of_int x / of_int w) * fl32 (of_int out))"

section \<open>Input\<close>

text \<open>
  \<open>handle_input\<close> for the memory \<open>b\<close> of the decrypted text and the output size of the session; \<open>mm\<close>
  says whether there is a media session. \<open>None\<close> is a read past the end of the memory. The fields are
  read whether or not there is a session in the absolute case only, as the code does.
\<close>

definition handle_input :: "int \<times> int \<Rightarrow> bytes \<Rightarrow> bool \<Rightarrow> media_call list option" where
  "handle_input dims b mm =
     (case read_input_type b of None \<Rightarrow> None | Some ty \<Rightarrow>
      (case input_type_of ty of
         None \<Rightarrow> Some []
       | Some MOUSE_MOVE_ABS \<Rightarrow>
           (case (be_short b 12, be_short b 14, be_short b 18, be_short b 20) of
              (Some x, Some y, Some w, Some h) \<Rightarrow>
                let out_w = (if fst dims > 0 then fst dims else w);
                    out_h = (if snd dims > 0 then snd dims else h) in
                Some (if mm \<and> w > 0 \<and> h > 0 then [mouse_move_abs (scale_axis x w out_w) (scale_axis y h out_h)] else [])
            | _ \<Rightarrow> None)
       | Some t \<Rightarrow>
         if \<not> mm \<and> t \<noteq> KEY_PRESS \<and> t \<noteq> KEY_RELEASE then Some []
         else (case t of
           MOUSE_MOVE_REL \<Rightarrow>
             (case (be_short b 12, be_short b 14) of
                (Some dx, Some dy) \<Rightarrow> Some [mouse_move_rel dx dy] | _ \<Rightarrow> None)
         | MOUSE_BUTTON_PRESS \<Rightarrow>
             map_option (\<lambda>v. [mouse_button (moonlight_button_to_linux (uint v)) True]) (byte_at b 12)
         | MOUSE_BUTTON_RELEASE \<Rightarrow>
             map_option (\<lambda>v. [mouse_button (moonlight_button_to_linux (uint v)) False]) (byte_at b 12)
         | MOUSE_SCROLL \<Rightarrow> map_option (\<lambda>v. [mouse_axis 0 (- v)]) (be_short b 12)
         | MOUSE_HSCROLL \<Rightarrow> map_option (\<lambda>v. [mouse_axis v 0]) (be_short b 12)
         | CONTROLLER_ARRIVAL \<Rightarrow> map_option (\<lambda>v. [gamepad_arrival (uint v)]) (byte_at b 12)
         | CONTROLLER_MULTI \<Rightarrow>
             (case (le_ushort b 14, le_ushort b 16, le_ushort b 20, byte_at b 22, byte_at b 23,
                    le_short b 24, le_short b 26, le_short b 28, le_short b 30) of
                (Some nr, Some active, Some buttons, Some lt, Some rt, Some lx, Some ly, Some rx, Some ry) \<Rightarrow>
                  Some [gamepad_update (uint nr) active (ucast buttons) (uint lt) (uint rt) lx ly rx ry]
              | _ \<Rightarrow> None)
         | _ \<Rightarrow>
             (case le_ushort b 13 of None \<Rightarrow> None
              | Some code \<Rightarrow>
                let linux_key = moonlight_key_to_linux (uint (code AND 0x7fff)) in
                Some (if mm \<and> linux_key \<ge> 0 then [keyboard_key linux_key (t = KEY_PRESS)] else [])))))"

section \<open>Encryption\<close>

definition GCM_TAG_SIZE :: nat where "GCM_TAG_SIZE = 16"
definition MAX_PAYLOAD_SIZE :: nat where "MAX_PAYLOAD_SIZE = 128"

record ControlEncryptedPacket =
  ce_type :: u16
  ce_length :: u16
  ce_seq :: u32
  ce_gcm_tag :: bytes
  ce_payload :: bytes

text \<open>The structure seen at the start of a packet; \<open>ce_payload\<close> is all that follows the tag.\<close>

definition read_encrypted :: "bytes \<Rightarrow> ControlEncryptedPacket option" where
  "read_encrypted b =
     (if length b < 24 then None
      else Some \<lparr>ce_type = get_le16 b, ce_length = get_le16 (drop 2 b), ce_seq = get_le32 (drop 4 b),
        ce_gcm_tag = bslice b 8 16, ce_payload = drop 24 b\<rparr>)"

definition encrypted_bytes :: "ControlEncryptedPacket \<Rightarrow> bytes" where
  "encrypted_bytes p = le16 (ce_type p) @ le16 (ce_length p) @ le32 (ce_seq p) @ ce_gcm_tag p @ ce_payload p"

text \<open>
  The length is computed in \<open>size_t\<close>, so that a header below 20 gives a length near \<open>2 ^ 64\<close>; the
  view then covers memory outside the packet, like any other length beyond its end.
\<close>

definition encrypted_msg :: "ControlEncryptedPacket \<Rightarrow> bytes option" where
  "encrypted_msg p =
     (let len = nat ((uint (ce_length p) - int GCM_TAG_SIZE - 4) mod 2 ^ 64) in
      if len > length (ce_payload p) then None else Some (take len (ce_payload p)))"

definition full_size :: "ControlEncryptedPacket \<Rightarrow> nat" where
  "full_size p = unat (ce_length p) + 4"

definition gcm_iv :: "u32 \<Rightarrow> bytes" where
  "gcm_iv seq = ucast seq # replicate 15 0"

text \<open>The result pairs the plaintext with the flag that OpenSSL has reported a tag mismatch.\<close>

definition decrypt_packet :: "gcm \<Rightarrow> ControlEncryptedPacket \<Rightarrow> string \<Rightarrow> (bool \<times> bytes) option" where
  "decrypt_packet g pkt gcm_key_hex =
     (case (encrypted_msg pkt, hex_to_str gcm_key_hex True) of
        (Some msg, Some key) \<Rightarrow> Some (aes_decrypt_gcm g msg key (ce_gcm_tag pkt) (gcm_iv (ce_seq pkt)))
      | _ \<Rightarrow> None)"

text \<open>The sending side of \<open>moonlight/control.hpp\<close>: a payload beyond 128 bytes is written past its array.\<close>

definition encrypt_packet :: "gcm \<Rightarrow> string \<Rightarrow> u32 \<Rightarrow> bytes \<Rightarrow> ControlEncryptedPacket option" where
  "encrypt_packet g gcm_key seq payload =
     (case hex_to_str gcm_key True of None \<Rightarrow> None
      | Some key \<Rightarrow>
        let (encrypted_str, gcm_tag) = aes_encrypt_gcm g payload key (gcm_iv seq);
            len = word_of_nat (4 + GCM_TAG_SIZE + length encrypted_str) in
        if length encrypted_str > MAX_PAYLOAD_SIZE then None
        else Some \<lparr>ce_type = packet_code ENCRYPTED, ce_length = len, ce_seq = seq,
               ce_gcm_tag = gcm_tag, ce_payload = patch (replicate MAX_PAYLOAD_SIZE 0) 0 encrypted_str\<rparr>)"

section \<open>The server\<close>

definition match_session :: "registry \<Rightarrow> u32 \<Rightarrow> string \<Rightarrow> session_ptr option" where
  "match_session reg connect_data ip =
     (case get_running reg of None \<Rightarrow> None
      | Some p \<Rightarrow>
        let s = deref reg p in
        if enet_secret_payload s = connect_data \<or> client_ip s = ip then Some p else None)"

type_synonym peer = nat

datatype enet_event =
    CONNECT peer u32 string
  | DISCONNECT peer
  | RECEIVE peer bytes
  | NO_EVENT

datatype control_action =
    disconnect_now peer
  | call_media media_call
  | on_idr nat
  | on_stop nat

text \<open>The callbacks that have been installed; \<open>clients\<close> maps peers to the session they were matched with.\<close>

record control_server =
  cs_clients :: "(peer, session_ptr) std_map"
  cs_has_idr :: bool
  cs_has_stop :: bool
  cs_has_media :: bool

definition terminated :: "bytes \<Rightarrow> bytes" where
  "terminated b = b @ [0]"

definition handle_decrypted ::
  "registry \<Rightarrow> control_server \<Rightarrow> bool \<Rightarrow> session_ptr \<Rightarrow> bytes \<Rightarrow> control_action list option" where
  "handle_decrypted reg cs media p decrypted =
     (let s = deref reg p; b = terminated decrypted in
      case le_ushort b 0 of None \<Rightarrow> None
      | Some sub_type \<Rightarrow>
        if sub_type = packet_code INPUT_DATA then
          map_option (map call_media)
            (handle_input (v_width (s_video s), v_height (s_video s)) b (cs_has_media cs \<and> media))
        else if sub_type = packet_code IDR_FRAME then
          Some (if cs_has_idr cs then [on_idr (session_id s)] else [])
        else if sub_type = packet_code TERMINATION then
          Some (if cs_has_stop cs then [on_stop (session_id s)] else [])
        else Some [])"

definition handle_receive ::
  "gcm \<Rightarrow> registry \<Rightarrow> control_server \<Rightarrow> bool \<Rightarrow> peer \<Rightarrow> bytes \<Rightarrow> control_action list option" where
  "handle_receive g reg cs media pe data =
     (case mfind (cs_clients cs) pe of None \<Rightarrow> Some []
      | Some p \<Rightarrow>
        (case le_ushort data 0 of None \<Rightarrow> None
         | Some type \<Rightarrow>
           if type = packet_code ENCRYPTED then
             (case read_encrypted data of None \<Rightarrow> None
              | Some enc \<Rightarrow>
                (case decrypt_packet g enc (s_aes_key (deref reg p)) of None \<Rightarrow> None
                 | Some (mismatch, decrypted) \<Rightarrow> handle_decrypted reg cs media p decrypted))
           else Some []))"

fun control_step ::
  "gcm \<Rightarrow> registry \<Rightarrow> bool \<Rightarrow> enet_event \<Rightarrow> control_server \<Rightarrow> (control_server \<times> control_action list) option" where
  "control_step g reg media (CONNECT pe connect_data ip) cs =
     (case match_session reg connect_data ip of
        None \<Rightarrow> Some (cs, [disconnect_now pe])
      | Some p \<Rightarrow> Some (cs\<lparr>cs_clients := mput pe p (cs_clients cs)\<rparr>, []))"
| "control_step g reg media (DISCONNECT pe) cs = Some (cs\<lparr>cs_clients := merase pe (cs_clients cs)\<rparr>, [])"
| "control_step g reg media (RECEIVE pe data) cs = map_option (Pair cs) (handle_receive g reg cs media pe data)"
| "control_step g reg media NO_EVENT cs = Some (cs, [])"

end
