(* ===== verification/PointerSync.thy ===== *)
theory PointerSync
  imports StdMap
begin

text \<open>
  \<open>server/pointer_sync.cpp\<close>: the thread that polls the cursor of each nested X server and injects its
  position into the compositor. One iteration of its loop is a function of the state and of what the
  X servers and the clock answer during it; the injected positions are its output.
\<close>

section \<open>State\<close>

record Conn =
  cn_primed :: bool
  cn_last_x :: int
  cn_last_y :: int
  cn_injected :: bool
  cn_inj_x :: int
  cn_inj_y :: int

definition new_conn :: Conn where
  "new_conn = \<lparr>cn_primed = False, cn_last_x = 0, cn_last_y = 0, cn_injected = False, cn_inj_x = 0, cn_inj_y = 0\<rparr>"

record pointer_sync =
  pt_conns :: "(int, Conn) std_map"
  pt_next_discovery :: int
  pt_last_client_ms :: int

definition new_pointer_sync :: pointer_sync where
  "new_pointer_sync = \<lparr>pt_conns = [], pt_next_discovery = 0, pt_last_client_ms = 0\<rparr>"

text \<open>The answers of an X server that is being looked at; \<open>None\<close> is a missing reply, 0 is \<open>XCB_ATOM_NONE\<close>.\<close>

record xserver =
  xs_atom :: "nat option"
  xs_property_type :: "nat option"

text \<open>
  One iteration: the clock at the two reads of the discovery step and at each connection, the outcome
  of connecting to a display, whether a tracked connection has failed, and its pointer.
\<close>

record poll_env =
  pe_now :: int
  pe_now_discovered :: int
  pe_now_at :: "int \<Rightarrow> int"
  pe_connect :: "int \<Rightarrow> xserver option"
  pe_error :: "int \<Rightarrow> bool"
  pe_pointer :: "int \<Rightarrow> (int \<times> int) option"

section \<open>Operations\<close>

definition is_gamescope :: "xserver \<Rightarrow> bool" where
  "is_gamescope xs =
     (case xs_atom xs of None \<Rightarrow> False
      | Some atom \<Rightarrow> if atom = 0 then False
          else case xs_property_type xs of None \<Rightarrow> False | Some ty \<Rightarrow> ty \<noteq> 0)"

definition note_client_mouse :: "int \<Rightarrow> pointer_sync \<Rightarrow> pointer_sync" where
  "note_client_mouse now ps = ps\<lparr>pt_last_client_ms := now\<rparr>"

definition discover :: "poll_env \<Rightarrow> (int, Conn) std_map \<Rightarrow> (int, Conn) std_map" where
  "discover env conns =
     foldl (\<lambda>conns n.
       if mfind conns n \<noteq> None then conns
       else case pe_connect env n of None \<Rightarrow> conns
         | Some xs \<Rightarrow> if is_gamescope xs then mput n new_conn conns else conns) conns [0, 1, 2, 3, 4]"

definition pointer_step :: "int \<Rightarrow> int \<Rightarrow> int \<times> int \<Rightarrow> Conn \<Rightarrow> Conn \<times> (int \<times> int) option" where
  "pointer_step now last_client pos cn =
     (case pos of (x, y) \<Rightarrow>
      if \<not> cn_primed cn then (cn\<lparr>cn_primed := True, cn_last_x := x, cn_last_y := y\<rparr>, None)
      else if x \<noteq> cn_last_x cn \<or> y \<noteq> cn_last_y cn then
        let cn = cn\<lparr>cn_last_x := x, cn_last_y := y\<rparr> in
        if x = 0 \<and> y = 0 then (cn, None)
        else
          let client_quiet = now - last_client > 250;
              far = \<not> cn_injected cn \<or> \<bar>x - cn_inj_x cn\<bar> \<ge> 2 \<or> \<bar>y - cn_inj_y cn\<bar> \<ge> 2 in
          if client_quiet \<and> far then (cn\<lparr>cn_injected := True, cn_inj_x := x, cn_inj_y := y\<rparr>, Some (x, y))
          else (cn, None)
      else (cn, None))"

fun poll_conns :: "poll_env \<Rightarrow> int \<Rightarrow> (int, Conn) std_map \<Rightarrow> (int, Conn) std_map \<times> (int \<times> int) list" where
  "poll_conns env last_client [] = ([], [])"
| "poll_conns env last_client ((n, cn) # conns) =
     (let (rest, injs) = poll_conns env last_client conns in
      if pe_error env n then (rest, injs)
      else case pe_pointer env n of None \<Rightarrow> ((n, cn) # rest, injs)
        | Some pos \<Rightarrow>
          (case pointer_step (pe_now_at env n) last_client pos cn of
             (cn, None) \<Rightarrow> ((n, cn) # rest, injs)
           | (cn, Some xy) \<Rightarrow> ((n, cn) # rest, xy # injs)))"

definition poll :: "poll_env \<Rightarrow> pointer_sync \<Rightarrow> pointer_sync \<times> (int \<times> int) list" where
  "poll env ps =
     (let ps = (if pe_now env \<ge> pt_next_discovery ps
                then ps\<lparr>pt_next_discovery := pe_now_discovered env + 2000, pt_conns := discover env (pt_conns ps)\<rparr> else ps);
          (conns, injs) = poll_conns env (pt_last_client_ms ps) (pt_conns ps) in
      (ps\<lparr>pt_conns := conns\<rparr>, injs))"

section \<open>Lemmas\<close>

lemma map_ok_discover: "map_ok conns \<Longrightarrow> map_ok (discover env conns)"
  by (auto simp: discover_def map_ok_mput split: option.splits)

lemma poll_conns_keys: "set (map fst (fst (poll_conns env lc conns))) \<subseteq> set (map fst conns)"
proof (induction conns)
  case (Cons c conns)
  obtain n cn where c: "c = (n, cn)" by force
  obtain rest injs where r: "poll_conns env lc conns = (rest, injs)" by force
  then have "set (map fst rest) \<subseteq> set (map fst conns)" using Cons.IH by simp
  then show ?case by (auto simp: c r split: option.splits prod.splits)
qed simp

lemma map_ok_poll_conns: "map_ok conns \<Longrightarrow> map_ok (fst (poll_conns env lc conns))"
proof (induction conns)
  case (Cons c conns)
  obtain n cn where c: "c = (n, cn)" by force
  obtain rest injs where r: "poll_conns env lc conns = (rest, injs)" by force
  have "map_ok rest" using Cons r by (simp add: map_ok_def)
  moreover have "\<forall>k\<in>set (map fst rest). n < k"
    using Cons.prems poll_conns_keys [of env lc conns] r by (force simp: map_ok_def c)
  ultimately show ?case
    by (auto simp: c r map_ok_def split: option.splits prod.splits)
qed simp

lemma poll_conns_injects:
  "xy \<in> set (snd (poll_conns env lc conns)) \<Longrightarrow>
   \<exists>n cn. (n, cn) \<in> set conns \<and> \<not> pe_error env n \<and> pe_pointer env n = Some xy \<and> cn_primed cn \<and>
     xy \<noteq> (cn_last_x cn, cn_last_y cn) \<and> xy \<noteq> (0, 0) \<and> pe_now_at env n - lc > 250 \<and>
     (cn_injected cn \<longrightarrow> \<bar>fst xy - cn_inj_x cn\<bar> \<ge> 2 \<or> \<bar>snd xy - cn_inj_y cn\<bar> \<ge> 2)"
proof (induction conns)
  case (Cons c conns)
  obtain n cn where c: "c = (n, cn)" by force
  show ?case
  proof (cases "xy \<in> set (snd (poll_conns env lc conns))")
    case True
    then show ?thesis using Cons.IH by (metis list.set_intros(2))
  next
    case False
    then have "\<not> pe_error env n" "\<exists>cn' pos. pe_pointer env n = Some pos \<and> pointer_step (pe_now_at env n) lc pos cn = (cn', Some xy)"
      using Cons.prems by (auto simp: c Let_def split: prod.splits option.splits if_splits)
    then show ?thesis
      by (auto simp: c pointer_step_def Let_def split: prod.splits if_splits intro!: exI [of _ n] exI [of _ cn])
  qed
qed simp

text \<open>The connections after a poll remember the pointer they saw.\<close>

definition settled :: "poll_env \<Rightarrow> (int, Conn) std_map \<Rightarrow> bool" where
  "settled env conns \<longleftrightarrow> (\<forall>(n, cn)\<in>set conns. \<forall>x y. pe_pointer env n = Some (x, y) \<longrightarrow>
     cn_primed cn \<and> cn_last_x cn = x \<and> cn_last_y cn = y)"

lemma settled_poll: "settled env (fst (poll_conns env lc conns))"
proof (induction conns)
  case (Cons c conns)
  obtain n cn where c: "c = (n, cn)" by force
  have "pointer_step now lc (x, y) cn = (cn', i) \<Longrightarrow> cn_primed cn' \<and> cn_last_x cn' = x \<and> cn_last_y cn' = y" for now x y cn' i
    by (auto simp: pointer_step_def Let_def split: if_splits)
  then show ?case using Cons
    by (fastforce simp: c settled_def Let_def split: prod.splits option.splits)
qed (simp add: settled_def)

lemma discover_old: "(n, cn) \<in> set (discover env conns) \<Longrightarrow> (n, cn) \<in> set conns \<or> cn = new_conn"
proof -
  have put: "set (mput k v m) \<subseteq> insert (k, v) (set m)" for k v and m :: "(int, Conn) std_map"
    by (induction k v m rule: mput.induct) auto
  have sub: "set (foldl (\<lambda>conns n.
       if mfind conns n \<noteq> None then conns
       else case pe_connect env n of None \<Rightarrow> conns
         | Some xs \<Rightarrow> if is_gamescope xs then mput n new_conn conns else conns) conns ns) \<subseteq> set conns \<union> {c. snd c = new_conn}" for ns
  proof (induction ns arbitrary: conns)
    case (Cons n ns)
    show ?case
      by (simp split: option.split) (use Cons put in \<open>fastforce\<close>)
  qed simp
  assume "(n, cn) \<in> set (discover env conns)"
  from this [unfolded discover_def] have "(n, cn) \<in> set conns \<union> {c. snd c = new_conn}"
    by (rule subsetD [OF sub])
  then show "(n, cn) \<in> set conns \<or> cn = new_conn" by simp
qed

section \<open>Properties\<close>

text \<open> C38: What the poller injects: only the position that some nested server tracked before reports now and did not
  report at the last poll, never the origin, never while the client's own mouse has moved within the
  last 250 ms, and only two pixels or more away from what was injected for that server before. \<close>

theorem injections_allowed:
  assumes "(x, y) \<in> set (snd (poll env ps))"
  shows "(x, y) \<noteq> (0, 0) \<and> (\<exists>n cn. (n, cn) \<in> set (pt_conns ps) \<and> \<not> pe_error env n \<and> pe_pointer env n = Some (x, y) \<and>
    (x, y) \<noteq> (cn_last_x cn, cn_last_y cn) \<and> pe_now_at env n - pt_last_client_ms ps > 250 \<and>
    (cn_injected cn \<longrightarrow> \<bar>x - cn_inj_x cn\<bar> \<ge> 2 \<or> \<bar>y - cn_inj_y cn\<bar> \<ge> 2))"
proof -
  define conns where "conns = (if pe_now env \<ge> pt_next_discovery ps then discover env (pt_conns ps) else pt_conns ps)"
  have "(x, y) \<in> set (snd (poll_conns env (pt_last_client_ms ps) conns))"
    using assms by (auto simp: poll_def Let_def conns_def split: prod.splits if_splits)
  from poll_conns_injects [OF this] obtain n cn where c: "(n, cn) \<in> set conns" "\<not> pe_error env n" "pe_pointer env n = Some (x, y)"
    "cn_primed cn" "(x, y) \<noteq> (cn_last_x cn, cn_last_y cn)" "(x, y) \<noteq> (0, 0)" "pe_now_at env n - pt_last_client_ms ps > 250"
    "cn_injected cn \<longrightarrow> \<bar>x - cn_inj_x cn\<bar> \<ge> 2 \<or> \<bar>y - cn_inj_y cn\<bar> \<ge> 2" by auto
  moreover have "(n, cn) \<in> set (pt_conns ps)"
    using c(1,4) discover_old [of n cn env "pt_conns ps"] by (auto simp: conns_def new_conn_def split: if_splits)
  ultimately show ?thesis by blast
qed

definition demo_env :: poll_env where
  "demo_env = \<lparr>pe_now = 5000, pe_now_discovered = 5000, pe_now_at = (\<lambda>_. 5001), pe_connect = (\<lambda>_. None),
     pe_error = (\<lambda>_. False), pe_pointer = (\<lambda>n. if n = 1 then Some (40, 50) else None)\<rparr>"

definition demo_pointer :: pointer_sync where
  "demo_pointer = \<lparr>pt_conns = [(1, new_conn\<lparr>cn_primed := True, cn_last_x := 7\<rparr>)], pt_next_discovery = 6000, pt_last_client_ms = 1000\<rparr>"

lemma demo_injects: "snd (poll demo_env demo_pointer) = [(40, 50)]"
  by code_simp

theorem injections_allowed_witness:
  "\<exists>n cn. (n, cn) \<in> set (pt_conns demo_pointer) \<and> pe_pointer demo_env n = Some (40, 50) \<and> pe_now_at demo_env n - 1000 > 250"
proof -
  have "(40, 50) \<in> set (snd (poll demo_env demo_pointer))" by (simp add: demo_injects)
  from injections_allowed [OF this] show ?thesis by (auto simp: demo_pointer_def)
qed

text \<open> The loop settles: if the pointers read the same in two successive polls, the second injects nothing,
  whatever the first injected, and also when new servers have been found meanwhile. \<close>

theorem pointer_settles:
  assumes "pe_pointer env' = pe_pointer env"
  shows "snd (poll env' (fst (poll env ps))) = []"
proof (rule ccontr)
  assume "snd (poll env' (fst (poll env ps))) \<noteq> []"
  then obtain x y where "(x, y) \<in> set (snd (poll env' (fst (poll env ps))))"
    by (metis list.set_intros(1) neq_Nil_conv old.prod.exhaust)
  from injections_allowed [OF this] obtain n cn where c: "(n, cn) \<in> set (pt_conns (fst (poll env ps)))"
    "pe_pointer env' n = Some (x, y)" "(x, y) \<noteq> (cn_last_x cn, cn_last_y cn)" by blast
  moreover have "settled env (pt_conns (fst (poll env ps)))"
    using settled_poll by (auto simp: poll_def Let_def split: prod.splits) (metis fst_conv)+
  ultimately show False using assms by (auto simp: settled_def)
qed

theorem pointer_settles_witness: "snd (poll demo_env (fst (poll demo_env demo_pointer))) = []"
  using pointer_settles [of demo_env demo_env demo_pointer] by simp

end
