(* ===== verification/Launcher.thy ===== *)
theory Launcher
  imports Session StdText EncoderConfig
begin

text \<open>
  \<open>server/launcher.cpp\<close>: the child processes the server starts, the audio sink script and the
  application. The answers of the system are parameters; the result says what the parent returns and,
  if a child was forked, what the child does: leave with a status, or execute a program with an
  argument list and environment under a user and group. \<open>None\<close> is an exception of \<open>std::stoul\<close>, which
  is raised in the parent before it forks.
\<close>

record launch_os =
  lo_getenv :: "string \<Rightarrow> string option"
  lo_readable :: "string \<Rightarrow> bool"
  lo_fork :: int
  lo_euid :: nat
  lo_egid :: nat
  lo_groups :: "nat list"
  lo_initgroups :: "string \<Rightarrow> nat \<Rightarrow> nat list option"
  lo_chdir_ok :: "string \<Rightarrow> bool"
  lo_cwd :: string
  lo_setgid_ok :: bool
  lo_setuid_ok :: bool

datatype child =
    child_exit nat
  | child_exec (ch_program: string) (ch_args: "string list") (ch_env: "string list") (ch_uid: nat) (ch_gid: nat)
      (ch_groups: "nat list") (ch_cwd: string) (ch_new_session: bool)

record launched =
  la_pid :: int
  la_chmod :: "string list"
  la_child :: "child option"

definition env_nonempty :: "launch_os \<Rightarrow> string \<Rightarrow> string \<Rightarrow> string" where
  "env_nonempty os k d = (case lo_getenv os k of Some v \<Rightarrow> if v \<noteq> [] then v else d | None \<Rightarrow> d)"

text \<open>\<open>static_cast<uid_t>(std::stoul(...))\<close>: an \<open>unsigned long\<close> cut to 32 bits.\<close>

definition id_from_env :: "launch_os \<Rightarrow> string \<Rightarrow> nat option" where
  "id_from_env os k = map_option (\<lambda>n. n mod 2 ^ 32) (stoul (env_nonempty os k ''1000''))"

text \<open>
  The child gives up root before it executes anything, and leaves if it cannot. The answer of
  \<open>initgroups\<close> is not looked at: if it fails, the groups of the server remain.
\<close>

definition run_as ::
  "launch_os \<Rightarrow> string \<Rightarrow> nat \<Rightarrow> nat \<Rightarrow> (nat \<Rightarrow> nat \<Rightarrow> nat list \<Rightarrow> child) \<Rightarrow> child" where
  "run_as os user uid gid exec =
     (if lo_euid os = 0 then
        let groups = (case lo_initgroups os user gid of Some gs \<Rightarrow> gs | None \<Rightarrow> lo_groups os) in
        if \<not> lo_setgid_ok os \<or> \<not> lo_setuid_ok os then child_exit 126
        else exec uid gid groups
      else exec (lo_euid os) (lo_egid os) (lo_groups os))"

record LaunchSpec =
  ls_gow_var :: string
  ls_label :: string
  ls_is_sway :: bool

definition spec_for :: "StreamSession \<Rightarrow> LaunchSpec" where
  "spec_for s =
     (let desktop = (app_id s = ''2'' \<or> has_substring ''Desktop'' (app_name s)) in
      if desktop then \<lparr>ls_gow_var = ''RUN_SWAY=1'', ls_label = ''Steam Desktop (sway)'', ls_is_sway = True\<rparr>
      else \<lparr>ls_gow_var = ''RUN_GAMESCOPE=1'', ls_label = ''Steam Big Picture (gamescope)'', ls_is_sway = False\<rparr>)"

definition push_passthrough :: "launch_os \<Rightarrow> string list \<Rightarrow> string \<Rightarrow> string list" where
  "push_passthrough os env key = (case lo_getenv os key of Some v \<Rightarrow> env @ [key @ ''='' @ v] | None \<Rightarrow> env)"

definition pulse_server_env :: "launch_os \<Rightarrow> string list" where
  "pulse_server_env os = (case lo_getenv os ''PULSE_SERVER'' of
     Some p \<Rightarrow> if p \<noteq> [] then [''PULSE_SERVER='' @ p] else [] | None \<Rightarrow> [])"

text \<open>\<open>status\<close> is the exit status the script leaves, \<open>None\<close> if waiting fails or it is killed.\<close>

definition ensure_audio_sink ::
  "launch_os \<Rightarrow> nat option \<Rightarrow> int \<Rightarrow> string \<Rightarrow> (bool \<times> child option) option" where
  "ensure_audio_sink os status channels sink_name =
     (let script = ''/opt/steam-stream/pulse-sink.sh'' in
      if \<not> lo_readable os script then Some (False, None)
      else case (id_from_env os ''STEAM_STREAM_RUN_UID'', id_from_env os ''STEAM_STREAM_RUN_GID'') of
        (Some uid, Some gid) \<Rightarrow>
          let home = env_nonempty os ''STEAM_STREAM_HOME'' ''/home/retro'';
              xdg = env_nonempty os ''XDG_RUNTIME_DIR'' ''/tmp/sockets'';
              user = env_nonempty os ''STEAM_STREAM_RUN_USER'' ''retro'';
              env = [''HOME='' @ home, ''USER='' @ user, ''XDG_RUNTIME_DIR='' @ xdg,
                     ''PATH=/usr/local/sbin:/usr/local/bin:/usr/sbin:/usr/bin:/sbin:/bin''] @ pulse_server_env os in
          if lo_fork os < 0 then Some (False, None)
          else Some (status = Some 0,
            Some (run_as os user uid gid (\<lambda>u g gs. child_exec ''/bin/bash'' [''bash'', script, int_to_string channels, sink_name]
              env u g gs (lo_cwd os) False)))
      | _ \<Rightarrow> None)"

definition launch_size :: "StreamSession \<Rightarrow> int \<times> int \<times> int" where
  "launch_size s =
     (let v = s_video s in
      (if v_width v > 0 then v_width v else if client_width s > 0 then client_width s else 1920,
       if v_height v > 0 then v_height v else if client_height s > 0 then client_height s else 1080,
       if v_fps v > 0 then v_fps v else if client_fps s > 0 then client_fps s else 60))"

definition passthrough_keys :: "string list" where
  "passthrough_keys = [''NVIDIA_DRIVER_CAPABILITIES'', ''NVIDIA_VISIBLE_DEVICES'',
     ''LD_LIBRARY_PATH'', ''WLR_RENDERER'', ''WLR_NO_HARDWARE_CURSORS'',
     ''STEAM_STARTUP_FLAGS'', ''GAMESCOPE_MODE'', ''GAMESCOPE_XWAYLAND_COUNT'',
     ''STEAM_MULTIPLE_XWAYLANDS'', ''PROTON_LOG'', ''DISPLAY'']"

definition launch_env :: "launch_os \<Rightarrow> StreamSession \<Rightarrow> string \<Rightarrow> string \<Rightarrow> string list" where
  "launch_env os s wayland_display pulse_sink =
     (let spec = spec_for s;
          home = env_nonempty os ''STEAM_STREAM_HOME'' ''/home/retro'';
          xdg = env_nonempty os ''XDG_RUNTIME_DIR'' ''/tmp/sockets'';
          user = env_nonempty os ''STEAM_STREAM_RUN_USER'' ''retro'';
          (w, h, fps) = launch_size s;
          env = [''HOME='' @ home, ''USER='' @ user, ''LOGNAME='' @ user, ''XDG_RUNTIME_DIR='' @ xdg,
                 ''WAYLAND_DISPLAY='' @ wayland_display, ls_gow_var spec, ''APPIMAGE_EXTRACT_AND_RUN=1'',
                 ''PULSE_SINK='' @ (if pulse_sink = [] then env_nonempty os ''PULSE_SINK'' ''steam-stream'' else pulse_sink),
                 ''GAMESCOPE_WIDTH='' @ int_to_string w, ''GAMESCOPE_HEIGHT='' @ int_to_string h,
                 ''GAMESCOPE_REFRESH='' @ int_to_string fps,
                 ''PATH=/usr/local/sbin:/usr/local/bin:/usr/sbin:/usr/bin:/sbin:/bin:/usr/games'']
            @ pulse_server_env os
            @ (if ls_is_sway spec \<and> lo_getenv os ''WLR_RENDERER'' = None
               then [''WLR_RENDERER=pixman'', ''WLR_NO_HARDWARE_CURSORS=1''] else []) in
      foldl (push_passthrough os) env passthrough_keys)"

definition launch_app :: "launch_os \<Rightarrow> StreamSession \<Rightarrow> string \<Rightarrow> string \<Rightarrow> launched option" where
  "launch_app os s wayland_display pulse_sink =
     (let script = env_nonempty os ''STEAM_STREAM_LAUNCH_SCRIPT'' ''/opt/gow/startup-app.sh'' in
      if \<not> lo_readable os script then Some \<lparr>la_pid = -1, la_chmod = [], la_child = None\<rparr>
      else case (id_from_env os ''STEAM_STREAM_RUN_UID'', id_from_env os ''STEAM_STREAM_RUN_GID'') of
        (Some uid, Some gid) \<Rightarrow>
          let home = env_nonempty os ''STEAM_STREAM_HOME'' ''/home/retro'';
              xdg = env_nonempty os ''XDG_RUNTIME_DIR'' ''/tmp/sockets'';
              user = env_nonempty os ''STEAM_STREAM_RUN_USER'' ''retro'';
              chmods = (if wayland_display \<noteq> [] \<and> hd wayland_display \<noteq> CHR ''/''
                        then [xdg @ ''/'' @ wayland_display] else []) in
          if lo_fork os < 0 then Some \<lparr>la_pid = -1, la_chmod = chmods, la_child = None\<rparr>
          else Some \<lparr>la_pid = lo_fork os, la_chmod = chmods,
                 la_child = Some (run_as os user uid gid (\<lambda>u g gs. child_exec ''/bin/bash'' [''bash'', script]
                   (launch_env os s wayland_display pulse_sink) u g gs (if lo_chdir_ok os home then home else lo_cwd os) True))\<rparr>
      | _ \<Rightarrow> None)"

section \<open>Properties\<close>

lemma run_as_root:
  "lo_euid os = 0 \<Longrightarrow> run_as os user uid gid (\<lambda>u g gs. child_exec prog args env u g gs d t) = child_exec p a e u g gs d' t' \<Longrightarrow>
   lo_setgid_ok os \<and> lo_setuid_ok os \<and> u = uid \<and> g = gid \<and>
   gs = (case lo_initgroups os user gid of Some gs \<Rightarrow> gs | None \<Rightarrow> lo_groups os)"
  by (auto simp: run_as_def Let_def split: if_splits)

text \<open> C34: A server running as root never executes the sink script or the application before it has become the
  configured user: both identity changes have succeeded, and the program runs under the configured
  numbers cut to 32 bits, so as root only if the configured number is a multiple of \<open>2 ^ 32\<close>. The
  supplementary groups are those of the configured user, or, because the answer of \<open>initgroups\<close>
  is ignored, still those of the server. \<close>

theorem privileges_dropped:
  assumes "lo_euid os = 0"
    and "launch_app os s display sink = Some r \<and> la_child r = Some (child_exec prog args env u g gs d t) \<or>
      ensure_audio_sink os status ch sink = Some (done, Some (child_exec prog args env u g gs d t))"
  shows "lo_setgid_ok os \<and> lo_setuid_ok os \<and>
    (lo_initgroups os (env_nonempty os ''STEAM_STREAM_RUN_USER'' ''retro'') g = Some gs \<or>
     lo_initgroups os (env_nonempty os ''STEAM_STREAM_RUN_USER'' ''retro'') g = None \<and> gs = lo_groups os) \<and>
    (\<exists>n m. stoul (env_nonempty os ''STEAM_STREAM_RUN_UID'' ''1000'') = Some n \<and> u = n mod 2 ^ 32 \<and>
      stoul (env_nonempty os ''STEAM_STREAM_RUN_GID'' ''1000'') = Some m \<and> g = m mod 2 ^ 32)"
proof -
  obtain uid gid prog' args' env' d' t' where i: "id_from_env os ''STEAM_STREAM_RUN_UID'' = Some uid"
    "id_from_env os ''STEAM_STREAM_RUN_GID'' = Some gid"
    "run_as os (env_nonempty os ''STEAM_STREAM_RUN_USER'' ''retro'') uid gid
       (\<lambda>u g gs. child_exec prog' args' env' u g gs d' t') = child_exec prog args env u g gs d t"
    using assms(2) by (auto simp only: launch_app_def ensure_audio_sink_def Let_def launched.simps option.inject prod.inject
        split: if_splits option.splits) blast+
  from run_as_root [OF assms(1) i(3)] i(1,2) show ?thesis by (auto simp: id_from_env_def split: option.splits)
qed

definition demo_launch_os :: launch_os where
  "demo_launch_os = \<lparr>lo_getenv = (\<lambda>k. if k = ''STEAM_STREAM_RUN_UID'' then Some ''1001'' else None), lo_readable = (\<lambda>_. True),
     lo_fork = 321, lo_euid = 0, lo_egid = 0, lo_groups = [0], lo_initgroups = (\<lambda>_ g. Some [g, 44]),
     lo_chdir_ok = (\<lambda>_. True), lo_cwd = ''/'', lo_setgid_ok = True, lo_setuid_ok = True\<rparr>"

lemma demo_ids:
  "id_from_env demo_launch_os ''STEAM_STREAM_RUN_UID'' = Some 1001"
  "id_from_env demo_launch_os ''STEAM_STREAM_RUN_GID'' = Some 1000"
proof -
  have "env_nonempty demo_launch_os ''STEAM_STREAM_RUN_UID'' ''1000'' = ''1001''"
    "env_nonempty demo_launch_os ''STEAM_STREAM_RUN_GID'' ''1000'' = ''1000''" by code_simp+
  moreover have "stoul ''1001'' = Some 1001" "stoul ''1000'' = Some 1000"
    by (simp_all add: stoul_def isspace_def isdigit_def dec_value_def)
  ultimately show "id_from_env demo_launch_os ''STEAM_STREAM_RUN_UID'' = Some 1001"
    "id_from_env demo_launch_os ''STEAM_STREAM_RUN_GID'' = Some 1000" by (simp_all add: id_from_env_def)
qed

theorem privileges_dropped_witness:
  "\<exists>r prog args env u g gs d t. launch_app demo_launch_os default_session ''wayland-1'' '''' = Some r \<and>
     la_child r = Some (child_exec prog args env u g gs d t) \<and> u mod 2 ^ 32 = u \<and> lo_setuid_ok demo_launch_os"
proof -

  have os: "lo_readable demo_launch_os f = True" "lo_fork demo_launch_os = 321" "lo_euid demo_launch_os = 0"
    "lo_setgid_ok demo_launch_os = True" "lo_setuid_ok demo_launch_os = True" for f by (simp_all add: demo_launch_os_def)
  have "\<exists>r. launch_app demo_launch_os default_session ''wayland-1'' '''' = Some r \<and>
      (\<exists>prog args env u g gs d t. la_child r = Some (child_exec prog args env u g gs d t))"
    by (simp only: launch_app_def Let_def os demo_ids option.case prod.case run_as_def) auto
  then obtain r prog args env u g gs d t where r: "launch_app demo_launch_os default_session ''wayland-1'' '''' = Some r"
    "la_child r = Some (child_exec prog args env u g gs d t)" by blast
  from privileges_dropped [OF os(3) disjI1 [OF conjI [OF r]]] r
  have "lo_setuid_ok demo_launch_os" "u mod 2 ^ 32 = u" by auto
  with r show ?thesis by blast
qed

end
