(* ===== verification/Media.thy ===== *)
theory Media
  imports Control PointerSync Launcher
begin

unbundle bit_operations_syntax

text \<open>
  \<open>server/media.cpp\<close>: the pipelines of a session, the two RTP sinks, the virtual gamepads and the
  teardown of the application. GStreamer, the sockets, \<open>/proc\<close> and the \<open>fmt\<close> library are parameters
  of the record \<open>media_env\<close>; what a step does to them is its list of \<open>media_out\<close>.

  \<open>media_session\<close> is the class. Its destructor calls \<open>stop\<close>; the two sinks are leaked on purpose and
  outlive it, with their listener threads.
\<close>

section \<open>Signals to processes\<close>

text \<open>What one look at \<open>/proc\<close> shows: the entry names, their process groups, and \<open>comm\<close> files.\<close>

record proc_view =
  pv_entries :: "string list option"
  pv_pgid :: "int \<Rightarrow> int"
  pv_comm :: "int \<Rightarrow> string"

definition strtol_all :: "string \<Rightarrow> int option" where
  "strtol_all s =
     (if s = [] then Some 0
      else if snd (signed_digits s) \<noteq> [] \<and> suffix (snd (signed_digits s)) s then Some (atol s) else None)"

definition group_pids :: "proc_view \<Rightarrow> int \<Rightarrow> int list" where
  "group_pids pv pgid =
     (case pv_entries pv of None \<Rightarrow> []
      | Some names \<Rightarrow> concat (map (\<lambda>name.
          case strtol_all name of None \<Rightarrow> []
          | Some pid \<Rightarrow>
            let p = sint (word_of_int pid :: 32 word) in
            if pid > 0 \<and> pv_pgid pv p = pgid then [p] else []) names))"

definition proc_comm :: "proc_view \<Rightarrow> int \<Rightarrow> string" where
  "proc_comm pv pid = takeWhile (\<lambda>c. c \<noteq> CHR 0x0A) (pv_comm pv pid)"

text \<open>The answers during one teardown, by the index of the poll.\<close>

record app_env =
  ae_now :: proc_view
  ae_view :: "nat \<Rightarrow> proc_view"
  ae_alive_term :: "nat \<Rightarrow> bool"
  ae_alive_kill :: "nat \<Rightarrow> bool"

datatype app_action =
    term_process int
  | term_group int
  | kill_group int
  | sleep_100ms

text \<open>A loop of at most \<open>n\<close> polls with a sleep after each that fails: the result and the sleeps.\<close>

fun poll_until :: "(nat \<Rightarrow> bool) \<Rightarrow> nat \<Rightarrow> nat \<Rightarrow> bool \<times> nat" where
  "poll_until ok i 0 = (False, 0)"
| "poll_until ok i (Suc n) =
     (if ok i then (True, 0) else case poll_until ok (Suc i) n of (r, k) \<Rightarrow> (r, Suc k))"

definition steam_gone :: "proc_view \<Rightarrow> int \<Rightarrow> bool" where
  "steam_gone pv pid =
     list_all (\<lambda>p. \<not> (proc_comm pv p = ''steam'' \<or> proc_comm pv p = ''steamwebhelper'')) (group_pids pv pid)"

definition wait_for_steam :: "app_env \<Rightarrow> int \<Rightarrow> app_action list" where
  "wait_for_steam env pid =
     (let steam = filter (\<lambda>p. proc_comm (ae_now env) p = ''steam'') (group_pids (ae_now env) pid) in
      if steam = [] then []
      else map term_process steam @
        replicate (snd (poll_until (\<lambda>i. steam_gone (ae_view env i) pid) 0 150)) sleep_100ms)"

definition stop_app :: "app_env \<Rightarrow> int \<Rightarrow> app_action list \<times> bool" where
  "stop_app env pid =
     (let (dead, k) = poll_until (\<lambda>i. \<not> ae_alive_term env i) 0 50;
          acts = wait_for_steam env pid @ term_group pid # replicate k sleep_100ms in
      if dead then (acts, True)
      else case poll_until (\<lambda>i. \<not> ae_alive_kill env i) 0 20 of
        (dead, k) \<Rightarrow> (acts @ kill_group pid # replicate k sleep_100ms, dead))"

section \<open>RTP sinks\<close>

type_synonym address = "u32 \<times> u16"

record UDPSink =
  us_port :: nat
  us_label :: string
  us_client_ip :: string
  us_bound :: bool
  us_have_client :: bool
  us_dest :: address
  us_count :: nat

definition new_sink :: "nat \<Rightarrow> string \<Rightarrow> string \<Rightarrow> bool \<Rightarrow> UDPSink" where
  "new_sink port label ip bound = \<lparr>us_port = port, us_label = label, us_client_ip = ip, us_bound = bound,
     us_have_client = False, us_dest = (0, 0), us_count = 0\<rparr>"

definition sink_send :: "UDPSink \<Rightarrow> bytes \<Rightarrow> (address \<times> bytes) list" where
  "sink_send s b = (if us_have_client s then [(us_dest s, b)] else [])"

text \<open>A sample from the appsink: none, a list of buffers or one buffer, where mapping a buffer can fail.\<close>

datatype sample = no_sample | buffer_list "bytes option list" | single_buffer "bytes option" | empty_sample

fun send_buffers :: "bytes option list \<Rightarrow> UDPSink \<Rightarrow> UDPSink \<times> (address \<times> bytes) list" where
  "send_buffers [] s = (s, [])"
| "send_buffers (None # bs) s = send_buffers bs s"
| "send_buffers (Some b # bs) s =
     (case send_buffers bs (s\<lparr>us_count := us_count s + 1\<rparr>) of (s', out) \<Rightarrow> (s', sink_send s b @ out))"

fun on_new_sample :: "sample \<Rightarrow> UDPSink \<Rightarrow> (bool \<times> UDPSink \<times> (address \<times> bytes) list)" where
  "on_new_sample no_sample s = (False, s, [])"
| "on_new_sample (buffer_list bs) s = (True, send_buffers bs s)"
| "on_new_sample (single_buffer b) s = (True, send_buffers [b] s)"
| "on_new_sample empty_sample s = (True, s, [])"

text \<open>One datagram of \<open>n\<close> bytes; a result of \<open>recvfrom\<close> that is not positive is skipped.\<close>

definition listener_step :: "int \<Rightarrow> address \<Rightarrow> UDPSink \<Rightarrow> UDPSink" where
  "listener_step n from_addr s =
     (if \<not> us_bound s \<or> n \<le> 0 then s
      else
        let first = \<not> us_have_client s;
            moved = (\<not> first \<and> us_dest s \<noteq> from_addr) in
        if first \<or> moved then s\<lparr>us_dest := from_addr, us_have_client := True\<rparr> else s)"

definition retarget_sink :: "UDPSink \<Rightarrow> UDPSink" where
  "retarget_sink s = s\<lparr>us_have_client := False\<rparr>"

section \<open>Pipelines\<close>

record pipeline =
  pl_desc :: string
  pl_connected :: bool
  pl_bitrate :: u32
  pl_vbv :: u32
  pl_aes_key :: string
  pl_aes_iv :: string

record media_env =
  me_config :: config_os
  me_have :: "string \<Rightarrow> bool"
  me_fmt :: "string \<Rightarrow> (string \<times> string) list \<Rightarrow> string option"
  me_parse :: "string \<Rightarrow> pipeline option"
  me_element :: "string \<Rightarrow> string \<Rightarrow> bool"
  me_plays :: "string \<Rightarrow> bool"
  me_bind :: "nat \<Rightarrow> bool"
  me_launch :: launch_os
  me_sink_status :: "nat option"
  me_uinput :: uinput_os
  me_udev :: udev_os
  me_now :: int
  me_app :: app_env

definition me_getenv :: "media_env \<Rightarrow> string \<Rightarrow> string option" where
  "me_getenv env = co_getenv (me_config env)"

definition color_range_str :: "ColorRange \<Rightarrow> string" where
  "color_range_str r = (case r of JPEG \<Rightarrow> ''jpeg'' | MPEG \<Rightarrow> ''mpeg2'')"

definition color_space_str :: "ColorSpace \<Rightarrow> string" where
  "color_space_str s = (case s of BT709 \<Rightarrow> ''bt709'' | BT2020 \<Rightarrow> ''bt2020'' | _ \<Rightarrow> ''bt601'')"

definition channel_mask :: "int \<Rightarrow> string" where
  "channel_mask ch = (if ch = 2 then ''0x3'' else if ch = 6 then ''0x3f'' else if ch = 8 then ''0xc3f'' else ''0x3'')"

text \<open>
  The product is computed in \<open>long\<close>; where it leaves it, which the language leaves open, it wraps here as
  on the target. Truncation and rounding down differ on negative products only, whose quotient is not used.
\<close>

definition encoder_vbv_kbit :: "(string \<Rightarrow> string option) \<Rightarrow> int \<Rightarrow> int \<Rightarrow> int" where
  "encoder_vbv_kbit getenv bitrate_kbps fps =
     (let ms = (case getenv ''STEAM_STREAM_VBV_MS'' of Some e \<Rightarrow> if atol e > 0 then atol e else 500 | None \<Rightarrow> 500);
          vbv = sint (word_of_int (bitrate_kbps * ms) :: 64 word) div 1000 in
      if vbv > 0 then vbv else bitrate_kbps)"

definition zero_copy_env :: "(string \<Rightarrow> string option) \<Rightarrow> bool" where
  "zero_copy_env getenv =
     (case getenv ''WOLF_USE_ZERO_COPY'' of None \<Rightarrow> False | Some v \<Rightarrow> v \<noteq> ''FALSE'' \<and> v \<noteq> ''false'')"

definition video_template :: "bool \<Rightarrow> EncoderConfig \<Rightarrow> GstEncoder \<Rightarrow> string" where
  "video_template zero_copy_wanted cfg enc =
     (let v = ec_video cfg;
          (source, params) =
            (case (zero_copy_wanted, vc_default_source_zero_copy v, video_params_zero_copy enc) of
               (True, Some s, Some p) \<Rightarrow> (s, p) | _ \<Rightarrow> (vc_default_source v, video_params enc)) in
      source @ '' ! '' @ params @ '' ! '' @ encoder_pipeline enc @ '' ! '' @ vc_default_sink v)"

definition video_args :: "(string \<Rightarrow> string option) \<Rightarrow> VideoParams \<Rightarrow> string \<Rightarrow> (string \<times> string) list" where
  "video_args getenv v render_node =
     [(''node'', render_node), (''width'', int_to_string (v_width v)), (''height'', int_to_string (v_height v)),
      (''fps'', int_to_string (v_fps v)), (''color_range'', color_range_str (v_color_range v)),
      (''color_space'', color_space_str (v_color_space v)), (''bitrate'', int_to_string (v_bitrate_kbps v)),
      (''vbv_buffer_size'', int_to_string (encoder_vbv_kbit getenv (v_bitrate_kbps v) (v_fps v))),
      (''slices_per_frame'', int_to_string (v_slices_per_frame v)), (''payload_size'', int_to_string (v_packet_size v)),
      (''fec_percentage'', int_to_string (v_fec_percentage v)),
      (''min_required_fec_packets'', int_to_string (v_min_required_fec_packets v))]"

text \<open>\<open>None\<close> is an exception of the \<open>fmt\<close> library. The second result is the state of the configuration files.\<close>

definition build_video_pipeline ::
  "media_env \<Rightarrow> StreamSession \<Rightarrow> string \<Rightarrow> config_os \<Rightarrow> string option \<times> config_os" where
  "build_video_pipeline env s render_node files =
     (let (cfg, files) = load_or_seed files in
      case select_encoder (me_have env) cfg (v_format (s_video s)) of
        None \<Rightarrow> (Some '''', files)
      | Some enc \<Rightarrow>
        (me_fmt env (video_template (zero_copy_env (me_getenv env)) cfg enc)
           (video_args (me_getenv env) (s_video s) render_node), files))"

definition build_audio_pipeline ::
  "media_env \<Rightarrow> StreamSession \<Rightarrow> bool \<Rightarrow> config_os \<Rightarrow> string option \<times> config_os" where
  \<open>build_audio_pipeline env s use_test_src files =
     (let (cfg, files) = load_or_seed files;
          a = ec_audio cfg; sa = s_audio s;
          src = (if use_test_src then Some ''audiotestsrc is-live=true wave=sine ! audiorate ! audioconvert ! audioresample''
            else me_fmt env (ac_default_source a) [(''sink_name'', ac_sink_name a),
              (''server'', env_or (me_getenv env) ''PULSE_SERVER'' '''')]) in
      (case src of None \<Rightarrow> None
       | Some src \<Rightarrow>
         (case me_fmt env (ac_default_opus_encoder a)
             [(''bitrate'', int_to_string (bitrate_for_channels a (a_channels sa))),
              (''packet_duration'', int_to_string (a_packet_duration sa))] of
            None \<Rightarrow> None
          | Some enc \<Rightarrow>
            Some (src @ '' ! audio/x-raw,channels='' @ int_to_string (a_channels sa) @ '',channel-mask=(bitmask)'' @
              channel_mask (a_channels sa) @ '',rate=48000 ! '' @ enc @
              '' ! rtpmoonlightpay_audio name=moonlight_pay packet_duration='' @ int_to_string (a_packet_duration sa) @
              '' encrypt='' @ (if a_encrypt sa then ''true'' else ''false'') @
              '' aes_key="'' @ s_aes_key s @ ''" aes_iv="'' @ s_aes_iv s @ ''" ! appsink name=audio_sink sync=false'')),
       files))\<close>

definition launch :: "media_env \<Rightarrow> string \<Rightarrow> string \<Rightarrow> pipeline option" where
  "launch env desc sink_name =
     (case me_parse env desc of None \<Rightarrow> None
      | Some pl \<Rightarrow>
        if \<not> me_plays env desc then None
        else Some (pl\<lparr>pl_desc := desc, pl_connected := me_element env desc sink_name\<rparr>))"

end
