(* ===== verification/MediaSession.thy ===== *)
theory MediaSession
  imports Media
begin

unbundle bit_operations_syntax

text \<open>
  The class \<open>MediaSession\<close> of \<open>server/media.cpp\<close>: its state, its start, the calls of the control server,
  what a resumed client needs, and its end. The world of fake udev entries is threaded through, since
  gamepads are created and destroyed here.
\<close>

section \<open>State and effects\<close>

datatype gst_structure =
    MouseMoveRelative int int
  | MouseMoveAbsolute rat rat
  | MouseButton u32 bool
  | MouseAxis int int
  | KeyboardKey u32 bool

datatype media_out =
    wayland_event gst_structure
  | pad_ioctls "ioctl list"
  | pad_events int "input_event list"
  | force_key_unit
  | app_signal app_action
  | sink_script child
  | pointer_sync_joined
  | wayland_released
  | video_stopped
  | audio_stopped

record media_session =
  md_session :: session_ptr
  md_video :: "pipeline option"
  md_wayland :: bool
  md_audio :: "pipeline option"
  md_audio_channels :: int
  md_app_pid :: int
  md_gamepads :: "(int, gamepad) std_map"
  md_pointer_sync :: "pointer_sync option"
  md_video_sink :: "UDPSink option"
  md_audio_sink :: "UDPSink option"

definition new_media_session :: "session_ptr \<Rightarrow> media_session" where
  "new_media_session p = \<lparr>md_session = p, md_video = None, md_wayland = False, md_audio = None, md_audio_channels = 2,
     md_app_pid = -1, md_gamepads = [], md_pointer_sync = None, md_video_sink = None, md_audio_sink = None\<rparr>"

definition is_active :: "media_session \<Rightarrow> bool" where
  "is_active ms = (md_video ms \<noteq> None)"

section \<open>Input\<close>

definition send_wayland_event :: "media_session \<Rightarrow> gst_structure \<Rightarrow> media_out list" where
  "send_wayland_event ms msg = (if \<not> md_wayland ms then [] else [wayland_event msg])"

definition note_mouse :: "media_env \<Rightarrow> media_session \<Rightarrow> media_session" where
  "note_mouse env ms = ms\<lparr>md_pointer_sync := map_option (note_client_mouse (me_now env)) (md_pointer_sync ms)\<rparr>"

definition add_gamepad ::
  "media_env \<Rightarrow> int \<Rightarrow> media_session \<Rightarrow> udev_world \<Rightarrow> bool \<times> media_session \<times> udev_world \<times> media_out list" where
  "add_gamepad env nr ms w =
     (case VirtualGamepad_create (me_uinput env) (me_udev env) w of
        (None, reqs, w) \<Rightarrow> (False, ms, w, [pad_ioctls reqs])
      | (Some pad, reqs, w) \<Rightarrow> (True, ms\<lparr>md_gamepads := mput nr pad (md_gamepads ms)\<rparr>, w, [pad_ioctls reqs]))"

definition md_gamepad_arrival ::
  "media_env \<Rightarrow> int \<Rightarrow> media_session \<Rightarrow> udev_world \<Rightarrow> media_session \<times> udev_world \<times> media_out list" where
  "md_gamepad_arrival env nr ms w =
     (if mfind (md_gamepads ms) nr \<noteq> None then (ms, w, []) else snd (add_gamepad env nr ms w))"

text \<open>Shifting \<open>1u\<close> by 32 or more is undefined: \<open>None\<close>.\<close>

definition mask_bit :: "u16 \<Rightarrow> int \<Rightarrow> bool option" where
  "mask_bit active nr =
     (if nr < 0 \<or> nr \<ge> 32 then None
      else Some ((ucast active :: u32) AND push_bit (nat nr) 1 \<noteq> 0))"

definition update_pad ::
  "media_env \<Rightarrow> int \<Rightarrow> pad_state \<Rightarrow> gamepad \<Rightarrow> media_session \<Rightarrow> media_session \<times> media_out list" where
  "update_pad env nr p pad ms =
     (case VirtualGamepad_update pad p (me_now env) of
        (pad, events) \<Rightarrow> (ms\<lparr>md_gamepads := mput nr pad (md_gamepads ms)\<rparr>, [pad_events nr events]))"

definition remove_pad ::
  "media_env \<Rightarrow> int \<Rightarrow> media_session \<Rightarrow> udev_world \<Rightarrow> media_session \<times> udev_world \<times> media_out list" where
  "remove_pad env nr ms w =
     (case mfind (md_gamepads ms) nr of
        None \<Rightarrow> (ms, w, [])
      | Some pad \<Rightarrow>
        (case VirtualGamepad_destroy (me_udev env) pad w of
           (reqs, w) \<Rightarrow> (ms\<lparr>md_gamepads := merase nr (md_gamepads ms)\<rparr>, w, [pad_ioctls reqs])))"

definition md_gamepad_update ::
  "media_env \<Rightarrow> int \<Rightarrow> u16 \<Rightarrow> pad_state \<Rightarrow> media_session \<Rightarrow> udev_world \<Rightarrow>
    (media_session \<times> udev_world \<times> media_out list) option" where
  "md_gamepad_update env nr active p ms w =
     (case mask_bit active nr of
        None \<Rightarrow> None
      | Some False \<Rightarrow> Some (remove_pad env nr ms w)
      | Some True \<Rightarrow>
        (case mfind (md_gamepads ms) nr of
           Some pad \<Rightarrow> (case update_pad env nr p pad ms of (ms, out) \<Rightarrow> Some (ms, w, out))
         | None \<Rightarrow>
           (case add_gamepad env nr ms w of
              (created, ms, w, out) \<Rightarrow>
                (case mfind (md_gamepads ms) nr of
                   None \<Rightarrow> Some (ms, w, out)
                 | Some pad \<Rightarrow> (case update_pad env nr p pad ms of (ms, out') \<Rightarrow> Some (ms, w, out @ out'))))))"

text \<open>The calls of the control server.\<close>

fun media_exec ::
  "media_env \<Rightarrow> media_call \<Rightarrow> media_session \<Rightarrow> udev_world \<Rightarrow> (media_session \<times> udev_world \<times> media_out list) option" where
  "media_exec env (mouse_move_rel dx dy) ms w =
     (let ms = note_mouse env ms in Some (ms, w, send_wayland_event ms (MouseMoveRelative dx dy)))"
| "media_exec env (mouse_move_abs x y) ms w =
     (let ms = note_mouse env ms in Some (ms, w, send_wayland_event ms (MouseMoveAbsolute x y)))"
| "media_exec env (mouse_button b pressed) ms w =
     Some (ms, w, send_wayland_event ms (MouseButton (word_of_int b) pressed))"
| "media_exec env (mouse_axis x y) ms w = Some (ms, w, send_wayland_event ms (MouseAxis x y))"
| "media_exec env (keyboard_key k pressed) ms w =
     Some (ms, w, send_wayland_event ms (KeyboardKey (word_of_int k) pressed))"
| "media_exec env (gamepad_arrival nr) ms w = Some (md_gamepad_arrival env nr ms w)"
| "media_exec env (gamepad_update nr active buttons lt rt lx ly rx ry) ms w =
     md_gamepad_update env nr active
       \<lparr>ps_buttons = buttons, ps_left_trigger = lt, ps_right_trigger = rt, ps_left_x = lx, ps_left_y = ly,
        ps_right_x = rx, ps_right_y = ry\<rparr> ms w"

text \<open>What the pointer synchronisation injects does not count as activity of the client.\<close>

definition pointer_poll :: "poll_env \<Rightarrow> media_session \<Rightarrow> media_session \<times> media_out list" where
  "pointer_poll penv ms =
     (case md_pointer_sync ms of None \<Rightarrow> (ms, [])
      | Some ps \<Rightarrow>
        (case poll penv ps of (ps, injs) \<Rightarrow>
          (ms\<lparr>md_pointer_sync := Some ps\<rparr>,
           concat (map (\<lambda>(x, y). send_wayland_event ms (MouseMoveAbsolute (of_int x) (of_int y))) injs))))"

section \<open>Resume\<close>

definition force_idr :: "media_session \<Rightarrow> media_out list" where
  "force_idr ms = (if md_video ms \<noteq> None then [force_key_unit] else [])"

definition update_bitrate :: "media_env \<Rightarrow> int \<Rightarrow> int \<Rightarrow> media_session \<Rightarrow> media_session" where
  "update_bitrate env bitrate_kbps fps ms =
     (case md_video ms of None \<Rightarrow> ms
      | Some pl \<Rightarrow>
        if bitrate_kbps \<le> 0 then ms
        else if \<not> me_element env (pl_desc pl) ''video_encoder'' then ms
        else if uint (pl_bitrate pl) = bitrate_kbps then ms
        else ms\<lparr>md_video := Some (pl\<lparr>pl_bitrate := word_of_int bitrate_kbps,
               pl_vbv := word_of_int (encoder_vbv_kbit (me_getenv env) bitrate_kbps fps)\<rparr>)\<rparr>)"

definition retarget :: "media_env \<Rightarrow> StreamSession \<Rightarrow> media_session \<Rightarrow> media_session" where
  "retarget env s ms =
     (let ms = ms\<lparr>md_video_sink := map_option retarget_sink (md_video_sink ms),
                  md_audio_sink := map_option retarget_sink (md_audio_sink ms)\<rparr> in
      case md_audio ms of None \<Rightarrow> ms
      | Some pl \<Rightarrow>
        if s_aes_key s = [] then ms
        else if \<not> me_element env (pl_desc pl) ''moonlight_pay'' then ms
        else ms\<lparr>md_audio := Some (pl\<lparr>pl_aes_key := s_aes_key s, pl_aes_iv := s_aes_iv s\<rparr>)\<rparr>)"

text \<open>The result is \<open>None\<close> in its first part if building the description throws; the old pipeline is gone then.\<close>

definition rebuild_audio ::
  "media_env \<Rightarrow> StreamSession \<Rightarrow> media_session \<Rightarrow> config_os \<Rightarrow> bool \<times> media_session \<times> config_os \<times> media_out list" where
  "rebuild_audio env s ms files =
     (let out = (if md_audio ms \<noteq> None then [audio_stopped] else []);
          ms = ms\<lparr>md_audio := None\<rparr> in
      case build_audio_pipeline env s (me_getenv env ''STEAM_STREAM_AUDIO_TEST'' \<noteq> None) files of
        (None, files) \<Rightarrow> (False, ms, files, out)
      | (Some desc, files) \<Rightarrow>
        (True, ms\<lparr>md_audio := launch env desc ''audio_sink'', md_audio_channels := a_channels (s_audio s)\<rparr>, files, out))"

section \<open>End\<close>

fun destroy_pads :: "media_env \<Rightarrow> (int, gamepad) std_map \<Rightarrow> udev_world \<Rightarrow> udev_world \<times> media_out list" where
  "destroy_pads env [] w = (w, [])"
| "destroy_pads env ((nr, pad) # pads) w =
     (case VirtualGamepad_destroy (me_udev env) pad w of
        (reqs, w) \<Rightarrow> (case destroy_pads env pads w of (w, out) \<Rightarrow> (w, pad_ioctls reqs # out)))"

definition md_stop :: "media_env \<Rightarrow> media_session \<Rightarrow> udev_world \<Rightarrow> media_session \<times> udev_world \<times> media_out list" where
  "md_stop env ms w =
     (let app_out = (if md_app_pid ms > 0 then map app_signal (fst (stop_app (me_app env) (md_app_pid ms))) else []);
          (w, pads_out) = destroy_pads env (md_gamepads ms) w;
          out = app_out @ pads_out
            @ (if md_pointer_sync ms \<noteq> None then [pointer_sync_joined] else [])
            @ (if md_wayland ms then [wayland_released] else [])
            @ (if md_video ms \<noteq> None then [video_stopped] else [])
            @ (if md_audio ms \<noteq> None then [audio_stopped] else []) in
      (ms\<lparr>md_app_pid := -1, md_gamepads := [], md_pointer_sync := None, md_wayland := False, md_video := None,
          md_audio := None\<rparr>, w, out))"

section \<open>Start\<close>

definition pointer_sync_wanted :: "(string \<Rightarrow> string option) \<Rightarrow> bool" where
  "pointer_sync_wanted getenv =
     (case getenv ''STEAM_STREAM_POINTER_SYNC'' of None \<Rightarrow> True | Some v \<Rightarrow> v \<noteq> ''0'' \<and> v \<noteq> ''false'')"

text \<open>The video half: listener, pipeline, the first gamepad, and the compositor's input source.\<close>

definition start_video ::
  "media_env \<Rightarrow> StreamSession \<Rightarrow> string \<Rightarrow> media_session \<Rightarrow> udev_world \<Rightarrow> media_session \<times> udev_world \<times> media_out list" where
  "start_video env s desc ms w =
     (let ms = ms\<lparr>md_video := launch env desc ''video_sink''\<rparr>;
          (created, ms, w, out) = add_gamepad env 0 ms w;
          ms = (if md_video ms = None then ms else ms\<lparr>md_wayland := me_element env desc ''wolf_wayland_source''\<rparr>);
          ms = (if md_wayland ms \<and> pointer_sync_wanted (me_getenv env)
                then ms\<lparr>md_pointer_sync := Some new_pointer_sync\<rparr> else ms) in
      (ms, w, out))"

text \<open>
  The result: whether no exception was thrown, the object, the files, the world and the effects. After
  an exception the object is destroyed, which stops it.
\<close>

definition aborted ::
  "media_env \<Rightarrow> media_session \<Rightarrow> config_os \<Rightarrow> udev_world \<Rightarrow> media_out list \<Rightarrow>
    bool \<times> media_session \<times> config_os \<times> udev_world \<times> media_out list" where
  "aborted env ms files w out = (case md_stop env ms w of (ms, w, out') \<Rightarrow> (False, ms, files, w, out @ out'))"

definition md_start ::
  "media_env \<Rightarrow> session_ptr \<Rightarrow> StreamSession \<Rightarrow> string \<Rightarrow> config_os \<Rightarrow> udev_world \<Rightarrow>
    bool \<times> media_session \<times> config_os \<times> udev_world \<times> media_out list" where
  "md_start env p s render_node files w =
     (let ms = new_media_session p;
          audio_test = (me_getenv env ''STEAM_STREAM_AUDIO_TEST'' \<noteq> None);
          (cfg, files) = load_or_seed files;
          channels = a_channels (s_audio s) in
      case ensure_audio_sink (me_launch env) (me_sink_status env) channels (ac_sink_name (ec_audio cfg)) of
        None \<Rightarrow> aborted env ms files w []
      | Some (done, child) \<Rightarrow>
        let out = (case child of Some c \<Rightarrow> [sink_script c] | None \<Rightarrow> []);
            ms = ms\<lparr>md_audio_channels := channels,
              md_video_sink := Some (new_sink (video_stream_port s) ''video'' (client_ip s) (me_bind env (video_stream_port s)))\<rparr> in
        (case build_video_pipeline env s render_node files of
           (None, files) \<Rightarrow> aborted env ms files w out
         | (Some vpipe, files) \<Rightarrow>
           (case start_video env s vpipe ms w of (ms, w, pad_out) \<Rightarrow>
             let out = out @ pad_out;
                 ms = ms\<lparr>md_audio_sink := Some (new_sink (audio_stream_port s) ''audio'' (client_ip s) (me_bind env (audio_stream_port s)))\<rparr> in
             (case build_audio_pipeline env s audio_test files of
                (None, files) \<Rightarrow> aborted env ms files w out
              | (Some apipe, files) \<Rightarrow>
                (True, ms\<lparr>md_audio := launch env apipe ''audio_sink''\<rparr>, files, w, out)))))"

text \<open>
  The thread that waits for the compositor: up to 200 messages or timeouts, then the application (or the
  stand-in of the environment) is launched. \<open>None\<close> is the exception of a malformed user number, which
  ends the process.
\<close>

datatype bus_message = bus_message string "string option"

datatype launch_choice =
    nothing_launched
  | test_client string
  | app_launched launched

fun first_display :: "nat \<Rightarrow> bus_message option list \<Rightarrow> string option" where
  "first_display 0 msgs = None"
| "first_display n [] = None"
| "first_display (Suc n) (Some (bus_message name (Some disp)) # msgs) =
     (if name = ''wayland.src'' then Some disp else first_display n msgs)"
| "first_display (Suc n) (_ # msgs) = first_display n msgs"

definition selftest_events :: "gst_structure list" where
  "selftest_events = [MouseMoveAbsolute 100 100, MouseMoveRelative 5 5, MouseButton 0x110 True, MouseAxis 0 (-1),
     KeyboardKey 30 True]"

definition watch_wayland_and_launch ::
  "media_env \<Rightarrow> StreamSession \<Rightarrow> string \<Rightarrow> string \<Rightarrow> bus_message option list \<Rightarrow>
    (launch_choice \<times> int option \<times> gst_structure list) option" where
  "watch_wayland_and_launch env s desc pulse_sink msgs =
     (let command = env_or (me_getenv env) ''STEAM_STREAM_TEST_CLIENT'' '''' in
      case first_display 200 msgs of
        None \<Rightarrow> Some (nothing_launched, None, [])
      | Some disp \<Rightarrow>
        let events = (if me_getenv env ''STEAM_STREAM_INPUT_SELFTEST'' \<noteq> None \<and> me_element env desc ''wolf_wayland_source''
                      then selftest_events else []) in
        if command \<noteq> [] then Some (test_client (command @ '' &''), None, events)
        else (case launch_app (me_launch env) s disp pulse_sink of
          None \<Rightarrow> None
        | Some l \<Rightarrow> Some (app_launched l, if la_pid l > 0 then Some (la_pid l) else None, events)))"

definition app_started :: "int \<Rightarrow> media_session \<Rightarrow> media_session" where
  "app_started pid ms = ms\<lparr>md_app_pid := pid\<rparr>"

end
