(* ===== verification/Gamepads.thy ===== *)
theory Gamepads
  imports MediaSession Simulation
begin

unbundle bit_operations_syntax

text \<open>
  The life of the virtual gamepads of a media session. The set of controllers refines a specification by
  the controller masks (locale \<open>simulation\<close>), and every device that a session creates is destroyed and
  its udev entry withdrawn when the session ends.
\<close>

section \<open>One gamepad\<close>

definition pads_work :: "media_env \<Rightarrow> bool" where
  "pads_work env \<longleftrightarrow> open_uinput (me_uinput env) \<ge> 0 \<and> ui_setup_ok (me_uinput env) \<and> ui_create_ok (me_uinput env) \<and>
     (\<forall>path. os_can_write (me_udev env) path)"

definition ioctl_balance :: "ioctl list \<Rightarrow> int" where
  "ioctl_balance reqs = int (length (filter ((=) UI_DEV_CREATE) reqs)) - int (length (filter ((=) UI_DEV_DESTROY) reqs))"

lemma ioctl_balance_append [simp]: "ioctl_balance (xs @ ys) = ioctl_balance xs + ioctl_balance ys"
  by (simp add: ioctl_balance_def)

lemma ioctl_balance_gamepad: "ioctl_balance gamepad_ioctls = 0"
  by code_simp

lemma files_send_uevent [simp]: "uw_files (snd (send_uevent os props w)) = uw_files w"
  by (simp add: send_uevent_def Let_def)

lemma plug_files:
  "uw_files (plug os dev w) path \<noteq> None \<Longrightarrow> path = kUdevCtrlPath \<or> path = hwdb_path dev \<or> uw_files w path \<noteq> None"
  by (auto simp: plug_def Let_def write_hwdb_def ensure_udev_control_def split: if_splits)

lemma unplug_files:
  "(\<forall>p. os_can_write os p) \<Longrightarrow> uw_files (unplug os dev w) = (uw_files w)(hwdb_path dev := None)"
  by (simp add: unplug_def remove_hwdb_def)

lemma create_pad:
  assumes "pads_work env"
  obtains pad reqs w' where "VirtualGamepad_create (me_uinput env) (me_udev env) w = (Some pad, reqs, w')"
    "gp_fd pad \<ge> 0" "ioctl_balance reqs = 1"
    "\<And>path. uw_files w' path \<noteq> None \<Longrightarrow>
       path = kUdevCtrlPath \<or> uw_files w path \<noteq> None \<or> gp_udev_plugged pad \<and> path = hwdb_path (gp_udev_dev pad)"
proof -
  let ?fd = "open_uinput (me_uinput env)"
  obtain ok dev where d: "device_from_uinput_fd (me_udev env) ?fd (gp_udev_dev (new_gamepad ?fd)) = (ok, dev)" by force
  have b: "ioctl_balance (gamepad_ioctls @ [UI_DEV_SETUP n v p, UI_DEV_CREATE]) = 1" for n v p
    by (simp add: ioctl_balance_gamepad) (simp add: ioctl_balance_def)
  let ?reqs = "gamepad_ioctls @ [UI_DEV_SETUP (take 79 ''steam-stream virtual gamepad'') 0x045E 0x02EA, UI_DEV_CREATE]"
  have fin: "finish_create (me_uinput env) name v p = (True, [UI_DEV_SETUP (take 79 name) v p, UI_DEV_CREATE])" for name v p
    using assms by (simp add: finish_create_def pads_work_def)
  have c: "VirtualGamepad_create (me_uinput env) (me_udev env) w =
      (Some ((new_gamepad ?fd)\<lparr>gp_udev_dev := dev, gp_udev_plugged := ok\<rparr>), ?reqs, if ok then plug (me_udev env) dev w else w)"
    using assms d by (cases ok) (simp_all add: VirtualGamepad_create_def fin pads_work_def Let_def new_gamepad_def)
  show thesis
  proof (rule that [OF c _ b])
    show "gp_fd ((new_gamepad ?fd)\<lparr>gp_udev_dev := dev, gp_udev_plugged := ok\<rparr>) \<ge> 0"
      using assms by (simp add: new_gamepad_def pads_work_def)
  qed (use plug_files [of "me_udev env" dev w] in \<open>auto split: if_splits\<close>)
qed

lemma destroy_pad:
  assumes "pads_work env" "gp_fd pad \<ge> 0"
  obtains reqs w' where "VirtualGamepad_destroy (me_udev env) pad w = (reqs, w')" "ioctl_balance reqs = -1"
    "\<And>path. uw_files w' path \<noteq> None \<Longrightarrow> uw_files w path \<noteq> None \<and> \<not> (gp_udev_plugged pad \<and> path = hwdb_path (gp_udev_dev pad))"
proof
  show "VirtualGamepad_destroy (me_udev env) pad w =
      ([UI_DEV_DESTROY], if gp_udev_plugged pad then unplug (me_udev env) (gp_udev_dev pad) w else w)"
    using assms by (simp add: VirtualGamepad_destroy_def device_destroy_def)
  show "ioctl_balance [UI_DEV_DESTROY] = -1" by (simp add: ioctl_balance_def)
qed (use assms unplug_files [of "me_udev env"] in \<open>auto simp: pads_work_def split: if_splits\<close>)

lemma update_pad_keeps:
  assumes "VirtualGamepad_update g p now = (g', ev)"
  shows "gp_fd g' = gp_fd g" "gp_udev_dev g' = gp_udev_dev g" "gp_udev_plugged g' = gp_udev_plugged g"
  using assms by (auto simp: VirtualGamepad_update_def chord_step_def Let_def split: prod.splits if_splits)

section \<open>The gamepads of a session\<close>

definition out_balance :: "media_out list \<Rightarrow> int" where
  "out_balance outs = sum_list (map (\<lambda>x. case x of pad_ioctls reqs \<Rightarrow> ioctl_balance reqs | _ \<Rightarrow> 0) outs)"

lemma out_balance_simps [simp]:
  "out_balance [] = 0"
  "out_balance (pad_ioctls reqs # outs) = ioctl_balance reqs + out_balance outs"
  "out_balance (pad_events nr ev # outs) = out_balance outs"
  "out_balance (wayland_event e # outs) = out_balance outs"
  "out_balance (app_signal a # outs) = out_balance outs"
  "out_balance (sink_script c # outs) = out_balance outs"
  "out_balance (pointer_sync_joined # outs) = out_balance outs"
  "out_balance (wayland_released # outs) = out_balance outs"
  "out_balance (video_stopped # outs) = out_balance outs"
  "out_balance (audio_stopped # outs) = out_balance outs"
  "out_balance (force_key_unit # outs) = out_balance outs"
  "out_balance (outs @ outs') = out_balance outs + out_balance outs'"
  "out_balance (map app_signal acts) = 0"
  by (simp_all add: out_balance_def comp_def)

text \<open>Every udev entry that was not there at the beginning belongs to a gamepad.\<close>

definition pad_path :: "(int, gamepad) std_map \<Rightarrow> string \<Rightarrow> bool" where
  "pad_path pads path \<longleftrightarrow> (\<exists>nr pad. mfind pads nr = Some pad \<and> gp_udev_plugged pad \<and> path = hwdb_path (gp_udev_dev pad))"

definition pads_inv :: "udev_world \<Rightarrow> (int, gamepad) std_map \<Rightarrow> udev_world \<Rightarrow> bool" where
  "pads_inv w0 pads w \<longleftrightarrow> map_ok pads \<and> (\<forall>nr pad. mfind pads nr = Some pad \<longrightarrow> gp_fd pad \<ge> 0) \<and>
     (\<forall>path. uw_files w path \<noteq> None \<longrightarrow> path = kUdevCtrlPath \<or> uw_files w0 path \<noteq> None \<or> pad_path pads path)"

lemma pads_inv_start: "pads_inv w [] w"
  by (simp add: pads_inv_def map_ok_def mfind_def)

lemma length_map_ok: "map_ok m \<Longrightarrow> length m = card (set (map fst m))"
  using map_ok_distinct by (metis distinct_card length_map)

lemma length_mput:
  assumes "map_ok (m :: ('k::linorder, 'v) std_map)"
  shows "length (mput k v m) = length m + (if mfind m k = None then 1 else 0)"
proof -
  have "length (mput k v m) = card (insert k (set (map fst m)))"
    by (simp only: length_map_ok [OF map_ok_mput [OF assms]] mput_keys)
  then show ?thesis by (simp add: length_map_ok [OF assms] card_insert_if mfind_def map_of_eq_None_iff insert_absorb)
qed

lemma length_merase:
  assumes "map_ok (m :: ('k::linorder, 'v) std_map)"
  shows "length (merase k m) + (if mfind m k = None then 0 else 1) = length m"
proof -
  have "set (map fst (merase k m)) = set (map fst m) - {k}" by (auto simp: merase_def)
  then have e: "length (merase k m) = card (set (map fst m) - {k})"
    by (simp only: length_map_ok [OF map_ok_merase [OF assms]])
  have k: "mfind m k = None \<longleftrightarrow> k \<notin> set (map fst m)" by (simp add: mfind_def map_of_eq_None_iff)
  show ?thesis
  proof (cases "k \<in> set (map fst m)")
    case True
    then have "card (set (map fst m)) > 0" by (auto simp: card_gt_0_iff)
    with True show ?thesis unfolding e length_map_ok [OF assms] by (simp only: k card_Diff_singleton) simp
  qed (simp add: e k length_map_ok [OF assms])
qed

lemma pad_path_mput: "pad_path (mput nr pad pads) path \<longleftrightarrow>
    gp_udev_plugged pad \<and> path = hwdb_path (gp_udev_dev pad) \<or>
    (\<exists>n p. n \<noteq> nr \<and> mfind pads n = Some p \<and> gp_udev_plugged p \<and> path = hwdb_path (gp_udev_dev p))"
  by (auto simp: pad_path_def mput_find)

lemma add_gamepad_spec:
  assumes "pads_work env" "pads_inv w0 (md_gamepads ms) w" "mfind (md_gamepads ms) nr = None"
  obtains pad reqs w' where
    "add_gamepad env nr ms w = (True, ms\<lparr>md_gamepads := mput nr pad (md_gamepads ms)\<rparr>, w', [pad_ioctls reqs])"
    "pads_inv w0 (mput nr pad (md_gamepads ms)) w'" "ioctl_balance reqs = 1"
proof -
  obtain pad reqs w' where c: "VirtualGamepad_create (me_uinput env) (me_udev env) w = (Some pad, reqs, w')"
    "gp_fd pad \<ge> 0" "ioctl_balance reqs = 1"
    and f: "\<And>path. uw_files w' path \<noteq> None \<Longrightarrow>
       path = kUdevCtrlPath \<or> uw_files w path \<noteq> None \<or> gp_udev_plugged pad \<and> path = hwdb_path (gp_udev_dev pad)"
    by (rule create_pad [OF assms(1)]) blast
  have p: "pad_path (md_gamepads ms) path \<Longrightarrow> pad_path (mput nr pad (md_gamepads ms)) path" for path
    using assms(3) unfolding pad_path_mput by (metis pad_path_def option.distinct(1))
  have "path = kUdevCtrlPath \<or> uw_files w0 path \<noteq> None \<or> pad_path (mput nr pad (md_gamepads ms)) path"
    if "uw_files w' path \<noteq> None" for path
    using f [OF that] assms(2) p [of path] by (auto simp: pads_inv_def pad_path_mput)
  then have "pads_inv w0 (mput nr pad (md_gamepads ms)) w'"
    using assms(2) c(2) by (simp add: pads_inv_def map_ok_mput mput_find)
  with c show thesis by (intro that) (simp_all add: add_gamepad_def)
qed

lemma destroy_inv:
  assumes "pads_work env" "pads_inv w0 pads w" "mfind pads nr = Some pad"
  obtains reqs w' where "VirtualGamepad_destroy (me_udev env) pad w = (reqs, w')" "ioctl_balance reqs = -1"
    "pads_inv w0 (merase nr pads) w'"
proof -
  have "gp_fd pad \<ge> 0" using assms(2,3) by (auto simp: pads_inv_def)
  then obtain reqs w' where d: "VirtualGamepad_destroy (me_udev env) pad w = (reqs, w')" "ioctl_balance reqs = -1"
    and f: "\<And>path. uw_files w' path \<noteq> None \<Longrightarrow> uw_files w path \<noteq> None \<and> \<not> (gp_udev_plugged pad \<and> path = hwdb_path (gp_udev_dev pad))"
    by (rule destroy_pad [OF assms(1)]) blast
  have "path = kUdevCtrlPath \<or> uw_files w0 path \<noteq> None \<or> pad_path (merase nr pads) path"
    if "uw_files w' path \<noteq> None" for path
  proof (cases "pad_path pads path")
    case True
    then obtain n p where "mfind pads n = Some p" "gp_udev_plugged p" "path = hwdb_path (gp_udev_dev p)"
      by (auto simp: pad_path_def)
    moreover from this have "n \<noteq> nr" using f [OF that] assms(3) by auto
    ultimately show ?thesis by (auto simp: pad_path_def merase_find)
  next
    case False
    then show ?thesis using f [OF that] assms(2) by (auto simp: pads_inv_def)
  qed
  then have "pads_inv w0 (merase nr pads) w'"
    using assms(2) by (simp add: pads_inv_def map_ok_merase merase_find)
  with d show thesis by (rule that)
qed

lemma remove_pad_spec:
  assumes "pads_work env" "pads_inv w0 (md_gamepads ms) w" "remove_pad env nr ms w = (ms', w', out)"
  shows "pads_inv w0 (md_gamepads ms') w'" "md_gamepads ms' = merase nr (md_gamepads ms)"
    "int (length (md_gamepads ms')) = int (length (md_gamepads ms)) + out_balance out"
proof -
  have ok: "map_ok (md_gamepads ms)" using assms(2) by (simp add: pads_inv_def)
  have "md_gamepads ms' = merase nr (md_gamepads ms) \<and> pads_inv w0 (md_gamepads ms') w' \<and>
      int (length (md_gamepads ms')) = int (length (md_gamepads ms)) + out_balance out"
  proof (cases "mfind (md_gamepads ms) nr")
    case None
    then have "merase nr (md_gamepads ms) = md_gamepads ms"
      unfolding merase_def mfind_def map_of_eq_None_iff by (intro filter_True) force
    with None assms show ?thesis by (auto simp: remove_pad_def)
  next
    case (Some pad)
    obtain reqs w1 where "VirtualGamepad_destroy (me_udev env) pad w = (reqs, w1)" "ioctl_balance reqs = -1"
      "pads_inv w0 (merase nr (md_gamepads ms)) w1" by (rule destroy_inv [OF assms(1,2) Some])
    with Some assms(3) length_merase [OF ok, of nr] show ?thesis by (auto simp: remove_pad_def)
  qed
  then show "pads_inv w0 (md_gamepads ms') w'" "md_gamepads ms' = merase nr (md_gamepads ms)"
    "int (length (md_gamepads ms')) = int (length (md_gamepads ms)) + out_balance out" by auto
qed

lemma update_pad_spec:
  assumes "pads_inv w0 (md_gamepads ms) w" "mfind (md_gamepads ms) nr = Some pad" "update_pad env nr p pad ms = (ms', out)"
  obtains pad' ev where "md_gamepads ms' = mput nr pad' (md_gamepads ms)" "out = [pad_events nr ev]"
    "pads_inv w0 (md_gamepads ms') w" "length (md_gamepads ms') = length (md_gamepads ms)"
proof -
  have ok: "map_ok (md_gamepads ms)" using assms(1) by (simp add: pads_inv_def)
  obtain pad' ev where u: "VirtualGamepad_update pad p (me_now env) = (pad', ev)" by force
  note keep = update_pad_keeps [OF u]
  have "pad_path (mput nr pad' (md_gamepads ms)) path \<longleftrightarrow> pad_path (md_gamepads ms) path" for path
    unfolding pad_path_mput keep using assms(2) by (metis pad_path_def option.inject)
  moreover have "gp_fd pad \<ge> 0" using assms(1,2) by (auto simp: pads_inv_def)
  ultimately have "pads_inv w0 (mput nr pad' (md_gamepads ms)) w"
    using assms(1) keep(1) by (simp add: pads_inv_def map_ok_mput mput_find)
  moreover have "ms' = ms\<lparr>md_gamepads := mput nr pad' (md_gamepads ms)\<rparr>" "out = [pad_events nr ev]"
    using assms(3) u by (auto simp: update_pad_def)
  ultimately show thesis by (intro that) (simp_all add: length_mput [OF ok] assms(2))
qed

section \<open>Runs\<close>

text \<open>A call of the control server, in the circumstances of its time.\<close>

fun media_step ::
  "media_env \<times> media_call \<Rightarrow> media_session \<times> udev_world \<Rightarrow> ((media_session \<times> udev_world) \<times> media_out list) option" where
  "media_step (env, c) (ms, w) = map_option (\<lambda>(ms, w, out). ((ms, w), out)) (media_exec env c ms w)"

lemma send_wayland_balance [simp]: "out_balance (send_wayland_event ms e) = 0"
  by (simp add: send_wayland_event_def)

lemma gamepad_update_cases:
  assumes "md_gamepad_update env nr active p ms w = Some (ms', w', out)"
  obtains (removed) "mask_bit active nr = Some False" "remove_pad env nr ms w = (ms', w', out)"
  | (updated) pad where "mask_bit active nr = Some True" "mfind (md_gamepads ms) nr = Some pad"
      "update_pad env nr p pad ms = (ms', out)" "w' = w"
  | (lazy) "mask_bit active nr = Some True" "mfind (md_gamepads ms) nr = None"
  using assms by (auto simp: md_gamepad_update_def split: option.splits bool.splits prod.splits)

lemma gamepad_update_spec:
  assumes "md_gamepad_update env nr active p ms w = Some (ms', w', out)" "pads_work env" "pads_inv w0 (md_gamepads ms) w"
  shows "pads_inv w0 (md_gamepads ms') w' \<and>
    int (length (md_gamepads ms')) = int (length (md_gamepads ms)) + out_balance out \<and>
    (\<forall>n. mfind (md_gamepads ms') n = None \<longleftrightarrow>
       (if mask_bit active nr = Some False then n = nr \<or> mfind (md_gamepads ms) n = None
        else n \<noteq> nr \<and> mfind (md_gamepads ms) n = None))"
  using assms(1)
proof (cases rule: gamepad_update_cases)
  case removed
  from remove_pad_spec [OF assms(2,3) removed(2)] removed(1) show ?thesis by (simp add: merase_find)
next
  case (updated pad)
  obtain pad' ev where "md_gamepads ms' = mput nr pad' (md_gamepads ms)" "out = [pad_events nr ev]"
    "pads_inv w0 (md_gamepads ms') w" "length (md_gamepads ms') = length (md_gamepads ms)"
    by (rule update_pad_spec [OF assms(3) updated(2,3)])
  with updated show ?thesis by (simp add: mput_find)
next
  case lazy
  have ok: "map_ok (md_gamepads ms)" using assms(3) by (simp add: pads_inv_def)
  obtain pad reqs w1 where a:
    "add_gamepad env nr ms w = (True, ms\<lparr>md_gamepads := mput nr pad (md_gamepads ms)\<rparr>, w1, [pad_ioctls reqs])"
    "pads_inv w0 (mput nr pad (md_gamepads ms)) w1" "ioctl_balance reqs = 1"
    by (rule add_gamepad_spec [OF assms(2,3) lazy(2)])
  let ?ms = "ms\<lparr>md_gamepads := mput nr pad (md_gamepads ms)\<rparr>"
  obtain ms2 out2 where u: "update_pad env nr p pad ?ms = (ms2, out2)" by force
  have f: "mfind (md_gamepads ?ms) nr = Some pad" by (simp add: mput_find)
  have i: "pads_inv w0 (md_gamepads ?ms) w1" using a(2) by simp
  obtain pad' ev where v: "md_gamepads ms2 = mput nr pad' (md_gamepads ?ms)" "out2 = [pad_events nr ev]"
    "pads_inv w0 (md_gamepads ms2) w1" "length (md_gamepads ms2) = length (md_gamepads ?ms)"
    by (rule update_pad_spec [OF i f u])
  have "ms' = ms2 \<and> w' = w1 \<and> out = pad_ioctls reqs # out2"
    using assms(1) lazy a(1) u by (simp add: md_gamepad_update_def mput_find)
  with v a(3) lazy length_mput [OF ok, of nr pad] show ?thesis by (simp add: mput_find)
qed

lemma gamepad_arrival_spec:
  assumes "md_gamepad_arrival env nr ms w = (ms', w', out)" "pads_work env" "pads_inv w0 (md_gamepads ms) w"
  shows "pads_inv w0 (md_gamepads ms') w' \<and>
    int (length (md_gamepads ms')) = int (length (md_gamepads ms)) + out_balance out \<and>
    (\<forall>n. mfind (md_gamepads ms') n = None \<longleftrightarrow> n \<noteq> nr \<and> mfind (md_gamepads ms) n = None)"
proof (cases "mfind (md_gamepads ms) nr")
  case None
  have ok: "map_ok (md_gamepads ms)" using assms(3) by (simp add: pads_inv_def)
  obtain pad reqs w1 where a:
    "add_gamepad env nr ms w = (True, ms\<lparr>md_gamepads := mput nr pad (md_gamepads ms)\<rparr>, w1, [pad_ioctls reqs])"
    "pads_inv w0 (mput nr pad (md_gamepads ms)) w1" "ioctl_balance reqs = 1"
    by (rule add_gamepad_spec [OF assms(2,3) None])
  then have "ms' = ms\<lparr>md_gamepads := mput nr pad (md_gamepads ms)\<rparr> \<and> w' = w1 \<and> out = [pad_ioctls reqs]"
    using assms(1) None by (simp add: md_gamepad_arrival_def)
  with a None length_mput [OF ok, of nr pad] show ?thesis by (simp add: mput_find)
next
  case (Some pad)
  with assms show ?thesis by (auto simp: md_gamepad_arrival_def)
qed

lemma media_exec_inv:
  assumes "media_exec env c ms w = Some (ms', w', out)" "pads_work env" "pads_inv w0 (md_gamepads ms) w"
  shows "pads_inv w0 (md_gamepads ms') w' \<and>
    int (length (md_gamepads ms')) = int (length (md_gamepads ms)) + out_balance out"
proof (cases c)
  case (gamepad_arrival nr)
  with assms gamepad_arrival_spec [of env nr ms w ms' w' out w0] show ?thesis by simp
next
  case (gamepad_update nr active b lt rt lx ly rx ry)
  with assms(1) gamepad_update_spec [OF _ assms(2,3)] show ?thesis by simp
qed (use assms in \<open>auto simp: Let_def note_mouse_def\<close>)

lemma media_run_inv:
  assumes "run media_step cs (ms, w) = Some ((ms', w'), outs)" "list_all (\<lambda>(env, c). pads_work env) cs"
    "pads_inv w0 (md_gamepads ms) w"
  shows "pads_inv w0 (md_gamepads ms') w' \<and>
    int (length (md_gamepads ms')) = int (length (md_gamepads ms)) + out_balance (concat outs)"
  using assms
proof (induction cs arbitrary: ms w outs)
  case (Cons x cs)
  obtain env c where x: "x = (env, c)" by force
  from Cons.prems(1) obtain s1 out outs1 where r: "media_step x (ms, w) = Some (s1, out)"
    "run media_step cs s1 = Some ((ms', w'), outs1)" "outs = out # outs1" by (rule run_ConsE)
  obtain ms1 w1 where s1: "s1 = (ms1, w1)" by force
  have e: "media_exec env c ms w = Some (ms1, w1, out)" using r(1) by (auto simp: x s1)
  have p: "pads_work env" using Cons.prems(2) by (simp add: x)
  note i = media_exec_inv [OF e p Cons.prems(3)]
  have "list_all (\<lambda>(env, c). pads_work env) cs" using Cons.prems(2) by simp
  with Cons.IH [of ms1 w1 outs1] r(2,3) i show ?case by (simp add: s1)
qed auto

section \<open>Start and end\<close>

lemma destroy_pads_inv:
  assumes "pads_work env" "pads_inv w0 pads w" "destroy_pads env pads w = (w', out)"
  shows "pads_inv w0 [] w' \<and> out_balance out = - int (length pads)"
  using assms(2,3)
proof (induction pads arbitrary: w out)
  case (Cons x pads)
  obtain nr pad where x: "x = (nr, pad)" by force
  have ok: "map_ok (x # pads)" using Cons.prems(1) by (simp add: pads_inv_def)
  then have "merase nr (x # pads) = pads"
    by (auto simp: map_ok_def merase_def x intro!: filter_True)
  moreover obtain reqs w1 where d: "VirtualGamepad_destroy (me_udev env) pad w = (reqs, w1)" "ioctl_balance reqs = -1"
    "pads_inv w0 (merase nr (x # pads)) w1"
    using destroy_inv [OF assms(1) Cons.prems(1), of nr pad thesis] by (simp add: x mfind_def)
  moreover obtain w2 out2 where o: "destroy_pads env pads w1 = (w2, out2)" by force
  ultimately have "pads_inv w0 [] w2 \<and> out_balance out2 = - int (length pads)" using Cons.IH [of w1 out2] Cons.prems(2)
    by (simp add: x)
  then show ?case using Cons.prems(2) d(1,2) o by (auto simp: x)
qed simp

lemma md_stop_spec:
  assumes "pads_work env" "pads_inv w0 (md_gamepads ms) w" "md_stop env ms w = (ms', w', out)"
  shows "pads_inv w0 [] w' \<and> out_balance out = - int (length (md_gamepads ms)) \<and> md_gamepads ms' = []"
proof -
  obtain w1 out1 where d: "destroy_pads env (md_gamepads ms) w = (w1, out1)" by force
  from destroy_pads_inv [OF assms(1,2) d] assms(3) d show ?thesis by (auto simp: md_stop_def Let_def)
qed

lemma aborted_spec:
  assumes "pads_work env" "pads_inv w0 (md_gamepads ms) w" "aborted env ms files w out = (ok, ms', files', w', out')"
  shows "pads_inv w0 (md_gamepads ms') w' \<and> out_balance out' = out_balance out - int (length (md_gamepads ms)) \<and>
    md_gamepads ms' = [] \<and> \<not> ok"
proof -
  obtain ms1 w1 out1 where d: "md_stop env ms w = (ms1, w1, out1)" by (metis prod_cases3)
  from md_stop_spec [OF assms(1,2) d] assms(3) d show ?thesis by (auto simp: aborted_def)
qed

lemma start_video_spec:
  assumes "pads_work env" "pads_inv w0 [] w" "md_gamepads ms = []" "start_video env s desc ms w = (ms', w', out)"
  shows "pads_inv w0 (md_gamepads ms') w' \<and> length (md_gamepads ms') = 1 \<and> out_balance out = 1"
proof -
  let ?ms = "ms\<lparr>md_video := launch env desc ''video_sink''\<rparr>"
  have g: "md_gamepads ?ms = []" using assms(3) by simp
  have "pads_inv w0 (md_gamepads ?ms) w" "mfind (md_gamepads ?ms) 0 = None"
    using assms(2) by (simp_all only: g) (simp add: mfind_def)
  then obtain pad reqs w1 where
    a: "add_gamepad env 0 ?ms w = (True, ?ms\<lparr>md_gamepads := mput 0 pad (md_gamepads ?ms)\<rparr>, w1, [pad_ioctls reqs])"
    "pads_inv w0 (mput 0 pad (md_gamepads ?ms)) w1" "ioctl_balance reqs = 1" by (rule add_gamepad_spec [OF assms(1)])
  note a = a [unfolded g mput.simps]
  show ?thesis using assms(4) a(2,3) unfolding start_video_def Let_def a(1) prod.case
    by (auto split: if_splits)
qed

lemma md_start_spec:
  assumes "pads_work env" "md_start env p s node files w = (ok, ms, files', w', out)"
  shows "pads_inv w (md_gamepads ms) w' \<and> out_balance out = int (length (md_gamepads ms))"
proof -
  note ab = aborted_spec [OF assms(1), of w]
  have n: "md_gamepads (new_media_session p) = []" by (simp add: new_media_session_def)
  obtain cfg files1 where l: "load_or_seed files = (cfg, files1)" by force
  show ?thesis
  proof (cases "ensure_audio_sink (me_launch env) (me_sink_status env) (a_channels (s_audio s)) (ac_sink_name (ec_audio cfg))")
    case None
    with assms(2) ab [of "new_media_session p" w files1 "[]" ok ms files' w' out] show ?thesis
      by (auto simp add: md_start_def l n pads_inv_start)
  next
    case (Some x)
    obtain ready child where x: "x = (ready, child)" by force
    define out0 where "out0 = (case child of Some c \<Rightarrow> [sink_script c] | None \<Rightarrow> [])"
    have o: "out_balance out0 = 0" by (simp add: out0_def split: option.split)
    define ms0 where "ms0 = (new_media_session p)\<lparr>md_audio_channels := a_channels (s_audio s),
        md_video_sink := Some (new_sink (video_stream_port s) ''video'' (client_ip s) (me_bind env (video_stream_port s)))\<rparr>"
    have g: "md_gamepads ms0 = []" by (simp add: ms0_def n)
    obtain v files2 where v: "build_video_pipeline env s node files1 = (v, files2)" by force
    note start = assms(2) [unfolded md_start_def Let_def l prod.case Some option.case x, folded out0_def ms0_def, unfolded v prod.case]
    show ?thesis
    proof (cases v)
      case None
      with start ab [of ms0 w files2 out0 ok ms files' w' out] show ?thesis by (auto simp add: g pads_inv_start o)
    next
      case (Some desc)
      obtain ms1 w1 out1 where sv: "start_video env s desc ms0 w = (ms1, w1, out1)" by (metis prod_cases3)
      note i = start_video_spec [OF assms(1) pads_inv_start g sv]
      define ms2 where "ms2 = ms1\<lparr>md_audio_sink := Some (new_sink (audio_stream_port s) ''audio'' (client_ip s) (me_bind env (audio_stream_port s)))\<rparr>"
      have g2: "md_gamepads ms2 = md_gamepads ms1" by (simp add: ms2_def)
      obtain a files3 where a: "build_audio_pipeline env s (me_getenv env ''STEAM_STREAM_AUDIO_TEST'' \<noteq> None) files2 = (a, files3)"
        by force
      note start2 = start [unfolded Some option.case sv prod.case, folded ms2_def, unfolded a prod.case]
      show ?thesis
      proof (cases a)
        case None
        with start2 ab [of ms2 w1 files3 "out0 @ out1" ok ms files' w' out] i show ?thesis by (auto simp add: g2 o)
      next
        case (Some apipe)
        with start2 i g2 o show ?thesis by auto
      qed
    qed
  qed
qed

section \<open>Properties\<close>

text \<open>The specification by the masks: bit \<open>n\<close> of the mask says whether controller \<open>n\<close> is there.\<close>

fun mask_spec :: "media_env \<times> media_call \<Rightarrow> int set \<Rightarrow> int set \<times> unit" where
  "mask_spec (env, gamepad_arrival nr) ns = (insert nr ns, ())"
| "mask_spec (env, gamepad_update nr active _ _ _ _ _ _ _) ns =
     (if nr < 16 \<and> bit active (nat nr) then insert nr ns else ns - {nr}, ())"
| "mask_spec _ ns = (ns, ())"

definition pads_step ::
  "media_env \<times> media_call \<Rightarrow> media_session \<times> udev_world \<Rightarrow> ((media_session \<times> udev_world) \<times> unit) option" where
  "pads_step x s = map_option (\<lambda>(s, out). (s, ())) (media_step x s)"

fun undefined_call :: "media_env \<times> media_call \<Rightarrow> bool" where
  "undefined_call (env, gamepad_update nr _ _ _ _ _ _ _ _) = (nr < 0 \<or> nr \<ge> 32)"
| "undefined_call _ = False"

definition controllers :: "media_session \<Rightarrow> int set" where
  "controllers ms = {nr. mfind (md_gamepads ms) nr \<noteq> None}"

lemma mask_bit_eq: "0 \<le> nr \<Longrightarrow> nr < 32 \<Longrightarrow> mask_bit active nr = Some (nr < 16 \<and> bit active (nat nr))"
proof -
  assume nr: "0 \<le> nr" "nr < 32"
  have "(ucast active :: u32) AND push_bit (nat nr) 1 = (if bit (ucast active :: u32) (nat nr) then push_bit (nat nr) 1 else 0)"
    by (rule bit_word_eqI) (auto simp: bit_simps)
  moreover have "push_bit (nat nr) (1 :: u32) \<noteq> 0" using nr by (simp add: push_bit_eq_mult)
  moreover have "bit (ucast active :: u32) (nat nr) \<longleftrightarrow> nr < 16 \<and> bit active (nat nr)"
    using nr bit_imp_le_length [of active "nat nr"] by (auto simp: bit_simps)
  ultimately show ?thesis using nr by (simp add: mask_bit_def)
qed

lemma pads_step_None: "pads_step x s = None \<longleftrightarrow> undefined_call x"
proof -
  obtain env c ms w where x: "x = (env, c)" "s = (ms, w)" by force
  have "md_gamepad_update env nr active p ms w = None \<longleftrightarrow> nr < 0 \<or> nr \<ge> 32" for nr active p
    by (cases "nr < 0 \<or> nr \<ge> 32"; cases "remove_pad env nr ms w")
      (auto simp: md_gamepad_update_def mask_bit_def split: option.splits bool.splits prod.splits)
  then show ?thesis by (cases c) (auto simp: x pads_step_def Let_def)
qed

interpretation pads: simulation pads_step mask_spec "\<lambda>(ms, w). controllers ms"
  "\<lambda>(ms, w). \<exists>w0. pads_inv w0 (md_gamepads ms) w" "\<lambda>(env, c). pads_work env"
proof unfold_locales
  fix x and s s' :: "media_session \<times> udev_world" and out
  assume a: "case s of (ms, w) \<Rightarrow> \<exists>w0. pads_inv w0 (md_gamepads ms) w" "case x of (env, c) \<Rightarrow> pads_work env"
    "pads_step x s = Some (s', out)"
  obtain env c ms w ms' w' where x: "x = (env, c)" "s = (ms, w)" "s' = (ms', w')" by force
  obtain out' where e: "media_exec env c ms w = Some (ms', w', out')" using a(3) by (auto simp: x pads_step_def)
  have p: "pads_work env" using a(2) by (simp add: x)
  obtain w0 where i: "pads_inv w0 (md_gamepads ms) w" using a(1) by (auto simp: x)
  from media_exec_inv [OF e p i] show "case s' of (ms, w) \<Rightarrow> \<exists>w0. pads_inv w0 (md_gamepads ms) w" by (auto simp: x)
  have "mask_spec (env, c) (controllers ms) = (controllers ms', ())"
  proof (cases c)
    case (gamepad_arrival nr)
    with e gamepad_arrival_spec [of env nr ms w ms' w' out' w0] p i show ?thesis by (auto simp: controllers_def)
  next
    case (gamepad_update nr active b lt rt lx ly rx ry)
    then have "0 \<le> nr" "nr < 32" using pads_step_None [of x s] a(3) by (auto simp: x)
    with gamepad_update e gamepad_update_spec [OF _ p i] show ?thesis by (fastforce simp: controllers_def mask_bit_eq)
  qed (use e in \<open>auto simp: controllers_def Let_def note_mouse_def\<close>)
  then show "mask_spec x (case s of (ms, w) \<Rightarrow> controllers ms) = (case s' of (ms, w) \<Rightarrow> controllers ms, out)"
    by (simp add: x)
qed

text \<open> C15: The gamepads follow the client: as long as devices can be created, a run of calls leaves exactly the
  gamepads that arrivals and masks say, each once. The run is defined unless some state packet names a
  controller from 32 on, which the wire format admits: then the mask is shifted by its own width or
  more, which C++ leaves undefined. \<close>

theorem gamepads_follow_mask:
  assumes "md_gamepads ms = []" "list_all (\<lambda>(env, c). pads_work env) cs"
  shows "(case run pads_step cs (ms, w) of
      Some ((ms', w'), outs) \<Rightarrow> spec_run mask_spec cs {} = (controllers ms', outs) \<and> distinct (map fst (md_gamepads ms'))
    | None \<Rightarrow> list_ex undefined_call cs) \<and>
    (run pads_step cs (ms, w) = None) = list_ex undefined_call cs"
proof -
  have n: "(run pads_step cs (ms, w) = None) = list_ex undefined_call cs"
    by (rule run_None_iff) (rule pads_step_None)
  have i: "case (ms, w) of (ms, w) \<Rightarrow> \<exists>w0. pads_inv w0 (md_gamepads ms) w"
    using assms(1) pads_inv_start by auto
  have "spec_run mask_spec cs {} = (controllers ms', outs) \<and> distinct (map fst (md_gamepads ms'))"
    if "run pads_step cs (ms, w) = Some ((ms', w'), outs)" for ms' w' outs
    using pads.run_refines [OF i assms(2) that] assms(1) map_ok_distinct
    by (auto simp: controllers_def mfind_def pads_inv_def)
  with n show ?thesis by (auto split: option.splits)
qed

definition demo_uinput :: uinput_os where
  "demo_uinput = \<lparr>ui_open = (\<lambda>_. 7), ui_access = (\<lambda>_. True), ui_setup_ok = True, ui_create_ok = True\<rparr>"

definition demo_view :: "(int \<times> string) list \<Rightarrow> proc_view" where
  "demo_view ps = \<lparr>pv_entries = Some (map (to_string \<circ> nat \<circ> fst) ps @ [''self'']), pv_pgid = (\<lambda>_. 321),
     pv_comm = (\<lambda>p. case map_of ps p of Some c \<Rightarrow> c @ [CHR 0x0A] | None \<Rightarrow> '''')\<rparr>"

definition demo_media_env :: media_env where
  "demo_media_env = \<lparr>me_config = demo_config_os, me_have = (\<lambda>_. True), me_fmt = (\<lambda>t args. Some t),
     me_parse = (\<lambda>d. Some \<lparr>pl_desc = d, pl_connected = False, pl_bitrate = 15000, pl_vbv = 7500, pl_aes_key = ''00'', pl_aes_iv = ''1''\<rparr>),
     me_element = (\<lambda>_ _. True), me_plays = (\<lambda>_. True), me_bind = (\<lambda>_. True), me_launch = demo_launch_os,
     me_sink_status = Some 0, me_uinput = demo_uinput, me_udev = demo_os, me_now = 5000,
     me_app = \<lparr>ae_now = demo_view [(321, ''bash''), (330, ''steam'')], ae_view = (\<lambda>i. demo_view (if i < 3 then [(321, ''bash''), (330, ''steam'')] else [(321, ''bash'')])),
       ae_alive_term = (\<lambda>i. i < 2), ae_alive_kill = (\<lambda>_. False)\<rparr>\<rparr>"

lemma demo_pads_work: "pads_work demo_media_env"
  by (simp add: pads_work_def demo_media_env_def demo_uinput_def open_uinput_def demo_os_def)

definition demo_calls :: "(media_env \<times> media_call) list" where
  "demo_calls = [(demo_media_env, gamepad_arrival 1), (demo_media_env, gamepad_update 0 3 0 0 0 0 0 0 0),
     (demo_media_env, gamepad_update 1 1 0 0 0 0 0 0 0), (demo_media_env, mouse_move_rel 3 4)]"

lemma demo_calls_ok: "list_all (\<lambda>(env, c). pads_work env) demo_calls" "\<not> list_ex undefined_call demo_calls"
  by (simp_all add: demo_calls_def demo_pads_work)

theorem gamepads_follow_mask_witness:
  "\<exists>ms' w' outs. run pads_step demo_calls (new_media_session 1, \<lparr>uw_files = (\<lambda>_. None), uw_sent = []\<rparr>) = Some ((ms', w'), outs) \<and>
     controllers ms' = {0}"
proof -
  have g: "md_gamepads (new_media_session 1) = []" by (simp add: new_media_session_def)
  have "spec_run mask_spec demo_calls {} = ({0}, [(), (), (), ()])"
    by (auto simp: demo_calls_def bit_simps bit_numeral_rec)
  with gamepads_follow_mask [OF g demo_calls_ok(1), of "\<lparr>uw_files = (\<lambda>_. None), uw_sent = []\<rparr>"] demo_calls_ok(2)
  show ?thesis by (auto split: option.splits)
qed

text \<open> C10: No device outlives its session: over a whole life, a start that succeeds or is aborted by an exception, any
  calls of the client and the stop, as many devices are destroyed as created, and every entry in the
  udev directory that was not there before is gone, apart from the control file. \<close>

theorem no_device_left:
  assumes "pads_work env" "list_all (\<lambda>(env, c). pads_work env) cs" "pads_work env'"
    and "md_start env p s node files w = (ok, ms, files', w1, out0)"
    and "run media_step cs (ms, w1) = Some ((ms', w2), outs)"
    and "md_stop env' ms' w2 = (ms'', w3, out3)"
  shows "out_balance (out0 @ concat outs @ out3) = 0 \<and> md_gamepads ms'' = [] \<and>
    dom (uw_files w3) \<subseteq> insert kUdevCtrlPath (dom (uw_files w))"
proof -
  note start = md_start_spec [OF assms(1,4)]
  have i: "pads_inv w (md_gamepads ms) w1" using start by blast
  note calls = media_run_inv [OF assms(5,2) i]
  have "pads_inv w (md_gamepads ms') w2" using calls by blast
  note stop = md_stop_spec [OF assms(3) this assms(6)]
  have "path = kUdevCtrlPath \<or> uw_files w path \<noteq> None" if "uw_files w3 path \<noteq> None" for path
    using stop that by (auto simp: pads_inv_def pad_path_def mfind_def)
  then have "dom (uw_files w3) \<subseteq> insert kUdevCtrlPath (dom (uw_files w))" by (auto simp: dom_def)
  with start calls stop show ?thesis by simp
qed

theorem no_device_left_witness:
  "\<exists>ok ms files' w1 out0 ms' w2 outs ms'' w3 out3.
     md_start demo_media_env 1 default_session ''/dev/dri/renderD128'' demo_config_os \<lparr>uw_files = (\<lambda>_. None), uw_sent = []\<rparr>
       = (ok, ms, files', w1, out0) \<and>
     run media_step [(demo_media_env, gamepad_arrival 1)] (ms, w1) = Some ((ms', w2), outs) \<and>
     md_stop demo_media_env ms' w2 = (ms'', w3, out3) \<and> dom (uw_files w3) \<subseteq> {kUdevCtrlPath}"
proof -
  obtain ok ms files' w1 out0 where s: "md_start demo_media_env 1 default_session ''/dev/dri/renderD128'' demo_config_os
      \<lparr>uw_files = (\<lambda>_. None), uw_sent = []\<rparr> = (ok, ms, files', w1, out0)" by (metis prod_cases5)
  obtain ms' w2 out where c: "md_gamepad_arrival demo_media_env 1 ms w1 = (ms', w2, out)" by (metis prod_cases3)
  then have r: "run media_step [(demo_media_env, gamepad_arrival 1)] (ms, w1) = Some ((ms', w2), [out])" by simp
  obtain ms'' w3 out3 where e: "md_stop demo_media_env ms' w2 = (ms'', w3, out3)" by (metis prod_cases3)
  have l: "list_all (\<lambda>(env, c). pads_work env) [(demo_media_env, gamepad_arrival 1)]" by (simp add: demo_pads_work)
  from no_device_left [OF demo_pads_work l demo_pads_work s r e] s r e show ?thesis by auto
qed

end
