(* ===== verification/MainLoop.thy ===== *)
theory MainLoop
  imports Gamepads
begin

text \<open>
  The composition in \<open>server/main.cpp\<close>: the media holder that the RTSP server, the HTTP server and the
  control server share, and the callbacks they call. Every access to the holder is under a mutex; the
  launch of a session gives the mutex up while it stops the previous one and while it starts the new
  one, so it is two steps, \<open>play_begin\<close> and \<open>play_launch\<close>, between which other callbacks may run.
\<close>

record main_state =
  mn_registry :: registry
  mn_media :: "media_session option"
  mn_files :: config_os
  mn_world :: udev_world

definition media_session_id :: "registry \<Rightarrow> media_session \<Rightarrow> nat" where
  "media_session_id reg ms = session_id (deref reg (md_session ms))"

definition stop_media :: "media_env \<Rightarrow> media_session \<Rightarrow> main_state \<Rightarrow> main_state \<times> media_out list" where
  "stop_media env ms st =
     (case md_stop env ms (mn_world st) of (ms, w, out) \<Rightarrow> (st\<lparr>mn_media := None, mn_world := w\<rparr>, out))"

definition stop_session :: "media_env \<Rightarrow> nat \<Rightarrow> main_state \<Rightarrow> main_state \<times> media_out list" where
  "stop_session env sid st =
     (case mn_media st of None \<Rightarrow> (st, [])
      | Some ms \<Rightarrow> if media_session_id (mn_registry st) ms = sid then stop_media env ms st else (st, []))"

definition idr_callback :: "main_state \<Rightarrow> media_out list" where
  "idr_callback st = (case mn_media st of None \<Rightarrow> [] | Some ms \<Rightarrow> force_idr ms)"

text \<open>A resume; the flag says that no exception was thrown.\<close>

definition play_resume ::
  "media_env \<Rightarrow> StreamSession \<Rightarrow> media_session \<Rightarrow> main_state \<Rightarrow> bool \<times> main_state \<times> media_out list" where
  "play_resume env s ms st =
     (let ms = update_bitrate env (v_bitrate_kbps (s_video s)) (v_fps (s_video s)) ms;
          (ok, ms, files, out) =
            (if md_audio_channels ms \<noteq> a_channels (s_audio s) then rebuild_audio env s ms (mn_files st)
             else (True, ms, mn_files st, [])) in
      if \<not> ok then (False, st\<lparr>mn_media := Some ms, mn_files := files\<rparr>, out)
      else
        let ms = retarget env (deref (mn_registry st) (md_session ms)) ms in
        (True, st\<lparr>mn_media := Some ms, mn_files := files\<rparr>, out @ force_idr ms))"

datatype play_next = play_over bool | play_start session_ptr

definition play_begin ::
  "media_env \<Rightarrow> StreamSession \<Rightarrow> main_state \<Rightarrow> play_next \<times> main_state \<times> media_out list" where
  "play_begin env s st =
     (case get_by_id (mn_registry st) (session_id s) of
        None \<Rightarrow> (play_over True, st, [])
      | Some p \<Rightarrow>
        (case mn_media st of
           None \<Rightarrow> (play_start p, st, [])
         | Some ms \<Rightarrow>
           if media_session_id (mn_registry st) ms = session_id s \<and> is_active ms
           then (case play_resume env s ms st of (ok, st, out) \<Rightarrow> (play_over ok, st, out))
           else (case stop_media env ms st of (st, out) \<Rightarrow> (play_start p, st, out))))"

definition play_launch ::
  "media_env \<Rightarrow> string \<Rightarrow> session_ptr \<Rightarrow> main_state \<Rightarrow> bool \<times> main_state \<times> media_out list" where
  "play_launch env render_node p st =
     (case md_start env p (deref (mn_registry st) p) render_node (mn_files st) (mn_world st) of
        (ok, ms, files, w, out) \<Rightarrow>
          let st = st\<lparr>mn_files := files, mn_world := w\<rparr> in
          (ok, if ok then st\<lparr>mn_media := Some ms\<rparr> else st, out))"

definition play ::
  "media_env \<Rightarrow> string \<Rightarrow> StreamSession \<Rightarrow> main_state \<Rightarrow> bool \<times> main_state \<times> media_out list" where
  "play env render_node s st =
     (case play_begin env s st of
        (play_over ok, st, out) \<Rightarrow> (ok, st, out)
      | (play_start p, st, out) \<Rightarrow>
        (case play_launch env render_node p st of (ok, st, out') \<Rightarrow> (ok, st, out @ out')))"

text \<open>The watcher thread stores the process of the application in the media session it belongs to.\<close>

definition app_up :: "int \<Rightarrow> main_state \<Rightarrow> main_state" where
  "app_up pid st = st\<lparr>mn_media := map_option (app_started pid) (mn_media st)\<rparr>"

text \<open>What the actions of the control server do here; \<open>disconnect_now\<close> concerns ENet only.\<close>

fun perform :: "media_env \<Rightarrow> control_action \<Rightarrow> main_state \<Rightarrow> (main_state \<times> media_out list) option" where
  "perform env (disconnect_now pe) st = Some (st, [])"
| "perform env (call_media c) st =
     (case mn_media st of None \<Rightarrow> Some (st, [])
      | Some ms \<Rightarrow> map_option (\<lambda>(ms, w, out). (st\<lparr>mn_media := Some ms, mn_world := w\<rparr>, out)) (media_exec env c ms (mn_world st)))"
| "perform env (on_idr sid) st = Some (st, idr_callback st)"
| "perform env (on_stop sid) st = Some (stop_session env sid st)"

section \<open>Start of the server\<close>

record server_ports =
  sp_http :: int
  sp_https :: int
  sp_rtsp :: int
  sp_render_node :: string
  sp_support_hevc :: bool
  sp_support_av1 :: bool

text \<open>The configuration part of \<open>main\<close>; \<open>None\<close> is a port variable that is not a number.\<close>

definition configure :: "media_env \<Rightarrow> config_os \<Rightarrow> (server_ports \<times> config_os) option" where
  "configure env files =
     (case (stoi (env_or (me_getenv env) ''STEAM_STREAM_HTTP_PORT'' ''47989''),
            stoi (env_or (me_getenv env) ''STEAM_STREAM_HTTPS_PORT'' ''47984''),
            stoi (env_or (me_getenv env) ''STEAM_STREAM_RTSP_PORT'' ''48010'')) of
        (Some http, Some https, Some rtsp) \<Rightarrow>
          let files = create_default_if_missing (config_path files) files;
              (cfg, files) = load_or_seed files;
              avail = available_encoders (me_have env) cfg in
          Some (\<lparr>sp_http = http, sp_https = https, sp_rtsp = rtsp,
             sp_render_node = env_or (me_getenv env) ''STEAM_STREAM_RENDER_NODE'' ''/dev/dri/renderD129'',
             sp_support_hevc = av_hevc avail, sp_support_av1 = av_av1 avail\<rparr>, files)
      | _ \<Rightarrow> None)"

section \<open>Lemmas\<close>

text \<open>The effects that end an application or take its devices away.\<close>

fun disruptive :: "media_out \<Rightarrow> bool" where
  "disruptive (app_signal a) = True"
| "disruptive (pad_ioctls r) = True"
| "disruptive pointer_sync_joined = True"
| "disruptive wayland_released = True"
| "disruptive video_stopped = True"
| "disruptive _ = False"

lemma update_bitrate_keeps:
  "md_app_pid (update_bitrate env b fps ms) = md_app_pid ms" "md_gamepads (update_bitrate env b fps ms) = md_gamepads ms"
  "md_session (update_bitrate env b fps ms) = md_session ms" "md_wayland (update_bitrate env b fps ms) = md_wayland ms"
  "md_audio_channels (update_bitrate env b fps ms) = md_audio_channels ms"
  "md_audio (update_bitrate env b fps ms) = md_audio ms"
  "map_option pl_desc (md_video (update_bitrate env b fps ms)) = map_option pl_desc (md_video ms)"
  "md_video_sink (update_bitrate env b fps ms) = md_video_sink ms" "md_audio_sink (update_bitrate env b fps ms) = md_audio_sink ms"
  by (simp_all add: update_bitrate_def split: option.split)

lemma rebuild_audio_keeps:
  assumes "rebuild_audio env s ms files = (ok, ms', files', out)"
  shows "md_app_pid ms' = md_app_pid ms" "md_gamepads ms' = md_gamepads ms" "md_session ms' = md_session ms"
    "md_wayland ms' = md_wayland ms" "md_video ms' = md_video ms"
    "ok \<Longrightarrow> md_audio_channels ms' = a_channels (s_audio s)" "set out \<subseteq> {audio_stopped}"
    "md_video_sink ms' = md_video_sink ms" "md_audio_sink ms' = md_audio_sink ms"
  using assms by (auto simp: rebuild_audio_def Let_def split: prod.splits option.splits if_splits)

lemma retarget_keeps:
  "md_app_pid (retarget env s ms) = md_app_pid ms" "md_gamepads (retarget env s ms) = md_gamepads ms"
  "md_session (retarget env s ms) = md_session ms" "md_wayland (retarget env s ms) = md_wayland ms"
  "md_video (retarget env s ms) = md_video ms" "md_audio_channels (retarget env s ms) = md_audio_channels ms"
  "md_video_sink (retarget env s ms) = map_option retarget_sink (md_video_sink ms)"
  "md_audio_sink (retarget env s ms) = map_option retarget_sink (md_audio_sink ms)"
  by (simp_all add: retarget_def Let_def split: option.split)

lemma retarget_key:
  "md_audio (retarget env s ms) = Some pl \<Longrightarrow> s_aes_key s \<noteq> [] \<Longrightarrow> me_element env (pl_desc pl) ''moonlight_pay'' \<Longrightarrow>
   pl_aes_key pl = s_aes_key s \<and> pl_aes_iv pl = s_aes_iv s"
  by (auto simp: retarget_def Let_def split: option.splits if_splits)

lemma add_gamepad_session: "add_gamepad env nr ms w = (r, ms', w', out) \<Longrightarrow> md_session ms' = md_session ms"
  by (auto simp: add_gamepad_def split: prod.splits option.splits)

lemma start_video_session: "start_video env s desc ms w = (ms', w', out) \<Longrightarrow> md_session ms' = md_session ms"
  by (auto simp: start_video_def Let_def split: prod.splits if_splits dest!: add_gamepad_session)

lemma start_session: "md_start env p s node files w = (True, ms, files', w', out) \<Longrightarrow> md_session ms = p"
  by (auto simp: md_start_def aborted_def Let_def new_media_session_def split: prod.splits option.splits dest!: start_video_session)

lemma stop_media_state: "stop_media env ms st = (st', out) \<Longrightarrow> mn_media st' = None \<and> mn_registry st' = mn_registry st \<and> mn_files st' = mn_files st"
  by (auto simp: stop_media_def split: prod.splits)

section \<open>Properties\<close>

text \<open> C27: A resume does not disturb the application: PLAY for the session whose pipeline is running keeps its
  process, its gamepads and its video pipeline and signals nobody. Unless rebuilding the audio pipeline
  throws, both RTP sinks forget their client, a keyframe is requested last, the audio pipeline has the
  new channel count and its payloader the current key. \<close>

theorem resume_keeps_app:
  assumes "mn_media st = Some ms" "media_session_id (mn_registry st) ms = session_id s" "is_active ms"
    and "get_by_id (mn_registry st) (session_id s) = Some p" "play env node s st = (ok, st', out)"
  shows "\<exists>ms'. mn_media st' = Some ms' \<and> md_app_pid ms' = md_app_pid ms \<and> md_gamepads ms' = md_gamepads ms \<and>
    map_option pl_desc (md_video ms') = map_option pl_desc (md_video ms) \<and> \<not> list_ex disruptive out \<and>
    (if ok then md_video_sink ms' = map_option retarget_sink (md_video_sink ms) \<and>
        md_audio_sink ms' = map_option retarget_sink (md_audio_sink ms) \<and>
        last out = force_key_unit \<and> md_audio_channels ms' = a_channels (s_audio s) \<and>
        (case md_audio ms' of None \<Rightarrow> True
         | Some pl \<Rightarrow> let key = s_aes_key (deref (mn_registry st) (md_session ms)) in
             if key \<noteq> [] \<and> me_element env (pl_desc pl) ''moonlight_pay'' then pl_aes_key pl = key else True)
     else last (audio_stopped # out) = audio_stopped)"
proof -
  have r: "play_resume env s ms st = (ok, st', out)"
    using assms by (auto simp: play_def play_begin_def split: prod.splits)
  define ms1 where "ms1 = update_bitrate env (v_bitrate_kbps (s_video s)) (v_fps (s_video s)) ms"
  note k1 = update_bitrate_keeps [of env "v_bitrate_kbps (s_video s)" "v_fps (s_video s)" ms, folded ms1_def]
  obtain ok2 ms2 files out2 where b: "(if md_audio_channels ms1 \<noteq> a_channels (s_audio s) then rebuild_audio env s ms1 (mn_files st)
      else (True, ms1, mn_files st, [])) = (ok2, ms2, files, out2)" by (metis prod_cases4)
  have k2: "md_app_pid ms2 = md_app_pid ms1" "md_gamepads ms2 = md_gamepads ms1" "md_session ms2 = md_session ms1"
    "md_video ms2 = md_video ms1" "ok2 \<Longrightarrow> md_audio_channels ms2 = a_channels (s_audio s)" "set out2 \<subseteq> {audio_stopped}"
    "md_video_sink ms2 = md_video_sink ms1" "md_audio_sink ms2 = md_audio_sink ms1"
    using b rebuild_audio_keeps [of env s ms1 "mn_files st" ok2 ms2 files out2] by (auto split: if_splits)
  have "set (audio_stopped # out2) \<subseteq> {audio_stopped}" using k2(6) by simp
  then have "last (audio_stopped # out2) = audio_stopped" using last_in_set [of "audio_stopped # out2"] by blast
  moreover have "\<not> list_ex disruptive out2"
    using k2(6) by (auto simp: list_ex_iff)
  ultimately have d: "\<not> list_ex disruptive out2" "last (audio_stopped # out2) = audio_stopped" by blast+
  note r' = r [unfolded play_resume_def Let_def, folded ms1_def, unfolded b prod.case]
  have v: "md_video ms2 \<noteq> None" using k1(7) k2(4) assms(3) by (auto simp: is_active_def)
  show ?thesis
  proof (cases ok2)
    case False
    with r' have "ok = False \<and> mn_media st' = Some ms2 \<and> out = out2" by auto
    with k1 k2 d show ?thesis by simp
  next
    case True
    let ?ms = "retarget env (deref (mn_registry st) (md_session ms2)) ms2"
    from True r' have "ok \<and> mn_media st' = Some ?ms \<and> out = out2 @ force_idr ?ms" by auto
    moreover have "force_idr ?ms = [force_key_unit]" using v by (simp add: force_idr_def retarget_keeps)
    moreover have "md_session ms2 = md_session ms" using k1 k2 by simp
    ultimately show ?thesis using True k1 k2 d retarget_key [of env "deref (mn_registry st) (md_session ms)" ms2]
      by (auto simp: retarget_keeps Let_def split: option.split)
  qed
qed

definition demo_main :: main_state where
  "demo_main = \<lparr>mn_registry = reg_add (default_session\<lparr>session_id := 1, s_aes_key := ''ab''\<rparr>) (snd (next_id empty_registry)),
     mn_media = Some ((new_media_session 1)\<lparr>md_video := Some \<lparr>pl_desc = ''v'', pl_connected = True, pl_bitrate = 15500,
       pl_vbv = 7750, pl_aes_key = '''', pl_aes_iv = ''''\<rparr>, md_app_pid := 321\<rparr>),
     mn_files = demo_config_os, mn_world = \<lparr>uw_files = (\<lambda>_. None), uw_sent = []\<rparr>\<rparr>"

lemma demo_main_facts:
  "deref (mn_registry demo_main) 1 = default_session\<lparr>session_id := 1, s_aes_key := ''ab''\<rparr>"
  "get_by_id (mn_registry demo_main) 1 = Some 1" "get_by_id (mn_registry demo_main) 2 = None"
  by (simp_all add: demo_main_def reg_add_def next_id_def empty_registry_def deref_def get_by_id_def)

theorem resume_keeps_app_witness:
  "\<exists>ok st' out ms'. play demo_media_env '''' (deref (mn_registry demo_main) 1) demo_main = (ok, st', out) \<and>
     mn_media st' = Some ms' \<and> md_app_pid ms' = 321"
proof -
  obtain ms where m: "mn_media demo_main = Some ms" "md_session ms = 1" "is_active ms" "md_app_pid ms = 321"
    by (simp add: demo_main_def new_media_session_def is_active_def)
  obtain ok st' out where p: "play demo_media_env '''' (deref (mn_registry demo_main) 1) demo_main = (ok, st', out)"
    by (metis prod_cases3)
  have s: "session_id (deref (mn_registry demo_main) 1) = 1" by (simp only: demo_main_facts) simp
  have "media_session_id (mn_registry demo_main) ms = session_id (deref (mn_registry demo_main) 1)"
    using m(2) by (simp add: media_session_id_def)
  from resume_keeps_app [OF m(1) this m(3) _ p, of 1] s m(4) p demo_main_facts(2) show ?thesis by auto
qed

text \<open> A stop ends the session it names and no other: with another identifier, or none running, it has no effect
  at all; with the running one, the holder is empty afterwards, repeating it does nothing, and the
  registry is as before, so a session whose client sent TERMINATION is still registered and still the
  running one for new clients. \<close>

theorem stop_hits_its_session:
  "case mn_media st of
     None \<Rightarrow> perform env (on_stop sid) st = Some (st, [])
   | Some ms \<Rightarrow>
     if media_session_id (mn_registry st) ms \<noteq> sid then perform env (on_stop sid) st = Some (st, [])
     else \<exists>st' out. perform env (on_stop sid) st = Some (st', out) \<and> mn_media st' = None \<and>
       perform env (on_stop sid) st' = Some (st', []) \<and> mn_registry st' = mn_registry st \<and>
       get_running (mn_registry st') = get_running (mn_registry st) \<and>
       (if md_app_pid ms > 0 then app_signal (term_group (md_app_pid ms)) \<in> set out else True)"
proof (cases "mn_media st")
  case (Some ms)
  obtain st' out where s: "stop_media env ms st = (st', out)" by force
  have "app_signal (term_group (md_app_pid ms)) \<in> set out" if "md_app_pid ms > 0"
    using s that by (auto simp: stop_media_def md_stop_def stop_app_def Let_def split: prod.splits if_splits)
  with Some s stop_media_state [OF s] show ?thesis by (auto simp: stop_session_def)
qed (simp add: stop_session_def)


lemma demo_start_ok: "fst (md_start demo_media_env p s node demo_config_os w)"
proof -
  have e: "ensure_audio_sink demo_launch_os status ch name \<noteq> None" for status ch name
    by (auto simp: ensure_audio_sink_def Let_def demo_ids)
  have l: "me_launch demo_media_env = demo_launch_os" by (simp add: demo_media_env_def)
  have v: "build_video_pipeline demo_media_env s node files \<noteq> (None, files')" for files files'
    by (auto simp: build_video_pipeline_def Let_def demo_media_env_def split: prod.splits option.splits)
  have a: "build_audio_pipeline demo_media_env s test files \<noteq> (None, files')" for files files' test
    by (auto simp: build_audio_pipeline_def Let_def demo_media_env_def split: prod.splits option.splits)
  show ?thesis unfolding md_start_def Let_def l
    by (auto simp only: e v a fst_conv split: prod.splits option.splits)
qed


text \<open> C40: A cancel that arrives while a session is being launched is lost: between the two steps of the launch the
  holder is empty, so the stop of a cancel finds nothing; the pipeline starts all the same, for a session
  that the cancel has taken out of the registry, where no later cancel will find it. \<close>

theorem cancel_during_launch_lost:
  assumes "reg_ok (mn_registry st)" "play_begin env s st = (play_start p, st1, out1)"
    and "stop_session env' p (st1\<lparr>mn_registry := reg_remove p (mn_registry st1)\<rparr>) = (st2, out2)"
    and "play_launch env node p st2 = (True, st3, out3)"
  shows "out2 = [] \<and> p \<notin> set (reg_sessions (mn_registry st3)) \<and> get_by_id (mn_registry st3) p = None \<and>
    (\<exists>ms. mn_media st3 = Some ms \<and> media_session_id (mn_registry st3) ms = p)"
proof -
  have st1: "mn_media st1 = None" "mn_registry st1 = mn_registry st"
    and p: "get_by_id (mn_registry st) (session_id s) = Some p"
    using assms(2) by (auto simp: play_begin_def stop_media_def split: option.splits if_splits prod.splits)
  have ok: "reg_ok (reg_remove p (mn_registry st))" by (rule reg_ok_remove [OF assms(1)])
  have live: "p \<in> set (reg_sessions (mn_registry st))" using p get_by_id_eq [OF assms(1)] by (simp split: if_splits)
  have st2: "st2 = st1\<lparr>mn_registry := reg_remove p (mn_registry st1)\<rparr>" "out2 = []"
    using assms(3) st1(1) by (simp_all add: stop_session_def)
  have gone: "p \<notin> set (reg_sessions (reg_remove p (mn_registry st)))" by (simp add: reg_remove_ids [OF assms(1)])
  obtain ms where m: "mn_media st3 = Some ms" "md_session ms = p" "mn_registry st3 = reg_remove p (mn_registry st)"
    using assms(4) by (auto simp: play_launch_def Let_def st2 st1 split: prod.splits dest!: start_session)
  have "deref (reg_remove p (mn_registry st)) p = deref (mn_registry st) p" by (simp add: deref_def reg_remove_def)
  then have "session_id (deref (mn_registry st3) p) = p" using deref_id [OF assms(1) live] m(3) by simp
  with m gone get_by_id_eq [OF ok] st2 show ?thesis by (auto simp: media_session_id_def)
qed

theorem cancel_during_launch_lost_witness:
  "\<exists>st3 out3 ms. play_launch demo_media_env '''' 1 (fst (stop_session demo_media_env 1
       (demo_main\<lparr>mn_media := None, mn_registry := reg_remove 1 (mn_registry demo_main)\<rparr>))) = (True, st3, out3) \<and>
     mn_media st3 = Some ms \<and> reg_sessions (mn_registry st3) = []"
proof -
  let ?st = "demo_main\<lparr>mn_media := None\<rparr>"
  have "session_id (deref (mn_registry demo_main) 1) = 1" by (simp only: demo_main_facts) simp
  then have b: "play_begin demo_media_env (deref (mn_registry demo_main) 1) ?st = (play_start 1, ?st, [])"
    using demo_main_facts(2) by (simp add: play_begin_def)
  have ok: "reg_ok (mn_registry ?st)"
    by (simp add: demo_main_def) (rule reg_ok_next_add [OF reg_ok_empty], simp_all add: next_id_def empty_registry_def)
  let ?c = "?st\<lparr>mn_registry := reg_remove 1 (mn_registry ?st)\<rparr>"
  have s: "stop_session demo_media_env 1 ?c = (?c, [])" by (simp add: stop_session_def)
  have f: "mn_files ?c = demo_config_os" by (simp add: demo_main_def)
  obtain ok' st3 out3 where l: "play_launch demo_media_env '''' 1 ?c = (ok', st3, out3)" by (metis prod_cases3)
  have "ok'" using l demo_start_ok f by (auto simp: play_launch_def Let_def split: prod.splits) (metis fst_conv)
  with l have l: "play_launch demo_media_env '''' 1 ?c = (True, st3, out3)" by simp
  have "reg_sessions (mn_registry st3) = reg_sessions (mn_registry ?c)"
    using l by (auto simp: play_launch_def Let_def split: prod.splits)
  also have "\<dots> = []"
    by (simp add: demo_main_def reg_remove_def reg_add_def next_id_def empty_registry_def deref_def)
  finally have r: "reg_sessions (mn_registry st3) = []" .
  from cancel_during_launch_lost [OF ok b s l] l s r show ?thesis by (auto simp: demo_main_def)
qed

end
