(* ===== verification/Https.thy ===== *)
theory Https
  imports Pairing MainLoop
begin

text \<open>
  The server information and the HTTPS resources (\<open>server/servers.cpp\<close>): who is let in, and how launch,
  resume and cancel change the registry of sessions and, through \<open>stop_session\<close>, the media session.
\<close>

section \<open>Requests\<close>

text \<open>
  A request with what the connection knows: the certificate the client presented, both addresses, and the
  random numbers a launch draws.
\<close>

record https_request =
  rq_cert :: "certificate option"
  rq_path :: string
  rq_headers :: headers
  rq_client_ip :: string
  rq_local_ip :: string
  rq_rtp_secret :: string
  rq_enet_secret :: u32
  rq_octets :: "nat \<times> nat \<times> nat \<times> nat"

record https_state =
  ht_app :: AppState
  ht_main :: main_state

type_synonym https_result = "https_state \<times> reply list \<times> media_out list"

definition serverinfo :: "https_request \<Rightarrow> bool \<Rightarrow> https_state \<Rightarrow> reply" where
  "serverinfo rq is_paired st =
     (let app = ht_app st; busy = (get_running (mn_registry (ht_main st)) \<noteq> None) in
      xml_reply 200 (serverinfo_xml busy (if busy then 1 else 0) (as_https_port app) (as_http_port app) (as_uuid app)
        (as_hostname app) (as_mac_address app) (rq_local_ip rq) (as_display_modes app) (if is_paired then 1 else 0)
        (as_support_hevc app) (as_support_av1 app)))"

section \<open>A new session\<close>

text \<open>\<open>%d\<close> of \<open>sscanf\<close>: white space, a sign, digits; a number outside \<open>long\<close> saturates and is then cut to \<open>int\<close>.\<close>

definition scan_int :: "string \<Rightarrow> (int \<times> string) option" where
  "scan_int s =
     (let t = dropWhile isspace s;
          u = (if t \<noteq> [] \<and> (hd t = CHR ''-'' \<or> hd t = CHR ''+'') then tl t else t) in
      if takeWhile isdigit u = [] then None
      else Some (signed_take_bit 31 (atol s), dropWhile isdigit u))"

definition scan_x :: "string \<Rightarrow> string option" where
  "scan_x s = (case s of [] \<Rightarrow> None | c # r \<Rightarrow> if c = CHR ''x'' then Some r else None)"

text \<open>\<open>%dx%dx%d\<close>; what does not match keeps its default.\<close>

definition scan_mode :: "string \<Rightarrow> int \<times> int \<times> int" where
  "scan_mode s =
     (case scan_int s of None \<Rightarrow> (1920, 1080, 60)
      | Some (w, s1) \<Rightarrow>
        (case Option.bind (scan_x s1) scan_int of None \<Rightarrow> (w, 1080, 60)
         | Some (h, s2) \<Rightarrow>
           (case Option.bind (scan_x s2) scan_int of None \<Rightarrow> (w, h, 60) | Some (fps, _) \<Rightarrow> (w, h, fps))))"

definition header_or :: "headers \<Rightarrow> string \<Rightarrow> string \<Rightarrow> string" where
  "header_or h key d = (case get_header h key of Some v \<Rightarrow> v | None \<Rightarrow> d)"

definition name_of_app :: "App list \<Rightarrow> string \<Rightarrow> string" where
  "name_of_app apps i = foldl (\<lambda>name a. if app_ident a = i then app_title a else name) [] apps"

fun fake_ip :: "nat \<times> nat \<times> nat \<times> nat \<Rightarrow> string" where
  "fake_ip (a, b, c, d) = to_string a @ ''.'' @ to_string b @ ''.'' @ to_string c @ ''.'' @ to_string d"

text \<open>The session identifier is taken first; \<open>None\<close> is a \<open>surroundAudioInfo\<close> that is not a number, which throws.\<close>

definition create_launch_session :: "https_request \<Rightarrow> AppState \<Rightarrow> registry \<Rightarrow> StreamSession option \<times> registry" where
  "create_launch_session rq app reg =
     (let (i, reg) = next_id reg; h = rq_headers rq; aid = header_or h ''appid'' ''1'';
          (w, ht, fps) = scan_mode (header_or h ''mode'' ''1920x1080x60'') in
      case stoi (header_or h ''surroundAudioInfo'' ''196610'') of
        None \<Rightarrow> (None, reg)
      | Some surround \<Rightarrow>
        (Some (default_session\<lparr>session_id := i, client_ip := rq_client_ip rq, app_id := aid,
           app_name := name_of_app (as_apps app) aid, client_width := w, client_height := ht, client_fps := fps,
           audio_channel_count := and surround 65535, s_aes_key := header_or h ''rikey'' '''',
           s_aes_iv := header_or h ''rikeyid'' '''', hevc_supported := as_support_hevc app,
           av1_supported := as_support_av1 app, video_stream_port := as_video_stream_port app,
           audio_stream_port := as_audio_stream_port app, control_stream_port := as_control_stream_port app,
           rtp_secret_payload := rq_rtp_secret rq, enet_secret_payload := rq_enet_secret rq,
           rtsp_fake_ip := fake_ip (rq_octets rq)\<rparr>), reg))"

section \<open>Resources\<close>

definition reply_unauthorized :: "https_request \<Rightarrow> reply" where
  "reply_unauthorized rq =
     xml_reply 401 [status_code 401, Put ''root.<xmlattr>.query'' (rq_path rq),
       status_message ''The client is not authorized. Certificate verification failed.'']"

definition client_if_paired :: "pairing_env \<Rightarrow> https_request \<Rightarrow> https_state \<Rightarrow> string option" where
  "client_if_paired env rq st = get_client_via_ssl (pv_x509 env) (rq_cert rq) (ht_app st)"

definition pair_challenge :: "https_request \<Rightarrow> reply list" where
  "pair_challenge rq =
     (case get_header (rq_headers rq) ''phrase'' of
        None \<Rightarrow> []
      | Some phrase \<Rightarrow> if phrase = ''pairchallenge'' then [xml_reply 200 [put_int ''root.paired'' 1, status_code 200]] else [])"

definition update_registry :: "(registry \<Rightarrow> registry) \<Rightarrow> https_state \<Rightarrow> https_state" where
  "update_registry f st = st\<lparr>ht_main := (ht_main st)\<lparr>mn_registry := f (mn_registry (ht_main st))\<rparr>\<rparr>"

text \<open>What a resume does to the session it finds: adopt the client, and take both keys or none.\<close>

definition adopt_client :: "https_request \<Rightarrow> StreamSession \<Rightarrow> StreamSession" where
  "adopt_client rq s =
     (let s = (if client_ip s \<noteq> rq_client_ip rq then s\<lparr>client_ip := rq_client_ip rq\<rparr> else s);
          new_key = header_or (rq_headers rq) ''rikey'' ''''; new_iv = header_or (rq_headers rq) ''rikeyid'' '''' in
      if new_key \<noteq> [] \<and> new_iv \<noteq> [] then s\<lparr>s_aes_key := new_key, s_aes_iv := new_iv\<rparr> else s)"

definition resume_target :: "https_request \<Rightarrow> registry \<Rightarrow> session_ptr option" where
  "resume_target rq reg =
     (case get_by_client_ip reg (rq_client_ip rq) of Some p \<Rightarrow> Some p | None \<Rightarrow> get_running reg)"

definition rtsp_host :: "pairing_env \<Rightarrow> https_request \<Rightarrow> StreamSession \<Rightarrow> string" where
  "rtsp_host env rq s =
     (if env_or (so_getenv (pv_os env)) ''STEAM_STREAM_RTSP_FAKE_IP'' ''TRUE'' = ''TRUE'' then rtsp_fake_ip s else rq_local_ip rq)"

definition resume_session :: "pairing_env \<Rightarrow> https_request \<Rightarrow> https_state \<Rightarrow> https_state \<times> reply list" where
  "resume_session env rq st =
     (let reg = mn_registry (ht_main st) in
      case resume_target rq reg of
        None \<Rightarrow> (st, [xml_reply 400 (fail_pair ''no session'')])
      | Some p \<Rightarrow>
        let st = update_registry (update_session p (adopt_client rq)) st;
            s = deref (mn_registry (ht_main st)) p in
        (st, [xml_reply 200 (launch_resume (rtsp_host env rq s) (int_to_string (as_rtsp_port (ht_app st))))]))"

definition launch_session :: "pairing_env \<Rightarrow> https_request \<Rightarrow> https_state \<Rightarrow> https_state \<times> reply list" where
  "launch_session env rq st =
     (let reg = mn_registry (ht_main st);
          answer = (\<lambda>s. [xml_reply 200 (launch_success (rtsp_host env rq s) (int_to_string (as_rtsp_port (ht_app st))))]) in
      case get_by_client_ip reg (rq_client_ip rq) of
        Some p \<Rightarrow> (st, answer (deref reg p))
      | None \<Rightarrow>
        (case create_launch_session rq (ht_app st) reg of
           (None, reg) \<Rightarrow> (update_registry (\<lambda>_. reg) st, [])
         | (Some s, reg) \<Rightarrow> (update_registry (\<lambda>_. reg_add s reg) st, answer s)))"

definition cancel_session :: "media_env \<Rightarrow> https_request \<Rightarrow> https_state \<Rightarrow> https_result" where
  "cancel_session menv rq st =
     (let reply = [xml_reply 200 [status_code 200, put_int ''root.cancel'' 1]]; reg = mn_registry (ht_main st) in
      case get_by_client_ip reg (rq_client_ip rq) of
        None \<Rightarrow> (st, reply, [])
      | Some p \<Rightarrow>
        let sid = session_id (deref reg p); st = update_registry (reg_remove sid) st in
        (case stop_session menv sid (ht_main st) of (m, out) \<Rightarrow> (st\<lparr>ht_main := m\<rparr>, reply, out)))"

datatype resource = r_serverinfo | r_pair | r_applist | r_launch | r_resume | r_cancel | r_other

fun https_handle :: "pairing_env \<Rightarrow> media_env \<Rightarrow> resource \<Rightarrow> https_request \<Rightarrow> https_state \<Rightarrow> https_result" where
  "https_handle env menv r rq st =
     (if r = r_other then (st, [xml_reply 404 (fail_pair ''not found'')], [])
      else if client_if_paired env rq st = None then (st, [reply_unauthorized rq], [])
      else case r of
        r_serverinfo \<Rightarrow> (st, [serverinfo rq True st], [])
      | r_pair \<Rightarrow> (st, pair_challenge rq, [])
      | r_applist \<Rightarrow> (st, [xml_reply 200 (applist (as_apps (ht_app st)))], [])
      | r_launch \<Rightarrow> (case launch_session env rq st of (st, reply) \<Rightarrow> (st, reply, []))
      | r_resume \<Rightarrow> (case resume_session env rq st of (st, reply) \<Rightarrow> (st, reply, []))
      | r_cancel \<Rightarrow> cancel_session menv rq st
      | r_other \<Rightarrow> (st, [], []))"

text \<open>The same information over HTTP, where nobody counts as paired.\<close>

definition http_serverinfo :: "https_request \<Rightarrow> https_state \<Rightarrow> reply" where
  "http_serverinfo rq st = serverinfo rq False st"

end
