(* ===== verification/AppState_Props.thy ===== *)
theory AppState_Props
  imports AppState
begin

text \<open>
  What survives a crash or a restart: the server's identity and its paired clients. The lemmas follow
  the disks a write passes through; every other file stays as it is in all of them.
\<close>

section \<open>Writing\<close>

lemma put_file_other: "d' \<in> set (put_file os p data d) \<Longrightarrow> q \<noteq> p \<Longrightarrow> mfind d' q = mfind d q"
  by (auto simp: put_file_def mput_find)

lemma put_file_last [simp]: "last (put_file os p data d) = mput p (take (so_room os p) data) d"
  by (simp add: put_file_def last_map min_def)

lemma put_file_Nil [simp]: "put_file os p data d \<noteq> []"
  by (simp add: put_file_def)

lemma rename_find: "mfind d old = Some c \<Longrightarrow> old \<noteq> new \<Longrightarrow>
  mfind (rename old new d) q = (if q = new then Some c else if q = old then None else mfind d q)"
  by (simp add: rename_def mput_find merase_find)

text \<open>A rewritten file holds its old or its new contents at every moment.\<close>

lemma write_file_cases:
  assumes "d' \<in> set (write_file os p data d)"
  obtains "\<forall>q. q \<noteq> p @ ''.tmp'' \<longrightarrow> mfind d' q = mfind d q"
  | "length data \<le> so_room os (p @ ''.tmp'')"
    "d' = rename (p @ ''.tmp'') p (mput (p @ ''.tmp'') (take (so_room os (p @ ''.tmp'')) data) d)"
proof (cases "d' \<in> set (put_file os (p @ ''.tmp'') data d)")
  case True
  then show ?thesis using that(1) put_file_other by blast
next
  case False
  with assms show ?thesis using that by (simp add: write_file_def Let_def split: if_splits)
qed

lemma renamed:
  "mfind (rename (p @ ''.tmp'') p (mput (p @ ''.tmp'') c d)) q =
     (if q = p then Some c else if q = p @ ''.tmp'' then None else mfind d q)"
  using rename_find [of "mput (p @ ''.tmp'') c d" "p @ ''.tmp''" c p q] by (simp add: mput_find)

lemma write_file_states:
  assumes "d' \<in> set (write_file os p data d)"
  shows "q \<noteq> p @ ''.tmp'' \<Longrightarrow> q \<noteq> p \<Longrightarrow> mfind d' q = mfind d q"
    "mfind d' p = mfind d p \<or> mfind d' p = Some data"
proof -
  show "q \<noteq> p @ ''.tmp'' \<Longrightarrow> q \<noteq> p \<Longrightarrow> mfind d' q = mfind d q"
    by (rule write_file_cases [OF assms]) (simp_all add: renamed)
  show "mfind d' p = mfind d p \<or> mfind d' p = Some data"
    by (rule write_file_cases [OF assms]) (simp_all add: renamed)
qed

definition file_fits :: "state_os \<Rightarrow> string \<Rightarrow> string \<Rightarrow> bool" where
  "file_fits os p data = (so_open os (p @ ''.tmp'') \<and> length data \<le> so_room os (p @ ''.tmp'') \<and> so_rename os p)"

lemma write_file_last: "file_fits os p data \<Longrightarrow> mfind (last (write_file os p data d)) p = Some data"
  by (simp add: write_file_def file_fits_def Let_def renamed)

lemma write_file_Nil [simp]: "write_file os p data d \<noteq> []"
  by (simp add: write_file_def Let_def)

lemma last_states: "ds \<noteq> [] \<Longrightarrow> \<forall>d'\<in>set ds. P d' \<Longrightarrow> P (last ds)"
  by simp

section \<open>Paired clients\<close>

definition order_law :: "state_os \<Rightarrow> bool" where
  "order_law os \<longleftrightarrow> (\<forall>ps. set (so_order os ps) = set ps)"

definition stored :: "string \<Rightarrow> disk \<Rightarrow> string set" where
  "stored dir d = {c. c \<noteq> [] \<and> (\<exists>p. is_client_file dir p \<and> mfind d p = Some c)}"

lemma mfind_dom: "p \<in> fst ` set d \<longleftrightarrow> mfind d p \<noteq> None"
  by (simp add: mfind_def map_of_eq_None_iff)

lemma entry_name_iff: "entry_name dir p = Some n \<longleftrightarrow> p = dir @ CHR ''/'' # n \<and> n \<noteq> [] \<and> CHR ''/'' \<notin> set n"
  by (auto simp: entry_name_def Let_def prefix_def)

lemma client_file_dom:
  assumes "order_law os"
  shows "p \<in> set (filter (is_client_file dir) (so_order os (filter (\<lambda>p. entry_name dir p \<noteq> None) (map fst d))))
    \<longleftrightarrow> is_client_file dir p \<and> mfind d p \<noteq> None"
proof -
  have "is_client_file dir p \<Longrightarrow> entry_name dir p \<noteq> None" by (cases "entry_name dir p") (simp_all add: is_client_file_def)
  then show ?thesis using assms mfind_dom [of p d] by (auto simp: order_law_def)
qed

lemma load_clients_set:
  assumes "order_law os"
  shows "set (load_clients os dir d) = stored dir d"
proof -
  define ps where "ps = filter (is_client_file dir) (so_order os (filter (\<lambda>p. entry_name dir p \<noteq> None) (map fst d)))"
  have "p \<in> set ps \<and> c = read_file p d \<longleftrightarrow> is_client_file dir p \<and> mfind d p = Some c" for p c
    using client_file_dom [OF assms, of p dir d, folded ps_def] by (cases "mfind d p") (auto simp: read_file_def)
  moreover have "set (load_clients os dir d) = {c. c \<noteq> [] \<and> (\<exists>p\<in>set ps. c = read_file p d)}"
    unfolding load_clients_def ps_def [symmetric] by auto
  ultimately show ?thesis unfolding stored_def by blast
qed

lemma client_file_name:
  "entry_name (clients_dir dir) (client_file os dir pem) = Some (to_string (so_hash os pem) @ ''.pem'')"
proof -
  have "CHR ''/'' \<notin> set (to_string (so_hash os pem))" using to_string_digits [of "CHR ''/''"] by force
  then show ?thesis by (simp add: entry_name_def client_file_def)
qed

lemma client_file_is: "is_client_file (clients_dir dir) (client_file os dir pem)"
  by (simp add: is_client_file_def client_file_name pem_name_def suffix_def)

lemma client_file_suffix: "is_client_file dir p \<Longrightarrow> suffix ''.pem'' p"
  by (auto simp: is_client_file_def pem_name_def entry_name_iff suffix_def split: option.splits)

lemma tmp_is_not: "\<not> is_client_file dir (p @ ''.tmp'')"
  using client_file_suffix [of dir "p @ ''.tmp''"] by (auto simp: suffix_def dest!: arg_cong [of _ _ rev])

text \<open> C25: Pairing survives a crash and a restart: whenever the process dies while it records a client, the next
  start finds either the clients of before or those with the new one, never a truncated certificate; if
  the write goes through, the new one is there. The exact cost is visible in the second case: a client
  whose certificate has the same hash is forgotten. \<close>

theorem pairing_survives:
  assumes "pem \<noteq> []" "order_law os2" "snd (add_paired_client os pem s d) = ds"
  shows "let dir = clients_dir (as_state_dir s); f = client_file os (as_state_dir s) pem;
      new = insert pem (stored dir (merase f d)) in
    list_all (\<lambda>d'. set (load_clients os2 dir d') = stored dir d \<or> set (load_clients os2 dir d') = new) ds \<and>
    (if file_fits os f pem then set (load_clients os2 dir (last ds)) = new else True)"
proof -
  define dir f where "dir = clients_dir (as_state_dir s)" and "f = client_file os (as_state_dir s) pem"
  have ds: "ds = write_file os f pem d" using assms(3) by (simp add: add_paired_client_def f_def)
  have f: "is_client_file dir f" by (simp add: dir_def f_def client_file_is)
  have other: "mfind d' p = mfind d p" if "d' \<in> set ds" "is_client_file dir p" "p \<noteq> f" for d' p
    using write_file_states(1) [of d' os f pem d p] that tmp_is_not [of dir f] by (auto simp: ds)
  have new: "stored dir d' = insert pem (stored dir (merase f d))" if "d' \<in> set ds" "mfind d' f = Some pem" for d'
  proof -
    have "c \<noteq> [] \<and> is_client_file dir p \<and> mfind d' p = Some c \<longleftrightarrow>
        (p = f \<and> c = pem) \<or> (c \<noteq> [] \<and> is_client_file dir p \<and> mfind (merase f d) p = Some c)" for p c
      using other [OF that(1), of p] that(2) f assms(1) by (cases "p = f") (auto simp: merase_find)
    then show ?thesis unfolding stored_def by blast
  qed
  have old: "stored dir d' = stored dir d" if "d' \<in> set ds" "mfind d' f = mfind d f" for d'
  proof -
    have "mfind d' p = mfind d p" if "is_client_file dir p" for p
      using other [OF \<open>d' \<in> set ds\<close> that] \<open>mfind d' f = mfind d f\<close> by (cases "p = f") auto
    then show ?thesis by (auto simp: stored_def)
  qed
  have "list_all (\<lambda>d'. stored dir d' = stored dir d \<or> stored dir d' = insert pem (stored dir (merase f d))) ds"
    using new old write_file_states(2) [of _ os f pem d] unfolding list_all_iff ds by blast
  moreover have "stored dir (last ds) = insert pem (stored dir (merase f d))" if "file_fits os f pem"
    using new [of "last ds"] write_file_last [OF that] by (simp add: ds)
  ultimately show ?thesis by (simp add: load_clients_set [OF assms(2)] Let_def flip: dir_def f_def)
qed

definition demo_state_os :: state_os where
  "demo_state_os = \<lparr>so_getenv = (\<lambda>_. None), so_open = (\<lambda>_. True), so_room = (\<lambda>_. 40), so_writer_ok = (\<lambda>_. True),
     so_rename = (\<lambda>_. True), so_mkdir = (\<lambda>_. True), so_order = rev, so_random = (\<lambda>n. n mod 16), so_hash = length,
     so_new_key = ''KEY'', so_new_cert = ''CERT'', so_hostname = ''host'', so_socket = True,
     so_ifaddrs = Some [(''lo'', True, None), (''eth0'', True, Some [1, 2, 3, 4, 5, 6])]\<rparr>"

definition demo_x509 :: x509_lib where
  "demo_x509 = \<lparr>xl_cert = (\<lambda>p. if p = [] then None else Some \<lparr>x_pem = p, x_signature = bytes_of p, x_public_key = p\<rparr>),
     xl_key = (\<lambda>p. if p = [] then None else Some p), xl_chain = (\<lambda>p c. if p = Some c then [] else [20, 18])\<rparr>"

lemma demo_order_law: "order_law demo_state_os"
  by (simp add: order_law_def demo_state_os_def)

definition demo_app_state :: AppState where
  "demo_app_state = \<lparr>as_cert = xl_cert demo_x509 ''CERT'', as_pkey = Some ''KEY'', as_cert_path = ''s/cert.pem'',
     as_key_path = ''s/key.pem'', as_uuid = ''u'', as_hostname = ''host'', as_mac_address = first_mac demo_state_os,
     as_http_port = 47989, as_https_port = 47984, as_rtsp_port = 48010, as_video_stream_port = 48100,
     as_audio_stream_port = 48200, as_control_stream_port = 47999, as_support_hevc = False, as_support_av1 = False,
     as_display_modes = [], as_apps = [\<lparr>app_title = ''Steam'', app_ident = ''1'', support_hdr = False\<rparr>],
     as_state_dir = ''s'', as_pairing_cache = [], as_paired_clients = [''PHONE'']\<rparr>"

theorem pairing_survives_witness:
  "set (load_clients demo_state_os ''s/clients'' (last (snd (add_paired_client demo_state_os ''PEM'' demo_app_state [])))) = {''PEM''}"
proof -
  have "stored ''s/clients'' (merase f []) = {}" for f
    by (simp add: stored_def merase_def mfind_def)
  moreover have "file_fits demo_state_os (client_file demo_state_os ''s'' ''PEM'') ''PEM''"
    by (simp add: file_fits_def demo_state_os_def)
  moreover have "as_state_dir demo_app_state = ''s''" by (simp add: demo_app_state_def)
  ultimately show ?thesis
    using pairing_survives [of "''PEM''" demo_state_os demo_state_os demo_app_state "[]", OF _ demo_order_law refl]
    by (simp add: Let_def clients_dir_def)
qed

section \<open>Identity\<close>

lemma write_pem_other: "d' \<in> set (snd (write_pem os p data d)) \<Longrightarrow> q \<noteq> p \<Longrightarrow> mfind d' q = mfind d q"
  using put_file_other [of d' os p data d q] by (auto simp: write_pem_def Let_def merase_find mput_find split: if_splits)

lemma write_pem_Nil [simp]: "snd (write_pem os p data d) \<noteq> []"
  by (simp add: write_pem_def Let_def)

lemma write_pem_last:
  "write_pem os p data d = (None, ds) \<Longrightarrow> last ds = mput p (take (so_room os p) data) d \<and> so_writer_ok os p"
  by (auto simp: write_pem_def Let_def split: if_splits)

text \<open>The disks while an identity is created: nothing, the key, or both, as far as each fits.\<close>

lemma write_to_disk_states:
  assumes "d' \<in> set (snd (write_to_disk os k K c C d))" "K \<noteq> C" "C \<noteq> K @ ''.tmp''" "K \<noteq> C @ ''.tmp''"
  shows "q \<notin> {K, C, K @ ''.tmp'', C @ ''.tmp''} \<Longrightarrow> mfind d' q = mfind d q"
    and "(mfind d' K, mfind d' C) \<in> {(mfind d K, mfind d C), (Some (take (so_room os (K @ ''.tmp'')) k), mfind d C),
      (Some (take (so_room os (K @ ''.tmp'')) k), Some (take (so_room os (C @ ''.tmp'')) c))}"
proof -
  let ?k = "take (so_room os (K @ ''.tmp'')) k" and ?c = "take (so_room os (C @ ''.tmp'')) c"
  let ?d2 = "mput (C @ ''.tmp'') ?c (mput (K @ ''.tmp'') ?k d)"
  let ?d3 = "rename (K @ ''.tmp'') K ?d2"
  have cases: "(\<forall>q. q \<notin> {K @ ''.tmp'', C @ ''.tmp''} \<longrightarrow> mfind d' q = mfind d q) \<or> d' = ?d3 \<or> d' = rename (C @ ''.tmp'') C ?d3"
    (is "?A \<or> _")
  proof (cases "write_pem os (K @ ''.tmp'') k d")
    case (Pair e1 ds1)
    note p1 = Pair
    have o1: "x \<in> set ds1 \<Longrightarrow> q \<noteq> K @ ''.tmp'' \<Longrightarrow> mfind x q = mfind d q" for x q
      using write_pem_other [of x os "K @ ''.tmp''" k d q] p1 by simp
    show ?thesis
    proof (cases e1)
      case (Some e)
      with assms(1) p1 o1 show ?thesis by (auto simp: write_to_disk_def)
    next
      case None
      note l1 = write_pem_last [OF p1 [unfolded None]]
      obtain e2 ds2 where p2: "write_pem os (C @ ''.tmp'') c (last ds1) = (e2, ds2)" by force
      have o2: "x \<in> set ds2 \<Longrightarrow> q \<notin> {K @ ''.tmp'', C @ ''.tmp''} \<Longrightarrow> mfind x q = mfind d q" for x q
        using write_pem_other [of x os "C @ ''.tmp''" c "last ds1" q] p2 l1 by (simp add: mput_find)
      show ?thesis
      proof (cases e2)
        case (Some e)
        with assms(1) p1 p2 None o1 o2 show ?thesis by (auto simp: write_to_disk_def)
      next
        case e2: None
        note l2 = write_pem_last [OF p2 [unfolded e2]]
        have "d' \<in> set ds1 \<or> d' \<in> set ds2 \<or> d' = ?d3 \<or> d' = rename (C @ ''.tmp'') C ?d3"
          using assms(1) p1 p2 None e2 l1 l2 by (auto simp: write_to_disk_def install_def split: if_splits)
        then show ?thesis using o1 o2 by blast
      qed
    qed
  qed
  have f3: "mfind ?d3 q = (if q = K then Some ?k else if q = K @ ''.tmp'' then None
      else if q = C @ ''.tmp'' then Some ?c else mfind d q)" for q
    using rename_find [of ?d2 "K @ ''.tmp''" ?k K q] assms(2,3) by (simp add: mput_find)
  have f4: "mfind (rename (C @ ''.tmp'') C ?d3) q = (if q = C then Some ?c else if q = C @ ''.tmp'' then None
      else mfind ?d3 q)" for q
    using rename_find [of ?d3 "C @ ''.tmp''" ?c C q] f3 assms(2,4) by simp
  show "q \<notin> {K, C, K @ ''.tmp'', C @ ''.tmp''} \<Longrightarrow> mfind d' q = mfind d q"
    using cases f4 f3 by auto
  show "(mfind d' K, mfind d' C) \<in> {(mfind d K, mfind d C), (Some ?k, mfind d C), (Some ?k, Some ?c)}"
    using cases f4 f3 assms(2-4) by auto
qed

lemma write_to_disk_Nil [simp]: "snd (write_to_disk os k K c C d) \<noteq> []"
proof (cases "write_pem os (K @ ''.tmp'') k d")
  case (Pair e ds)
  moreover from this have "ds \<noteq> []" using write_pem_Nil [of os "K @ ''.tmp''" k d] by simp
  ultimately show ?thesis by (cases e) (auto simp: write_to_disk_def split: prod.splits option.splits)
qed

lemma write_to_disk_done:
  assumes "write_to_disk os k K c C d = (None, ds)" "K \<noteq> C" "C \<noteq> K @ ''.tmp''" "K \<noteq> C @ ''.tmp''"
  shows "mfind (last ds) K = Some (take (so_room os (K @ ''.tmp'')) k)"
    "mfind (last ds) C = Some (take (so_room os (C @ ''.tmp'')) c)"
proof -
  obtain ds1 where p1: "write_pem os (K @ ''.tmp'') k d = (None, ds1)"
    using assms(1) by (auto simp: write_to_disk_def split: prod.splits option.splits)
  obtain ds2 where p2: "write_pem os (C @ ''.tmp'') c (last ds1) = (None, ds2)"
    using assms(1) p1 by (auto simp: write_to_disk_def split: prod.splits option.splits)
  let ?k = "take (so_room os (K @ ''.tmp'')) k" and ?c = "take (so_room os (C @ ''.tmp'')) c"
  let ?d2 = "mput (C @ ''.tmp'') ?c (mput (K @ ''.tmp'') ?k d)"
  let ?d3 = "rename (K @ ''.tmp'') K ?d2"
  have f3: "mfind ?d3 q = (if q = K then Some ?k else if q = K @ ''.tmp'' then None
      else if q = C @ ''.tmp'' then Some ?c else mfind d q)" for q
    using rename_find [of ?d2 "K @ ''.tmp''" ?k K q] assms(2,3) by (simp add: mput_find)
  have "last ds = rename (C @ ''.tmp'') C ?d3"
    using assms(1) p1 p2 write_pem_last [OF p1] write_pem_last [OF p2]
    by (auto simp: write_to_disk_def install_def split: if_splits)
  then show "mfind (last ds) K = Some ?k" "mfind (last ds) C = Some ?c"
    using rename_find [of ?d3 "C @ ''.tmp''" ?c C] f3 assms(2-4) by auto
qed

text \<open>The steps of \<open>init\<close>: nothing is written, or the identity, or the identity and then the identifier.\<close>

lemma init_states:
  assumes "d' \<in> set (snd (init os x dir d))"
  shows "d' = d \<or> d' \<in> set (snd (ensure_identity os (dir @ ''/key.pem'') (dir @ ''/cert.pem'') d)) \<or>
    (fst (ensure_identity os (dir @ ''/key.pem'') (dir @ ''/cert.pem'') d) = None \<and>
     d' \<in> set (snd (ensure_uuid os (dir @ ''/uuid'') (last (snd (ensure_identity os (dir @ ''/key.pem'') (dir @ ''/cert.pem'') d))))))"
  using assms by (auto simp: init_def Let_def split: if_splits prod.splits option.splits)

lemma ensure_uuid_other:
  "d' \<in> set (snd (ensure_uuid os p d)) \<Longrightarrow> q \<noteq> p \<Longrightarrow> q \<noteq> p @ ''.tmp'' \<Longrightarrow> mfind d' q = mfind d q"
  using write_file_states(1) [of d' os p "gen_uuid os" d q] by (auto simp: ensure_uuid_def Let_def split: if_splits)

lemma ensure_identity_Nil [simp]: "snd (ensure_identity os K C d) \<noteq> []"
  using write_to_disk_Nil by (simp add: ensure_identity_def Let_def)

definition half_identity :: "string \<Rightarrow> disk \<Rightarrow> bool" where
  "half_identity dir d = (file_ok (dir @ ''/key.pem'') d \<noteq> file_ok (dir @ ''/cert.pem'') d)"

lemma half_refused:
  assumes "half_identity dir d" "so_getenv os ''STEAM_STREAM_ALLOW_NEW_IDENTITY'' = None"
  shows "\<exists>e. init os x dir d = (Inl e, [d])"
proof -
  have "ensure_identity os (dir @ ''/key.pem'') (dir @ ''/cert.pem'') d = (Some ''inconsistent server identity'', [d])"
    using assms unfolding half_identity_def ensure_identity_def by (simp add: Let_def)
  then show ?thesis by (simp add: init_def Let_def)
qed

text \<open> C23: The server's identity survives a crash: a start never changes a complete identity; from a directory
  without one, each moment has the old files, the new key alone, or both new files; and a directory that
  is left with one half only is refused, unchanged, by every later start that is not told otherwise. \<close>

theorem identity_crash_safe:
  assumes "d' \<in> set (snd (init os x dir d))" "so_getenv os2 ''STEAM_STREAM_ALLOW_NEW_IDENTITY'' = None"
  shows "let K = dir @ ''/key.pem''; C = dir @ ''/cert.pem'';
      k = take (so_room os (K @ ''.tmp'')) (so_new_key os); c = take (so_room os (C @ ''.tmp'')) (so_new_cert os) in
    (if file_ok K d \<and> file_ok C d then mfind d' K = mfind d K \<and> mfind d' C = mfind d C
     else (mfind d' K, mfind d' C) \<in> {(mfind d K, mfind d C), (Some k, mfind d C), (Some k, Some c)}) \<and>
    (if half_identity dir d' then \<exists>e. init os2 x dir d' = (Inl e, [d']) else True)"
proof -
  define K C where "K = dir @ ''/key.pem''" and "C = dir @ ''/cert.pem''"
  define k c where "k = take (so_room os (K @ ''.tmp'')) (so_new_key os)" and "c = take (so_room os (C @ ''.tmp'')) (so_new_cert os)"
  have ne: "K \<noteq> C" "C \<noteq> K @ ''.tmp''" "K \<noteq> C @ ''.tmp''" by (simp_all add: K_def C_def)
  let ?P = "\<lambda>d'. if file_ok K d \<and> file_ok C d then mfind d' K = mfind d K \<and> mfind d' C = mfind d C
     else (mfind d' K, mfind d' C) \<in> {(mfind d K, mfind d C), (Some k, mfind d C), (Some k, Some c)}"
  have i: "?P e" if "e \<in> set (snd (ensure_identity os K C d))" for e
    using that write_to_disk_states(2) [OF _ ne, of e os "so_new_key os" "so_new_cert os" d, folded k_def c_def]
    by (auto simp: ensure_identity_def Let_def split: if_splits)
  then have l: "?P (last (snd (ensure_identity os K C d)))" using last_in_set [OF ensure_identity_Nil] by blast
  have "?P d'"
  proof -
    consider "d' = d" | "d' \<in> set (snd (ensure_identity os K C d))"
      | "d' \<in> set (snd (ensure_uuid os (dir @ ''/uuid'') (last (snd (ensure_identity os K C d)))))"
      using init_states [OF assms(1), folded K_def C_def] by blast
    then show ?thesis
    proof cases
      case 3
      have "mfind d' K = mfind (last (snd (ensure_identity os K C d))) K"
        "mfind d' C = mfind (last (snd (ensure_identity os K C d))) C"
        using ensure_uuid_other [OF 3] by (simp_all add: K_def C_def)
      from this l show ?thesis by (simp only:)
    next
      case 2
      then show ?thesis by (rule i)
    qed simp
  qed
  moreover have "if half_identity dir d' then \<exists>e. init os2 x dir d' = (Inl e, [d']) else True"
    using half_refused [OF _ assms(2), of dir d' x] by simp
  ultimately show ?thesis unfolding Let_def K_def [symmetric] C_def [symmetric] k_def [symmetric] c_def [symmetric]
    by blast
qed

text \<open>A start whose second rename fails leaves the key alone.\<close>

theorem identity_crash_safe_witness:
  "let os = demo_state_os\<lparr>so_rename := (\<lambda>p. p = ''s/key.pem'')\<rparr> in
   \<exists>d' e. d' \<in> set (snd (init os demo_x509 ''s'' [])) \<and> half_identity ''s'' d' \<and>
     init demo_state_os demo_x509 ''s'' d' = (Inl e, [d'])"
proof -
  let ?os = "demo_state_os\<lparr>so_rename := (\<lambda>p. p = ''s/key.pem'')\<rparr>"
  have "case ensure_identity ?os ''s/key.pem'' ''s/cert.pem'' [] of
    (e, ds) \<Rightarrow> e \<noteq> None \<and> (case last ds of d \<Rightarrow> file_ok ''s/key.pem'' d \<and> \<not> file_ok ''s/cert.pem'' d)"
    by code_simp
  then obtain e ds where i: "ensure_identity ?os ''s/key.pem'' ''s/cert.pem'' [] = (Some e, ds)"
    "file_ok ''s/key.pem'' (last ds)" "\<not> file_ok ''s/cert.pem'' (last ds)"
    by (auto split: prod.splits)
  then have "snd (init ?os demo_x509 ''s'' []) = ds"
    by (simp add: init_def Let_def demo_state_os_def)
  moreover have "ds \<noteq> []" using ensure_identity_Nil [of ?os "''s/key.pem''" "''s/cert.pem''" "[]"] i(1) by simp
  ultimately have "last ds \<in> set (snd (init ?os demo_x509 ''s'' []))" by simp
  moreover have "half_identity ''s'' (last ds)" using i by (simp add: half_identity_def)
  moreover have "so_getenv demo_state_os ''STEAM_STREAM_ALLOW_NEW_IDENTITY'' = None" by (simp add: demo_state_os_def)
  ultimately show ?thesis
    using identity_crash_safe [of "last ds" ?os demo_x509 "''s''" "[]" demo_state_os] by (auto simp: Let_def)
qed

lemma client_file_not_identity:
  assumes "is_client_file (clients_dir dir) p"
  shows "p \<notin> {dir @ ''/key.pem'', dir @ ''/cert.pem'', (dir @ ''/key.pem'') @ ''.tmp'', (dir @ ''/cert.pem'') @ ''.tmp''}"
    "p \<noteq> dir @ ''/uuid''" "p \<noteq> (dir @ ''/uuid'') @ ''.tmp''"
  using assms by (auto simp: is_client_file_def entry_name_iff clients_dir_def split: option.splits)

lemma ensure_identity_other:
  assumes "d' \<in> set (snd (ensure_identity os (dir @ ''/key.pem'') (dir @ ''/cert.pem'') d))" "is_client_file (clients_dir dir) p"
  shows "mfind d' p = mfind d p"
proof (cases "d' = d")
  case False
  have ne: "dir @ ''/key.pem'' \<noteq> dir @ ''/cert.pem''" "dir @ ''/cert.pem'' \<noteq> (dir @ ''/key.pem'') @ ''.tmp''"
    "dir @ ''/key.pem'' \<noteq> (dir @ ''/cert.pem'') @ ''.tmp''" by simp_all
  have "d' \<in> set (snd (write_to_disk os (so_new_key os) (dir @ ''/key.pem'') (so_new_cert os) (dir @ ''/cert.pem'') d))"
    using assms(1) False by (simp add: ensure_identity_def Let_def split: if_splits)
  from write_to_disk_states(1) [OF this ne client_file_not_identity(1) [OF assms(2)]] show ?thesis .
qed simp

lemma ensure_uuid_read:
  assumes "ensure_uuid os p d = (u, ds)" "file_ok p (last ds)"
  shows "u = read_file p (last ds)"
proof (cases "file_ok p d")
  case False
  with assms(1) have u: "u = gen_uuid os" "ds = write_file os p u d" by (auto simp: ensure_uuid_def Let_def)
  then have "mfind (last ds) p = mfind d p \<or> mfind (last ds) p = Some u"
    using write_file_states(2) [of "last ds" os p u d] by simp
  with False assms(2) show ?thesis by (auto simp: file_ok_def read_file_def)
qed (use assms in \<open>auto simp: ensure_uuid_def\<close>)

lemma init_Inr:
  assumes "init os x dir d = (Inr s, ds)"
  obtains ds1 ds2 key cert uuid where
    "ensure_identity os (dir @ ''/key.pem'') (dir @ ''/cert.pem'') d = (None, ds1)"
    "mfind (last ds1) (dir @ ''/key.pem'') = Some key" "mfind (last ds1) (dir @ ''/cert.pem'') = Some cert"
    "ensure_uuid os (dir @ ''/uuid'') (last ds1) = (uuid, ds2)" "ds = ds1 @ ds2"
    "as_cert s = xl_cert x cert" "as_pkey s = xl_key x key" "as_uuid s = uuid"
    "as_paired_clients s = load_clients os (clients_dir dir) d" "so_mkdir os dir" "so_mkdir os (clients_dir dir)"
proof -
  have m: "so_mkdir os dir" "so_mkdir os (clients_dir dir)" using assms by (auto simp: init_def split: if_splits)
  obtain ds1 where e: "ensure_identity os (dir @ ''/key.pem'') (dir @ ''/cert.pem'') d = (None, ds1)"
    using assms m by (auto simp: init_def Let_def split: prod.splits option.splits)
  obtain key cert where k: "mfind (last ds1) (dir @ ''/key.pem'') = Some key" "mfind (last ds1) (dir @ ''/cert.pem'') = Some cert"
    using assms m e by (auto simp: init_def Let_def split: option.splits)
  obtain uuid ds2 where u: "ensure_uuid os (dir @ ''/uuid'') (last ds1) = (uuid, ds2)" by force
  show ?thesis by (rule that [OF e k u]) (use assms m e k u in \<open>auto simp: init_def Let_def\<close>)
qed

text \<open> C24: A restart finds the identity it left: after a start that has all its files on disk, the next one on the
  same directory returns the same certificate, key, identifier and clients, and writes nothing. \<close>

theorem restart_keeps_identity:
  assumes i: "init os x dir d = (Inr s, ds)" and o: "order_law os" "order_law os2" "so_mkdir os2 = so_mkdir os"
    and f: "list_all (\<lambda>f. file_ok (dir @ f) (last ds)) [''/key.pem'', ''/cert.pem'', ''/uuid'']"
  shows "case init os2 x dir (last ds) of
      (Inl _, _) \<Rightarrow> False
    | (Inr s2, ds2) \<Rightarrow> set ds2 = {last ds} \<and> as_cert s2 = as_cert s \<and> as_pkey s2 = as_pkey s \<and>
        as_uuid s2 = as_uuid s \<and> set (as_paired_clients s2) = set (as_paired_clients s)"
proof -
  obtain ds1 ds2 key cert uuid where s:
    "ensure_identity os (dir @ ''/key.pem'') (dir @ ''/cert.pem'') d = (None, ds1)"
    "mfind (last ds1) (dir @ ''/key.pem'') = Some key" "mfind (last ds1) (dir @ ''/cert.pem'') = Some cert"
    "ensure_uuid os (dir @ ''/uuid'') (last ds1) = (uuid, ds2)" "ds = ds1 @ ds2"
    "as_cert s = xl_cert x cert" "as_pkey s = xl_key x key" "as_uuid s = uuid"
    "as_paired_clients s = load_clients os (clients_dir dir) d" "so_mkdir os dir" "so_mkdir os (clients_dir dir)"
    by (rule init_Inr [OF i])
  have ne: "ds1 \<noteq> []" "ds2 \<noteq> []"
    using s(1) ensure_identity_Nil [of os "dir @ ''/key.pem''" "dir @ ''/cert.pem''" d] s(4)
    by (auto simp: ensure_uuid_def Let_def split: if_splits)
  have last: "last ds = last ds2" using s(5) ne by simp
  have u: "mfind (last ds) q = mfind (last ds1) q" if "q \<noteq> dir @ ''/uuid''" "q \<noteq> (dir @ ''/uuid'') @ ''.tmp''" for q
    using ensure_uuid_other [of "last ds2" os "dir @ ''/uuid''" "last ds1" q] that s(4) ne last by simp
  have kc: "mfind (last ds) (dir @ ''/key.pem'') = Some key" "mfind (last ds) (dir @ ''/cert.pem'') = Some cert"
    using u s(2,3) by simp_all
  have uu: "uuid = read_file (dir @ ''/uuid'') (last ds)"
    using ensure_uuid_read [OF s(4)] f last by simp
  have "mfind (last ds) p = mfind d p" if "is_client_file (clients_dir dir) p" for p
    using u [of p] client_file_not_identity [OF that] ensure_identity_other [OF _ that, of "last ds1" os d] s(1) ne by simp
  then have st: "stored (clients_dir dir) (last ds) = stored (clients_dir dir) d" by (auto simp: stored_def)
  have "ensure_identity os2 (dir @ ''/key.pem'') (dir @ ''/cert.pem'') (last ds) = (None, [last ds])"
    "ensure_uuid os2 (dir @ ''/uuid'') (last ds) = (uuid, [last ds])"
    using f uu by (simp_all add: ensure_identity_def ensure_uuid_def)
  with s kc st show ?thesis
    by (simp add: init_def Let_def o load_clients_set)
qed

definition demo_disk :: disk where
  "demo_disk = [(''s/cert.pem'', ''CERT''), (''s/clients/7.pem'', ''PHONE''), (''s/key.pem'', ''KEY'')]"

theorem restart_keeps_identity_witness:
  "case init demo_state_os demo_x509 ''s'' demo_disk of
     (Inl _, _) \<Rightarrow> False
   | (Inr s, ds) \<Rightarrow>
     (case init demo_state_os demo_x509 ''s'' (last ds) of
        (Inl _, _) \<Rightarrow> False
      | (Inr s2, ds2) \<Rightarrow> as_uuid s2 = gen_uuid demo_state_os \<and> set ds2 = {last ds})"
proof -
  let ?d = demo_disk and ?ds = "write_file demo_state_os ''s/uuid'' (gen_uuid demo_state_os) demo_disk"
  have n: "\<not> file_ok ''s/uuid'' ?d" "file_ok ''s/key.pem'' ?d" "file_ok ''s/cert.pem'' ?d"
    "mfind ?d ''s/key.pem'' = Some ''KEY''" "mfind ?d ''s/cert.pem'' = Some ''CERT''" by code_simp+
  have "length (gen_uuid demo_state_os) = 36" by code_simp
  then have "mfind (last ?ds) ''s/uuid'' = Some (gen_uuid demo_state_os)"
    by (intro write_file_last) (simp add: file_fits_def demo_state_os_def)
  moreover have "gen_uuid demo_state_os \<noteq> []" using \<open>length (gen_uuid demo_state_os) = 36\<close> by auto
  moreover have "mfind (last ?ds) q = mfind ?d q" if "q \<in> {''s/key.pem'', ''s/cert.pem''}" for q
    using write_file_states(1) [of "last ?ds" demo_state_os "''s/uuid''" "gen_uuid demo_state_os" ?d q] that by auto
  ultimately have f: "list_all (\<lambda>f. file_ok (''s'' @ f) (last ?ds)) [''/key.pem'', ''/cert.pem'', ''/uuid'']"
    using n by (simp add: file_ok_def)
  have mk: "so_mkdir demo_state_os = (\<lambda>_. True)" by (simp add: demo_state_os_def)
  have "ensure_identity demo_state_os ''s/key.pem'' ''s/cert.pem'' ?d = (None, [?d])"
    "ensure_uuid demo_state_os ''s/uuid'' ?d = (gen_uuid demo_state_os, ?ds)"
    using n by (simp_all add: ensure_identity_def ensure_uuid_def Let_def)
  then obtain s where i: "init demo_state_os demo_x509 ''s'' ?d = (Inr s, ?d # ?ds)" "as_uuid s = gen_uuid demo_state_os"
    using n(4,5) by (simp add: init_def Let_def mk)
  from restart_keeps_identity [OF i(1) demo_order_law demo_order_law refl] f i(2)
  show ?thesis by (simp add: i(1) split: prod.splits sum.splits)
qed

end
