(* ===== verification/Pairing_Props.thy ===== *)
theory Pairing_Props
  imports Pairing AppState_Props "HOL-Library.Sublist"
begin

text \<open>
  What pairing promises: a client enters the store only by the complete handshake, with the PIN the user
  typed for its first request; a client that knows the PIN gets through; a refusal starts a pairing over.
  \<open>handshake\<close> is the specification of the protocol, independent of the store and the threads; the proof
  shows that every entry of the cache is backed by a handshake among the events so far.
\<close>

section \<open>The protocol\<close>

definition starts :: "string \<Rightarrow> string \<Rightarrow> string \<Rightarrow> string \<Rightarrow> pair_event \<Rightarrow> bool" where
  "starts key salt hex secret e =
     (case e of pair_request h ip rnd _ _ \<Rightarrow> request_key h ip = Some key \<and> get_header h ''salt'' = Some salt \<and>
        get_header h ''clientcert'' = Some hex \<and> secret = str_to_hex rnd
      | _ \<Rightarrow> False)"

definition posts :: "pairing_env \<Rightarrow> string \<Rightarrow> string \<Rightarrow> pair_event \<Rightarrow> bool" where
  "posts env pin secret e = (case e of pin_post body \<Rightarrow> pv_json env body = Some (pin, secret) | _ \<Rightarrow> False)"

definition asks :: "string \<Rightarrow> string \<Rightarrow> string \<Rightarrow> bytes \<Rightarrow> bytes \<Rightarrow> pair_event \<Rightarrow> bool" where
  "asks key name v secret challenge e =
     (case e of pair_request h ip _ s c \<Rightarrow> request_key h ip = Some key \<and> get_header h name = Some v \<and>
        s = secret \<and> c = challenge
      | _ \<Rightarrow> False)"

inductive handshake :: "pairing_env \<Rightarrow> string \<Rightarrow> pair_event list \<Rightarrow> PairCache \<Rightarrow> bool" for env key where
  keyed: "starts key salt hex secret e1 \<Longrightarrow> posts env pin secret e2 \<Longrightarrow>
    handshake env key [e1, e2] (new_pair_cache\<lparr>pc_client_cert := text_of (unhex hex),
      pc_aes_key := gen_aes_key (pv_ssl env) salt pin, pc_last_phase := GETSERVERCERT\<rparr>)"
| challenged: "handshake env key es pc \<Longrightarrow> pc_last_phase pc = GETSERVERCERT \<Longrightarrow>
    asks key ''clientchallenge'' v s c e \<Longrightarrow>
    handshake env key (es @ [e]) (pc\<lparr>pc_last_phase := CLIENTCHALLENGE, pc_server_secret := Some s, pc_server_challenge := Some c\<rparr>)"
| answered: "handshake env key es pc \<Longrightarrow> pc_last_phase pc = CLIENTCHALLENGE \<Longrightarrow>
    asks key ''serverchallengeresp'' v s c e \<Longrightarrow>
    handshake env key (es @ [e]) (pc\<lparr>pc_last_phase := SERVERCHALLENGERESP,
      pc_client_hash := Some (aes_decrypt_ecb (pv_ssl env) (unhex v) (pc_aes_key pc))\<rparr>)"

definition completes :: "pairing_env \<Rightarrow> string \<Rightarrow> string \<Rightarrow> PairCache \<Rightarrow> pair_event \<Rightarrow> bool" where
  "completes env key pem pc e \<longleftrightarrow> pc_last_phase pc = SERVERCHALLENGERESP \<and> pc_client_cert pc = pem \<and>
     (\<exists>v s c cert challenge hash. asks key ''clientpairingsecret'' v s c e \<and> xl_cert (pv_x509 env) pem = Some cert \<and>
        pc_server_challenge pc = Some challenge \<and> pc_client_hash pc = Some hash \<and>
        xml_paired (client_pair (pv_ssl env) (pc_aes_key pc) challenge hash v (x_signature cert) (x_public_key cert)))"

section \<open>Every cache entry is backed\<close>

definition thread_backed :: "pairing_env \<Rightarrow> pair_event list \<Rightarrow> pin_thread \<Rightarrow> bool" where
  "thread_backed env h t \<longleftrightarrow> (\<exists>e1. starts (pt_cache_key t) (pt_salt t) (pt_client_cert t) (pt_secret t) e1 \<and>
     (case pt_pin t of None \<Rightarrow> subseq [e1] h
      | Some pin \<Rightarrow> \<exists>e2. posts env pin (pt_secret t) e2 \<and> subseq [e1, e2] h))"

definition entry_backed :: "pairing_env \<Rightarrow> pair_event list \<Rightarrow> string \<Rightarrow> PairCache \<Rightarrow> bool" where
  "entry_backed env h key pc \<longleftrightarrow> (\<exists>hs. handshake env key hs pc \<and> subseq hs h)"

definition client_backed :: "pairing_env \<Rightarrow> pair_event list \<Rightarrow> string \<Rightarrow> bool" where
  "client_backed env h pem \<longleftrightarrow> (\<exists>key hs pc e. handshake env key hs pc \<and> completes env key pem pc e \<and> subseq (hs @ [e]) h)"

definition threads_ok :: "pairing_env \<Rightarrow> pair_event list \<Rightarrow> pairing \<Rightarrow> bool" where
  "threads_ok env h st \<longleftrightarrow>
     (\<forall>pid t. mfind (pr_threads st) pid = Some t \<longrightarrow> pid < pr_next st \<and> thread_backed env h t) \<and>
     (\<forall>secret p. (secret, p) \<in> set (pr_pending st) \<longrightarrow> pp_pin p < pr_next st \<and>
        (\<forall>t. mfind (pr_threads st) (pp_pin p) = Some t \<longrightarrow> pt_secret t = secret))"

definition cache_ok :: "pairing_env \<Rightarrow> pair_event list \<Rightarrow> AppState \<Rightarrow> bool" where
  "cache_ok env h app \<longleftrightarrow> (\<forall>key pc. get_pair_cache key app = Some pc \<longrightarrow> entry_backed env h key pc)"

definition clients_ok :: "pairing_env \<Rightarrow> string set \<Rightarrow> pair_event list \<Rightarrow> AppState \<Rightarrow> bool" where
  "clients_ok env old h app \<longleftrightarrow> (\<forall>pem\<in>set (as_paired_clients app). pem \<in> old \<or> client_backed env h pem)"

lemmas backed_defs = thread_backed_def entry_backed_def client_backed_def

definition backed :: "pairing_env \<Rightarrow> string set \<Rightarrow> pair_event list \<Rightarrow> pairing \<Rightarrow> bool" where
  "backed env old h st \<longleftrightarrow> threads_ok env h st \<and> cache_ok env h (pr_app st) \<and> clients_ok env old h (pr_app st)"

lemma subseq_snoc [intro]: "subseq xs h \<Longrightarrow> subseq xs (h @ [e])"
  by (rule subseq_rev_drop_many)

lemma backed_mono:
  assumes "backed env old h st"
  shows "backed env old (h @ [e]) st"
proof -
  have "thread_backed env h t \<Longrightarrow> thread_backed env (h @ [e]) t" for t
    unfolding thread_backed_def by (cases "pt_pin t") (auto simp del: subseq_append)
  moreover have "entry_backed env h key pc \<Longrightarrow> entry_backed env (h @ [e]) key pc" for key pc
    unfolding entry_backed_def by blast
  moreover have "client_backed env h pem \<Longrightarrow> client_backed env (h @ [e]) pem" for pem
    unfolding client_backed_def by blast
  ultimately show ?thesis using assms unfolding backed_def threads_ok_def cache_ok_def clients_ok_def by blast
qed

lemma cache_simps [simp]:
  "get_pair_cache k (set_pair_cache k' v s) = (if k = k' then Some v else get_pair_cache k s)"
  "get_pair_cache k (remove_pair_cache k' s) = (if k = k' then None else get_pair_cache k s)"
  "as_paired_clients (set_pair_cache k' v s) = as_paired_clients s"
  "as_paired_clients (remove_pair_cache k' s) = as_paired_clients s"
  "as_cert (set_pair_cache k' v s) = as_cert s" "as_cert (remove_pair_cache k' s) = as_cert s"
  "as_pkey (set_pair_cache k' v s) = as_pkey s" "as_pkey (remove_pair_cache k' s) = as_pkey s"
  by (simp_all add: get_pair_cache_def set_pair_cache_def remove_pair_cache_def mput_find merase_find)

lemma update_app_simps [simp]:
  "pr_app (update_app f st) = f (pr_app st)" "pr_threads (update_app f st) = pr_threads st"
  "pr_pending (update_app f st) = pr_pending st" "pr_next (update_app f st) = pr_next st"
  "pr_disk (update_app f st) = pr_disk st"
  by (simp_all add: update_app_def)

lemma threads_ok_update [simp]: "threads_ok env h (update_app f st) = threads_ok env h st"
  by (simp add: threads_ok_def)

lemma backed_set:
  "backed env old h st \<Longrightarrow> entry_backed env h key pc \<Longrightarrow> backed env old h (update_app (set_pair_cache key pc) st)"
  by (simp add: backed_def cache_ok_def clients_ok_def)

lemma backed_remove: "backed env old h st \<Longrightarrow> backed env old h (update_app (remove_pair_cache key) st)"
  by (simp add: backed_def cache_ok_def clients_ok_def)

lemma refuse_backed: "backed env old h st \<Longrightarrow> refuse key msg st = Some (st', out) \<Longrightarrow> backed env old h st'"
  by (auto simp: refuse_def intro: backed_remove)

section \<open>Every step keeps the backing\<close>

lemma set_mput: "set (mput k v m) \<subseteq> insert (k, v) (set m)"
  by (induction k v m rule: mput.induct) auto

lemma set_merase: "set (merase k m) \<subseteq> set m"
  by (auto simp: merase_def)

lemma phase1_backed:
  assumes b: "backed env old (h @ [e]) st" and s: "starts key salt hex (str_to_hex rnd) e"
    and r: "pair_phase1 rnd ip key salt hex st = Some (st', out)"
  shows "backed env old (h @ [e]) st'"
proof (cases "get_pair_cache key (pr_app st)")
  case (Some pc)
  with r have "refuse key ''Out of order pair request (phase 1)'' st = Some (st', out)" by (simp add: pair_phase1_def)
  with b refuse_backed show ?thesis by blast
next
  case None
  define t where "t = \<lparr>pt_secret = str_to_hex rnd, pt_salt = salt, pt_client_cert = hex, pt_cache_key = key, pt_pin = None\<rparr>"
  have t: "thread_backed env (h @ [e]) t"
    using s unfolding thread_backed_def t_def by (auto simp: subseq_singleton_left)
  have st': "pr_app st' = pr_app st" "pr_next st' = pr_next st + 1" "pr_threads st' = mput (pr_next st) t (pr_threads st)"
    "set (pr_pending st') \<subseteq> insert (str_to_hex rnd, \<lparr>pp_pin = pr_next st, pp_client_ip = ip\<rparr>) (set (pr_pending st))"
    using r None set_mput [of "str_to_hex rnd" "\<lparr>pp_pin = pr_next st, pp_client_ip = ip\<rparr>"
        "filter (\<lambda>(_, p). pp_client_ip p \<noteq> ip) (pr_pending st)"]
    by (auto simp: pair_phase1_def Let_def t_def)
  have "threads_ok env (h @ [e]) st'"
    unfolding threads_ok_def
  proof (intro conjI allI impI)
    fix pid u assume "mfind (pr_threads st') pid = Some u"
    then have "pid = pr_next st \<and> u = t \<or> mfind (pr_threads st) pid = Some u"
      by (auto simp: st'(3) mput_find split: if_splits)
    then show "pid < pr_next st'" "thread_backed env (h @ [e]) u"
      using b t by (auto simp: backed_def threads_ok_def st'(2) intro: less_SucI)
  next
    fix secret p assume "(secret, p) \<in> set (pr_pending st')"
    then consider "secret = str_to_hex rnd" "pp_pin p = pr_next st" | "(secret, p) \<in> set (pr_pending st)"
      using st'(4) by auto
    note c = this
    have old: "(secret, p) \<in> set (pr_pending st) \<Longrightarrow> pp_pin p < pr_next st \<and>
        (\<forall>t. mfind (pr_threads st) (pp_pin p) = Some t \<longrightarrow> pt_secret t = secret)"
      using b by (auto simp: backed_def threads_ok_def)
    from c show "pp_pin p < pr_next st'" using old by cases (auto simp: st'(2))
    fix u assume u: "mfind (pr_threads st') (pp_pin p) = Some u"
    from c show "pt_secret u = secret"
      using old u by cases (auto simp: st'(3) mput_find t_def split: if_splits)
  qed
  with b show ?thesis by (simp add: backed_def st'(1))
qed

lemma wait_over_backed:
  assumes b: "backed env old h st" and r: "wait_over env pid st = (st', out)"
  shows "backed env old h st'"
proof (cases "mfind (pr_threads st) pid")
  case None
  with b r show ?thesis by (simp add: wait_over_def)
next
  case (Some t)
  let ?st = "st\<lparr>pr_threads := merase pid (pr_threads st)\<rparr>"
  have b1: "backed env old h ?st" "backed env old h (?st\<lparr>pr_pending := merase s (pr_pending st)\<rparr>)" for s
    using b set_merase [of s "pr_pending st"] by (auto simp: backed_def threads_ok_def merase_find)
  have t: "thread_backed env h t" using b Some by (auto simp: backed_def threads_ok_def)
  show ?thesis
  proof (cases "pt_pin t")
    case None
    with r Some b1(2) show ?thesis by (auto simp: wait_over_def Let_def)
  next
    case pin: (Some pin)
    from t pin obtain e1 e2 where "starts (pt_cache_key t) (pt_salt t) (pt_client_cert t) (pt_secret t) e1"
      "posts env pin (pt_secret t) e2" "subseq [e1, e2] h" by (auto simp: thread_backed_def)
    then have "entry_backed env h (pt_cache_key t) (new_pair_cache\<lparr>pc_client_cert := text_of (unhex (pt_client_cert t)),
        pc_aes_key := gen_aes_key (pv_ssl env) (pt_salt t) pin, pc_last_phase := GETSERVERCERT\<rparr>)"
      unfolding entry_backed_def using handshake.keyed by blast
    from backed_set [OF b1(1) this] r Some pin show ?thesis
      by (auto simp: wait_over_def Let_def get_server_cert_def)
  qed
qed

lemma post_pin_backed:
  assumes b: "backed env old h st" and r: "post_pin env body st = (st', out)"
  shows "backed env old (h @ [pin_post body]) st'"
proof -
  note b' = backed_mono [OF b, of "pin_post body"]
  show ?thesis
  proof (cases "st' = st")
    case False
    then obtain pin secret p where p: "pv_json env body = Some (pin, secret)" "mfind (pr_pending st) secret = Some p"
      using r by (auto simp: post_pin_def split: option.splits prod.splits if_splits)
    have m: "(secret, p) \<in> set (pr_pending st)" using p(2) by (auto simp: mfind_def dest: map_of_SomeD)
    let ?st = "st\<lparr>pr_pending := merase secret (pr_pending st)\<rparr>"
    have b1: "backed env old (h @ [pin_post body]) ?st"
      using b' set_merase [of secret "pr_pending st"] by (auto simp: backed_def threads_ok_def)
    show ?thesis
    proof (cases "mfind (pr_threads st) (pp_pin p)")
      case None
      with r p b1 show ?thesis by (auto simp: post_pin_def)
    next
      case (Some t)
      with False r p have st': "st' = ?st\<lparr>pr_threads := mput (pp_pin p) (t\<lparr>pt_pin := Some pin\<rparr>) (pr_threads st)\<rparr>" "pt_pin t = None"
        by (auto simp: post_pin_def split: if_splits)
      have ts: "pt_secret t = secret" "pp_pin p < pr_next st" "thread_backed env h t"
        using b m Some by (auto simp: backed_def threads_ok_def)
      then obtain e1 where e1: "starts (pt_cache_key t) (pt_salt t) (pt_client_cert t) secret e1" "subseq [e1] h"
        using st'(2) by (auto simp: thread_backed_def)
      have "subseq ([e1] @ [pin_post body]) (h @ [pin_post body])" using e1(2) by (simp only: subseq_append)
      moreover have "posts env pin secret (pin_post body)" using p(1) by (simp add: posts_def)
      ultimately have "thread_backed env (h @ [pin_post body]) (t\<lparr>pt_pin := Some pin\<rparr>)"
        using e1(1) ts(1) by (auto simp: thread_backed_def)
      moreover have "pt_secret t = s" if "(s, p') \<in> set (merase secret (pr_pending st))" "pp_pin p' = pp_pin p" for s p'
        using b1 that Some unfolding backed_def threads_ok_def by fastforce
      ultimately show ?thesis using b1 ts unfolding st'(1)
        by (auto simp: backed_def threads_ok_def mput_find)
    qed
  qed (use b' in simp)
qed

text \<open>A request that continues a handshake extends the events that back its entry.\<close>

lemma extend_backed:
  assumes "entry_backed env h key pc" "\<And>hs. handshake env key hs pc \<Longrightarrow> handshake env key (hs @ [e]) pc'"
  shows "entry_backed env (h @ [e]) key pc'"
proof -
  obtain hs where "handshake env key hs pc" "subseq hs h" using assms(1) by (auto simp: entry_backed_def)
  then have "handshake env key (hs @ [e]) pc'" "subseq (hs @ [e]) (h @ [e])" using assms(2) by simp_all
  then show ?thesis unfolding entry_backed_def by blast
qed

lemma phase2_backed:
  assumes b: "backed env old (h @ [e]) st" and c: "entry_backed env h key pc"
    and a: "asks key ''clientchallenge'' v s ch e" and r: "pair_phase2 env s ch key pc v st = Some (st', out)"
  shows "backed env old (h @ [e]) st'"
proof (cases "pc_last_phase pc = GETSERVERCERT")
  case False
  with r refuse_backed [OF b] show ?thesis by (simp add: pair_phase2_def)
next
  case True
  have "entry_backed env (h @ [e]) key
      (pc\<lparr>pc_last_phase := CLIENTCHALLENGE, pc_server_secret := Some s, pc_server_challenge := Some ch\<rparr>)"
    by (rule extend_backed [OF c]) (rule handshake.challenged [OF _ True a])
  from backed_set [OF b this] r True show ?thesis
    by (auto simp: pair_phase2_def send_server_challenge_def Let_def split: option.splits)
qed

lemma phase3_backed:
  assumes b: "backed env old (h @ [e]) st" and c: "entry_backed env h key pc"
    and a: "asks key ''serverchallengeresp'' v s ch e" and r: "pair_phase3 env key pc secret v st = Some (st', out)"
  shows "backed env old (h @ [e]) st'"
proof (cases "pc_last_phase pc = CLIENTCHALLENGE")
  case False
  with r refuse_backed [OF b] show ?thesis by (simp add: pair_phase3_def)
next
  case True
  have "entry_backed env (h @ [e]) key (pc\<lparr>pc_last_phase := SERVERCHALLENGERESP,
      pc_client_hash := Some (aes_decrypt_ecb (pv_ssl env) (unhex v) (pc_aes_key pc))\<rparr>)"
    by (rule extend_backed [OF c]) (rule handshake.answered [OF _ True a])
  from backed_set [OF b this] r True show ?thesis
    by (auto simp: pair_phase3_def get_client_hash_def Let_def split: option.splits)
qed

lemma phase4_backed:
  assumes b: "backed env old (h @ [e]) st" and c: "entry_backed env h key pc"
    and a: "asks key ''clientpairingsecret'' v s ch e" and d: "pc_server_challenge pc = Some challenge" "pc_client_hash pc = Some hash"
    and r: "pair_phase4 env key pc challenge hash v st = Some (st', out)"
  shows "backed env old (h @ [e]) st'"
proof (cases "pc_last_phase pc = SERVERCHALLENGERESP \<and> xl_cert (pv_x509 env) (pc_client_cert pc) \<noteq> None")
  case False
  with r refuse_backed [OF b] show ?thesis by (auto simp: pair_phase4_def split: if_splits)
next
  case True
  then obtain cert where cert: "xl_cert (pv_x509 env) (pc_client_cert pc) = Some cert" by blast
  let ?xml = "client_pair (pv_ssl env) (pc_aes_key pc) challenge hash v (x_signature cert) (x_public_key cert)"
  show ?thesis
  proof (cases "xml_paired ?xml")
    case False
    with r True cert backed_remove [OF b, of key] show ?thesis by (auto simp: pair_phase4_def Let_def)
  next
    case paired: True
    obtain hs where hs: "handshake env key hs pc" "subseq (hs @ [e]) (h @ [e])" using c by (auto simp: entry_backed_def)
    have "completes env key (pc_client_cert pc) pc e"
      using True a d cert paired unfolding completes_def by blast
    with hs have "client_backed env (h @ [e]) (pc_client_cert pc)" unfolding client_backed_def by blast
    moreover have "pr_app st' = remove_pair_cache key (pr_app st\<lparr>as_paired_clients := as_paired_clients (pr_app st) @ [pc_client_cert pc]\<rparr>)"
      "pr_threads st' = pr_threads st" "pr_pending st' = pr_pending st" "pr_next st' = pr_next st"
      using r True cert paired by (auto simp: pair_phase4_def Let_def add_paired_client_def)
    ultimately show ?thesis
      using b by (auto simp: backed_def threads_ok_def cache_ok_def clients_ok_def get_pair_cache_def remove_pair_cache_def merase_find)
  qed
qed

lemma http_pair_backed:
  assumes b: "backed env old h st" and r: "http_pair env q ip rnd s ch st = Some (st', out)"
  shows "backed env old (h @ [pair_request q ip rnd s ch]) st'"
proof -
  let ?e = "pair_request q ip rnd s ch"
  note b' = backed_mono [OF b, of ?e]
  show ?thesis
  proof (cases "request_key q ip")
    case None
    with r b' show ?thesis by (simp add: http_pair_def)
  next
    case (Some key)
    have asks: "asks key name v s ch ?e" if "get_header q name = Some v" for name v
      using Some that by (simp add: asks_def)
    show ?thesis
    proof (cases "get_header q ''salt'' \<noteq> None \<and> get_header q ''clientcert'' \<noteq> None")
      case True
      then obtain salt hex where sh: "get_header q ''salt'' = Some salt" "get_header q ''clientcert'' = Some hex" by blast
      then have "starts key salt hex (str_to_hex rnd) ?e" using Some by (simp add: starts_def)
      from phase1_backed [OF b' this] r Some sh show ?thesis by (simp add: http_pair_def)
    next
      case False
      then have r': "(case get_pair_cache key (pr_app st) of None \<Rightarrow> Some (st, [xml_reply 400 (fail_pair (''Unable to find '' @ key @ '' in the pairing cache''))])
        | Some cache \<Rightarrow>
          (case get_header q ''clientchallenge'' of
             Some client_challenge \<Rightarrow> pair_phase2 env s ch key cache client_challenge st
           | None \<Rightarrow>
             (case (get_header q ''serverchallengeresp'', pc_server_secret cache) of
                (Some resp, Some secret) \<Rightarrow> pair_phase3 env key cache secret resp st
              | _ \<Rightarrow>
                (case (get_header q ''clientpairingsecret'', pc_server_challenge cache, pc_client_hash cache) of
                   (Some client_secret, Some challenge, Some client_hash) \<Rightarrow>
                     pair_phase4 env key cache challenge client_hash client_secret st
                 | _ \<Rightarrow> Some (st, []))))) = Some (st', out)"
        using r Some by (auto simp: http_pair_def split: option.splits)
      show ?thesis
      proof (cases "get_pair_cache key (pr_app st)")
        case None
        with r' b' show ?thesis by simp
      next
        case pc: (Some pc)
        then have c: "entry_backed env h key pc" using b by (simp add: backed_def cache_ok_def)
        from r' pc b' show ?thesis
          by (auto split: option.splits intro: phase2_backed [OF b' c] phase3_backed [OF b' c] phase4_backed [OF b' c] asks)
      qed
    qed
  qed
qed

lemma unpair_backed:
  assumes "backed env old h st" "unpair env q ip st = (st', out)"
  shows "backed env old h st'"
  using assms by (auto simp: unpair_def Let_def remove_paired_client_def backed_def threads_ok_def cache_ok_def
      clients_ok_def get_pair_cache_def split: option.splits)

lemma step_backed:
  assumes "backed env old h st" "pair_step env e st = Some (st', out)"
  shows "backed env old (h @ [e]) st'"
proof (cases e)
  case (pair_request q ip rnd s ch)
  with assms http_pair_backed show ?thesis by simp
next
  case (pin_wait_over pid)
  with assms(2) have "wait_over env pid st = (st', out)" by simp
  from wait_over_backed [OF backed_mono [OF assms(1)] this] show ?thesis .
next
  case (pin_post body)
  with assms post_pin_backed show ?thesis by simp
next
  case (unpair_request q ip)
  with assms(2) have "unpair env q ip st = (st', out)" by simp
  from unpair_backed [OF backed_mono [OF assms(1)] this] show ?thesis .
qed

lemma run_backed:
  "backed env old h st \<Longrightarrow> run (pair_step env) es st = Some (st', outs) \<Longrightarrow> backed env old (h @ es) st'"
proof (induction es arbitrary: h st outs)
  case (Cons e es)
  from Cons.prems(2) obtain st1 out outs1 where r: "pair_step env e st = Some (st1, out)"
    "run (pair_step env) es st1 = Some (st', outs1)" by (rule run_ConsE)
  from Cons.IH [OF step_backed [OF Cons.prems(1) r(1)] r(2)] show ?case by simp
qed simp

section \<open>The PIN is needed\<close>

inductive_cases handshakeE: "handshake env key hs pc"

lemma keyed_shape:
  assumes "handshake env key hs pc" "pc_last_phase pc = GETSERVERCERT"
  obtains salt hex secret pin e1 e2 where "hs = [e1, e2]" "starts key salt hex secret e1" "posts env pin secret e2"
    "pc_client_cert pc = text_of (unhex hex)" "pc_aes_key pc = gen_aes_key (pv_ssl env) salt pin"
  by (rule handshakeE [OF assms(1)]) (use assms(2) in \<open>auto intro: that\<close>)

lemma challenged_shape:
  assumes "handshake env key hs pc" "pc_last_phase pc = CLIENTCHALLENGE"
  obtains hs' pc' v s c e where "hs = hs' @ [e]" "handshake env key hs' pc'" "pc_last_phase pc' = GETSERVERCERT"
    "asks key ''clientchallenge'' v s c e" "pc_client_cert pc = pc_client_cert pc'" "pc_aes_key pc = pc_aes_key pc'"
    "pc_server_challenge pc = Some c"
  by (rule handshakeE [OF assms(1)]) (use assms(2) in \<open>auto intro: that simp: new_pair_cache_def\<close>)

lemma answered_shape:
  assumes "handshake env key hs pc" "pc_last_phase pc = SERVERCHALLENGERESP"
  obtains hs' pc' v s c e where "hs = hs' @ [e]" "handshake env key hs' pc'" "pc_last_phase pc' = CLIENTCHALLENGE"
    "asks key ''serverchallengeresp'' v s c e" "pc_client_cert pc = pc_client_cert pc'" "pc_aes_key pc = pc_aes_key pc'"
    "pc_server_challenge pc = pc_server_challenge pc'"
    "pc_client_hash pc = Some (aes_decrypt_ecb (pv_ssl env) (unhex v) (pc_aes_key pc'))"
  by (rule handshakeE [OF assms(1)]) (use assms(2) in \<open>auto intro: that simp: new_pair_cache_def\<close>)

definition paired_by :: "pairing_env \<Rightarrow> pair_event list \<Rightarrow> string \<Rightarrow> bool" where
  "paired_by env es pem \<longleftrightarrow> (\<exists>key salt hex secret pin e1 e2 e3 e4 e5 challenge resp proof s3 c3 s4 c4 s5 c5 cert.
     subseq [e1, e2, e3, e4, e5] es \<and> starts key salt hex secret e1 \<and> posts env pin secret e2 \<and>
     asks key ''clientchallenge'' c3 s3 challenge e3 \<and> asks key ''serverchallengeresp'' resp s4 c4 e4 \<and>
     asks key ''clientpairingsecret'' proof s5 c5 e5 \<and>
     pem = text_of (unhex hex) \<and> xl_cert (pv_x509 env) pem = Some cert \<and>
     aes_decrypt_ecb (pv_ssl env) (unhex resp) (gen_aes_key (pv_ssl env) salt pin)
       = os_sha256 (pv_ssl env) (challenge @ x_signature cert @ take 16 (unhex proof)) \<and>
     os_verify (pv_ssl env) (x_public_key cert) (take 16 (unhex proof)) (take 256 (drop 16 (unhex proof))))"

lemma client_backed_paired_by:
  assumes "client_backed env es pem"
  shows "paired_by env es pem"
proof -
  from assms obtain key hs pc e5 where b: "handshake env key hs pc" "completes env key pem pc e5" "subseq (hs @ [e5]) es"
    unfolding client_backed_def by blast
  then obtain v5 s5 c5 cert challenge hash where c: "pc_last_phase pc = SERVERCHALLENGERESP" "pc_client_cert pc = pem"
    "asks key ''clientpairingsecret'' v5 s5 c5 e5" "xl_cert (pv_x509 env) pem = Some cert"
    "pc_server_challenge pc = Some challenge" "pc_client_hash pc = Some hash"
    "xml_paired (client_pair (pv_ssl env) (pc_aes_key pc) challenge hash v5 (x_signature cert) (x_public_key cert))"
    unfolding completes_def by blast
  obtain hs4 pc4 v4 s4 c4 e4 where 4: "hs = hs4 @ [e4]" "handshake env key hs4 pc4" "pc_last_phase pc4 = CLIENTCHALLENGE"
    "asks key ''serverchallengeresp'' v4 s4 c4 e4" "pc_client_cert pc = pc_client_cert pc4" "pc_aes_key pc = pc_aes_key pc4"
    "pc_server_challenge pc = pc_server_challenge pc4"
    "pc_client_hash pc = Some (aes_decrypt_ecb (pv_ssl env) (unhex v4) (pc_aes_key pc4))"
    by (rule answered_shape [OF b(1) c(1)])
  obtain hs3 pc3 v3 s3 c3 e3 where 3: "hs4 = hs3 @ [e3]" "handshake env key hs3 pc3" "pc_last_phase pc3 = GETSERVERCERT"
    "asks key ''clientchallenge'' v3 s3 c3 e3" "pc_client_cert pc4 = pc_client_cert pc3" "pc_aes_key pc4 = pc_aes_key pc3"
    "pc_server_challenge pc4 = Some c3"
    by (rule challenged_shape [OF 4(2,3)])
  obtain salt hex secret pin e1 e2 where 1: "hs3 = [e1, e2]" "starts key salt hex secret e1" "posts env pin secret e2"
    "pc_client_cert pc3 = text_of (unhex hex)" "pc_aes_key pc3 = gen_aes_key (pv_ssl env) salt pin"
    by (rule keyed_shape [OF 3(2,3)])
  have "subseq [e1, e2, e3, e4, e5] es" using b(3) by (simp add: 4(1) 3(1) 1(1))
  moreover have "pem = text_of (unhex hex)" using c(2) 4(5) 3(5) 1(4) by simp
  moreover have "os_sha256 (pv_ssl env) (c3 @ x_signature cert @ take 16 (unhex v5)) =
      aes_decrypt_ecb (pv_ssl env) (unhex v4) (gen_aes_key (pv_ssl env) salt pin) \<and>
      os_verify (pv_ssl env) (x_public_key cert) (take 16 (unhex v5)) (take 256 (drop 16 (unhex v5)))"
    using c(5,6,7) 4(7,8) 3(6,7) 1(5) by (auto simp: client_pair_paired)
  ultimately show ?thesis unfolding paired_by_def using 1 3(4) 4(4) c(3,4) by metis
qed

text \<open> C4: No client is paired without the PIN: whatever requests, PINs and timeouts are interleaved, for every
  certificate that got into the store there was, in this order, a first request that brought it with a salt, a
  PIN the user typed for that very request, a challenge, a response that decrypts, under the key made of
  that PIN and salt, to the digest of the server's challenge, and a secret signed with the certificate's key, all under one
  client identifier and address. \<close>

theorem pairing_needs_pin:
  assumes "run (pair_step env) es st = Some (st', outs)" "pem \<in> set (as_paired_clients (pr_app st'))"
    and "pr_threads st = []" "pr_pending st = []" "as_pairing_cache (pr_app st) = []"
  shows "(if pem \<in> set (as_paired_clients (pr_app st)) then True else paired_by env es pem)"
proof -
  have "backed env (set (as_paired_clients (pr_app st))) [] st"
    using assms(3-5) by (simp add: backed_def threads_ok_def cache_ok_def clients_ok_def mfind_def get_pair_cache_def)
  from run_backed [OF this assms(1)] assms(2) show ?thesis
    by (auto simp: backed_def clients_ok_def intro: client_backed_paired_by)
qed

section \<open>A client that knows the PIN\<close>

lemma get_header_simps [simp]:
  "get_header [] key = None"
  "get_header ((k, v) # h) key = (if map to_lower k = map to_lower key then Some v else get_header h key)"
  by (simp_all add: get_header_def)

lemma lower_letters [simp]:
  "to_lower CHR ''a'' = CHR ''a''" "to_lower CHR ''b'' = CHR ''b''" "to_lower CHR ''c'' = CHR ''c''" "to_lower CHR ''d'' = CHR ''d''"
  "to_lower CHR ''e'' = CHR ''e''" "to_lower CHR ''f'' = CHR ''f''" "to_lower CHR ''g'' = CHR ''g''" "to_lower CHR ''h'' = CHR ''h''"
  "to_lower CHR ''i'' = CHR ''i''" "to_lower CHR ''j'' = CHR ''j''" "to_lower CHR ''k'' = CHR ''k''" "to_lower CHR ''l'' = CHR ''l''"
  "to_lower CHR ''m'' = CHR ''m''" "to_lower CHR ''n'' = CHR ''n''" "to_lower CHR ''o'' = CHR ''o''" "to_lower CHR ''p'' = CHR ''p''"
  "to_lower CHR ''q'' = CHR ''q''" "to_lower CHR ''r'' = CHR ''r''" "to_lower CHR ''s'' = CHR ''s''" "to_lower CHR ''t'' = CHR ''t''"
  "to_lower CHR ''u'' = CHR ''u''" "to_lower CHR ''v'' = CHR ''v''" "to_lower CHR ''w'' = CHR ''w''" "to_lower CHR ''x'' = CHR ''x''"
  "to_lower CHR ''y'' = CHR ''y''" "to_lower CHR ''z'' = CHR ''z''"
  by code_simp+

lemma ecb_roundtrip:
  assumes "openssl_law l" "length m = 16 * n"
  shows "aes_decrypt_ecb l (aes_encrypt_ecb l m k) k = m"
  using assms by (simp add: aes_decrypt_ecb_def aes_encrypt_ecb_def whole_blocks_def openssl_law_def)

text \<open>Moonlight's side: its identity, its certificate and key, the salt, the challenge and the secret it draws.\<close>

record client =
  mc_id :: string
  mc_ip :: string
  mc_pem :: string
  mc_key :: string
  mc_salt :: string
  mc_challenge :: bytes
  mc_secret :: bytes

definition client_law :: "pairing_env \<Rightarrow> client \<Rightarrow> certificate \<Rightarrow> bool" where
  "client_law env c cert \<longleftrightarrow> xl_cert (pv_x509 env) (mc_pem c) = Some cert \<and> length (mc_secret c) = 16 \<and>
     length (os_sign (pv_ssl env) (mc_key c) (mc_secret c)) = 256 \<and>
     os_verify (pv_ssl env) (x_public_key cert) (mc_secret c) (os_sign (pv_ssl env) (mc_key c) (mc_secret c))"

definition ask :: "client \<Rightarrow> (string \<times> string) list \<Rightarrow> bytes \<Rightarrow> bytes \<Rightarrow> bytes \<Rightarrow> pair_event" where
  "ask c h rnd s ch = pair_request ((''uniqueid'', mc_id c) # h) (mc_ip c) rnd s ch"

definition client_key :: "client \<Rightarrow> string" where
  "client_key c = mc_id c @ ''@'' @ mc_ip c"

definition honest_run :: "pairing_env \<Rightarrow> client \<Rightarrow> certificate \<Rightarrow> string \<Rightarrow> string \<Rightarrow> nat \<Rightarrow> bytes \<Rightarrow> bytes \<Rightarrow> bytes \<Rightarrow> pair_event list" where
  "honest_run env c cert pin body pid rnd secret challenge =
     (let l = pv_ssl env; k = gen_aes_key l (mc_salt c) pin in
      [ask c [(''salt'', mc_salt c), (''clientcert'', str_to_hex (bytes_of (mc_pem c)))] rnd [] [],
       pin_post body,
       pin_wait_over pid,
       ask c [(''clientchallenge'', str_to_hex (aes_encrypt_ecb l (mc_challenge c) k))] [] secret challenge,
       ask c [(''serverchallengeresp'', str_to_hex (aes_encrypt_ecb l
         (os_sha256 l (challenge @ x_signature cert @ mc_secret c)) k))] [] [] [],
       ask c [(''clientpairingsecret'', str_to_hex (mc_secret c @ os_sign l (mc_key c) (mc_secret c)))] [] [] []])"

lemma request_key_ask: "request_key ((''uniqueid'', mc_id c) # h) (mc_ip c) = Some (client_key c)"
  by (simp add: request_key_def client_key_def)

lemma honest_start:
  assumes "get_pair_cache (client_key c) (pr_app st) = None" "pv_json env body = Some (pin, str_to_hex rnd)"
  obtains st' where
    "run (pair_step env) [ask c [(''salt'', mc_salt c), (''clientcert'', hex)] rnd [] [], pin_post body, pin_wait_over (pr_next st)] st
       = Some (st', [[], [text_reply 200 ''OK''], [xml_reply 200 (fst (get_server_cert (pv_ssl env) pin (mc_salt c) (cert_pem (as_cert (pr_app st)))))]])"
    "pr_app st' = set_pair_cache (client_key c) (new_pair_cache\<lparr>pc_client_cert := text_of (unhex hex),
       pc_aes_key := gen_aes_key (pv_ssl env) (mc_salt c) pin, pc_last_phase := GETSERVERCERT\<rparr>) (pr_app st)"
  by (rule that, simp add: ask_def http_pair_def request_key_ask pair_phase1_def assms post_pin_def
      mput_find wait_over_def get_server_cert_def Let_def, simp)

lemma honest_rest:
  fixes c env cert pc
  defines "l \<equiv> pv_ssl env" and "k \<equiv> pc_aes_key pc"
  assumes l: "openssl_law l" and c: "client_law env c cert" and ch: "length challenge = 16"
    and pc: "get_pair_cache (client_key c) (pr_app st) = Some pc" "pc_last_phase pc = GETSERVERCERT" "pc_client_cert pc = mc_pem c"
    and s: "as_cert (pr_app st) = Some scert" "as_pkey (pr_app st) = Some pkey"
  obtains st' x2 x3 where
    "run (pair_step env)
      [ask c [(''clientchallenge'', str_to_hex (aes_encrypt_ecb l (mc_challenge c) k))] [] secret challenge,
       ask c [(''serverchallengeresp'', str_to_hex (aes_encrypt_ecb l (os_sha256 l (challenge @ x_signature cert @ mc_secret c)) k))] [] [] [],
       ask c [(''clientpairingsecret'', str_to_hex (mc_secret c @ os_sign l (mc_key c) (mc_secret c)))] [] [] []] st
     = Some (st', [[xml_reply 200 x2], [xml_reply 200 x3], [xml_reply 200 [put_int ''root.paired'' 1, status_code 200]]])"
    "x2 = fst (send_server_challenge l k (str_to_hex (aes_encrypt_ecb l (mc_challenge c) k)) (x_signature scert) secret challenge)"
    "as_paired_clients (pr_app st') = as_paired_clients (pr_app st) @ [mc_pem c]"
    "get_pair_cache (client_key c) (pr_app st') = None"
proof -
  let ?h = "os_sha256 l (challenge @ x_signature cert @ mc_secret c)"
  have h: "length ?h = 16 * 2" using l by (simp add: openssl_law_def)
  have v: "client_pair l k challenge ?h (str_to_hex (mc_secret c @ os_sign l (mc_key c) (mc_secret c)))
      (x_signature cert) (x_public_key cert) = [put_int ''root.paired'' 1, status_code 200]"
    using c by (simp add: client_pair_def client_law_def l_def Let_def)
  have x: "xl_cert (pv_x509 env) (mc_pem c) = Some cert" using c by (simp add: client_law_def)
  show ?thesis
    by (rule that, simp add: ask_def http_pair_def request_key_ask pc s pair_phase2_def pair_phase3_def
        send_server_challenge_def get_client_hash_def Let_def pair_phase4_def x v
        ecb_roundtrip [OF l h] add_paired_client_def flip: l_def k_def)
      (simp_all add: send_server_challenge_def)
qed

lemma run_join:
  "run step is s = Some (s1, outs1) \<Longrightarrow> run step js s1 = Some (s2, outs2) \<Longrightarrow> run step (is @ js) s = Some (s2, outs1 @ outs2)"
  by (simp add: run_append)

lemma challenge_revealed:
  assumes "openssl_law l" "length challenge = 16"
  shows "\<exists>v. xml_get (fst (send_server_challenge l k cc sig secret challenge)) ''root.challengeresponse'' = Some v \<and>
    drop 32 (aes_decrypt_ecb l (unhex v) k) = challenge"
proof -
  have "length (os_sha256 l m @ challenge) = 16 * 3" for m using assms by (simp add: openssl_law_def)
  from ecb_roundtrip [OF assms(1) this] show ?thesis
    using assms(1) by (simp add: send_server_challenge_def Let_def status_code_def put_int_def openssl_law_def)
qed

lemma honest_run:
  assumes l: "openssl_law (pv_ssl env)" and c: "client_law env c cert" and ch: "length challenge = 16"
    and k: "get_pair_cache (client_key c) (pr_app st) = None" and j: "pv_json env body = Some (pin, str_to_hex rnd)"
    and s: "as_cert (pr_app st) = Some scert" "as_pkey (pr_app st) = Some pkey"
  obtains st' x1 x2 x3 where
    "run (pair_step env) (honest_run env c cert pin body (pr_next st) rnd secret challenge) st
      = Some (st', [[], [text_reply 200 ''OK''], [xml_reply 200 x1], [xml_reply 200 x2], [xml_reply 200 x3],
          [xml_reply 200 [put_int ''root.paired'' 1, status_code 200]]])"
    "\<exists>v. xml_get x2 ''root.challengeresponse'' = Some v \<and>
       drop 32 (aes_decrypt_ecb (pv_ssl env) (unhex v) (gen_aes_key (pv_ssl env) (mc_salt c) pin)) = challenge"
    "as_paired_clients (pr_app st') = as_paired_clients (pr_app st) @ [mc_pem c]"
    "get_pair_cache (client_key c) (pr_app st') = None"
proof -
  define pc where "pc = new_pair_cache\<lparr>pc_client_cert := mc_pem c, pc_aes_key := gen_aes_key (pv_ssl env) (mc_salt c) pin,
    pc_last_phase := GETSERVERCERT\<rparr>"
  obtain st1 where 1: "run (pair_step env) [ask c [(''salt'', mc_salt c), (''clientcert'', str_to_hex (bytes_of (mc_pem c)))] rnd [] [],
      pin_post body, pin_wait_over (pr_next st)] st
    = Some (st1, [[], [text_reply 200 ''OK''], [xml_reply 200 (fst (get_server_cert (pv_ssl env) pin (mc_salt c) (cert_pem (as_cert (pr_app st)))))]])"
    "pr_app st1 = set_pair_cache (client_key c) pc (pr_app st)"
    by (rule honest_start [OF k j, of "str_to_hex (bytes_of (mc_pem c))"]) (simp add: pc_def)
  have pc: "get_pair_cache (client_key c) (pr_app st1) = Some pc" "pc_last_phase pc = GETSERVERCERT" "pc_client_cert pc = mc_pem c"
    "as_cert (pr_app st1) = Some scert" "as_pkey (pr_app st1) = Some pkey"
    using s by (simp_all add: 1(2) pc_def)
  have key: "pc_aes_key pc = gen_aes_key (pv_ssl env) (mc_salt c) pin" by (simp add: pc_def)
  show ?thesis
  proof (rule honest_rest [OF l c ch pc, of secret])
    fix st' x2 x3
    assume r: "run (pair_step env)
      [ask c [(''clientchallenge'', str_to_hex (aes_encrypt_ecb (pv_ssl env) (mc_challenge c) (pc_aes_key pc)))] [] secret challenge,
       ask c [(''serverchallengeresp'', str_to_hex (aes_encrypt_ecb (pv_ssl env)
         (os_sha256 (pv_ssl env) (challenge @ x_signature cert @ mc_secret c)) (pc_aes_key pc)))] [] [] [],
       ask c [(''clientpairingsecret'', str_to_hex (mc_secret c @ os_sign (pv_ssl env) (mc_key c) (mc_secret c)))] [] [] []] st1
     = Some (st', [[xml_reply 200 x2], [xml_reply 200 x3], [xml_reply 200 [put_int ''root.paired'' 1, status_code 200]]])"
      and x2: "x2 = fst (send_server_challenge (pv_ssl env) (pc_aes_key pc)
        (str_to_hex (aes_encrypt_ecb (pv_ssl env) (mc_challenge c) (pc_aes_key pc))) (x_signature scert) secret challenge)"
      and e: "as_paired_clients (pr_app st') = as_paired_clients (pr_app st1) @ [mc_pem c]"
        "get_pair_cache (client_key c) (pr_app st') = None"
    show ?thesis
    proof (rule that)
      show "run (pair_step env) (honest_run env c cert pin body (pr_next st) rnd secret challenge) st
        = Some (st', [[], [text_reply 200 ''OK''],
            [xml_reply 200 (fst (get_server_cert (pv_ssl env) pin (mc_salt c) (cert_pem (as_cert (pr_app st)))))],
            [xml_reply 200 x2], [xml_reply 200 x3], [xml_reply 200 [put_int ''root.paired'' 1, status_code 200]]])"
        using run_join [OF 1(1) r] unfolding honest_run_def Let_def key by (simp only: append.simps)
      show "\<exists>v. xml_get x2 ''root.challengeresponse'' = Some v \<and>
          drop 32 (aes_decrypt_ecb (pv_ssl env) (unhex v) (gen_aes_key (pv_ssl env) (mc_salt c) pin)) = challenge"
        unfolding x2 key by (rule challenge_revealed [OF l ch])
    qed (use e in \<open>simp_all add: 1(2)\<close>)
  qed
qed

text \<open> C14: Pairing works: a client that follows the protocol with the PIN the user types is in the store at the end,
  every request having been answered with 200 and the last with paired = 1; on the way the second answer lets it recover
  the server's challenge, which is all it needs of the server; nothing of it is left in the pairing cache. The
  unpair request it may send later finds no cache entry, so it changes nothing: the client stays paired. \<close>

theorem honest_client_pairs:
  assumes "openssl_law (pv_ssl env)" "client_law env c cert" "length challenge = 16"
    and "get_pair_cache (client_key c) (pr_app st) = None" "pv_json env body = Some (pin, str_to_hex rnd)"
    and "as_cert (pr_app st) = Some scert" "as_pkey (pr_app st) = Some pkey"
  shows "\<exists>st' x1 x2 x3 x4 v.
    run (pair_step env) (honest_run env c cert pin body (pr_next st) rnd secret challenge) st
      = Some (st', [[], [text_reply 200 ''OK''], [xml_reply 200 x1], [xml_reply 200 x2], [xml_reply 200 x3], [xml_reply 200 x4]]) \<and>
    xml_paired x4 \<and> mc_pem c \<in> set (as_paired_clients (pr_app st')) \<and>
    get_pair_cache (client_key c) (pr_app st') = None \<and>
    xml_get x2 ''root.challengeresponse'' = Some v \<and>
    drop 32 (aes_decrypt_ecb (pv_ssl env) (unhex v) (gen_aes_key (pv_ssl env) (mc_salt c) pin)) = challenge \<and>
    fst (unpair env [(''uniqueid'', mc_id c)] (mc_ip c) st') = st'"
proof -
  obtain st' x1 x2 x3 where r:
    "run (pair_step env) (honest_run env c cert pin body (pr_next st) rnd secret challenge) st
      = Some (st', [[], [text_reply 200 ''OK''], [xml_reply 200 x1], [xml_reply 200 x2], [xml_reply 200 x3],
          [xml_reply 200 [put_int ''root.paired'' 1, status_code 200]]])"
    "\<exists>v. xml_get x2 ''root.challengeresponse'' = Some v \<and>
       drop 32 (aes_decrypt_ecb (pv_ssl env) (unhex v) (gen_aes_key (pv_ssl env) (mc_salt c) pin)) = challenge"
    "as_paired_clients (pr_app st') = as_paired_clients (pr_app st) @ [mc_pem c]"
    "get_pair_cache (client_key c) (pr_app st') = None"
    by (rule honest_run [OF assms])
  moreover have "fst (unpair env [(''uniqueid'', mc_id c)] (mc_ip c) st') = st'"
    using r(4) request_key_ask [of c "[]"] by (simp add: unpair_def Let_def)
  ultimately show ?thesis by auto
qed

definition demo_ssl :: openssl where
  "demo_ssl = \<lparr>os_sha256 = (\<lambda>m. take 32 (m @ replicate 32 0)), os_ecb_enc = (\<lambda>k m. rev m), os_ecb_dec = (\<lambda>k m. rev m),
     os_sign = (\<lambda>k m. take 256 (m @ replicate 256 0)), os_verify = (\<lambda>k m s. s = take 256 (m @ replicate 256 0))\<rparr>"

definition demo_pairing_env :: pairing_env where
  "demo_pairing_env = \<lparr>pv_ssl = demo_ssl, pv_x509 = demo_x509, pv_os = demo_state_os,
     pv_json = (\<lambda>body. if body = ''B'' then Some (''1234'', ''00'') else None)\<rparr>"

definition demo_client :: client where
  "demo_client = \<lparr>mc_id = ''1'', mc_ip = ''10.0.0.2'', mc_pem = ''TABLET'', mc_key = ''k'', mc_salt = ''0a'',
     mc_challenge = replicate 16 7, mc_secret = replicate 16 9\<rparr>"

definition demo_pairing :: pairing where
  "demo_pairing = \<lparr>pr_app = demo_app_state, pr_disk = [], pr_pending = [], pr_threads = [], pr_next = 0\<rparr>"

definition demo_cert :: certificate where
  "demo_cert = \<lparr>x_pem = ''TABLET'', x_signature = bytes_of ''TABLET'', x_public_key = ''TABLET''\<rparr>"

lemma demo_honest:
  "openssl_law (pv_ssl demo_pairing_env)" "client_law demo_pairing_env demo_client demo_cert"
  "get_pair_cache (client_key demo_client) (pr_app demo_pairing) = None"
  "pv_json demo_pairing_env ''B'' = Some (''1234'', str_to_hex [0])"
  "\<exists>c. as_cert (pr_app demo_pairing) = Some c" "as_pkey (pr_app demo_pairing) = Some ''KEY''"
  by (simp_all add: min_def openssl_law_def demo_pairing_env_def demo_ssl_def client_law_def demo_client_def demo_cert_def
      demo_x509_def get_pair_cache_def mfind_def demo_pairing_def demo_app_state_def str_to_hex_def hex_digits_def)

theorem honest_client_pairs_witness:
  "\<exists>st' outs. run (pair_step demo_pairing_env)
      (honest_run demo_pairing_env demo_client demo_cert ''1234'' ''B'' 0 [0] (replicate 16 3) (replicate 16 5)) demo_pairing
      = Some (st', outs) \<and> ''TABLET'' \<in> set (as_paired_clients (pr_app st'))"
proof -
  have n: "pr_next demo_pairing = 0" "mc_pem demo_client = ''TABLET''" "length (replicate 16 (5 :: u8)) = 16"
    by (simp_all add: demo_pairing_def demo_client_def)
  obtain sc where sc: "as_cert (pr_app demo_pairing) = Some sc" using demo_honest(5) by blast
  from honest_client_pairs [OF demo_honest(1,2) n(3) demo_honest(3,4) sc demo_honest(6), of "replicate 16 3"]
  show ?thesis unfolding n by blast
qed

theorem pairing_needs_pin_witness:
  "paired_by demo_pairing_env
     (honest_run demo_pairing_env demo_client demo_cert ''1234'' ''B'' 0 [0] (replicate 16 3) (replicate 16 5)) ''TABLET''"
proof -
  have n: "pr_next demo_pairing = 0" "length (replicate 16 (5 :: u8)) = 16" "mc_pem demo_client = ''TABLET''"
    "pr_threads demo_pairing = []" "pr_pending demo_pairing = []" "as_pairing_cache (pr_app demo_pairing) = []"
    "''TABLET'' \<notin> set (as_paired_clients (pr_app demo_pairing))"
    by (simp_all add: demo_pairing_def demo_client_def demo_app_state_def)
  obtain sc where sc: "as_cert (pr_app demo_pairing) = Some sc" using demo_honest(5) by blast
  obtain st' outs where "run (pair_step demo_pairing_env)
      (honest_run demo_pairing_env demo_client demo_cert ''1234'' ''B'' 0 [0] (replicate 16 3) (replicate 16 5)) demo_pairing
      = Some (st', outs)" "as_paired_clients (pr_app st') = as_paired_clients (pr_app demo_pairing) @ [mc_pem demo_client]"
    by (rule honest_run [OF demo_honest(1,2) n(2) demo_honest(3,4) sc demo_honest(6), of "replicate 16 3", unfolded n(1)])
  from pairing_needs_pin [OF this(1), of "''TABLET''"] this(2) n show ?thesis by simp
qed

section \<open>Refusals\<close>

definition refused :: "reply list \<Rightarrow> bool" where
  "refused out = list_ex (\<lambda>r. case r of xml_reply n _ \<Rightarrow> n = 400 | text_reply n _ \<Rightarrow> n = 400) out"

text \<open>What a request under a key leaves: its refusal loses the entry, and other keys are never touched.\<close>

definition reset_by :: "string \<Rightarrow> string \<Rightarrow> pairing \<Rightarrow> pairing \<times> reply list \<Rightarrow> bool" where
  "reset_by key other st r = (case r of (st', out) \<Rightarrow>
     (if refused out then get_pair_cache key (pr_app st') = None \<and>
        as_paired_clients (pr_app st') = as_paired_clients (pr_app st) \<and> pr_disk st' = pr_disk st else True) \<and>
     (if other \<noteq> key then get_pair_cache other (pr_app st') = get_pair_cache other (pr_app st) else True))"

lemma phases_reset:
  "pred_option (reset_by key k st) (refuse key msg st)"
  "pred_option (reset_by key k st) (pair_phase1 rnd ip key salt hex st)"
  "pred_option (reset_by key k st) (pair_phase2 env s ch key pc v st)"
  "pred_option (reset_by key k st) (pair_phase3 env key pc secret v st)"
  "pred_option (reset_by key k st) (pair_phase4 env key pc challenge hash v st)"
proof -
  show r: "pred_option (reset_by key k st) (refuse key msg st)" for msg
    by (simp add: refuse_def reset_by_def)
  show "pred_option (reset_by key k st) (pair_phase1 rnd ip key salt hex st)"
    using r by (auto simp: pair_phase1_def Let_def reset_by_def refused_def)
  show "pred_option (reset_by key k st) (pair_phase2 env s ch key pc v st)"
    using r by (auto simp: pair_phase2_def Let_def reset_by_def refused_def send_server_challenge_def split: option.splits)
  show "pred_option (reset_by key k st) (pair_phase3 env key pc secret v st)"
    using r by (auto simp: pair_phase3_def Let_def reset_by_def refused_def get_client_hash_def split: option.splits)
  show "pred_option (reset_by key k st) (pair_phase4 env key pc challenge hash v st)"
    using r by (auto simp: pair_phase4_def Let_def reset_by_def refused_def add_paired_client_def get_pair_cache_def
        remove_pair_cache_def merase_find split: option.splits)
qed

text \<open> C37: A refused request starts the pairing of its key over: the entry of that key is gone, so the next phase is
  refused too until the first one is repeated, no client and no file is touched, and no request ever
  changes the entry of another client. \<close>

theorem refusal_resets:
  "case request_key q ip of
     None \<Rightarrow> pair_step env (pair_request q ip rnd s ch) st =
       Some (st, [xml_reply 400 (fail_pair ''Received pair request without uniqueid, stopping.'')])
   | Some key \<Rightarrow> pred_option (reset_by key other st) (pair_step env (pair_request q ip rnd s ch) st)"
  by (auto simp: http_pair_def phases_reset split: option.splits) (auto simp: reset_by_def refused_def)

end
