(* ===== verification/Https_Props.thy ===== *)
theory Https_Props
  imports Https Pairing_Props
begin

text \<open>
  The HTTPS resources keep one session per client address, let nobody in whose certificate does not pass,
  and drive the registry and the media session together. The facts about the registry come from the
  interpretation \<open>reg\<close> of its interface.
\<close>

definition registry_of :: "https_state \<Rightarrow> registry" where
  "registry_of st = mn_registry (ht_main st)"

text \<open>One session per client address.\<close>

definition reg_inv :: "registry \<Rightarrow> bool" where
  "reg_inv r \<longleftrightarrow> reg_ok r \<and> distinct (map client_ip (live r))"

lemma registry_update [simp]: "registry_of (update_registry f st) = f (registry_of st)"
  by (simp add: registry_of_def update_registry_def)

lemma update_registry_simps [simp]:
  "ht_app (update_registry f st) = ht_app st" "mn_media (ht_main (update_registry f st)) = mn_media (ht_main st)"
  "mn_registry (ht_main (update_registry f st)) = f (mn_registry (ht_main st))"
  by (simp_all add: update_registry_def)

lemma next_id_live: "next_id r = (i, r') \<Longrightarrow> live r' = live r \<and> reg_sessions r' = reg_sessions r \<and> reg_heap r' = reg_heap r"
  by (auto simp: next_id_def live_def deref_def)

lemma next_id_fresh: "reg_ok r \<Longrightarrow> next_id r = (i, r') \<Longrightarrow> reg_ok r' \<and> reg_fresh r' i"
  by (cases "reg_heap r (reg_next_id r)") (auto simp: reg_ok_def next_id_def reg_fresh_def less_Suc_eq)

lemma created:
  assumes "create_launch_session rq app reg = (so, reg')"
  obtains i where "next_id reg = (i, reg')"
    "\<And>s. so = Some s \<Longrightarrow> session_id s = i \<and> client_ip s = rq_client_ip rq"
  using assms by (auto simp: create_launch_session_def Let_def split: prod.splits option.splits)

lemma launch_inv:
  assumes "reg_inv (registry_of st)" "launch_session env rq st = (st', out)"
  shows "reg_inv (registry_of st')"
proof (cases "get_by_client_ip (registry_of st) (rq_client_ip rq)")
  case (Some p)
  with assms show ?thesis by (simp add: launch_session_def Let_def registry_of_def)
next
  case None
  obtain so reg' where c: "create_launch_session rq (ht_app st) (registry_of st) = (so, reg')" by force
  obtain i where i: "next_id (registry_of st) = (i, reg')"
    "\<And>s. so = Some s \<Longrightarrow> session_id s = i \<and> client_ip s = rq_client_ip rq" by (rule created [OF c]) blast
  have ok: "reg_ok (registry_of st)" "distinct (map client_ip (live (registry_of st)))" using assms(1) by (simp_all add: reg_inv_def)
  note f = next_id_fresh [OF ok(1) i(1)] next_id_live [OF i(1)]
  show ?thesis
  proof (cases so)
    case None
    with assms(2) \<open>get_by_client_ip _ _ = None\<close> c have "registry_of st' = reg'"
      by (auto simp: launch_session_def Let_def registry_of_def [symmetric])
    with f ok show ?thesis by (simp add: reg_inv_def)
  next
    case (Some s)
    with assms(2) None c have r: "registry_of st' = reg_add s reg'"
      by (auto simp: launch_session_def Let_def registry_of_def [symmetric])
    have "live (reg_add s reg') = live (registry_of st) @ [s]"
      using live_add [of reg' s] f i(2) [OF Some] by simp
    moreover have "client_ip s \<notin> client_ip ` set (live (registry_of st))"
      using reg.by_ip_None [OF ok(1), of "rq_client_ip rq"] None i(2) [OF Some] by auto
    moreover have "reg_ok (reg_add s reg')" using reg_ok_next_add [OF ok(1) i(1)] i(2) [OF Some] by simp
    ultimately show ?thesis using ok by (simp add: reg_inv_def r)
  qed
qed

lemma adopt_id [simp]: "session_id (adopt_client rq s) = session_id s" "client_ip (adopt_client rq s) = rq_client_ip rq"
  by (simp_all add: adopt_client_def Let_def)

lemma resume_target_cases:
  assumes "resume_target rq reg = Some p" "reg_ok reg"
  shows "p \<in> set (reg_sessions reg)" "reg_heap reg p \<noteq> None"
    "client_ip (deref reg p) = rq_client_ip rq \<or> rq_client_ip rq \<notin> client_ip ` set (live reg)"
proof -
  show p: "p \<in> set (reg_sessions reg)"
    using assms(1) find_SomeD by (fastforce simp: resume_target_def get_running_def get_by_client_ip_def split: option.splits list.splits)
  then show "reg_heap reg p \<noteq> None" using assms(2) by (simp add: reg_ok_def)
  show "client_ip (deref reg p) = rq_client_ip rq \<or> rq_client_ip rq \<notin> client_ip ` set (live reg)"
  proof (cases "get_by_client_ip reg (rq_client_ip rq)")
    case None
    then show ?thesis using reg.by_ip_None [OF assms(2)] by auto
  next
    case (Some q)
    with assms show ?thesis using reg.by_ip_Some [OF assms(2) Some] by (simp add: resume_target_def)
  qed
qed

lemma update_inv:
  assumes "reg_inv reg" "resume_target rq reg = Some p"
  shows "reg_inv (update_session p (adopt_client rq) reg)"
proof -
  have ok: "reg_ok reg" "distinct (map client_ip (live reg))" using assms(1) by (simp_all add: reg_inv_def)
  note t = resume_target_cases [OF assms(2) ok(1)]
  let ?g = "\<lambda>q. client_ip (deref reg q)"
  have m: "map client_ip (live (update_session p (adopt_client rq) reg)) = map (?g(p := rq_client_ip rq)) (reg_sessions reg)"
    using t(2) by (auto simp: live_def)
  have d: "distinct (reg_sessions reg)" "inj_on ?g (set (reg_sessions reg))"
    using ok by (simp_all add: reg_ok_def live_def distinct_map comp_def)
  have "inj_on (?g(p := rq_client_ip rq)) (set (reg_sessions reg))"
  proof (cases "?g p = rq_client_ip rq")
    case True
    then have "?g(p := rq_client_ip rq) = ?g" by auto
    with d show ?thesis by simp
  next
    case False
    with t(3) have "rq_client_ip rq \<notin> ?g ` set (reg_sessions reg)" by (auto simp: live_def)
    then show ?thesis by (rule inj_on_fun_updI [OF d(2)])
  qed
  then show ?thesis using d(1) reg_ok_update [OF ok(1), of "adopt_client rq" p] m by (simp add: reg_inv_def distinct_map)
qed

lemma remove_inv: "reg_inv reg \<Longrightarrow> reg_inv (reg_remove i reg)"
  by (simp add: reg_inv_def reg_ok_remove live_remove distinct_map_filter)

lemma stop_session_registry: "mn_registry (fst (stop_session menv sid m)) = mn_registry m"
  using stop_media_state by (auto simp: stop_session_def split: option.split prod.splits) (metis prod.collapse)

text \<open>What each resource makes of the registry.\<close>

lemma resume_registry:
  "registry_of (fst (resume_session env rq st)) =
     (case resume_target rq (registry_of st) of None \<Rightarrow> registry_of st
      | Some p \<Rightarrow> update_session p (adopt_client rq) (registry_of st))"
  by (simp add: resume_session_def Let_def registry_of_def split: option.split)

lemma cancel_registry:
  "registry_of (fst (cancel_session menv rq st)) =
     (case get_by_client_ip (registry_of st) (rq_client_ip rq) of None \<Rightarrow> registry_of st
      | Some p \<Rightarrow> reg_remove (session_id (deref (registry_of st) p)) (registry_of st))"
proof (cases "get_by_client_ip (registry_of st) (rq_client_ip rq)")
  case None
  then show ?thesis by (simp add: cancel_session_def Let_def registry_of_def)
next
  case (Some p)
  let ?i = "session_id (deref (registry_of st) p)"
  let ?m = "ht_main (update_registry (reg_remove ?i) st)"
  obtain m out where m: "stop_session menv ?i ?m = (m, out)" by force
  then have "mn_registry m = reg_remove ?i (registry_of st)"
    using stop_session_registry [of menv ?i ?m] by (simp add: registry_of_def)
  with m Some show ?thesis by (simp add: cancel_session_def Let_def registry_of_def)
qed

text \<open>A resource behind the gate acts only for a paired client.\<close>

lemma handle_cases:
  "fst (https_handle env menv r rq st) =
     (if r = r_other \<or> client_if_paired env rq st = None then st
      else case r of r_launch \<Rightarrow> fst (launch_session env rq st) | r_resume \<Rightarrow> fst (resume_session env rq st)
        | r_cancel \<Rightarrow> fst (cancel_session menv rq st) | _ \<Rightarrow> st)"
  by (cases r) (simp_all add: case_prod_beta)

lemma handle_inv:
  assumes "reg_inv (registry_of st)"
  shows "reg_inv (registry_of (fst (https_handle env menv r rq st)))"
proof -
  have "reg_inv (registry_of (fst (launch_session env rq st)))"
    using launch_inv [OF assms, of env rq] by (metis prod.collapse)
  moreover have "reg_inv (registry_of (fst (resume_session env rq st)))"
    using assms update_inv [OF assms] by (simp add: resume_registry split: option.split)
  moreover have "reg_inv (registry_of (fst (cancel_session menv rq st)))"
    using assms remove_inv [OF assms] by (simp add: cancel_registry split: option.split)
  ultimately show ?thesis using assms unfolding handle_cases by (simp split: resource.split)
qed

definition serve :: "pairing_env \<Rightarrow> media_env \<Rightarrow> (resource \<times> https_request) list \<Rightarrow> https_state \<Rightarrow> https_state" where
  "serve env menv rqs st = foldl (\<lambda>st (r, rq). fst (https_handle env menv r rq st)) st rqs"

lemma serve_inv: "reg_inv (registry_of st) \<Longrightarrow> reg_inv (registry_of (serve env menv rqs st))"
  unfolding serve_def by (induction rqs arbitrary: st) (auto simp del: https_handle.simps intro: handle_inv)

section \<open>Properties\<close>

text \<open> One session per client: from an empty registry, no sequence of HTTPS requests, from paired clients or
  not, makes two live sessions with the same client address or the same identifier; a client that
  launches again is given the session it has. \<close>

theorem one_session_per_client:
  "let r = registry_of (serve env menv rqs (update_registry (\<lambda>_. empty_registry) st)) in
   reg_ok r \<and> distinct (map client_ip (live r)) \<and> distinct (map session_id (live r))"
proof -
  have "reg_inv (registry_of (update_registry (\<lambda>_. empty_registry) st))"
    by (simp add: reg_inv_def reg_ok_empty) (simp add: live_def empty_registry_def)
  from serve_inv [OF this] show ?thesis using reg.ids_distinct unfolding Let_def reg_inv_def by blast
qed

text \<open>Who passes: the errors the callback lets through do not count, an unknown issuer among them.\<close>

definition tolerated :: "nat \<Rightarrow> bool" where
  "tolerated e = (e = 9 \<or> e = 10 \<or> e = 20)"

lemma verification_error_None: "verification_error x p c = None \<longleftrightarrow> list_all tolerated (xl_chain x p c)"
  by (auto simp: verification_error_def find_None_iff list_all_iff openssl_verify_cb_def tolerated_def
      X509_V_ERR_CERT_NOT_YET_VALID_def X509_V_ERR_CERT_HAS_EXPIRED_def X509_V_ERR_UNABLE_TO_GET_ISSUER_CERT_LOCALLY_def)

text \<open> C11: The gate: a request is let in exactly if it comes with a certificate against which, for some paired
  certificate, OpenSSL has nothing to say but "expired", "not yet valid" or "issuer unknown"; all others are answered
  with 401 and change neither the sessions nor the media. In particular a certificate of an unknown issuer,
  whose only error is the last, passes as soon as any client is paired. \<close>

theorem https_gate:
  "let passes = (case rq_cert rq of None \<Rightarrow> False
      | Some c \<Rightarrow> list_ex (\<lambda>pem. list_all tolerated (xl_chain (pv_x509 env) (xl_cert (pv_x509 env) pem) c))
          (as_paired_clients (ht_app st))) in
   (client_if_paired env rq st \<noteq> None) = passes \<and>
   (if passes \<or> r = r_other then True
    else https_handle env menv r rq st = (st, [reply_unauthorized rq], []))"
proof -
  have find: "find P xs \<noteq> None \<longleftrightarrow> list_ex P xs" for P and xs :: "string list"
    by (induction xs) auto
  have "client_if_paired env rq st \<noteq> None \<longleftrightarrow> (case rq_cert rq of None \<Rightarrow> False
      | Some c \<Rightarrow> list_ex (\<lambda>pem. list_all tolerated (xl_chain (pv_x509 env) (xl_cert (pv_x509 env) pem) c))
          (as_paired_clients (ht_app st)))"
    unfolding client_if_paired_def get_client_via_ssl_def verification_error_None
    by (cases "rq_cert rq") (simp_all only: find option.case simp_thms)
  then show ?thesis unfolding Let_def by auto
qed

text \<open> C21: A resume moves a session: it finds the session of the client's address, or the running one, gives it that
  address and, when the request has both halves of a new key, the new key, otherwise the old one stays whole; the
  session keeps its identifier, no other session changes, and the client is found by its new address. \<close>

theorem resume_takes_over:
  assumes "reg_inv (registry_of st)" "client_if_paired env rq st \<noteq> None" "resume_target rq (registry_of st) = Some p"
  shows "let r' = registry_of (fst (https_handle env menv r_resume rq st)); s = deref (registry_of st) p; s' = deref r' p;
      key = header_or (rq_headers rq) ''rikey'' []; iv = header_or (rq_headers rq) ''rikeyid'' [] in
    get_by_client_ip r' (rq_client_ip rq) = Some p \<and> session_id s' = session_id s \<and>
    (s_aes_key s', s_aes_iv s') = (if key \<noteq> [] \<and> iv \<noteq> [] then (key, iv) else (s_aes_key s, s_aes_iv s)) \<and>
    (if q \<noteq> p then deref r' q = deref (registry_of st) q else True) \<and> reg_sessions r' = reg_sessions (registry_of st)"
proof -
  define reg where "reg = registry_of st"
  define r' where "r' = update_session p (adopt_client rq) reg"
  have ok: "reg_ok reg" using assms(1) by (simp add: reg_inv_def reg_def)
  have r: "registry_of (fst (https_handle env menv r_resume rq st)) = r'"
    using assms(2,3) by (auto simp: handle_cases resume_registry r'_def reg_def simp del: https_handle.simps)
  note t = resume_target_cases [OF assms(3) [folded reg_def] ok]
  have s': "deref r' p = adopt_client rq (deref reg p)" using t(2) by (simp add: r'_def)
  have inv: "reg_inv r'" using update_inv [OF assms(1,3)] by (simp add: r'_def reg_def)
  have "get_by_client_ip r' (rq_client_ip rq) = Some p"
  proof (cases "get_by_client_ip r' (rq_client_ip rq)")
    case None
    then have "client_ip (deref r' p) \<noteq> rq_client_ip rq"
      using t(1) by (simp only: get_by_client_ip_def find_None_iff r'_def update_session_fields) blast
    with s' show ?thesis by simp
  next
    case (Some q)
    then have q: "q \<in> set (reg_sessions r')" "client_ip (deref r' q) = client_ip (deref r' p)"
      using find_SomeD s' by (fastforce simp: get_by_client_ip_def)+
    have "inj_on (\<lambda>q. client_ip (deref r' q)) (set (reg_sessions r'))"
      using inv by (simp add: reg_inv_def live_def distinct_map comp_def)
    moreover have "p \<in> set (reg_sessions r')" using t(1) by (simp add: r'_def)
    ultimately have "q = p" using q by (blast dest: inj_onD)
    with Some show ?thesis by simp
  qed
  moreover have "if q \<noteq> p then deref r' q = deref reg q else True" "reg_sessions r' = reg_sessions reg"
    by (simp_all add: r'_def)
  ultimately show ?thesis unfolding r Let_def reg_def [symmetric]
    by (simp add: s') (simp add: adopt_client_def Let_def)
qed

text \<open> C20: A cancel ends the client's session and nothing else: afterwards no live session has the client's address,
  the others are as before in their order, a media session that belonged to it is stopped and gone, one
  of another session keeps running undisturbed, and the server reports itself free if it was the only one. \<close>

theorem cancel_ends_session:
  assumes "reg_inv (registry_of st)" "client_if_paired env rq st \<noteq> None"
    and "get_by_client_ip (registry_of st) (rq_client_ip rq) = Some p" "https_handle env menv r_cancel rq st = (st', reply, out)"
  shows "live (registry_of st') = filter (\<lambda>s. client_ip s \<noteq> rq_client_ip rq) (live (registry_of st)) \<and>
    get_by_client_ip (registry_of st') (rq_client_ip rq) = None \<and> ht_app st' = ht_app st \<and>
    (case mn_media (ht_main st) of None \<Rightarrow> mn_media (ht_main st') = None \<and> out = []
     | Some ms \<Rightarrow>
       if media_session_id (registry_of st) ms = session_id (deref (registry_of st) p) then mn_media (ht_main st') = None
       else mn_media (ht_main st') = Some ms \<and> out = []) \<and>
    (get_running (registry_of st') = None) = list_all (\<lambda>s. client_ip s = rq_client_ip rq) (live (registry_of st))"
proof -
  define reg where "reg = registry_of st"
  define sid where "sid = session_id (deref reg p)"
  have ok: "reg_ok reg" "distinct (map client_ip (live reg))" "distinct (map session_id (live reg))"
    using assms(1) reg.ids_distinct by (simp_all add: reg_inv_def reg_def)
  have s0: "deref reg p \<in> set (live reg)" "client_ip (deref reg p) = rq_client_ip rq"
    using reg.by_ip_Some [OF ok(1) assms(3) [folded reg_def]] by simp_all
  have same: "session_id s = sid \<longleftrightarrow> client_ip s = rq_client_ip rq" if "s \<in> set (live reg)" for s
    using that s0 ok(2,3) unfolding sid_def distinct_map by (metis inj_onD)
  obtain m mout where m: "stop_session menv sid (ht_main (update_registry (reg_remove sid) st)) = (m, mout)" by force
  have c: "cancel_session menv rq st = (st', reply, out)"
    using assms(2,4) by auto
  have st': "st' = (update_registry (reg_remove sid) st)\<lparr>ht_main := m\<rparr>" "out = mout"
    using c assms(3) m by (auto simp: cancel_session_def Let_def registry_of_def reg_def sid_def)
  have r': "registry_of st' = reg_remove sid reg"
    using cancel_registry [of menv rq st] c assms(3) by (simp add: reg_def sid_def)
  have live': "live (registry_of st') = filter (\<lambda>s. client_ip s \<noteq> rq_client_ip rq) (live reg)"
    unfolding r' using live_remove [OF ok(1)] same by (auto intro: filter_cong)
  have "get_by_client_ip (registry_of st') (rq_client_ip rq) = None"
    using reg.by_ip_None [of "registry_of st'"] reg_ok_remove [OF ok(1)] live' r' by simp
  moreover have "case mn_media (ht_main st) of None \<Rightarrow> mn_media (ht_main st') = None \<and> out = []
     | Some ms \<Rightarrow> if media_session_id reg ms = sid then mn_media (ht_main st') = None
       else mn_media (ht_main st') = Some ms \<and> out = []"
  proof (cases "mn_media (ht_main st)")
    case None
    with m st' show ?thesis by (auto simp: stop_session_def)
  next
    case (Some ms)
    have "media_session_id (reg_remove sid reg) ms = media_session_id reg ms"
      by (simp add: media_session_id_def deref_def reg_remove_def)
    moreover have "stop_media menv ms x = (m, mout) \<Longrightarrow> mn_media m = None" for x
      using stop_media_state by blast
    ultimately show ?thesis using m st' Some
      by (auto simp: stop_session_def reg_def registry_of_def split: if_splits)
  qed
  moreover have "(get_running (registry_of st') = None) = list_all (\<lambda>s. client_ip s = rq_client_ip rq) (live reg)"
  proof -
    have "get_running r = None \<longleftrightarrow> live r = []" for r by (simp add: get_running_def live_def split: list.split)
    then show ?thesis by (auto simp: live' filter_empty_conv list_all_iff)
  qed
  moreover have "ht_app st' = ht_app st" by (simp add: st')
  ultimately show ?thesis using live' unfolding reg_def [symmetric] sid_def [symmetric] by blast
qed

section \<open>Witnesses\<close>

definition demo_request :: https_request where
  "demo_request = \<lparr>rq_cert = xl_cert demo_x509 ''PHONE'', rq_path = ''/resume'',
     rq_headers = [(''rikey'', ''ff''), (''rikeyid'', ''5'')], rq_client_ip = ''10.0.0.9'', rq_local_ip = ''10.0.0.1'',
     rq_rtp_secret = replicate 16 (CHR ''a''), rq_enet_secret = 77, rq_octets = (1, 2, 3, 4)\<rparr>"

text \<open>The running session belongs to a client whose address has changed.\<close>

definition demo_https :: "string \<Rightarrow> https_state" where
  "demo_https ip = \<lparr>ht_app = demo_app_state,
     ht_main = demo_main\<lparr>mn_registry := reg_add (default_session\<lparr>session_id := 1, client_ip := ip, s_aes_key := ''ab''\<rparr>)
       (snd (next_id empty_registry))\<rparr>\<rparr>"

lemma demo_https_facts:
  "reg_inv (registry_of (demo_https ip))" "client_if_paired demo_pairing_env demo_request (demo_https ip) \<noteq> None"
  "resume_target demo_request (registry_of (demo_https ip)) = Some 1"
  "session_id (deref (registry_of (demo_https ip)) 1) = 1" "reg_sessions (registry_of (demo_https ip)) = [1]"
proof -
  have r: "registry_of (demo_https ip) = \<lparr>reg_heap = [1 \<mapsto> default_session\<lparr>session_id := 1, client_ip := ip, s_aes_key := ''ab''\<rparr>],
      reg_sessions = [1], reg_next_id = 2\<rparr>"
    by (simp add: registry_of_def demo_https_def reg_add_def next_id_def empty_registry_def)
  show "reg_inv (registry_of (demo_https ip))" by (simp add: reg_inv_def reg_ok_def r live_def)
  show "resume_target demo_request (registry_of (demo_https ip)) = Some 1"
    by (simp add: resume_target_def get_running_def get_by_client_ip_def r)
  show "session_id (deref (registry_of (demo_https ip)) 1) = 1" "reg_sessions (registry_of (demo_https ip)) = [1]"
    by (simp_all add: r deref_def)
  show "client_if_paired demo_pairing_env demo_request (demo_https ip) \<noteq> None"
    by (simp add: client_if_paired_def get_client_via_ssl_def verification_error_def demo_pairing_env_def
        demo_request_def demo_https_def demo_app_state_def demo_x509_def)
qed

theorem resume_takes_over_witness:
  "let r' = registry_of (fst (https_handle demo_pairing_env demo_media_env r_resume demo_request (demo_https ''10.0.0.2''))) in
   get_by_client_ip r' ''10.0.0.9'' = Some 1 \<and> s_aes_key (deref r' 1) = ''ff''"
  using resume_takes_over [OF demo_https_facts(1,2,3), of demo_media_env "''10.0.0.2''" 1]
  by (simp add: demo_request_def header_or_def Let_def)

theorem cancel_ends_session_witness:
  "\<exists>st' reply out. https_handle demo_pairing_env demo_media_env r_cancel demo_request (demo_https ''10.0.0.9'') = (st', reply, out) \<and>
     get_by_client_ip (registry_of st') ''10.0.0.9'' = None \<and> mn_media (ht_main st') = None"
proof -
  obtain st' reply out where h:
    "https_handle demo_pairing_env demo_media_env r_cancel demo_request (demo_https ''10.0.0.9'') = (st', reply, out)"
    by (metis prod_cases3)
  have g: "get_by_client_ip (registry_of (demo_https ''10.0.0.9'')) (rq_client_ip demo_request) = Some 1"
    by (simp add: get_by_client_ip_def demo_https_facts(5) demo_request_def)
      (simp add: registry_of_def demo_https_def reg_add_def next_id_def empty_registry_def deref_def)
  have m: "mn_media (ht_main (demo_https ''10.0.0.9'')) = mn_media demo_main" by (simp add: demo_https_def)
  obtain ms where ms: "mn_media demo_main = Some ms" "md_session ms = 1"
    by (simp add: demo_main_def new_media_session_def)
  have "media_session_id (registry_of (demo_https ''10.0.0.9'')) ms = session_id (deref (registry_of (demo_https ''10.0.0.9'')) 1)"
    by (simp add: media_session_id_def ms)
  with cancel_ends_session [OF demo_https_facts(1,2) g h] m ms h show ?thesis
    by (simp add: demo_request_def)
qed

end
