(* ===== verification/Peg.thy ===== *)
theory Peg
  imports StdText "HOL-Library.Sublist"
begin

text \<open>
  Parsing expression grammars as \<open>cpp-peglib\<close> reads them: a parser turns a text into the actions its rules run and,
  unless it fails, a value and the rest of the text. Actions run when their rule has matched and are not taken
  back when a surrounding alternative fails, so a failure has its actions too. Blanks (\<open>%whitespace\<close>) are skipped
  behind each literal and each token.
\<close>

section \<open>Parsers\<close>

type_synonym ('a, 'v) peg = "string \<Rightarrow> 'a list \<times> ('v \<times> string) option"

definition blank :: "char \<Rightarrow> bool" where
  "blank c \<longleftrightarrow> c = CHR '' '' \<or> c = CHR 0x09"

definition skip_ws :: "string \<Rightarrow> string" where
  "skip_ws = dropWhile blank"

definition peg_return :: "'v \<Rightarrow> ('a, 'v) peg" where
  "peg_return v s = ([], Some (v, s))"

definition peg_bind :: "('a, 'v) peg \<Rightarrow> ('v \<Rightarrow> ('a, 'w) peg) \<Rightarrow> ('a, 'w) peg" where
  "peg_bind p f s = (case p s of (as, None) \<Rightarrow> (as, None)
     | (as, Some (v, r)) \<Rightarrow> (case f v r of (bs, res) \<Rightarrow> (as @ bs, res)))"

definition peg_then :: "('a, 'v) peg \<Rightarrow> ('a, 'w) peg \<Rightarrow> ('a, 'w) peg" where
  "peg_then p q = peg_bind p (\<lambda>_. q)"

text \<open>The sequence \<open>e1 e2 \<dots>\<close> of parsers whose values do not matter.\<close>

fun peg_seq :: "('a, unit) peg list \<Rightarrow> ('a, unit) peg" where
  "peg_seq [] = peg_return ()"
| "peg_seq (p # ps) = peg_then p (peg_seq ps)"

text \<open>\<open>e1 / e2\<close>, \<open>e?\<close> and \<open>e*\<close>.\<close>

definition peg_or :: "('a, 'v) peg \<Rightarrow> ('a, 'v) peg \<Rightarrow> ('a, 'v) peg" where
  "peg_or p q s = (case p s of (as, None) \<Rightarrow> (case q s of (bs, res) \<Rightarrow> (as @ bs, res)) | ok \<Rightarrow> ok)"

definition peg_opt :: "('a, unit) peg \<Rightarrow> ('a, unit) peg" where
  "peg_opt p = peg_or p (peg_return ())"

text \<open>A repetition that makes no progress does not end; the library refuses such grammars. Here it stops.\<close>

function peg_many :: "('a, unit) peg \<Rightarrow> ('a, unit) peg" where
  "peg_many p s =
     (case p s of (as, None) \<Rightarrow> (as, Some ((), s))
      | (as, Some (_, r)) \<Rightarrow>
        if length r < length s then (case peg_many p r of (bs, res) \<Rightarrow> (as @ bs, res)) else (as, Some ((), r)))"
  by pat_completeness auto
termination by (relation "measure (\<lambda>(p, s). length s)") auto

declare peg_many.simps [simp del]

text \<open>A literal, a token \<open>< [\<dots>]+ >\<close> and a character class repeated outside a token.\<close>

definition peg_lit :: "string \<Rightarrow> ('a, unit) peg" where
  "peg_lit l s = ([], if prefix l s then Some ((), skip_ws (drop (length l) s)) else None)"

definition peg_class :: "(char \<Rightarrow> bool) \<Rightarrow> ('a, string) peg" where
  "peg_class cls s = ([], let t = takeWhile cls s in if t = [] then None else Some (t, drop (length t) s))"

definition peg_token :: "(char \<Rightarrow> bool) \<Rightarrow> ('a, string) peg" where
  "peg_token cls = peg_bind (peg_class cls) (\<lambda>t s. peg_return t (skip_ws s))"

text \<open>A rule with an action, which gets the value.\<close>

definition peg_act :: "('v \<Rightarrow> 'a) \<Rightarrow> ('a, 'v) peg \<Rightarrow> ('a, unit) peg" where
  "peg_act act p = peg_bind p (\<lambda>v s. ([act v], Some ((), s)))"

text \<open>A rule whose value nothing uses.\<close>

definition peg_ignore :: "('a, 'v) peg \<Rightarrow> ('a, unit) peg" where
  "peg_ignore p = peg_then p (peg_return ())"

section \<open>Reading what was printed\<close>

named_theorems peg "how parsers read printed text"

definition word_of :: "(char \<Rightarrow> bool) \<Rightarrow> string \<Rightarrow> bool" where
  "word_of cls t \<longleftrightarrow> t \<noteq> [] \<and> list_all cls t"

definition stops :: "(char \<Rightarrow> bool) \<Rightarrow> string \<Rightarrow> bool" where
  "stops cls r \<longleftrightarrow> (case r of [] \<Rightarrow> True | c # _ \<Rightarrow> \<not> cls c)"

lemma stops_simps [simp]: "stops cls []" "stops cls (c # r) \<longleftrightarrow> \<not> cls c"
  by (simp_all add: stops_def)

lemma stops_word: "word_of d t \<Longrightarrow> (\<And>c. d c \<Longrightarrow> \<not> cls c) \<Longrightarrow> stops cls (t @ r)"
  by (cases t) (auto simp: word_of_def)

lemma takeWhile_stops: "list_all cls t \<Longrightarrow> stops cls r \<Longrightarrow> takeWhile cls (t @ r) = t"
  by (induction t) (auto simp: stops_def split: list.splits)

lemma skip_ws_stops [peg]: "stops blank r \<Longrightarrow> skip_ws r = r"
  by (cases r) (auto simp: skip_ws_def)

lemma skip_ws_blank [peg]: "skip_ws (CHR '' '' # r) = skip_ws r"
  by (simp add: skip_ws_def blank_def)

lemma length_skip_ws [simp]: "length (skip_ws r) \<le> length r"
  by (simp add: skip_ws_def length_dropWhile_le)

lemma peg_class_word [peg]:
  "word_of cls t \<Longrightarrow> stops cls r \<Longrightarrow> peg_class cls (t @ r) = ([], Some (t, r))"
  by (simp add: peg_class_def word_of_def takeWhile_stops)

lemma peg_class_stops [peg]: "stops cls r \<Longrightarrow> peg_class cls r = ([], None)"
  by (cases r) (simp_all add: peg_class_def)

lemma peg_token_word [peg]:
  "word_of cls t \<Longrightarrow> stops cls r \<Longrightarrow> peg_token cls (t @ r) = ([], Some (t, skip_ws r))"
  by (simp add: peg_token_def peg_bind_def peg_class_word peg_return_def)

lemma peg_token_stops [peg]: "stops cls r \<Longrightarrow> peg_token cls r = ([], None)"
  by (simp add: peg_token_def peg_bind_def peg_class_stops)

lemma peg_lit_reads [peg]: "peg_lit l (l @ r) = ([], Some ((), skip_ws r))"
  by (simp add: peg_lit_def)

lemma peg_lit_Cons [peg]: "peg_lit [c] (c' # r) = ([], if c' = c then Some ((), skip_ws r) else None)"
  by (simp add: peg_lit_def)

lemma peg_lit_Nil [peg]: "peg_lit [c] [] = ([], None)"
  by (simp add: peg_lit_def)

lemma peg_many_stop: "p s = (as, None) \<Longrightarrow> peg_many p s = (as, Some ((), s))"
  by (subst peg_many.simps) simp

lemma peg_many_step:
  "p s = (as, Some (v, r)) \<Longrightarrow> length r < length s \<Longrightarrow> peg_many p r = (bs, res) \<Longrightarrow> peg_many p s = (as @ bs, res)"
  by (subst peg_many.simps) simp

text \<open>A printed list is read back item by item.\<close>

lemma peg_many_list:
  assumes "\<And>x r. x \<in> set xs \<Longrightarrow> start r \<Longrightarrow> p (print x @ r) = ([act x], Some ((), r)) \<and> start (print x @ r) \<and> print x \<noteq> []"
    and "start rest" "p rest = ([], None)"
  shows "peg_many p (concat (map print xs) @ rest) = (map act xs, Some ((), rest)) \<and> start (concat (map print xs) @ rest)"
  using assms(1)
proof (induction xs)
  case Nil
  show ?case using assms(2,3) by (simp add: peg_many_stop)
next
  case (Cons x xs)
  let ?r = "concat (map print xs) @ rest"
  have r: "peg_many p ?r = (map act xs, Some ((), rest))" "start ?r" using Cons by auto
  then have "p (print x @ ?r) = ([act x], Some ((), ?r))" "start (print x @ ?r)" "print x \<noteq> []" using Cons.prems by auto
  with r(1) show ?case using peg_many_step [of p "print x @ ?r"] by simp
qed

end
