(* ===== verification/Rtsp.thy ===== *)
theory Rtsp
  imports Control StdText EncoderConfig "HOL-Library.Signed_Division"
begin

text \<open>
  The RTSP server: packets and their printer (\<open>moonlight-protocol/rtsp/parser.hpp\<close>), the verb handlers
  (\<open>server/rtsp_commands.hpp\<close>), and reading a request from a connection (\<open>server/rtsp_server.cpp\<close>). The PEG
  library is a parameter: it turns a text into the sequence of grammar actions with their tokens, which
  the definitions here interpret, and reads the numbers of tokens.
\<close>

section \<open>Packets\<close>

datatype rtsp_kind = REQUEST | RESPONSE
datatype TARGET_TYPE = TARGET_URI | TARGET_STREAM

record URI =
  uri_protocol :: string
  uri_ip :: string
  uri_port :: nat

record STREAM =
  st_type :: string
  st_params :: string

record RTSP_REQUEST =
  rq_cmd :: string
  rq_type :: TARGET_TYPE
  rq_uri :: URI
  rq_stream :: STREAM

record RTSP_RESPONSE =
  rs_status_code :: nat
  rs_msg :: string

record RTSP_PACKET =
  rp_type :: rtsp_kind
  rp_seq_number :: int
  rp_request :: RTSP_REQUEST
  rp_response :: RTSP_RESPONSE
  rp_options :: "(string, string) std_map"
  rp_payloads :: "(string \<times> string) list"

definition empty_packet :: RTSP_PACKET where
  "empty_packet = \<lparr>rp_type = REQUEST, rp_seq_number = 0,
     rp_request = \<lparr>rq_cmd = '''', rq_type = TARGET_URI, rq_uri = \<lparr>uri_protocol = '''', uri_ip = '''', uri_port = 0\<rparr>,
       rq_stream = \<lparr>st_type = '''', st_params = ''''\<rparr>\<rparr>,
     rp_response = \<lparr>rs_status_code = 0, rs_msg = ''''\<rparr>, rp_options = [], rp_payloads = []\<rparr>"

datatype peg_action =
    pRTSPREQUEST | pRTSPRESPONSE | pRESPONSECODE string | pRESPONSEMSG string | pCMD string | pCSEQ string
  | pSTREAM | pSTREAMTYPE string | pSTREAMPARAMS string | pURI | pPROTOCOL string | pIP string | pPORT string
  | pOPTION string string | pPAYLOAD string string

record peg_lib =
  pg_parse :: "string \<Rightarrow> peg_action list option"
  pg_ushort :: "string \<Rightarrow> nat"
  pg_int :: "string \<Rightarrow> int"

definition on_request :: "(RTSP_REQUEST \<Rightarrow> RTSP_REQUEST) \<Rightarrow> RTSP_PACKET \<Rightarrow> RTSP_PACKET" where
  "on_request f p = p\<lparr>rp_request := f (rp_request p)\<rparr>"

fun peg_step :: "peg_lib \<Rightarrow> RTSP_PACKET \<Rightarrow> peg_action \<Rightarrow> RTSP_PACKET" where
  "peg_step pg p pRTSPREQUEST = p\<lparr>rp_type := REQUEST\<rparr>"
| "peg_step pg p pRTSPRESPONSE = p\<lparr>rp_type := RESPONSE\<rparr>"
| "peg_step pg p (pRESPONSECODE t) = p\<lparr>rp_response := (rp_response p)\<lparr>rs_status_code := pg_ushort pg t\<rparr>\<rparr>"
| "peg_step pg p (pRESPONSEMSG t) = p\<lparr>rp_response := (rp_response p)\<lparr>rs_msg := t\<rparr>\<rparr>"
| "peg_step pg p (pCMD t) = on_request (\<lambda>r. r\<lparr>rq_cmd := t\<rparr>) p"
| "peg_step pg p (pCSEQ t) = p\<lparr>rp_seq_number := pg_int pg t\<rparr>"
| "peg_step pg p pSTREAM = on_request (\<lambda>r. r\<lparr>rq_type := TARGET_STREAM\<rparr>) p"
| "peg_step pg p (pSTREAMTYPE t) = on_request (\<lambda>r. r\<lparr>rq_stream := (rq_stream r)\<lparr>st_type := t\<rparr>\<rparr>) p"
| "peg_step pg p (pSTREAMPARAMS t) = on_request (\<lambda>r. r\<lparr>rq_stream := (rq_stream r)\<lparr>st_params := t\<rparr>\<rparr>) p"
| "peg_step pg p pURI = on_request (\<lambda>r. r\<lparr>rq_type := TARGET_URI\<rparr>) p"
| "peg_step pg p (pPROTOCOL t) = on_request (\<lambda>r. r\<lparr>rq_uri := (rq_uri r)\<lparr>uri_protocol := t\<rparr>\<rparr>) p"
| "peg_step pg p (pIP t) = on_request (\<lambda>r. r\<lparr>rq_uri := (rq_uri r)\<lparr>uri_ip := t\<rparr>\<rparr>) p"
| "peg_step pg p (pPORT t) = on_request (\<lambda>r. r\<lparr>rq_uri := (rq_uri r)\<lparr>uri_port := pg_ushort pg t\<rparr>\<rparr>) p"
| "peg_step pg p (pOPTION k v) = p\<lparr>rp_options := mput k v (rp_options p)\<rparr>"
| "peg_step pg p (pPAYLOAD k v) = p\<lparr>rp_payloads := rp_payloads p @ [(k, v)]\<rparr>"

definition rtsp_parse :: "peg_lib \<Rightarrow> string \<Rightarrow> RTSP_PACKET option" where
  "rtsp_parse pg msg = map_option (foldl (peg_step pg) empty_packet) (pg_parse pg msg)"

definition crlf :: string where "crlf = [CHR 0x0D, CHR 0x0A]"

definition rtsp_to_string :: "RTSP_PACKET \<Rightarrow> string" where
  "rtsp_to_string p =
     (let r = rp_request p;
          first = (case rp_type p of
             REQUEST \<Rightarrow> rq_cmd r @ '' '' @
               (case rq_type r of
                  TARGET_URI \<Rightarrow> uri_protocol (rq_uri r) @ ''://'' @ uri_ip (rq_uri r) @ '':'' @ to_string (uri_port (rq_uri r))
                | TARGET_STREAM \<Rightarrow> ''streamid='' @ st_type (rq_stream r) @ st_params (rq_stream r)) @ '' RTSP/1.0''
           | RESPONSE \<Rightarrow> ''RTSP/1.0 '' @ to_string (rs_status_code (rp_response p)) @ '' '' @ rs_msg (rp_response p)) in
      first @ crlf @ ''CSeq: '' @ int_to_string (rp_seq_number p)
      @ concat (map (\<lambda>(k, v). crlf @ k @ '': '' @ v) (rp_options p)) @ crlf @ crlf
      @ concat (map (\<lambda>(k, v). (if k = [] then v else k @ ''='' @ v) @ crlf) (rp_payloads p)))"

section \<open>Audio configurations\<close>

record audio_config =
  au_channels :: int
  au_streams :: int
  au_coupled_streams :: int
  au_bitrate :: int

definition configurations :: "audio_config list" where
  "configurations =
     [\<lparr>au_channels = 2, au_streams = 1, au_coupled_streams = 1, au_bitrate = 96000\<rparr>,
      \<lparr>au_channels = 6, au_streams = 4, au_coupled_streams = 2, au_bitrate = 256000\<rparr>,
      \<lparr>au_channels = 8, au_streams = 5, au_coupled_streams = 3, au_bitrate = 450000\<rparr>]"

definition opus_mapping :: "int \<Rightarrow> nat list" where
  "opus_mapping channels =
     (if channels = 6 then [0, 1, 4, 5, 2, 3] else if channels = 8 then [0, 1, 6, 7, 2, 3, 4, 5] else [0, 1])"

text \<open>\<open>std::rotate\<close> by one of the part from index 3.\<close>

definition speaker_string :: "audio_config \<Rightarrow> string" where
  "speaker_string c =
     (let m = opus_mapping (au_channels c);
          m = (if au_channels c > 2 then take 3 m @ rotate1 (drop 3 m) else m) in
      map (\<lambda>coded. char_of (coded + 48)) m)"

definition for_channels :: "int \<Rightarrow> audio_config" where
  "for_channels channels =
     (case find (\<lambda>c. au_channels c = channels) configurations of Some c \<Rightarrow> c | None \<Rightarrow> hd configurations)"

section \<open>Verbs\<close>

definition error_msg :: "nat \<Rightarrow> string \<Rightarrow> int \<Rightarrow> RTSP_PACKET" where
  "error_msg code msg seq = empty_packet\<lparr>rp_type := RESPONSE, rp_seq_number := seq,
     rp_response := \<lparr>rs_status_code = code, rs_msg = msg\<rparr>\<rparr>"

definition ok_msg :: "int \<Rightarrow> (string, string) std_map \<Rightarrow> (string \<times> string) list \<Rightarrow> RTSP_PACKET" where
  "ok_msg seq options payloads = empty_packet\<lparr>rp_type := RESPONSE, rp_seq_number := seq,
     rp_response := \<lparr>rs_status_code = 200, rs_msg = ''OK''\<rparr>, rp_options := options, rp_payloads := payloads\<rparr>"

definition FS_PEN_TOUCH_EVENTS :: nat where "FS_PEN_TOUCH_EVENTS = 1"
definition FS_CONTROLLER_TOUCH_EVENTS :: nat where "FS_CONTROLLER_TOUCH_EVENTS = 2"

definition describe :: "RTSP_PACKET \<Rightarrow> StreamSession \<Rightarrow> RTSP_PACKET" where
  "describe req s =
     ok_msg (rp_seq_number req) []
       ((if hevc_supported s then [('''', ''sprop-parameter-sets=AAAAAU'')] else [])
        @ (if av1_supported s then [(''a'', ''a=rtpmap:98 AV1/90000'')] else [])
        @ map (\<lambda>c. (''a'', ''fmtp:97 surround-params='' @ int_to_string (au_channels c) @ int_to_string (au_streams c)
            @ int_to_string (au_coupled_streams c) @ speaker_string c)) configurations
        @ [(''a'', ''x-ss-general.featureFlags: '' @ to_string (or FS_PEN_TOUCH_EVENTS FS_CONTROLLER_TOUCH_EVENTS))])"

definition setup_stream :: "RTSP_PACKET \<Rightarrow> StreamSession \<Rightarrow> RTSP_PACKET" where
  "setup_stream req s =
     (let ty = st_type (rq_stream (rp_request req));
          options = mput ''Session'' ''DEADBEEFCAFE;timeout = 90'' [] in
      if ty = ''audio'' then
        ok_msg (rp_seq_number req)
          (mput ''X-SS-Ping-Payload'' (rtp_secret_payload s)
            (mput ''Transport'' (''server_port='' @ to_string (audio_stream_port s)) options)) []
      else if ty = ''video'' then
        ok_msg (rp_seq_number req)
          (mput ''X-SS-Ping-Payload'' (rtp_secret_payload s)
            (mput ''Transport'' (''server_port='' @ to_string (video_stream_port s)) options)) []
      else if ty = ''control'' then
        ok_msg (rp_seq_number req)
          (mput ''X-SS-Connect-Data'' (to_string (unat (enet_secret_payload s)))
            (mput ''Transport'' (''server_port='' @ to_string (control_stream_port s)) options)) []
      else error_msg 404 ''NOT FOUND'' (rp_seq_number req))"

definition parse_arg_line :: "string \<Rightarrow> string \<times> int option" where
  "parse_arg_line line =
     (let key = takeWhile (\<lambda>c. c \<noteq> CHR '':'') line in
      if key = line then (line, None) else (key, stoi (drop (length key + 1) line)))"

definition arg :: "(string, int option) std_map \<Rightarrow> string \<Rightarrow> int \<Rightarrow> int" where
  "arg args k d = (case mfind args k of Some (Some v) \<Rightarrow> v | _ \<Rightarrow> d)"

definition announce_args :: "(string \<times> string) list \<Rightarrow> (string, int option) std_map" where
  "announce_args payloads =
     foldl (\<lambda>args line. if fst line = ''a'' then case parse_arg_line (snd line) of (k, v) \<Rightarrow> mput k v args else args) [] payloads"

definition trunc_rat :: "rat \<Rightarrow> int" where
  "trunc_rat x = (case quotient_of x of (p, q) \<Rightarrow> if p < 0 then - ((- p) div q) else p div q)"

text \<open>
  The bitrate that is left for video: the configured one reduced by the FEC percentage in single
  precision, by the audio and by a margin. The product \<open>96 * channels\<close> wraps as an \<open>int\<close> of the target.
\<close>

definition video_bitrate :: "int \<Rightarrow> int \<Rightarrow> int \<Rightarrow> int" where
  "video_bitrate configured fec_percentage channels =
     (let bitrate = (if fec_percentage \<le> 80
            then trunc_rat (fl32 (fl32 (of_int configured) / fl32 (100 / of_int (100 - fec_percentage)))) else configured);
          audio_adj = sint (word_of_int (96 * channels) :: 32 word);
          bitrate = bitrate - min audio_adj (bitrate sdiv 5) in
      bitrate - min 500 (bitrate sdiv 10))"

definition color_space_of :: "int \<Rightarrow> ColorSpace" where
  "color_space_of n = (if n = 0 then BT601 else if n = 1 then BT709 else if n = 2 then BT2020 else ColorSpace_other n)"

definition announce :: "RTSP_PACKET \<Rightarrow> StreamSession \<Rightarrow> StreamSession \<times> RTSP_PACKET" where
  "announce req s =
     (let args = announce_args (rp_payloads req);
          bit_stream_format = arg args ''x-nv-vqos[0].bitStreamFormat'' 0;
          csc = arg args ''x-nv-video[0].encoderCscMode'' 0;
          channels = arg args ''x-nv-audio.surround.numChannels'' (audio_channel_count s);
          fec_percentage = 20;
          bitrate = (case mfind args ''x-ml-video.configuredBitrateKbps'' of
             Some (Some b) \<Rightarrow> video_bitrate b fec_percentage channels
           | _ \<Rightarrow> arg args ''x-nv-vqos[0].bw.maximumBitrateKbps'' 15500);
          acfg = for_channels channels;
          v = \<lparr>v_width = arg args ''x-nv-video[0].clientViewportWd'' (client_width s),
               v_height = arg args ''x-nv-video[0].clientViewportHt'' (client_height s),
               v_fps = arg args ''x-nv-video[0].maxFPS'' (client_fps s),
               v_format = (if bit_stream_format = 2 then AV1 else if bit_stream_format = 1 then HEVC else H264),
               v_packet_size = arg args ''x-nv-video[0].packetSize'' 1392,
               v_fec_percentage = fec_percentage,
               v_min_required_fec_packets = arg args ''x-nv-vqos[0].fec.minRequiredFecPackets'' 2,
               v_bitrate_kbps = bitrate,
               v_slices_per_frame = arg args ''x-nv-video[0].videoEncoderSlicesPerFrame'' 1,
               v_frames_with_invalid_ref_threshold = arg args ''x-nv-video[0].framesWithInvalidRefThreshold'' 0,
               v_timeout_ms = arg args ''x-nv-video[0].timeoutLengthMs'' 7000,
               v_color_range = (if odd csc then JPEG else MPEG),
               v_color_space = color_space_of (csc div 2)\<rparr>;
          a = \<lparr>a_encrypt = (and (arg args ''x-nv-general.featureFlags'' 167) 0x20 \<noteq> 0),
               a_channels = au_channels acfg, a_streams = au_streams acfg, a_coupled_streams = au_coupled_streams acfg,
               a_bitrate = au_bitrate acfg, a_packet_duration = arg args ''x-nv-aqos.packetDuration'' 5\<rparr> in
      (s\<lparr>s_video := v, s_audio := a, announced := True\<rparr>, ok_msg (rp_seq_number req) [] []))"

text \<open>The last result says that the callback for PLAY is called, with the session as it is then.\<close>

definition message_handler :: "RTSP_PACKET \<Rightarrow> StreamSession \<Rightarrow> StreamSession \<times> RTSP_PACKET \<times> bool" where
  "message_handler req s =
     (let cmd = rq_cmd (rp_request req) in
      if cmd = ''OPTIONS'' then (s, ok_msg (rp_seq_number req) [] [], False)
      else if cmd = ''DESCRIBE'' then (s, describe req s, False)
      else if cmd = ''SETUP'' then (s, setup_stream req s, False)
      else if cmd = ''ANNOUNCE'' then (case announce req s of (s, r) \<Rightarrow> (s, r, False))
      else if cmd = ''PLAY'' then (s\<lparr>playing := True\<rparr>, ok_msg (rp_seq_number req) [] [], True)
      else (s, error_msg 404 ''NOT FOUND'' (rp_seq_number req), False))"

section \<open>A connection\<close>

fun find_sub :: "string \<Rightarrow> string \<Rightarrow> nat option" where
  "find_sub needle [] = (if needle = [] then Some 0 else None)"
| "find_sub needle (c # s) = (if prefix needle (c # s) then Some 0 else map_option Suc (find_sub needle s))"

definition content_length_key :: string where "content_length_key = ''Content-length: ''"

datatype content_length =
    no_length
  | length_throws
  | needs_total int

text \<open>
  The length of the whole request announced by what has been read, in \<open>size_t\<close>: without a line end
  behind the number, \<open>npos + 2\<close> is 1.
\<close>

definition announced_length :: "string \<Rightarrow> content_length" where
  "announced_length full =
     (case find_sub content_length_key full of None \<Rightarrow> no_length
      | Some p \<Rightarrow>
        let cl_pos = p + 16; rest = drop cl_pos full;
            (number, cl_end) = (case find_sub crlf rest of
               Some q \<Rightarrow> (take q rest, int (cl_pos + q)) | None \<Rightarrow> (rest, 2 ^ 64 - 1)) in
        (case stoi number of None \<Rightarrow> length_throws | Some n \<Rightarrow> needs_total ((n + cl_end + 2) mod 2 ^ 64)))"

datatype read_result =
    read_more string
  | read_message string
  | read_failed
  | read_throws

text \<open>
  One completion of a read: \<open>None\<close> an error, else the bytes, none if the deadline cancelled the read.
  \<open>prev\<close> is what earlier reads left.
\<close>

definition read_step :: "string \<Rightarrow> string option \<Rightarrow> read_result" where
  "read_step prev piece =
     (case piece of None \<Rightarrow> read_failed
      | Some raw_msg \<Rightarrow>
        let full = prev @ raw_msg in
        (case announced_length full of
           length_throws \<Rightarrow> read_throws
         | no_length \<Rightarrow> read_message full
         | needs_total n \<Rightarrow> if int (length full) < n then read_more full else read_message full))"

text \<open>What a complete message leads to: a reply or none, and whether the connection is closed after it.\<close>

record rtsp_reply =
  rr_reply :: "RTSP_PACKET option"
  rr_session :: "(session_ptr \<times> StreamSession) option"
  rr_play :: bool

definition handle_message :: "peg_lib \<Rightarrow> registry \<Rightarrow> string \<Rightarrow> string \<Rightarrow> rtsp_reply" where
  "handle_message pg reg peer_ip msg =
     (case rtsp_parse pg msg of
        None \<Rightarrow> \<lparr>rr_reply = Some (error_msg 400 ''BAD REQUEST'' 0), rr_session = None, rr_play = False\<rparr>
      | Some parsed \<Rightarrow>
        let host_opt = (case mfind (rp_options parsed) ''Host'' of Some h \<Rightarrow> h | None \<Rightarrow> '''') in
        (case get_for_rtsp reg (uri_ip (rq_uri (rp_request parsed))) host_opt peer_ip of
           None \<Rightarrow> \<lparr>rr_reply = None, rr_session = None, rr_play = False\<rparr>
         | Some p \<Rightarrow>
           (case message_handler parsed (deref reg p) of
              (s, reply, plays) \<Rightarrow> \<lparr>rr_reply = Some reply, rr_session = Some (p, s), rr_play = plays\<rparr>)))"

end
