(* ===== verification/RtspGrammar.thy ===== *)
theory RtspGrammar
  imports Peg Rtsp
begin

text \<open>
  The grammar of \<open>rtsp::parse\<close> (\<open>moonlight-protocol/rtsp/parser.hpp\<close>), rule by rule, and the parser of packets it
  gives. What \<open>.\<close> matches (a character in the library's encoding) and how the library reads numbers are parameters.
  No rule with an action is tried twice at one place, so the memory of packrat parsing changes nothing.
\<close>

section \<open>Character classes\<close>

definition in_range :: "char \<Rightarrow> char \<Rightarrow> char \<Rightarrow> bool" where
  "in_range a b c \<longleftrightarrow> (of_char a :: nat) \<le> of_char c \<and> of_char c \<le> (of_char b :: nat)"

text \<open>\<open>[a-z]i\<close>, \<open>[0-9]\<close>, \<open>[0-9.]\<close>, \<open>[0-9/]\<close>, \<open>[a-zA-Z ]\<close>, and the classes of keys and values.\<close>

definition az :: "char \<Rightarrow> bool" where
  "az c \<longleftrightarrow> in_range (CHR ''a'') (CHR ''z'') c \<or> in_range (CHR ''A'') (CHR ''Z'') c"

definition num :: "char \<Rightarrow> bool" where "num c \<longleftrightarrow> in_range (CHR ''0'') (CHR ''9'') c"
definition num_dot :: "char \<Rightarrow> bool" where "num_dot c \<longleftrightarrow> num c \<or> c = CHR ''.''"
definition num_slash :: "char \<Rightarrow> bool" where "num_slash c \<longleftrightarrow> num c \<or> c = CHR ''/''"
definition az_blank :: "char \<Rightarrow> bool" where "az_blank c \<longleftrightarrow> az c \<or> c = CHR '' ''"

definition key_char :: "char \<Rightarrow> bool" where
  "key_char c \<longleftrightarrow> az c \<or> num c \<or> c \<in> set ''-_''"

definition optval_char :: "char \<Rightarrow> bool" where
  "optval_char c \<longleftrightarrow> key_char c \<or> c \<in> set ''./;=, :''"

definition payval_char :: "char \<Rightarrow> bool" where
  "payval_char c \<longleftrightarrow> key_char c \<or> c \<in> set ''./[]: ='' \<or> c = CHR 0x5C"

section \<open>Rules\<close>

type_synonym 'v rule = "(peg_action, 'v) peg"

definition gCR :: "unit rule" where "gCR = peg_lit [CHR 0x0D]"
definition gLF :: "unit rule" where "gLF = peg_lit [CHR 0x0A]"
definition gENDLINE :: "unit rule" where "gENDLINE = peg_seq [peg_opt gCR, gLF]"

definition gCMD :: "unit rule" where "gCMD = peg_act pCMD (peg_token az)"

definition gRESPONSECODE :: "unit rule" where "gRESPONSECODE = peg_act pRESPONSECODE (peg_token num)"
definition gRESPONSEMSG :: "unit rule" where "gRESPONSEMSG = peg_act pRESPONSEMSG (peg_token az_blank)"

definition gPROTOCOL :: "unit rule" where "gPROTOCOL = peg_act pPROTOCOL (peg_token az)"
definition gIP :: "unit rule" where "gIP = peg_act pIP (peg_token num_dot)"
definition gPORT :: "unit rule" where "gPORT = peg_act pPORT (peg_token num)"

definition gURI :: "unit rule" where
  "gURI = peg_act (\<lambda>_. pURI) (peg_seq [gPROTOCOL, peg_lit ''://'', peg_opt gIP, peg_lit '':'', gPORT])"

definition gSTREAMTYPE :: "unit rule" where "gSTREAMTYPE = peg_act pSTREAMTYPE (peg_token az)"
definition gSTREAMPARAMS :: "unit rule" where "gSTREAMPARAMS = peg_act pSTREAMPARAMS (peg_token num_slash)"

definition gSTREAM :: "unit rule" where
  "gSTREAM = peg_act (\<lambda>_. pSTREAM) (peg_seq [peg_ignore (peg_class az), peg_lit ''='', gSTREAMTYPE, gSTREAMPARAMS])"

definition gTARGET :: "unit rule" where
  "gTARGET = peg_or gURI (peg_or gSTREAM (peg_lit ''/''))"

definition gFPROTOCOL :: "unit rule" where "gFPROTOCOL = peg_ignore (peg_token az)"
definition gFVERSION :: "unit rule" where "gFVERSION = peg_ignore (peg_token num_dot)"
definition gFULLPROTOCOL :: "unit rule" where
  "gFULLPROTOCOL = peg_seq [gFPROTOCOL, peg_lit ''/'', gFVERSION]"

definition gRTSPREQUEST :: "unit rule" where
  "gRTSPREQUEST = peg_act (\<lambda>_. pRTSPREQUEST) (peg_seq [gCMD, gTARGET, gFULLPROTOCOL])"

definition gRTSPRESPONSE :: "unit rule" where
  "gRTSPRESPONSE = peg_act (\<lambda>_. pRTSPRESPONSE) (peg_seq [gFULLPROTOCOL, gRESPONSECODE, gRESPONSEMSG])"

definition gCSEQ :: "unit rule" where
  "gCSEQ = peg_act pCSEQ (peg_bind (peg_then (peg_lit ''CSeq:'') (peg_token num_dot))
     (\<lambda>t. peg_then (peg_opt gENDLINE) (peg_return t)))"

text \<open>A key, its separator and its value, which may be empty (\<open>< [\<dots>]+ > / ''\<close>), and the end of the line.\<close>

definition gOPTVAL :: "string rule" where
  "gOPTVAL = peg_or (peg_token optval_char) (peg_then (peg_lit []) (peg_return []))"

definition gOPTION :: "unit rule" where
  "gOPTION = peg_act (\<lambda>(k, v). pOPTION k v)
     (peg_bind (peg_token key_char) (\<lambda>k. peg_then (peg_lit '':'') (peg_bind gOPTVAL
       (\<lambda>v. peg_then (peg_opt gENDLINE) (peg_return (k, v))))))"

definition gPAYLOADVAL :: "string rule" where
  "gPAYLOADVAL = peg_or (peg_token payval_char) (peg_then (peg_lit []) (peg_return []))"

definition gPAYLOAD :: "unit rule" where
  "gPAYLOAD = peg_act (\<lambda>(k, v). pPAYLOAD k v)
     (peg_bind (peg_token key_char) (\<lambda>k. peg_then (peg_lit ''='') (peg_bind gPAYLOADVAL
       (\<lambda>v. peg_then (peg_opt gENDLINE) (peg_return (k, v))))))"

text \<open>\<open>.\<close> takes the bytes of one character, none if there is none.\<close>

definition gANY :: "(string \<Rightarrow> nat) \<Rightarrow> unit rule" where
  "gANY any s = ([], if any s = 0 \<or> any s > length s then None else Some ((), drop (any s) s))"

definition gRUBBISH :: "(string \<Rightarrow> nat) \<Rightarrow> unit rule" where
  "gRUBBISH any = peg_bind (peg_then (gANY any) (peg_many (gANY any))) (\<lambda>_ s. peg_return () (skip_ws s))"

definition gRTSP :: "(string \<Rightarrow> nat) \<Rightarrow> unit rule" where
  "gRTSP any = peg_seq [peg_or gRTSPREQUEST gRTSPRESPONSE, gENDLINE, gCSEQ, peg_many gOPTION, peg_opt gENDLINE,
     peg_many gPAYLOAD, peg_opt (gRUBBISH any)]"

text \<open>\<open>parser.parse\<close> succeeds if the first rule matches the whole text, after leading blanks.\<close>

definition rtsp_actions :: "(string \<Rightarrow> nat) \<Rightarrow> string \<Rightarrow> peg_action list option" where
  "rtsp_actions any msg = (case gRTSP any (skip_ws msg) of (as, Some (_, [])) \<Rightarrow> Some as | _ \<Rightarrow> None)"

definition rtsp_peg :: "(string \<Rightarrow> nat) \<Rightarrow> (string \<Rightarrow> nat) \<Rightarrow> (string \<Rightarrow> int) \<Rightarrow> peg_lib" where
  "rtsp_peg any us i = \<lparr>pg_parse = rtsp_actions any, pg_ushort = us, pg_int = i\<rparr>"

end
