(* ===== verification/RtspGrammar_Props.thy ===== *)
theory RtspGrammar_Props
  imports RtspGrammar
begin

text \<open>
  What the RTSP parser reads of printed packets: requests a client prints, and every reply of the server.
\<close>

section \<open>Reading the parts of a packet\<close>

lemmas class_defs = az_def num_def num_dot_def num_slash_def az_blank_def key_char_def optval_char_def payval_char_def
  in_range_def blank_def

lemmas peg_defs = peg_then_def peg_bind_def peg_act_def peg_opt_def peg_or_def peg_return_def peg_ignore_def

lemma not_blank:
  "az c \<Longrightarrow> \<not> blank c" "num c \<Longrightarrow> \<not> blank c" "num_dot c \<Longrightarrow> \<not> blank c" "num_slash c \<Longrightarrow> \<not> blank c" "key_char c \<Longrightarrow> \<not> blank c"
  by (auto simp: class_defs)

lemma word_stops_blank [peg]:
  "word_of az t \<Longrightarrow> stops blank (t @ r)" "word_of num t \<Longrightarrow> stops blank (t @ r)"
  "word_of num_dot t \<Longrightarrow> stops blank (t @ r)" "word_of num_slash t \<Longrightarrow> stops blank (t @ r)"
  "word_of key_char t \<Longrightarrow> stops blank (t @ r)"
  using not_blank by (auto intro: stops_word)

lemma word_to_string [peg]: "word_of num (to_string n)" "word_of num_dot (to_string n)"
  using to_string_digits [of _ n] by (auto simp: word_of_def list_all_iff class_defs)

text \<open>A value as it is printed: no blank at its front, which reading would skip.\<close>

definition value_of :: "(char \<Rightarrow> bool) \<Rightarrow> string \<Rightarrow> bool" where
  "value_of cls v \<longleftrightarrow> list_all cls v \<and> stops blank v"

lemma value_cases: "value_of cls v \<Longrightarrow> v = [] \<or> word_of cls v \<and> stops blank (v @ r)"
  by (cases v) (auto simp: value_of_def word_of_def)

lemma gENDLINE_crlf [peg]: "gENDLINE (CHR 0x0D # CHR 0x0A # r) = ([], Some ((), skip_ws r))"
  by (simp add: gENDLINE_def gCR_def gLF_def peg_defs peg_lit_def skip_ws_def blank_def)

lemma gENDLINE_stops [peg]: "stops (\<lambda>c. c = CHR 0x0D \<or> c = CHR 0x0A) r \<Longrightarrow> gENDLINE r = ([], None)"
  by (cases r) (auto simp: gENDLINE_def gCR_def gLF_def peg_defs peg_lit_def)

lemma gOPTION_reads:
  assumes "word_of key_char k" "value_of optval_char v" "stops blank r"
  shows "gOPTION (k @ '': '' @ v @ crlf @ r) = ([pOPTION k v], Some ((), r))"
proof (cases "v = []")
  case True
  with assms show ?thesis
    by (simp add: gOPTION_def gOPTVAL_def peg_defs peg crlf_def class_defs)
      (simp add: peg_lit_def peg class_defs)
next
  case False
  with value_cases [OF assms(2), of "crlf @ r"] have "word_of optval_char v" "stops blank (v @ crlf @ r)" by auto
  with assms show ?thesis
    by (simp add: gOPTION_def gOPTVAL_def peg_defs peg crlf_def class_defs)
qed

lemma gPAYLOAD_reads:
  assumes "word_of key_char k" "value_of payval_char v" "stops blank r"
  shows "gPAYLOAD (k @ ''='' @ v @ crlf @ r) = ([pPAYLOAD k v], Some ((), r))"
proof (cases "v = []")
  case True
  with assms show ?thesis
    by (simp add: gPAYLOAD_def gPAYLOADVAL_def peg_defs peg crlf_def class_defs)
      (simp add: peg_lit_def peg class_defs)
next
  case False
  with value_cases [OF assms(2), of "crlf @ r"] have "word_of payval_char v" "stops blank (v @ crlf @ r)" by auto
  with assms show ?thesis
    by (simp add: gPAYLOAD_def gPAYLOADVAL_def peg_defs peg crlf_def class_defs)
qed

lemma gCSEQ_reads:
  "word_of num_dot t \<Longrightarrow> stops blank r \<Longrightarrow> gCSEQ (''CSeq: '' @ t @ crlf @ r) = ([pCSEQ t], Some ((), r))"
  by (simp add: gCSEQ_def peg_lit_def peg_defs peg crlf_def class_defs)

lemma gOPTION_stops: "stops key_char r \<Longrightarrow> gOPTION r = ([], None)"
  by (simp add: gOPTION_def peg_defs peg)

lemma gPAYLOAD_stops: "stops key_char r \<Longrightarrow> gPAYLOAD r = ([], None)"
  by (simp add: gPAYLOAD_def peg_defs peg)

section \<open>The first line\<close>

definition request_ok :: "RTSP_REQUEST \<Rightarrow> bool" where
  "request_ok r \<longleftrightarrow> word_of az (rq_cmd r) \<and>
     (case rq_type r of
        TARGET_URI \<Rightarrow> word_of az (uri_protocol (rq_uri r)) \<and> list_all num_dot (uri_ip (rq_uri r)) \<and> uri_port (rq_uri r) < 2 ^ 16
      | TARGET_STREAM \<Rightarrow> word_of az (st_type (rq_stream r)) \<and> word_of num_slash (st_params (rq_stream r)))"

definition request_actions :: "RTSP_REQUEST \<Rightarrow> peg_action list" where
  "request_actions r = [pCMD (rq_cmd r)] @
     (case rq_type r of
        TARGET_URI \<Rightarrow> [pPROTOCOL (uri_protocol (rq_uri r))] @ (if uri_ip (rq_uri r) = [] then [] else [pIP (uri_ip (rq_uri r))])
          @ [pPORT (to_string (uri_port (rq_uri r))), pURI]
      | TARGET_STREAM \<Rightarrow> [pPROTOCOL ''streamid'', pSTREAMTYPE (st_type (rq_stream r)), pSTREAMPARAMS (st_params (rq_stream r)), pSTREAM])
     @ [pRTSPREQUEST]"

definition target_text :: "RTSP_REQUEST \<Rightarrow> string" where
  "target_text r = (case rq_type r of
      TARGET_URI \<Rightarrow> uri_protocol (rq_uri r) @ ''://'' @ uri_ip (rq_uri r) @ '':'' @ to_string (uri_port (rq_uri r))
    | TARGET_STREAM \<Rightarrow> ''streamid='' @ st_type (rq_stream r) @ st_params (rq_stream r))"

lemma az_streamid: "word_of az ''streamid''"
  by (simp add: word_of_def class_defs)

lemma gFULLPROTOCOL_reads [peg]:
  "stops num_dot r \<Longrightarrow> gFULLPROTOCOL (''RTSP/1.0'' @ r) = ([], Some ((), skip_ws r))"
  using peg_token_word [of az "''RTSP''" "''/1.0'' @ r", where 'a = peg_action]
    peg_token_word [of num_dot "''1.0''" r, where 'a = peg_action]
  by (simp add: gFULLPROTOCOL_def gFPROTOCOL_def gFVERSION_def peg_defs peg word_of_def class_defs)

lemma gURI_reads:
  assumes "word_of az pr" "list_all num_dot ip" "stops num r"
  shows "gURI (pr @ ''://'' @ ip @ '':'' @ to_string n @ r) =
    ([pPROTOCOL pr] @ (if ip = [] then [] else [pIP ip]) @ [pPORT (to_string n), pURI], Some ((), skip_ws r))"
proof (cases "ip = []")
  case True
  with assms show ?thesis
    by (simp add: gURI_def gPROTOCOL_def gIP_def gPORT_def peg_lit_def peg_defs peg class_defs)
next
  case False
  with assms(2) have "word_of num_dot ip" by (simp add: word_of_def)
  with assms False show ?thesis
    by (simp add: gURI_def gPROTOCOL_def gIP_def gPORT_def peg_lit_def peg_defs peg class_defs)
qed

lemma gSTREAM_reads:
  assumes "word_of az ty" "word_of num_slash ps" "stops num_slash r"
  shows "gTARGET (''streamid='' @ ty @ ps @ r) =
    ([pPROTOCOL ''streamid'', pSTREAMTYPE ty, pSTREAMPARAMS ps, pSTREAM], Some ((), skip_ws r))"
proof -
  let ?r = "''='' @ ty @ ps @ r"
  have s: "(peg_token az :: string rule) (''streamid'' @ ?r) = ([], Some (''streamid'', ?r))"
    "(peg_class az :: string rule) (''streamid'' @ ?r) = ([], Some (''streamid'', ?r))"
    using peg_token_word [OF az_streamid, of ?r, where 'a = peg_action] peg_class_word [OF az_streamid, of ?r, where 'a = peg_action]
    by (simp_all add: peg class_defs)
  have "stops az (ps @ r)" using assms(2) by (rule stops_word) (auto simp: class_defs)
  with s assms show ?thesis
    by (simp add: gTARGET_def gURI_def gPROTOCOL_def gSTREAM_def gSTREAMTYPE_def gSTREAMPARAMS_def peg_lit_def peg_defs peg class_defs)
qed

lemma gRTSPREQUEST_reads:
  assumes "request_ok r"
  shows "gRTSPREQUEST (rq_cmd r @ '' '' @ target_text r @ '' RTSP/1.0'' @ crlf @ rest) = (request_actions r, Some ((), crlf @ rest))"
proof -
  let ?r = "'' RTSP/1.0'' @ crlf @ rest"
  have t: "gTARGET (target_text r @ ?r) = (tl (butlast (request_actions r)), Some ((), ''RTSP/1.0'' @ crlf @ rest))"
  proof (cases "rq_type r")
    case TARGET_URI
    then show ?thesis
      using gURI_reads [of "uri_protocol (rq_uri r)" "uri_ip (rq_uri r)" ?r "uri_port (rq_uri r)"] assms
      by (auto simp: gTARGET_def request_ok_def request_actions_def target_text_def peg_defs peg class_defs)
  next
    case TARGET_STREAM
    then show ?thesis
      using gSTREAM_reads [of "st_type (rq_stream r)" "st_params (rq_stream r)" ?r] assms
      by (simp add: request_ok_def request_actions_def target_text_def peg class_defs)
  qed
  have c: "word_of az (rq_cmd r)" "word_of az (if rq_type r = TARGET_URI then uri_protocol (rq_uri r) else ''streamid'')"
    using assms az_streamid by (auto simp: request_ok_def split: TARGET_TYPE.splits)
  then have "stops blank (target_text r @ ?r)"
    by (cases "rq_type r") (simp_all add: target_text_def word_stops_blank(1) class_defs)
  moreover have "request_actions r = pCMD (rq_cmd r) # tl (butlast (request_actions r)) @ [pRTSPREQUEST]"
    by (simp add: request_actions_def split: TARGET_TYPE.splits)
  ultimately show ?thesis using c(1) t gFULLPROTOCOL_reads [of "crlf @ rest"]
    by (simp add: gRTSPREQUEST_def gCMD_def peg_defs peg crlf_def class_defs)
qed

definition response_ok :: "RTSP_RESPONSE \<Rightarrow> bool" where
  "response_ok r \<longleftrightarrow> rs_status_code r < 2 ^ 16 \<and> word_of az_blank (rs_msg r) \<and> stops blank (rs_msg r)"

text \<open>A status line is tried as a request first: its \<open>RTSP\<close> is taken for a command, and stays in the packet.\<close>

lemma gRTSPRESPONSE_reads:
  assumes "response_ok r"
  shows "peg_or gRTSPREQUEST gRTSPRESPONSE (''RTSP/1.0 '' @ to_string (rs_status_code r) @ '' '' @ rs_msg r @ crlf @ rest) =
    ([pCMD ''RTSP'', pRESPONSECODE (to_string (rs_status_code r)), pRESPONSEMSG (rs_msg r), pRTSPRESPONSE], Some ((), crlf @ rest))"
proof -
  let ?r = "to_string (rs_status_code r) @ '' '' @ rs_msg r @ crlf @ rest"
  have m: "word_of az_blank (rs_msg r)" "stops blank (rs_msg r @ crlf @ rest)" "rs_msg r \<noteq> []"
    using assms by (cases "rs_msg r"; simp add: response_ok_def word_of_def)+
  have "(peg_token az :: string rule) (''RTSP'' @ ''/1.0 '' @ ?r) = ([], Some (''RTSP'', ''/1.0 '' @ ?r))"
    by (subst peg_token_word) (simp_all add: word_of_def peg class_defs)
  then have q: "gRTSPREQUEST (''RTSP/1.0'' @ '' '' @ ?r) = ([pCMD ''RTSP''], None)"
    by (simp add: gRTSPREQUEST_def gCMD_def gTARGET_def gURI_def gPROTOCOL_def gSTREAM_def gFULLPROTOCOL_def gFPROTOCOL_def
        peg_defs peg class_defs)
  have f: "gFULLPROTOCOL (''RTSP/1.0'' @ '' '' @ ?r) = ([], Some ((), ?r))"
    by (subst gFULLPROTOCOL_reads) (simp_all add: peg class_defs)
  have "gRTSPRESPONSE (''RTSP/1.0'' @ '' '' @ ?r) = ([pRESPONSECODE (to_string (rs_status_code r)), pRESPONSEMSG (rs_msg r), pRTSPRESPONSE], Some ((), crlf @ rest))"
    using m f by (simp add: gRTSPRESPONSE_def gRESPONSECODE_def gRESPONSEMSG_def peg_defs peg crlf_def class_defs)
  with q show ?thesis by (simp add: peg_or_def)
qed

section \<open>Packets\<close>

definition option_text :: "string \<times> string \<Rightarrow> string" where
  "option_text o' = fst o' @ '': '' @ snd o' @ crlf"

definition option_ok :: "string \<times> string \<Rightarrow> bool" where
  "option_ok o' \<longleftrightarrow> word_of key_char (fst o') \<and> value_of optval_char (snd o')"

text \<open>A payload without a key is printed as its value alone and read back split at the first \<open>=\<close>.\<close>

definition wire_payload :: "string \<times> string \<Rightarrow> string \<times> string" where
  "wire_payload pay =
     (if fst pay = [] then (takeWhile (\<lambda>c. c \<noteq> CHR ''='') (snd pay), tl (dropWhile (\<lambda>c. c \<noteq> CHR ''='') (snd pay))) else pay)"

definition payload_ok :: "string \<times> string \<Rightarrow> bool" where
  "payload_ok pay \<longleftrightarrow> (if fst pay = [] then CHR ''='' \<in> set (snd pay) else True) \<and>
     word_of key_char (fst (wire_payload pay)) \<and> value_of payval_char (snd (wire_payload pay))"

definition payload_text :: "string \<times> string \<Rightarrow> string" where
  "payload_text pay = (if fst pay = [] then snd pay else fst pay @ ''='' @ snd pay) @ crlf"

lemma payload_text_eq: "(\<lambda>(k, v). (if k = [] then v else k @ ''='' @ v) @ crlf) = payload_text"
  by (rule ext) (simp add: payload_text_def case_prod_beta)

lemma payload_text_wire: "payload_ok pay \<Longrightarrow> payload_text pay = fst (wire_payload pay) @ ''='' @ snd (wire_payload pay) @ crlf"
proof -
  assume ok: "payload_ok pay"
  have "takeWhile (\<lambda>c. c \<noteq> CHR ''='') v @ CHR ''='' # tl (dropWhile (\<lambda>c. c \<noteq> CHR ''='') v) = v" if "CHR ''='' \<in> set v" for v
  proof -
    from that have d: "dropWhile (\<lambda>c. c \<noteq> CHR ''='') v \<noteq> []" by auto
    then have "dropWhile (\<lambda>c. c \<noteq> CHR ''='') v = CHR ''='' # tl (dropWhile (\<lambda>c. c \<noteq> CHR ''='') v)"
      using hd_dropWhile [OF d] by (cases "dropWhile (\<lambda>c. c \<noteq> CHR ''='') v") auto
    then show ?thesis by (metis takeWhile_dropWhile_id)
  qed
  from this [of "snd pay"] ok show ?thesis by (simp add: payload_text_def payload_ok_def wire_payload_def)
qed

definition packet_ok :: "RTSP_PACKET \<Rightarrow> bool" where
  "packet_ok p \<longleftrightarrow> (case rp_type p of REQUEST \<Rightarrow> request_ok (rp_request p) | RESPONSE \<Rightarrow> response_ok (rp_response p)) \<and>
     0 \<le> rp_seq_number p \<and> rp_seq_number p < 2 ^ 31 \<and> map_ok (rp_options p) \<and>
     list_all option_ok (rp_options p) \<and> list_all payload_ok (rp_payloads p)"

definition packet_actions :: "RTSP_PACKET \<Rightarrow> peg_action list" where
  "packet_actions p =
     (case rp_type p of REQUEST \<Rightarrow> request_actions (rp_request p)
      | RESPONSE \<Rightarrow> [pCMD ''RTSP'', pRESPONSECODE (to_string (rs_status_code (rp_response p))),
          pRESPONSEMSG (rs_msg (rp_response p)), pRTSPRESPONSE])
     @ [pCSEQ (int_to_string (rp_seq_number p))]
     @ map (\<lambda>(k, v). pOPTION k v) (rp_options p) @ map (\<lambda>(k, v). pPAYLOAD k v) (map wire_payload (rp_payloads p))"

lemma options_text:
  "concat (map (\<lambda>(k, v). crlf @ k @ '': '' @ v) opts) @ crlf @ rest = crlf @ concat (map option_text opts) @ rest"
  by (induction opts) (auto simp: option_text_def)

lemma gPAYLOADs_read:
  assumes "list_all payload_ok pays" "stops blank rest" "stops key_char rest"
  shows "peg_many gPAYLOAD (concat (map payload_text pays) @ rest) = (map (\<lambda>(k, v). pPAYLOAD k v) (map wire_payload pays), Some ((), rest))
    \<and> stops blank (concat (map payload_text pays) @ rest)"
proof -
  have "gPAYLOAD (payload_text pay @ r) = ([case wire_payload pay of (k, v) \<Rightarrow> pPAYLOAD k v], Some ((), r)) \<and>
      stops blank (payload_text pay @ r) \<and> payload_text pay \<noteq> []" if "pay \<in> set pays" "stops blank r" for pay r
  proof -
    have ok: "payload_ok pay" using assms(1) that(1) by (simp add: list_all_iff)
    then have "word_of key_char (fst (wire_payload pay))" "value_of payval_char (snd (wire_payload pay))"
      by (simp_all add: payload_ok_def)
    with gPAYLOAD_reads [OF this that(2)] show ?thesis
      by (simp add: payload_text_wire [OF ok] case_prod_beta peg del: append_assoc) (simp add: peg)
  qed
  from peg_many_list [where start = "stops blank" and p = gPAYLOAD and print = payload_text, OF this _ gPAYLOAD_stops, of pays rest] assms(2,3)
  show ?thesis by (simp add: comp_def)
qed

lemma gOPTIONs_read:
  assumes "list_all option_ok opts" "stops blank rest" "stops key_char rest"
  shows "peg_many gOPTION (concat (map option_text opts) @ rest) = (map (\<lambda>(k, v). pOPTION k v) opts, Some ((), rest))
    \<and> stops blank (concat (map option_text opts) @ rest)"
proof -
  have "gOPTION (option_text opt @ r) = ([case opt of (k, v) \<Rightarrow> pOPTION k v], Some ((), r)) \<and>
      stops blank (option_text opt @ r) \<and> option_text opt \<noteq> []" if "opt \<in> set opts" "stops blank r" for opt r
    using assms(1) that gOPTION_reads [of "fst opt" "snd opt" r] by (auto simp: list_all_iff option_ok_def option_text_def peg split_beta)
  from peg_many_list [where start = "stops blank" and p = gOPTION and print = option_text, OF this _ gOPTION_stops, of opts rest] assms(2,3)
  show ?thesis by (simp add: comp_def)
qed

text \<open>What \<open>RUBBISH\<close> takes: whole characters up to the end; the last rule before it cannot read their front.\<close>

definition junk_ok :: "(string \<Rightarrow> nat) \<Rightarrow> string \<Rightarrow> bool" where
  "junk_ok any junk \<longleftrightarrow> stops blank junk \<and> stops key_char junk \<and>
     (\<forall>n < length junk. any (drop n junk) = 1)"

lemma gANYs_read: "(\<forall>n < length junk. any (drop n junk) = 1) \<Longrightarrow> peg_many (gANY any) junk = ([], Some ((), []))"
proof (induction junk)
  case Nil
  have "gANY any [] = ([], None)" by (cases "any [] = 0") (simp_all add: gANY_def)
  then show ?case by (simp add: peg_many_stop)
next
  case (Cons c junk)
  have "any (c # junk) = 1" using Cons.prems by fastforce
  then have "gANY any (c # junk) = ([], Some ((), junk))" by (simp add: gANY_def)
  moreover have "peg_many (gANY any) junk = ([], Some ((), []))" using Cons by fastforce
  ultimately show ?case using peg_many_step [of "gANY any" "c # junk"] by simp
qed

lemma gRUBBISH_reads: "junk_ok any junk \<Longrightarrow> peg_opt (gRUBBISH any) junk = ([], Some ((), []))"
proof (cases junk)
  case Nil
  have "gANY any [] = ([], None)" by (cases "any [] = 0") (simp_all add: gANY_def)
  then show ?thesis by (simp add: gRUBBISH_def peg_defs Nil)
next
  case (Cons c cs)
  assume ok: "junk_ok any junk"
  then have "any (c # cs) = 1" unfolding junk_ok_def Cons by fastforce
  then have "gANY any (c # cs) = ([], Some ((), cs))" by (simp add: gANY_def)
  moreover have "peg_many (gANY any) cs = ([], Some ((), []))"
    using ok by (intro gANYs_read) (fastforce simp: junk_ok_def Cons)
  ultimately show ?thesis by (simp add: gRUBBISH_def peg_defs Cons skip_ws_def)
qed

lemma rtsp_actions_printed:
  assumes "packet_ok p" "junk_ok any junk"
  shows "rtsp_actions any (rtsp_to_string p @ junk) = Some (packet_actions p)"
proof -
  let ?opts = "concat (map option_text (rp_options p))" and ?pays = "concat (map payload_text (rp_payloads p)) @ junk"
  let ?cseq = "''CSeq: '' @ int_to_string (rp_seq_number p) @ crlf @ ?opts @ crlf @ ?pays"
  define line where "line = (case rp_type p of
      REQUEST \<Rightarrow> rq_cmd (rp_request p) @ '' '' @ target_text (rp_request p) @ '' RTSP/1.0''
    | RESPONSE \<Rightarrow> ''RTSP/1.0 '' @ to_string (rs_status_code (rp_response p)) @ '' '' @ rs_msg (rp_response p))"
  define first where "first = (case rp_type p of REQUEST \<Rightarrow> request_actions (rp_request p)
      | RESPONSE \<Rightarrow> [pCMD ''RTSP'', pRESPONSECODE (to_string (rs_status_code (rp_response p))),
          pRESPONSEMSG (rs_msg (rp_response p)), pRTSPRESPONSE])"
  have printed: "rtsp_to_string p @ junk = line @ crlf @ ?cseq"
  proof -
    have "rtsp_to_string p @ junk = line @ crlf @ ''CSeq: '' @ int_to_string (rp_seq_number p)
        @ concat (map (\<lambda>(k, v). crlf @ k @ '': '' @ v) (rp_options p)) @ crlf @ crlf @ ?pays"
      unfolding rtsp_to_string_def payload_text_eq
      by (simp add: Let_def line_def target_text_def split: rtsp_kind.splits TARGET_TYPE.splits)
    then show ?thesis unfolding options_text .
  qed
  have pays: "peg_many gPAYLOAD ?pays = (map (\<lambda>(k, v). pPAYLOAD k v) (map wire_payload (rp_payloads p)), Some ((), junk))" "stops blank ?pays"
    using gPAYLOADs_read [of "rp_payloads p" junk] assms by (simp_all add: packet_ok_def junk_ok_def)
  have opts: "peg_many gOPTION (?opts @ crlf @ ?pays) = (map (\<lambda>(k, v). pOPTION k v) (rp_options p), Some ((), crlf @ ?pays))"
    "stops blank (?opts @ crlf @ ?pays)"
    using gOPTIONs_read [of "rp_options p" "crlf @ ?pays"] assms by (simp_all add: packet_ok_def crlf_def class_defs)
  have seq: "gCSEQ ?cseq = ([pCSEQ (int_to_string (rp_seq_number p))], Some ((), ?opts @ crlf @ ?pays))"
    using gCSEQ_reads [OF word_to_string(2) opts(2)] assms by (simp add: packet_ok_def int_to_string_def)
  define alt where "alt = peg_or gRTSPREQUEST gRTSPRESPONSE"
  have first: "alt (line @ crlf @ ?cseq) = (first, Some ((), crlf @ ?cseq))" (is ?f)
    and start: "stops blank (line @ crlf @ ?cseq)" (is ?s)
  proof -
    have "?f \<and> ?s"
    proof (cases "rp_type p")
      case REQUEST
      with assms have "request_ok (rp_request p)" by (simp add: packet_ok_def)
      moreover from this have "word_of az (rq_cmd (rp_request p))" by (simp add: request_ok_def)
      ultimately show ?thesis using REQUEST gRTSPREQUEST_reads [of "rp_request p" ?cseq]
        by (simp add: alt_def line_def first_def peg_or_def peg)
    next
      case RESPONSE
      with assms gRTSPRESPONSE_reads [of "rp_response p" ?cseq] show ?thesis
        by (simp add: alt_def line_def first_def packet_ok_def class_defs)
    qed
    then show ?f ?s by auto
  qed
  have nl: "gENDLINE (crlf @ ?cseq) = ([], Some ((), ?cseq))" "gENDLINE (crlf @ ?pays) = ([], Some ((), ?pays))"
    using pays(2) by (simp_all add: crlf_def peg class_defs)
  have nl': "peg_opt gENDLINE (crlf @ ?pays) = ([], Some ((), ?pays))" by (simp add: peg_opt_def peg_or_def nl)
  have "gRTSP any (line @ crlf @ ?cseq) = (packet_actions p, Some ((), []))"
    unfolding gRTSP_def alt_def [symmetric]
    by (simp only: peg_seq.simps peg_then_def peg_bind_def first nl seq opts pays nl' gRUBBISH_reads [OF assms(2)] peg_return_def
        prod.case option.case append_Nil append_Nil2 append_assoc) (simp add: packet_actions_def first_def)
  then show ?thesis by (simp only: rtsp_actions_def printed skip_ws_stops [OF start] prod.case option.case list.case)
qed

section \<open>What a reader has of a printed packet\<close>

text \<open>
  The packet itself, with the payloads as they are split on the wire and with what the alternatives that failed
  have left: the protocol \<open>streamid\<close> of a request for a stream, the command \<open>RTSP\<close> of a response.
\<close>

definition wire_packet :: "RTSP_PACKET \<Rightarrow> RTSP_PACKET" where
  "wire_packet p = empty_packet\<lparr>rp_type := rp_type p, rp_seq_number := rp_seq_number p,
     rp_request := (let r = rp_request p; r0 = rp_request empty_packet in
       case rp_type p of
         REQUEST \<Rightarrow> (case rq_type r of
            TARGET_URI \<Rightarrow> r0\<lparr>rq_cmd := rq_cmd r, rq_uri := rq_uri r\<rparr>
          | TARGET_STREAM \<Rightarrow> r0\<lparr>rq_cmd := rq_cmd r, rq_type := TARGET_STREAM,
              rq_uri := (rq_uri r0)\<lparr>uri_protocol := ''streamid''\<rparr>, rq_stream := rq_stream r\<rparr>)
       | RESPONSE \<Rightarrow> r0\<lparr>rq_cmd := ''RTSP''\<rparr>),
     rp_response := (case rp_type p of REQUEST \<Rightarrow> rp_response empty_packet | RESPONSE \<Rightarrow> rp_response p),
     rp_options := rp_options p, rp_payloads := map wire_payload (rp_payloads p)\<rparr>"

text \<open>The library reads the numbers \<open>std::to_string\<close> prints, within the types of the packet's fields.\<close>

definition reads_numbers :: "(string \<Rightarrow> nat) \<Rightarrow> (string \<Rightarrow> int) \<Rightarrow> bool" where
  "reads_numbers us i \<longleftrightarrow> (\<forall>n < 2 ^ 16. us (to_string n) = n) \<and> (\<forall>n < 2 ^ 31. i (to_string n) = int n)"

lemma foldl_options:
  "map_ok (rp_options p @ opts) \<Longrightarrow>
   foldl (peg_step pg) p (map (\<lambda>(k, v). pOPTION k v) opts) = p\<lparr>rp_options := rp_options p @ opts\<rparr>"
proof (induction opts arbitrary: p)
  case (Cons o' opts)
  obtain k v where o': "o' = (k, v)" by force
  have mput_last: "mput k v m = m @ [(k, v)]" if "\<forall>y\<in>set (map fst m). y < k" for m :: "(string, string) std_map"
    using that by (induction m) auto
  have "\<forall>y\<in>set (map fst (rp_options p)). y < k"
    using Cons.prems by (auto simp: map_ok_def o' sorted_wrt_append)
  with Cons show ?case by (simp add: o' mput_last)
qed simp

lemma foldl_payloads:
  "foldl (peg_step pg) p (map (\<lambda>(k, v). pPAYLOAD k v) pays) = p\<lparr>rp_payloads := rp_payloads p @ pays\<rparr>"
  by (induction pays arbitrary: p) auto

lemma parse_printed:
  assumes "packet_ok p" "reads_numbers us i" "junk_ok any junk"
  shows "rtsp_parse (rtsp_peg any us i) (rtsp_to_string p @ junk) = Some (wire_packet p)"
proof -
  let ?pg = "rtsp_peg any us i"
  define first where "first = (case rp_type p of REQUEST \<Rightarrow> request_actions (rp_request p)
      | RESPONSE \<Rightarrow> [pCMD ''RTSP'', pRESPONSECODE (to_string (rs_status_code (rp_response p))),
          pRESPONSEMSG (rs_msg (rp_response p)), pRTSPRESPONSE])"
  let ?q = "foldl (peg_step ?pg) empty_packet first"
  have n: "us (to_string n) = n" if "n < 2 ^ 16" for n using assms(2) that by (simp add: reads_numbers_def)
  have seq: "i (int_to_string (rp_seq_number p)) = rp_seq_number p"
    using assms(1,2) by (simp add: reads_numbers_def packet_ok_def int_to_string_def nat_less_iff)
  have w: "wire_packet p = ?q\<lparr>rp_seq_number := rp_seq_number p, rp_options := rp_options p,
      rp_payloads := map wire_payload (rp_payloads p)\<rparr>"
  proof (cases "rp_type p")
    case REQUEST
    then show ?thesis using assms(1) n
      by (auto simp: first_def wire_packet_def Let_def packet_ok_def request_ok_def request_actions_def on_request_def
          empty_packet_def rtsp_peg_def intro!: URI.equality STREAM.equality split: TARGET_TYPE.splits)
  next
    case RESPONSE
    then show ?thesis using assms(1) n
      by (simp add: first_def wire_packet_def packet_ok_def response_ok_def on_request_def empty_packet_def rtsp_peg_def)
  qed
  have "rp_options ?q = []" "rp_payloads ?q = []"
    by (simp_all add: first_def request_actions_def on_request_def empty_packet_def split: rtsp_kind.splits TARGET_TYPE.splits)
  then have "foldl (peg_step ?pg) empty_packet (packet_actions p) = wire_packet p"
    using assms(1) seq unfolding w packet_actions_def first_def [symmetric]
    by (simp add: foldl_options foldl_payloads packet_ok_def rtsp_peg_def del: map_map)
  then show ?thesis using rtsp_actions_printed [OF assms(1,3)] by (simp add: rtsp_parse_def) (simp add: rtsp_peg_def)
qed

text \<open>
  C13: Packets survive printing and reading: what \<open>to_string\<close> prints of a packet whose parts are in the grammar's alphabets
  is read back as that packet, up to the split of the payloads and what failed alternatives leave. Anything behind
  the first line that no payload rule can read, a line without a key say, is dropped without a trace.
\<close>

theorem printed_packets_read:
  assumes "packet_ok p" "reads_numbers us i" "junk_ok any junk"
  shows "rtsp_parse (rtsp_peg any us i) (rtsp_to_string p @ junk) = Some (wire_packet p)"
  by (rule parse_printed [OF assms])

lemma demo_numbers: "reads_numbers dec_value (\<lambda>t. int (dec_value t))"
  by (simp add: reads_numbers_def dec_value_to_string)

theorem printed_packets_read_witness:
  "rtsp_parse (rtsp_peg (\<lambda>s. min 1 (length s)) dec_value (\<lambda>t. int (dec_value t)))
     (rtsp_to_string (error_msg 404 ''NOT FOUND'' 5) @ ''=x'') = Some (wire_packet (error_msg 404 ''NOT FOUND'' 5))"
proof (rule printed_packets_read [OF _ demo_numbers])
  show "packet_ok (error_msg 404 ''NOT FOUND'' 5)"
    by (simp add: packet_ok_def error_msg_def empty_packet_def response_ok_def word_of_def map_ok_def class_defs)
  show "junk_ok (\<lambda>s. min 1 (length s)) ''=x''" by (auto simp: junk_ok_def class_defs less_Suc_eq numeral_2_eq_2)
qed

section \<open>The replies of the server\<close>












section \<open>Texts that are refused\<close>

text \<open>A parser that succeeds leaves an end of its text.\<close>

definition leaves_suffix :: "('a, 'v) peg \<Rightarrow> bool" where
  "leaves_suffix p \<longleftrightarrow> (\<forall>s as v r. p s = (as, Some (v, r)) \<longrightarrow> suffix r s)"

lemma leaves_suffixD: "leaves_suffix p \<Longrightarrow> p s = (as, Some (v, r)) \<Longrightarrow> suffix r s"
  by (auto simp: leaves_suffix_def)

lemma suffix_skip_ws: "suffix (skip_ws s) s"
  by (simp add: skip_ws_def suffix_dropWhile)

lemma suffix_bind:
  assumes "leaves_suffix p" "\<And>v. leaves_suffix (f v)"
  shows "leaves_suffix (peg_bind p f)"
proof -
  have "suffix r s" if "peg_bind p f s = (as, Some (v, r))" for s as v r
  proof -
    from that obtain bs w t cs where "p s = (bs, Some (w, t))" "f w t = (cs, Some (v, r))"
      by (auto simp: peg_bind_def split: prod.splits option.splits)
    then show ?thesis using assms suffix_order.trans by (metis leaves_suffixD)
  qed
  then show ?thesis by (simp add: leaves_suffix_def)
qed

lemma suffix_or: "leaves_suffix p \<Longrightarrow> leaves_suffix q \<Longrightarrow> leaves_suffix (peg_or p q)"
  by (fastforce simp: leaves_suffix_def peg_or_def split: prod.splits option.splits)

lemma suffix_leaves:
  "leaves_suffix (peg_return v)" "leaves_suffix (peg_lit l)" "leaves_suffix (peg_class cls)"
  "leaves_suffix (\<lambda>s. ([a], Some ((), s)))"
  by (auto simp: leaves_suffix_def peg_return_def peg_lit_def peg_class_def Let_def suffix_drop
      intro: suffix_order.trans [OF suffix_skip_ws suffix_drop] split: if_splits)

lemma suffix_token: "leaves_suffix (peg_token cls)"
  unfolding peg_token_def
  by (rule suffix_bind [OF suffix_leaves(3)]) (simp add: leaves_suffix_def peg_return_def suffix_skip_ws)

lemmas suffix_rules = suffix_bind suffix_or suffix_leaves suffix_token

lemma suffix_first_line: "leaves_suffix (peg_or gRTSPREQUEST gRTSPRESPONSE)" "leaves_suffix gENDLINE"
  unfolding gRTSPREQUEST_def gRTSPRESPONSE_def gCMD_def gTARGET_def gURI_def gPROTOCOL_def gIP_def gPORT_def gSTREAM_def
    gSTREAMTYPE_def gSTREAMPARAMS_def gFULLPROTOCOL_def gFPROTOCOL_def gFVERSION_def gRESPONSECODE_def gRESPONSEMSG_def
    gENDLINE_def gCR_def gLF_def peg_act_def peg_opt_def peg_ignore_def peg_then_def peg_seq.simps
  by (intro suffix_rules)+

lemma gCSEQ_literal: "gCSEQ s = (as, Some (v, r)) \<Longrightarrow> prefix ''CSeq:'' s"
  by (auto simp: gCSEQ_def peg_defs peg_lit_def split: prod.splits option.splits if_splits)

lemma rtsp_actions_cseq:
  assumes "rtsp_actions any msg = Some as"
  shows "sublist ''CSeq:'' msg"
proof -
  obtain r where "gRTSP any (skip_ws msg) = (as, Some ((), r))"
    using assms by (auto simp: rtsp_actions_def split: prod.splits option.splits list.splits)
  then obtain s1 s2 bs cs ds s3 where "peg_or gRTSPREQUEST gRTSPRESPONSE (skip_ws msg) = (bs, Some ((), s1))"
    "gENDLINE s1 = (cs, Some ((), s2))" "gCSEQ s2 = (ds, Some ((), s3))"
    unfolding gRTSP_def peg_seq.simps peg_then_def by (auto simp: peg_bind_def split: prod.splits option.splits)
  then have "suffix s2 (skip_ws msg)" "prefix ''CSeq:'' s2"
    using suffix_first_line gCSEQ_literal by (meson leaves_suffixD suffix_order.trans)+
  with suffix_skip_ws [of msg] show ?thesis
    by (meson prefix_imp_sublist suffix_imp_sublist sublist_order.order_trans)
qed

text \<open>
  A message without \<open>CSeq:\<close> is answered with status 400, whatever else it says, and changes no session; so is every
  other text outside the grammar.
\<close>

theorem no_cseq_refused:
  assumes "\<not> sublist ''CSeq:'' msg"
  shows "handle_message (rtsp_peg any us i) reg ip msg =
    \<lparr>rr_reply = Some (error_msg 400 ''BAD REQUEST'' 0), rr_session = None, rr_play = False\<rparr>"
proof -
  have "rtsp_parse (rtsp_peg any us i) msg = None"
    using assms rtsp_actions_cseq [of any msg] by (cases "rtsp_actions any msg") (auto simp: rtsp_parse_def rtsp_peg_def)
  then show ?thesis by (simp add: handle_message_def)
qed

theorem no_cseq_refused_witness:
  "handle_message (rtsp_peg (\<lambda>s. 1) dec_value (\<lambda>t. int (dec_value t))) empty_registry ''10.0.0.9'' ''OPTIONS / RTSP/1.0'' =
    \<lparr>rr_reply = Some (error_msg 400 ''BAD REQUEST'' 0), rr_session = None, rr_play = False\<rparr>"
proof (rule no_cseq_refused)
  show "\<not> sublist ''CSeq:'' ''OPTIONS / RTSP/1.0''" by code_simp
qed

end
