(* ===== verification/Control_Props.thy ===== *)
theory Control_Props
  imports Control
begin

unbundle bit_operations_syntax

text \<open>
  Properties of the control stream: what the packet codec and the input decoder compute, which peers
  can act on a session, and where the server accepts or reads what it should not.
\<close>

section \<open>Packets\<close>

lemma read_encrypted_bytes:
  "length (ce_gcm_tag p) = 16 \<Longrightarrow> read_encrypted (encrypted_bytes p) = Some p"
proof -
  assume t: "length (ce_gcm_tag p) = 16"
  have d: "drop 2 (encrypted_bytes p) = le16 (ce_length p) @ le32 (ce_seq p) @ ce_gcm_tag p @ ce_payload p"
    "drop 4 (encrypted_bytes p) = le32 (ce_seq p) @ ce_gcm_tag p @ ce_payload p"
    "drop 8 (encrypted_bytes p) = ce_gcm_tag p @ ce_payload p" "drop 24 (encrypted_bytes p) = ce_payload p"
    using t by (simp_all add: encrypted_bytes_def)
  have l: "24 \<le> length (encrypted_bytes p)" using t by (simp add: encrypted_bytes_def)
  have h: "get_le16 (encrypted_bytes p) = ce_type p" by (simp add: encrypted_bytes_def)
  show ?thesis using l t by (simp add: read_encrypted_def d h bslice_def)
qed

lemma encrypted_msg_eq:
  "encrypted_msg p = (let len = nat ((uint (ce_length p) - 20) mod 2 ^ 64) in
     if len > length (ce_payload p) then None else Some (take len (ce_payload p)))"
proof -
  have "uint (ce_length p) - int GCM_TAG_SIZE - 4 = uint (ce_length p) - 20" by (simp add: GCM_TAG_SIZE_def)
  then show ?thesis by (simp only: encrypted_msg_def)
qed

lemma encrypted_msg_len:
  assumes "20 \<le> uint (ce_length p)"
  shows "encrypted_msg p = (if unat (ce_length p) - 20 > length (ce_payload p) then None
    else Some (take (unat (ce_length p) - 20) (ce_payload p)))"
proof -
  have "uint (ce_length p) < 2 ^ LENGTH(16)" by (rule uint_lt2p)
  then have "(uint (ce_length p) - 20) mod 2 ^ 64 = uint (ce_length p) - 20"
    using assms by (intro mod_pos_pos_trivial) simp_all
  moreover have "nat (uint (ce_length p) - 20) = unat (ce_length p) - 20"
    unfolding unat_eq_nat_uint using assms by (simp only: nat_diff_distrib nat_numeral)
  ultimately show ?thesis by (simp only: encrypted_msg_eq Let_def)
qed

text \<open> C30: What \<open>encrypt_packet\<close> sends, \<open>decrypt_packet\<close> reads back: for every key text, sequence number and
  payload of at most 128 bytes, the bytes on the wire (\<open>full_size\<close> of them) decrypt to the payload with
  a matching tag; a longer payload overruns the packet. \<close>

theorem control_roundtrip:
  assumes "gcm_law g"
  shows "if length payload \<le> 128
    then \<exists>pkt enc. encrypt_packet g key seq payload = Some pkt \<and> full_size pkt = 24 + length payload \<and>
      read_encrypted (take (full_size pkt) (encrypted_bytes pkt)) = Some enc \<and>
      decrypt_packet g enc key = Some (False, payload)
    else encrypt_packet g key seq payload = None"
proof -
  obtain k where k: "hex_to_str key True = Some k" by (simp add: hex_to_str_eq)
  define c where "c = gcm_enc g k (gcm_iv seq) payload"
  define tag where "tag = gcm_tag g k (gcm_iv seq) c"
  have len: "length c = length payload" "length tag = 16" "gcm_dec g k (gcm_iv seq) c = payload"
    using assms by (simp_all add: c_def tag_def gcm_law_def AES_GCM_TAG_SIZE_def)
  show ?thesis
  proof (cases "length payload \<le> 128")
    case True
    define pkt where "pkt = \<lparr>ce_type = packet_code ENCRYPTED, ce_length = word_of_nat (20 + length payload),
      ce_seq = seq, ce_gcm_tag = tag, ce_payload = patch (replicate 128 0) 0 c\<rparr>"
    have e: "encrypt_packet g key seq payload = Some pkt"
      using True len
      by (simp add: encrypt_packet_def k aes_encrypt_gcm_def Let_def pkt_def MAX_PAYLOAD_SIZE_def GCM_TAG_SIZE_def
          flip: c_def tag_def)
    have n: "unat (ce_length pkt) = 20 + length payload"
      using True by (simp add: pkt_def unat_of_nat take_bit_eq_mod del: of_nat_add)
    define enc where "enc = pkt\<lparr>ce_payload := c\<rparr>"
    have w: "take (full_size pkt) (encrypted_bytes pkt) = encrypted_bytes enc"
      using n len by (simp add: full_size_def encrypted_bytes_def enc_def pkt_def patch_def)
    have r: "read_encrypted (encrypted_bytes enc) = Some enc"
      using len by (intro read_encrypted_bytes) (simp add: enc_def pkt_def)
    have "20 \<le> uint (ce_length enc)" using n by (simp add: enc_def uint_nat)
    then have "encrypted_msg enc = Some c"
      using n len by (simp add: encrypted_msg_len) (simp add: enc_def)
    then have d: "decrypt_packet g enc key = Some (False, payload)"
      using len by (simp add: decrypt_packet_def k aes_decrypt_gcm_def enc_def pkt_def tag_def)
    have "full_size pkt = 24 + length payload" using n by (simp add: full_size_def)
    then show ?thesis using True e w r d by (auto intro!: exI [of _ pkt] exI [of _ enc])
  next
    case False
    then show ?thesis
      using len by (simp add: encrypt_packet_def k aes_encrypt_gcm_def Let_def MAX_PAYLOAD_SIZE_def flip: c_def tag_def)
  qed
qed

text \<open>A stream cipher with a checksum, as an instance of the cipher's laws.\<close>

definition demo_gcm :: gcm where
  "demo_gcm = \<lparr>gcm_enc = (\<lambda>k iv. map (\<lambda>b. b XOR 0x5a)), gcm_dec = (\<lambda>k iv. map (\<lambda>b. b XOR 0x5a)),
     gcm_tag = (\<lambda>k iv m. replicate 16 (sum_list m + sum_list k + sum_list iv))\<rparr>"

lemma demo_gcm_law: "gcm_law demo_gcm"
  by (simp add: gcm_law_def demo_gcm_def AES_GCM_TAG_SIZE_def xor.assoc comp_def)

theorem control_roundtrip_witness:
  "\<exists>pkt enc. encrypt_packet demo_gcm ''00112233445566778899AABBCCDDEEFF'' 7 [9, 1, 0, 0] = Some pkt \<and>
     full_size pkt = 28 \<and> read_encrypted (take (full_size pkt) (encrypted_bytes pkt)) = Some enc \<and>
     decrypt_packet demo_gcm enc ''00112233445566778899AABBCCDDEEFF'' = Some (False, [9, 1, 0, 0])"
  using control_roundtrip [OF demo_gcm_law, of "[9, 1, 0, 0]" "''00112233445566778899AABBCCDDEEFF''" 7] by simp

text \<open> The header's length decides what is read: below 20 the subtraction wraps and the decrypter is pointed
  at memory outside the packet, as it is by a length beyond the packet's end; otherwise exactly the
  announced bytes are decrypted. \<close>

theorem message_bounds:
  assumes "length (ce_payload p) < 2 ^ 63"
  shows "encrypted_msg p = None \<longleftrightarrow> uint (ce_length p) < 20 \<or> unat (ce_length p) - 20 > length (ce_payload p)"
proof (cases "20 \<le> uint (ce_length p)")
  case False
  have u: "0 \<le> uint (ce_length p)" by simp
  have "(uint (ce_length p) - 20) mod 2 ^ 64 = (uint (ce_length p) - 20 + 2 ^ 64) mod 2 ^ 64" by (simp only: mod_add_self2)
  also have "\<dots> = uint (ce_length p) - 20 + 2 ^ 64"
    using False u by (intro mod_pos_pos_trivial) simp_all
  finally have "nat ((uint (ce_length p) - 20) mod 2 ^ 64) \<ge> 2 ^ 63" using u by (simp add: le_nat_iff)
  then show ?thesis using False assms by (simp add: encrypted_msg_eq Let_def)
qed (simp add: encrypted_msg_len)

theorem message_bounds_witness:
  "encrypted_msg \<lparr>ce_type = 1, ce_length = 19, ce_seq = 0, ce_gcm_tag = replicate 16 0, ce_payload = []\<rparr> = None"
  using message_bounds [of "\<lparr>ce_type = 1, ce_length = 19, ce_seq = 0, ce_gcm_tag = replicate 16 0, ce_payload = []\<rparr>"]
  by simp

section \<open>Input packets\<close>












section \<open>Who can act\<close>



text \<open>A client asks for termination in a packet whose tag is all zero.\<close>

definition demo_registry :: registry where
  "demo_registry = reg_add (default_session\<lparr>session_id := 1, client_ip := ''10.0.0.2'', s_aes_key := ''00FF'',
     enet_secret_payload := 77\<rparr>) (snd (next_id empty_registry))"

definition demo_server :: control_server where
  "demo_server = \<lparr>cs_clients = [(5, 1)], cs_has_idr = True, cs_has_stop = True, cs_has_media = True\<rparr>"

definition demo_termination :: bytes where
  "demo_termination = encrypted_bytes (the (encrypt_packet demo_gcm ''00FF'' 3 [9, 1, 0, 0]))"

lemma demo_termination_acts:
  "handle_receive demo_gcm demo_registry demo_server False 5 demo_termination = Some [on_stop 1]"
  "length demo_termination = 152"
  by code_simp+


text \<open>A run of the server; registry and media session are what the other threads have made of them at each step.\<close>

type_synonym control_input = "registry \<times> bool \<times> enet_event"

fun control_run :: "gcm \<Rightarrow> control_server \<Rightarrow> control_input list \<Rightarrow> (control_server \<times> control_action list list) option" where
  "control_run g cs [] = Some (cs, [])"
| "control_run g cs ((reg, media, e) # es) =
     (case control_step g reg media e cs of None \<Rightarrow> None
      | Some (cs, a) \<Rightarrow> map_option (\<lambda>(cs, as). (cs, a # as)) (control_run g cs es))"

definition client_op :: "control_input \<Rightarrow> (peer \<times> session_ptr option) list" where
  "client_op i = (case i of (reg, media, e) \<Rightarrow>
     (case e of CONNECT pe d ip \<Rightarrow> (case match_session reg d ip of Some p \<Rightarrow> [(pe, Some p)] | None \<Rightarrow> [])
      | DISCONNECT pe \<Rightarrow> [(pe, None)] | _ \<Rightarrow> []))"

lemma control_step_clients:
  "control_step g reg media e cs = Some (cs', a) \<Longrightarrow>
   cs_clients cs' = std_map.apply_all (client_op (reg, media, e)) (cs_clients cs)"
  by (cases e) (auto simp: client_op_def std_map.apply_all_def split: option.splits)

lemma control_run_clients:
  "control_run g cs es = Some (cs', as) \<Longrightarrow>
   cs_clients cs' = std_map.apply_all (concat (map client_op es)) (cs_clients cs) \<and> length as = length es"
proof (induction es arbitrary: cs as)
  case (Cons i es)
  obtain reg media e where i: "i = (reg, media, e)" by (cases i) auto
  then obtain cs1 a as1 where s: "control_step g reg media e cs = Some (cs1, a)"
    "control_run g cs1 es = Some (cs', as1)" "as = a # as1"
    using Cons.prems by (auto split: option.splits)
  then show ?case
    using Cons.IH [OF s(2)] control_step_clients [OF s(1)] by (simp add: i std_map.apply_all_def)
qed (simp add: std_map.apply_all_def)

lemma control_run_snoc:
  "control_run g cs (es @ [(reg, media, e)]) = Some (cs', as) \<Longrightarrow>
   \<exists>cs1 as1 a. control_run g cs es = Some (cs1, as1) \<and> control_step g reg media e cs1 = Some (cs', a) \<and> as = as1 @ [a]"
proof (induction es arbitrary: cs as)
  case (Cons i es)
  then show ?case by (cases i) (fastforce split: option.splits)
qed (auto split: option.splits)

definition action_for :: "StreamSession \<Rightarrow> control_action \<Rightarrow> bool" where
  "action_for s a = (case a of on_idr i \<Rightarrow> i = session_id s | on_stop i \<Rightarrow> i = session_id s
     | call_media _ \<Rightarrow> True | disconnect_now _ \<Rightarrow> False)"

lemma receive_actions:
  assumes "handle_receive g reg cs media pe data = Some as"
  shows "as = [] \<or> (\<exists>p. mfind (cs_clients cs) pe = Some p \<and> list_all (action_for (deref reg p)) as)"
  using assms
  by (auto simp: handle_receive_def handle_decrypted_def action_for_def list_all_iff Let_def
      split: option.splits if_splits)

text \<open>The last event before a step that concerns a peer was a matched connect.\<close>

definition connected_at :: "control_input list \<Rightarrow> peer \<Rightarrow> nat \<Rightarrow> session_ptr \<Rightarrow> bool" where
  "connected_at es pe i p \<longleftrightarrow> i < length es \<and>
     (case es ! i of (reg, media, e) \<Rightarrow> \<exists>d ip. e = CONNECT pe d ip \<and> get_running reg = Some p \<and>
        (enet_secret_payload (deref reg p) = d \<or> client_ip (deref reg p) = ip)) \<and>
     (\<forall>j. i < j \<longrightarrow> j < length es \<longrightarrow> snd (snd (es ! j)) \<noteq> DISCONNECT pe)"

lemma last_op:
  "map_of (rev (concat (map client_op es))) pe = Some (Some p) \<Longrightarrow> \<exists>i. connected_at es pe i p"
proof (induction es rule: rev_induct)
  case (snoc x es)
  obtain reg media e where x: "x = (reg, media, e)" by (cases x) auto
  show ?case
  proof (cases "map_of (rev (client_op x)) pe")
    case None
    then have "map_of (rev (concat (map client_op es))) pe = Some (Some p)" using snoc.prems by (simp add: map_add_def)
    from snoc.IH [OF this] obtain i where i: "connected_at es pe i p" by blast
    have "e \<noteq> DISCONNECT pe" using None by (auto simp: client_op_def x)
    then have "connected_at (es @ [x]) pe i p" using i by (auto simp: connected_at_def nth_append x less_Suc_eq)
    then show ?thesis by blast
  next
    case (Some w)
    then have "map_of (rev (client_op x)) pe = Some (Some p)" using snoc.prems by simp
    then have "connected_at (es @ [x]) pe (length es) p"
      by (auto simp: connected_at_def client_op_def x match_session_def Let_def split: enet_event.splits option.splits if_splits)
    then show ?thesis by blast
  qed
qed simp

text \<open> C8: A peer can act on a session only after the server has matched it: whenever a received packet has any
  effect in a run, the peer connected earlier with the secret or from the address of the session that
  was then running, has not disconnected since, and a stop or an IDR request names that session. \<close>

theorem only_matched_peers_act:
  assumes "control_run g cs0 (es @ [(reg, media, RECEIVE pe data)]) = Some (cs, as)"
    and "cs_clients cs0 = []" "last as \<noteq> []"
  shows "\<exists>i p. connected_at es pe i p \<and> list_all (action_for (deref reg p)) (last as)"
proof -
  obtain cs1 as1 a where r: "control_run g cs0 es = Some (cs1, as1)"
    "control_step g reg media (RECEIVE pe data) cs1 = Some (cs, a)" "as = as1 @ [a]"
    using control_run_snoc [OF assms(1)] by blast
  have h: "handle_receive g reg cs1 media pe data = Some a" using r(2) by auto
  have "a \<noteq> []" using assms(3) r(3) by simp
  then obtain p where p: "mfind (cs_clients cs1) pe = Some p" "list_all (action_for (deref reg p)) a"
    using receive_actions [OF h] by blast
  have "mfind (std_map.apply_all (concat (map client_op es)) []) pe = Some p"
    using p(1) control_run_clients [OF r(1)] assms(2) by simp
  then have "map_of (rev (concat (map client_op es))) pe = Some (Some p)"
    by (simp add: std_map.apply_all_lookup split: option.splits)
  then show ?thesis using last_op p(2) r(3) by fastforce
qed

definition demo_run :: "control_input list" where
  "demo_run = [(demo_registry, False, CONNECT 5 77 ''192.168.1.9'')]"

theorem only_matched_peers_act_witness:
  "\<exists>i p. connected_at demo_run 5 i p \<and> list_all (action_for (deref demo_registry p)) [on_stop 1]"
proof -
  have "control_run demo_gcm (demo_server\<lparr>cs_clients := []\<rparr>) (demo_run @ [(demo_registry, False, RECEIVE 5 demo_termination)])
      = Some (demo_server, [[], [on_stop 1]])"
  proof -
    have "match_session demo_registry 77 ''192.168.1.9'' = Some 1" by code_simp
    then show ?thesis using demo_termination_acts(1) by (simp add: demo_run_def demo_server_def)
  qed
  from only_matched_peers_act [OF this] show ?thesis by simp
qed

text \<open> While one session runs, a client with another session of its own is turned away: connecting with the
  secret and from the address of a session that is not the first of the registry, when these differ
  from the first one's, is answered by a disconnect. \<close>

theorem second_client_refused:
  assumes "reg_sessions r = p # ps" "q \<in> set ps"
    and "enet_secret_payload (deref r q) \<noteq> enet_secret_payload (deref r p)" "client_ip (deref r q) \<noteq> client_ip (deref r p)"
  shows "control_step g r media (CONNECT pe (enet_secret_payload (deref r q)) (client_ip (deref r q))) cs = Some (cs, [disconnect_now pe])"
  using assms by (simp add: match_session_def get_running_def)

theorem second_client_refused_witness:
  "let r = reg_add (default_session\<lparr>session_id := 2, client_ip := ''10.0.0.3'', enet_secret_payload := 78\<rparr>) (snd (next_id demo_registry)) in
   control_step demo_gcm r True (CONNECT 6 78 ''10.0.0.3'') demo_server = Some (demo_server, [disconnect_now 6])"
proof -
  define r where "r = reg_add (default_session\<lparr>session_id := 2, client_ip := ''10.0.0.3'', enet_secret_payload := 78\<rparr>) (snd (next_id demo_registry))"
  have d: "reg_sessions r = [1, 2]" "enet_secret_payload (deref r 1) = 77" "enet_secret_payload (deref r 2) = 78"
    "client_ip (deref r 1) = ''10.0.0.2''" "client_ip (deref r 2) = ''10.0.0.3''"
    by (simp_all add: r_def demo_registry_def reg_add_def next_id_def empty_registry_def deref_def)
  from second_client_refused [of r 1 "[2]" 2] d show ?thesis by (simp flip: r_def)
qed

end
