(* ===== verification/System.thy ===== *)
theory System
  imports Https_Props RtspGrammar_Props Control_Props
begin

text \<open>
  The running server: the threads that \<open>server/main.cpp\<close> starts (HTTP pairing, HTTPS, RTSP, control) and what they
  share, the registry of sessions, the list of paired clients and the media holder. Every event of one
  thread is a step, in any order with the events of the others; the start of a pipeline is a step of its own,
  because the RTSP thread gives up the mutex of the holder before it. The theorems are about every run.
\<close>

section \<open>State and steps\<close>

text \<open>
  \<open>sv_conns\<close> are the open RTSP connections: the address of the peer and what earlier reads left.
  \<open>sv_launching\<close> is the session for which the RTSP thread is inside \<open>MediaSession::start\<close>; there is one such
  thread, so while it is there no other RTSP message is handled.
\<close>

record server =
  sv_pairing :: pairing
  sv_main :: main_state
  sv_control :: control_server
  sv_conns :: "(nat, string \<times> string) std_map"
  sv_launching :: "session_ptr option"

datatype server_event =
    ev_pair pair_event
  | ev_https media_env resource https_request
  | ev_rtsp_accept nat "string option"
  | ev_rtsp_read media_env nat "string option"
  | ev_launch media_env
  | ev_control media_env enet_event
  | ev_app_up int
  | ev_pointer poll_env

text \<open>The libraries, and the render node from the configuration.\<close>

record libraries =
  lb_pairing :: pairing_env
  lb_gcm :: gcm
  lb_peg :: peg_lib
  lb_render_node :: string

abbreviation sv_registry :: "server \<Rightarrow> registry" where
  "sv_registry sv \<equiv> mn_registry (sv_main sv)"

definition https_view :: "server \<Rightarrow> https_state" where
  "https_view sv = \<lparr>ht_app = pr_app (sv_pairing sv), ht_main = sv_main sv\<rparr>"

definition server_https :: "libraries \<Rightarrow> media_env \<Rightarrow> resource \<Rightarrow> https_request \<Rightarrow> server \<Rightarrow> server" where
  "server_https lb menv r rq sv =
     sv\<lparr>sv_main := ht_main (fst (https_handle (lb_pairing lb) menv r rq (https_view sv)))\<rparr>"

definition set_object :: "session_ptr \<Rightarrow> StreamSession \<Rightarrow> main_state \<Rightarrow> main_state" where
  "set_object p s m = m\<lparr>mn_registry := update_session p (\<lambda>_. s) (mn_registry m)\<rparr>"

text \<open>
  A message on an RTSP connection, with the callback for PLAY up to the start of a pipeline. An exception of
  the callback is caught in \<open>run_server\<close>, which goes on.
\<close>

definition server_rtsp :: "libraries \<Rightarrow> media_env \<Rightarrow> string \<Rightarrow> string \<Rightarrow> server \<Rightarrow> server" where
  "server_rtsp lb menv peer_ip msg sv =
     (let r = handle_message (lb_peg lb) (sv_registry sv) peer_ip msg in
      case rr_session r of
        None \<Rightarrow> sv
      | Some (p, s) \<Rightarrow>
        let m = set_object p s (sv_main sv) in
        if rr_play r then
          (case play_begin menv s m of
             (play_over ok, m, out) \<Rightarrow> sv\<lparr>sv_main := m\<rparr>
           | (play_start q, m, out) \<Rightarrow> sv\<lparr>sv_main := m, sv_launching := Some q\<rparr>)
        else sv\<lparr>sv_main := m\<rparr>)"

text \<open>A new connection; the address is missing if the peer has gone already, and the connection is closed then.\<close>

definition server_accept :: "nat \<Rightarrow> string option \<Rightarrow> server \<Rightarrow> server" where
  "server_accept cid remote sv =
     (case remote of None \<Rightarrow> sv
      | Some peer_ip \<Rightarrow> sv\<lparr>sv_conns := mput cid (peer_ip, []) (sv_conns sv)\<rparr>)"

text \<open>
  A read of a connection completes, with an error (\<open>None\<close>), with data, or with nothing if it was
  cancelled. Only an incomplete request goes on reading; every other outcome ends the connection, the
  failed read and the exception of \<open>std::stoi\<close> because no handler keeps it.
\<close>

definition server_read :: "libraries \<Rightarrow> media_env \<Rightarrow> nat \<Rightarrow> string option \<Rightarrow> server \<Rightarrow> server" where
  "server_read lb menv cid piece sv =
     (case mfind (sv_conns sv) cid of
        None \<Rightarrow> sv
      | Some (peer_ip, prev) \<Rightarrow>
        (case read_step prev piece of
           read_more full \<Rightarrow> sv\<lparr>sv_conns := mput cid (peer_ip, full) (sv_conns sv)\<rparr>
         | read_message msg \<Rightarrow> server_rtsp lb menv peer_ip msg (sv\<lparr>sv_conns := merase cid (sv_conns sv)\<rparr>)
         | read_failed \<Rightarrow> sv\<lparr>sv_conns := merase cid (sv_conns sv)\<rparr>
         | read_throws \<Rightarrow> sv\<lparr>sv_conns := merase cid (sv_conns sv)\<rparr>))"

definition server_launch :: "libraries \<Rightarrow> media_env \<Rightarrow> session_ptr \<Rightarrow> server \<Rightarrow> server" where
  "server_launch lb menv p sv =
     sv\<lparr>sv_main := fst (snd (play_launch menv (lb_render_node lb) p (sv_main sv))), sv_launching := None\<rparr>"

primrec perform_all :: "media_env \<Rightarrow> control_action list \<Rightarrow> main_state \<Rightarrow> main_state option" where
  "perform_all menv [] m = Some m"
| "perform_all menv (a # as) m = Option.bind (perform menv a m) (\<lambda>(m, out). perform_all menv as m)"

definition server_control :: "libraries \<Rightarrow> media_env \<Rightarrow> enet_event \<Rightarrow> server \<Rightarrow> server option" where
  "server_control lb menv ev sv =
     (case control_step (lb_gcm lb) (sv_registry sv) (mn_media (sv_main sv) \<noteq> None) ev (sv_control sv) of
        None \<Rightarrow> None
      | Some (cs, as) \<Rightarrow>
        map_option (\<lambda>m. sv\<lparr>sv_main := m, sv_control := cs\<rparr>) (perform_all menv as (sv_main sv)))"

text \<open>The thread of the pointer synchronisation belongs to the media session.\<close>

definition poll_pointer :: "poll_env \<Rightarrow> main_state \<Rightarrow> main_state" where
  "poll_pointer penv m = m\<lparr>mn_media := map_option (\<lambda>ms. fst (pointer_poll penv ms)) (mn_media m)\<rparr>"

inductive server_step :: "libraries \<Rightarrow> server \<Rightarrow> server_event \<Rightarrow> server \<Rightarrow> bool" for lb where
  step_pair: "pair_step (lb_pairing lb) ev (sv_pairing sv) = Some (pr, replies) \<Longrightarrow>
    server_step lb sv (ev_pair ev) (sv\<lparr>sv_pairing := pr\<rparr>)"
| step_https: "server_step lb sv (ev_https menv r rq) (server_https lb menv r rq sv)"
| step_accept: "sv_launching sv = None \<Longrightarrow> server_step lb sv (ev_rtsp_accept cid remote) (server_accept cid remote sv)"
| step_read: "sv_launching sv = None \<Longrightarrow> server_step lb sv (ev_rtsp_read menv cid piece) (server_read lb menv cid piece sv)"
| step_launch: "sv_launching sv = Some p \<Longrightarrow> server_step lb sv (ev_launch menv) (server_launch lb menv p sv)"
| step_control: "server_control lb menv ev sv = Some sv' \<Longrightarrow> server_step lb sv (ev_control menv ev) sv'"
| step_app_up: "server_step lb sv (ev_app_up pid) (sv\<lparr>sv_main := app_up pid (sv_main sv)\<rparr>)"
| step_pointer: "server_step lb sv (ev_pointer penv) (sv\<lparr>sv_main := poll_pointer penv (sv_main sv)\<rparr>)"

inductive_cases server_stepE: "server_step lb sv ev sv'"

inductive_simps server_step_simps:
  "server_step lb sv (ev_pair e) sv'" "server_step lb sv (ev_https menv r rq) sv'" "server_step lb sv (ev_rtsp_accept cid remote) sv'"
  "server_step lb sv (ev_rtsp_read menv cid piece) sv'"
  "server_step lb sv (ev_launch menv) sv'" "server_step lb sv (ev_control menv e) sv'" "server_step lb sv (ev_app_up pid) sv'"
  "server_step lb sv (ev_pointer penv) sv'"

inductive server_run :: "libraries \<Rightarrow> server \<Rightarrow> server_event list \<Rightarrow> server \<Rightarrow> bool" for lb sv where
  run_start: "server_run lb sv [] sv"
| run_step: "server_run lb sv evs sv1 \<Longrightarrow> server_step lb sv1 ev sv2 \<Longrightarrow> server_run lb sv (evs @ [ev]) sv2"

text \<open>The server as \<open>main\<close> starts it on what \<open>AppState::init\<close> loaded.\<close>

definition server_start :: "AppState \<Rightarrow> disk \<Rightarrow> config_os \<Rightarrow> udev_world \<Rightarrow> server" where
  "server_start app disk files world =
     \<lparr>sv_pairing = \<lparr>pr_app = app, pr_disk = disk, pr_pending = [], pr_threads = [], pr_next = 0\<rparr>,
      sv_main = \<lparr>mn_registry = empty_registry, mn_media = None, mn_files = files, mn_world = world\<rparr>,
      sv_control = \<lparr>cs_clients = [], cs_has_idr = True, cs_has_stop = True, cs_has_media = True\<rparr>,
      sv_conns = [], sv_launching = None\<rparr>"

text \<open>
  \<open>main\<close>: \<open>AppState::init\<close>, then the ports and the encoders; an exception of \<open>init\<close> and a port variable
  that is not a number end the process (\<open>None\<close>).
\<close>

definition server_main :: "libraries \<Rightarrow> media_env \<Rightarrow> disk \<Rightarrow> config_os \<Rightarrow> udev_world \<Rightarrow> server option" where
  "server_main lb menv d files world =
     (let os = pv_os (lb_pairing lb);
          state_dir = env_or (so_getenv os) ''STEAM_STREAM_STATE_DIR'' ''/var/lib/steam-stream'' in
      case AppState.init os (pv_x509 (lb_pairing lb)) state_dir d of
        (Inl e, ds) \<Rightarrow> None
      | (Inr app, ds) \<Rightarrow>
        (case configure menv files of
           None \<Rightarrow> None
         | Some (ports, files) \<Rightarrow>
           Some (server_start (app\<lparr>as_http_port := sp_http ports, as_https_port := sp_https ports,
             as_rtsp_port := sp_rtsp ports, as_support_hevc := sp_support_hevc ports,
             as_support_av1 := sp_support_av1 ports\<rparr>) (last ds) files world)))"

section \<open>The shared objects\<close>

definition allocated :: "registry \<Rightarrow> session_ptr \<Rightarrow> bool" where
  "allocated r p \<longleftrightarrow> reg_heap r p \<noteq> None"

definition media_object :: "main_state \<Rightarrow> session_ptr option" where
  "media_object m = map_option md_session (mn_media m)"

lemma media_object_None [simp]: "media_object m = None \<longleftrightarrow> mn_media m = None"
  by (simp add: media_object_def)

definition grows :: "registry \<Rightarrow> registry \<Rightarrow> bool" where
  "grows r r' \<longleftrightarrow> (\<forall>p. allocated r p \<longrightarrow> allocated r' p)"

lemma grows_refl [simp]: "grows r r"
  by (simp add: grows_def)

lemma grows_simps [simp]:
  "grows r (reg_remove i r)" "grows r (update_session p f r)" "grows r (snd (next_id r))" "grows r (reg_add s (snd (next_id r)))"
  by (auto simp: grows_def allocated_def reg_remove_def update_session_def next_id_def reg_add_def)

text \<open>What a step of one part can do to the media holder: keep its session, or empty it.\<close>

definition keeps_or_clears :: "main_state \<Rightarrow> main_state \<Rightarrow> bool" where
  "keeps_or_clears m m' \<longleftrightarrow> mn_registry m' = mn_registry m \<and> (media_object m' = media_object m \<or> mn_media m' = None)"

lemma keeps_refl [simp]: "keeps_or_clears m m"
  by (simp add: keeps_or_clears_def)

lemma keeps_trans: "keeps_or_clears m1 m2 \<Longrightarrow> keeps_or_clears m2 m3 \<Longrightarrow> keeps_or_clears m1 m3"
  by (auto simp: keeps_or_clears_def media_object_def)

lemma stop_media_keeps: "keeps_or_clears m (fst (stop_media env ms m))"
  by (simp add: stop_media_def keeps_or_clears_def split: prod.split)

lemma stop_session_keeps: "keeps_or_clears m (fst (stop_session env sid m))"
  using stop_media_keeps by (simp add: stop_session_def split: option.split)

lemma gamepad_session:
  "add_gamepad env nr ms w = (b, ms', w', out) \<Longrightarrow> md_session ms' = md_session ms"
  "md_gamepad_arrival env nr ms w = (ms', w', out) \<Longrightarrow> md_session ms' = md_session ms"
  "update_pad env nr p pad ms = (ms', out) \<Longrightarrow> md_session ms' = md_session ms"
  "remove_pad env nr ms w = (ms', w', out) \<Longrightarrow> md_session ms' = md_session ms"
  by (auto simp: add_gamepad_def md_gamepad_arrival_def update_pad_def remove_pad_def split: if_splits option.splits prod.splits)

lemma gamepad_update_session: "md_gamepad_update env nr a p ms w = Some (ms', w', out) \<Longrightarrow> md_session ms' = md_session ms"
  by (auto simp: md_gamepad_update_def dest!: gamepad_session(1,3,4) split: option.splits bool.splits prod.splits)

lemma exec_session: "media_exec env c ms w = Some (ms', w', out) \<Longrightarrow> md_session ms' = md_session ms"
  by (cases c) (auto simp: note_mouse_def Let_def dest: gamepad_session(2) gamepad_update_session)

lemma perform_keeps:
  assumes "perform env a m = Some (m', out)"
  shows "keeps_or_clears m m'"
proof (cases a)
  case (call_media c)
  show ?thesis
  proof (cases "mn_media m")
    case (Some ms)
    with assms call_media obtain ms' w' where "media_exec env c ms (mn_world m) = Some (ms', w', out)"
      "m' = m\<lparr>mn_media := Some ms', mn_world := w'\<rparr>" by auto
    with Some exec_session show ?thesis by (auto simp: keeps_or_clears_def media_object_def)
  qed (use assms call_media in simp)
next
  case (on_stop sid)
  with assms have "m' = fst (stop_session env sid m)" by simp
  then show ?thesis using stop_session_keeps by simp
qed (use assms in simp_all)

lemma perform_all_keeps: "perform_all env as m = Some m' \<Longrightarrow> keeps_or_clears m m'"
  by (induction as arbitrary: m) (auto simp: bind_eq_Some_conv dest: perform_keeps intro: keeps_trans)

lemma resume_keeps:
  assumes "play_resume env s ms m = (ok, m', out)" "mn_media m = Some ms"
  shows "keeps_or_clears m m'"
proof -
  define ms1 where "ms1 = update_bitrate env (v_bitrate_kbps (s_video s)) (v_fps (s_video s)) ms"
  obtain ok2 ms2 files out2 where b: "(if md_audio_channels ms1 \<noteq> a_channels (s_audio s) then rebuild_audio env s ms1 (mn_files m)
      else (True, ms1, mn_files m, [])) = (ok2, ms2, files, out2)" by (metis prod_cases4)
  then have "md_session ms2 = md_session ms"
    using rebuild_audio_keeps(3) [of env s ms1] update_bitrate_keeps(3) by (auto simp: ms1_def split: if_splits)
  with assms show ?thesis unfolding play_resume_def Let_def ms1_def [symmetric] b prod.case
    by (auto simp: keeps_or_clears_def media_object_def retarget_keeps split: if_splits)
qed

lemma play_begin_cases:
  assumes "play_begin env s m = (next, m', out)"
  shows "keeps_or_clears m m'"
    "next = play_start p \<Longrightarrow> mn_media m' = None \<and> get_by_id (mn_registry m) (session_id s) = Some p"
  using assms stop_media_keeps [of m env] resume_keeps [of env s]
  by (auto simp: play_begin_def stop_media_def split: option.splits if_splits prod.splits)
    (auto simp: keeps_or_clears_def)

lemma play_launch_cases:
  assumes "play_launch env node p m = (ok, m', out)"
  shows "mn_registry m' = mn_registry m" "media_object m' = (if ok then Some p else media_object m)"
  using assms by (auto simp: play_launch_def Let_def media_object_def split: prod.splits dest!: start_session)

section \<open>The invariant of the whole server\<close>

text \<open>
  The registry is well formed; every session that a thread holds, the media session's, the one being
  launched and those of the ENet peers, is an object that exists; while a launch is under way there is no
  other pipeline.
\<close>

definition held_sessions :: "server \<Rightarrow> session_ptr list" where
  "held_sessions sv =
     (case media_object (sv_main sv) of None \<Rightarrow> [] | Some p \<Rightarrow> [p]) @
     (case sv_launching sv of None \<Rightarrow> [] | Some p \<Rightarrow> [p]) @ map snd (cs_clients (sv_control sv))"

definition server_ok :: "server \<Rightarrow> bool" where
  "server_ok sv \<longleftrightarrow> reg_inv (sv_registry sv) \<and> list_all (allocated (sv_registry sv)) (held_sessions sv) \<and>
     (sv_launching sv = None \<or> mn_media (sv_main sv) = None)"

lemma held_iff:
  "p \<in> set (held_sessions sv) \<longleftrightarrow>
     media_object (sv_main sv) = Some p \<or> sv_launching sv = Some p \<or> p \<in> snd ` set (cs_clients (sv_control sv))"
  by (auto simp: held_sessions_def split: option.splits)

lemma server_okI:
  assumes "server_ok sv" "reg_inv (sv_registry sv')" "grows (sv_registry sv) (sv_registry sv')"
    and "\<And>p. p \<in> set (held_sessions sv') \<Longrightarrow> p \<in> set (held_sessions sv) \<or> allocated (sv_registry sv') p"
    and "sv_launching sv' = None \<or> mn_media (sv_main sv') = None"
  shows "server_ok sv'"
  using assms by (auto simp: server_ok_def list_all_iff grows_def)

lemma keeps_ok:
  assumes "server_ok sv" "keeps_or_clears (sv_main sv) m"
  shows "server_ok (sv\<lparr>sv_main := m\<rparr>)"
  using assms
  by (intro server_okI [OF assms(1)]) (auto simp: server_ok_def keeps_or_clears_def held_sessions_def media_object_def split: option.splits)

lemma allocated_live: "reg_ok r \<Longrightarrow> p \<in> set (reg_sessions r) \<Longrightarrow> allocated r p"
  by (simp add: reg_ok_def allocated_def)

subsection \<open>HTTPS\<close>

lemma launch_grows: "grows (registry_of st) (registry_of (fst (launch_session env rq st)))"
proof (cases "get_by_client_ip (registry_of st) (rq_client_ip rq)")
  case None
  obtain so reg' where c: "create_launch_session rq (ht_app st) (registry_of st) = (so, reg')" by force
  then obtain i where "next_id (registry_of st) = (i, reg')" by (rule created)
  then have r: "reg' = snd (next_id (registry_of st))" by simp
  show ?thesis using None c by (cases so) (simp_all add: launch_session_def Let_def registry_of_def r)
qed (simp add: launch_session_def Let_def registry_of_def)

lemma https_registry:
  "grows (registry_of st) (registry_of (fst (https_handle env menv r rq st)))"
  using launch_grows unfolding handle_cases
  by (simp add: resume_registry cancel_registry split: resource.split option.split)

lemma https_media:
  "let m = ht_main (fst (https_handle env menv r rq st)) in
   media_object m = media_object (ht_main st) \<or> mn_media m = None"
proof -
  have "mn_media (ht_main (fst (launch_session env rq st))) = mn_media (ht_main st)"
    by (simp add: launch_session_def Let_def split: option.split prod.split)
  moreover have "mn_media (ht_main (fst (resume_session env rq st))) = mn_media (ht_main st)"
    by (simp add: resume_session_def Let_def split: option.split)
  moreover have "media_object (ht_main (fst (cancel_session menv rq st))) = media_object (ht_main st)
      \<or> mn_media (ht_main (fst (cancel_session menv rq st))) = None"
  proof (cases "get_by_client_ip (registry_of st) (rq_client_ip rq)")
    case (Some p)
    let ?st = "update_registry (reg_remove (session_id (deref (registry_of st) p))) st"
    let ?m = "fst (stop_session menv (session_id (deref (registry_of st) p)) (ht_main ?st))"
    have "keeps_or_clears (ht_main ?st) ?m" by (rule stop_session_keeps)
    moreover have "ht_main (fst (cancel_session menv rq st)) = ?m"
      using Some by (simp add: cancel_session_def Let_def registry_of_def split: prod.split)
    ultimately show ?thesis by (auto simp: keeps_or_clears_def media_object_def)
  qed (simp add: cancel_session_def Let_def registry_of_def)
  ultimately show ?thesis unfolding handle_cases Let_def by (auto simp: media_object_def split: resource.split)
qed

lemma https_ok:
  assumes "server_ok sv"
  shows "server_ok (server_https lb menv r rq sv)"
proof (rule server_okI [OF assms])
  have reg: "registry_of (https_view sv) = sv_registry sv" by (simp add: registry_of_def https_view_def)
  note m = https_media [of "lb_pairing lb" menv r rq "https_view sv", unfolded Let_def]
  show "reg_inv (sv_registry (server_https lb menv r rq sv))"
    using handle_inv [of "https_view sv" "lb_pairing lb" menv r rq] assms
    by (simp add: server_https_def server_ok_def reg del: https_handle.simps flip: registry_of_def)
  show "grows (sv_registry sv) (sv_registry (server_https lb menv r rq sv))"
    using https_registry [of "https_view sv" "lb_pairing lb" menv r rq]
    by (simp add: server_https_def reg del: https_handle.simps flip: registry_of_def)
  show "p \<in> set (held_sessions sv) \<or> allocated (sv_registry (server_https lb menv r rq sv)) p"
    if "p \<in> set (held_sessions (server_https lb menv r rq sv))" for p
    using m that media_object_None [of "sv_main (server_https lb menv r rq sv)"]
    by (auto simp: server_https_def held_iff https_view_def simp del: https_handle.simps media_object_None)
  show "sv_launching (server_https lb menv r rq sv) = None \<or> mn_media (sv_main (server_https lb menv r rq sv)) = None"
    using m assms by (auto simp: server_https_def server_ok_def https_view_def media_object_def simp del: https_handle.simps)
qed

subsection \<open>RTSP\<close>

lemma get_for_rtsp_live: "get_for_rtsp r uri host ip = Some p \<Longrightarrow> p \<in> set (reg_sessions r)"
proof -
  have "get_for_rtsp_loop r uri host ip ps = Some p \<Longrightarrow> p \<in> set ps" for ps
    by (induction r uri host ip ps rule: get_for_rtsp_loop.induct) (auto simp: Let_def split: if_splits)
  then show "get_for_rtsp r uri host ip = Some p \<Longrightarrow> p \<in> set (reg_sessions r)" by (simp add: get_for_rtsp_def)
qed

lemma handler_identity:
  "message_handler req s = (s', reply, plays) \<Longrightarrow> session_id s' = session_id s \<and> client_ip s' = client_ip s"
  by (auto simp: message_handler_def announce_def Let_def split: if_splits)

lemma set_object_inv:
  assumes "reg_inv r" "p \<in> set (reg_sessions r)" "session_id s = p" "client_ip s = client_ip (deref r p)"
  shows "reg_inv (update_session p (\<lambda>_. s) r)"
proof -
  have "client_ip (deref (update_session p (\<lambda>_. s) r) q) = client_ip (deref r q)" for q
    using assms(4) by simp
  then have "map client_ip (live (update_session p (\<lambda>_. s) r)) = map client_ip (live r)" by (simp add: live_def)
  moreover have "reg_ok (update_session p (\<lambda>_. s) r)"
    using assms(1-3) by (auto simp: reg_inv_def reg_ok_def update_session_def)
  ultimately show ?thesis using assms(1) by (simp add: reg_inv_def)
qed

text \<open>The session a message is for, and what the handler makes of it.\<close>

lemma message_session:
  assumes "reg_ok r" "rr_session (handle_message pg r ip msg) = Some (p, s)"
  shows "p \<in> set (reg_sessions r)" "session_id s = p" "client_ip s = client_ip (deref r p)"
proof -
  obtain parsed reply plays where h: "message_handler parsed (deref r p) = (s, reply, plays)"
    and p: "p \<in> set (reg_sessions r)"
    using assms(2) by (auto simp: handle_message_def Let_def dest: get_for_rtsp_live split: option.splits prod.splits)
  show "p \<in> set (reg_sessions r)" by (rule p)
  show "session_id s = p" "client_ip s = client_ip (deref r p)"
    using handler_identity [OF h] deref_id [OF assms(1) p] by simp_all
qed

lemma rtsp_ok:
  assumes "server_ok sv" "sv_launching sv = None"
  shows "server_ok (server_rtsp lb menv ip msg sv)"
proof (cases "rr_session (handle_message (lb_peg lb) (sv_registry sv) ip msg)")
  case (Some ps)
  obtain p s where ps: "ps = (p, s)" by force
  have inv: "reg_inv (sv_registry sv)" "reg_ok (sv_registry sv)" using assms(1) by (simp_all add: server_ok_def reg_inv_def)
  define m0 where "m0 = set_object p s (sv_main sv)"
  have m0: "media_object m0 = media_object (sv_main sv)" "mn_registry m0 = update_session p (\<lambda>_. s) (sv_registry sv)"
    by (simp_all add: m0_def set_object_def media_object_def)
  have inv0: "reg_inv (mn_registry m0)"
    unfolding m0(2) by (rule set_object_inv [OF inv(1) message_session [OF inv(2) Some [unfolded ps]]])
  have ok0: "server_ok (sv\<lparr>sv_main := m0\<rparr>)"
    by (rule server_okI [OF assms(1)]) (use inv0 m0 assms(2) in \<open>simp_all add: held_iff\<close>)
  obtain nx m out where b: "play_begin menv s m0 = (nx, m, out)" by (metis prod_cases3)
  have keeps: "keeps_or_clears m0 m" by (rule play_begin_cases(1) [OF b])
  have ok1: "server_ok (sv\<lparr>sv_main := m\<rparr>)" using keeps_ok [OF ok0, of m] keeps by simp
  have ok2: "server_ok (sv\<lparr>sv_main := m, sv_launching := Some q\<rparr>)" if "nx = play_start q" for q
  proof -
    note c = play_begin_cases(2) [OF b that]
    have r: "reg_ok (mn_registry m)" "mn_registry m = mn_registry m0"
      using ok1 keeps by (simp_all add: server_ok_def reg_inv_def keeps_or_clears_def)
    then have "allocated (mn_registry m) q"
      using c get_by_id_eq [OF r(1)] by (intro allocated_live [OF r(1)]) (simp split: if_splits)
    with c ok1 show ?thesis by (intro server_okI [OF ok1]) (auto simp: held_iff server_ok_def)
  qed
  have e: "server_rtsp lb menv ip msg sv =
      (if rr_play (handle_message (lb_peg lb) (sv_registry sv) ip msg)
       then (case nx of play_over ok \<Rightarrow> sv\<lparr>sv_main := m\<rparr> | play_start q \<Rightarrow> sv\<lparr>sv_main := m, sv_launching := Some q\<rparr>)
       else sv\<lparr>sv_main := m0\<rparr>)"
    by (simp add: server_rtsp_def Some ps Let_def b m0_def [symmetric] split: play_next.split)
  show ?thesis unfolding e using ok0 ok1 ok2 by (simp split: play_next.split)
qed (use assms in \<open>simp add: server_rtsp_def\<close>)

lemma server_ok_conns [simp]: "server_ok (sv\<lparr>sv_conns := c\<rparr>) = server_ok sv"
  by (simp add: server_ok_def held_sessions_def)

lemma accept_ok: "server_ok sv \<Longrightarrow> server_ok (server_accept cid remote sv)"
  by (simp add: server_accept_def split: option.split)

lemma read_ok: "server_ok sv \<Longrightarrow> sv_launching sv = None \<Longrightarrow> server_ok (server_read lb menv cid piece sv)"
  by (auto simp: server_read_def intro!: rtsp_ok split: option.split read_result.split)

lemma launch_ok:
  assumes "server_ok sv" "sv_launching sv = Some p"
  shows "server_ok (server_launch lb menv p sv)"
proof -
  obtain ok m out where l: "play_launch menv (lb_render_node lb) p (sv_main sv) = (ok, m, out)" by (metis prod_cases3)
  note c = play_launch_cases [OF l]
  show ?thesis
    using assms c by (intro server_okI [OF assms(1)]) (auto simp: server_launch_def l held_iff server_ok_def split: if_splits)
qed

subsection \<open>The control server\<close>

lemma match_session_live: "match_session r d ip = Some p \<Longrightarrow> p \<in> set (reg_sessions r)"
  by (auto simp: match_session_def get_running_def Let_def split: option.splits list.splits if_splits)

lemma map_elems: "set (mput k v m) \<subseteq> insert (k, v) (set m)" "set (merase k m) \<subseteq> set m"
  by (induction k v m rule: mput.induct) (auto simp: merase_def)

lemma control_clients:
  assumes "control_step g r media ev cs = Some (cs', as)" "(pe, p) \<in> set (cs_clients cs')"
  shows "(pe, p) \<in> set (cs_clients cs) \<or> p \<in> set (reg_sessions r)"
  using assms map_elems by (cases ev) (fastforce dest: match_session_live split: option.splits)+

lemma control_ok:
  assumes "server_ok sv" "server_control lb menv ev sv = Some sv'"
  shows "server_ok sv'"
proof -
  obtain cs as m where c: "control_step (lb_gcm lb) (sv_registry sv) (mn_media (sv_main sv) \<noteq> None) ev (sv_control sv) = Some (cs, as)"
    and m: "perform_all menv as (sv_main sv) = Some m" and sv': "sv' = sv\<lparr>sv_main := m, sv_control := cs\<rparr>"
    using assms(2) by (auto simp: server_control_def split: option.splits prod.splits)
  have ok: "server_ok (sv\<lparr>sv_main := m\<rparr>)" using keeps_ok [OF assms(1) perform_all_keeps [OF m]] .
  have r: "reg_ok (mn_registry m)" "mn_registry m = sv_registry sv"
    using ok perform_all_keeps [OF m] by (simp_all add: server_ok_def reg_inv_def keeps_or_clears_def)
  show ?thesis
  proof (rule server_okI [OF ok])
    fix p assume "p \<in> set (held_sessions sv')"
    moreover have "p \<in> snd ` set (cs_clients (sv_control sv)) \<or> allocated (mn_registry m) p" if "p \<in> snd ` set (cs_clients cs)"
      using that control_clients [OF c] allocated_live [OF r(1), unfolded r(2)] by (force simp: r(2))
    ultimately show "p \<in> set (held_sessions (sv\<lparr>sv_main := m\<rparr>)) \<or> allocated (sv_registry sv') p"
      by (auto simp: sv' held_iff)
  qed (use ok in \<open>auto simp: sv' server_ok_def\<close>)
qed

subsection \<open>Every step\<close>

lemma media_map_keeps:
  assumes "\<And>ms. md_session (f ms) = md_session ms"
  shows "keeps_or_clears m (m\<lparr>mn_media := map_option f (mn_media m)\<rparr>)"
  using assms by (simp add: keeps_or_clears_def media_object_def option.map_comp comp_def)

lemma app_pointer_keeps: "keeps_or_clears m (app_up pid m)" "keeps_or_clears m (poll_pointer penv m)"
  unfolding app_up_def poll_pointer_def
  by (rule media_map_keeps; simp add: app_started_def pointer_poll_def split: option.split prod.split)+

lemma step_ok:
  assumes "server_ok sv" "server_step lb sv ev sv'"
  shows "server_ok sv'"
proof (rule server_stepE [OF assms(2)])
  fix e pr replies assume "sv' = sv\<lparr>sv_pairing := pr\<rparr>"
  then show ?thesis using assms(1) by (simp add: server_ok_def held_sessions_def)
next
  fix menv p assume "sv_launching sv = Some p" "sv' = server_launch lb menv p sv"
  with launch_ok [OF assms(1)] show ?thesis by simp
qed (use assms(1) in \<open>auto intro: https_ok accept_ok read_ok control_ok keeps_ok app_pointer_keeps\<close>)

lemma start_ok: "server_ok (server_start app disk files world)"
  by (simp add: server_ok_def server_start_def held_sessions_def media_object_def reg_inv_def reg_ok_empty)
    (simp add: live_def empty_registry_def)

lemma run_ok: "server_run lb sv evs sv' \<Longrightarrow> server_ok sv \<Longrightarrow> server_ok sv'"
  by (induction rule: server_run.induct) (auto intro: step_ok)

text \<open>
  C6: Nothing dangles and nothing runs twice: after any interleaving of pairing, HTTPS, RTSP and control events,
  launches and reports of the threads, from the start of the server on, the live sessions have distinct
  identifiers and distinct addresses, every session the media pipeline, a launch or an ENet peer refers to is an
  object that exists under its own identifier, and while a pipeline is being launched no other one is installed.
\<close>

theorem server_invariant:
  assumes "server_run lb (server_start app disk files world) evs sv"
  shows "let r = sv_registry sv in
    distinct (map session_id (live r)) \<and> distinct (map client_ip (live r)) \<and>
    list_all (\<lambda>p. reg_heap r p \<noteq> None \<and> session_id (deref r p) = p) (held_sessions sv @ reg_sessions r) \<and>
    (if sv_launching sv \<noteq> None then mn_media (sv_main sv) = None else True)"
proof -
  have ok: "server_ok sv" by (rule run_ok [OF assms start_ok])
  then have r: "reg_ok (sv_registry sv)" by (simp add: server_ok_def reg_inv_def)
  have id: "session_id (deref (sv_registry sv) p) = p" if "allocated (sv_registry sv) p" for p
    using r that by (auto simp: reg_ok_def allocated_def deref_def)
  have "list_all (allocated (sv_registry sv)) (held_sessions sv @ reg_sessions (sv_registry sv))"
    using ok allocated_live [OF r] by (auto simp: server_ok_def list_all_iff)
  then have "list_all (\<lambda>p. reg_heap (sv_registry sv) p \<noteq> None \<and> session_id (deref (sv_registry sv) p) = p)
      (held_sessions sv @ reg_sessions (sv_registry sv))"
    by (rule list.pred_mono_strong) (use id in \<open>auto simp: allocated_def\<close>)
  then show ?thesis using ok live_distinct [OF r] by (auto simp: server_ok_def reg_inv_def Let_def)
qed

text \<open>
  A read that is cancelled does not end a connection that waits for the rest of an announced request: it
  completes with nothing, which is taken for one more piece, and the next read is started.
\<close>

lemma cancelled_read_goes_on:
  assumes "mfind (sv_conns sv) cid = Some (ip, prev)" "announced_length prev = needs_total n" "int (length prev) < n"
  shows "mfind (sv_conns (server_read lb menv cid (Some []) sv)) cid = Some (ip, prev)"
  using assms by (simp add: server_read_def read_step_def mput_find)

section \<open>Who can have a session\<close>

text \<open>The events of the pairing server in a run.\<close>

fun pair_events :: "server_event list \<Rightarrow> pair_event list" where
  "pair_events [] = []"
| "pair_events (ev_pair e # evs) = e # pair_events evs"
| "pair_events (_ # evs) = pair_events evs"

lemma pair_events_append [simp]: "pair_events (evs @ evs') = pair_events evs @ pair_events evs'"
  by (induction evs rule: pair_events.induct) simp_all

text \<open>Objects come only from a launch behind the gate.\<close>

lemma https_allocates:
  assumes "allocated (registry_of (fst (https_handle env menv r rq st))) p"
  shows "allocated (registry_of st) p \<or> r = r_launch \<and> client_if_paired env rq st \<noteq> None"
  using assms unfolding handle_cases
  by (cases r)
    (auto simp: resume_registry cancel_registry allocated_def reg_remove_def update_session_def split: if_splits option.splits)

lemma rtsp_allocates:
  assumes "allocated (sv_registry (server_rtsp lb menv ip msg sv)) p"
  shows "allocated (sv_registry sv) p"
proof (cases "rr_session (handle_message (lb_peg lb) (sv_registry sv) ip msg)")
  case (Some ps)
  obtain q s where ps: "ps = (q, s)" by force
  obtain nx m out where b: "play_begin menv s (set_object q s (sv_main sv)) = (nx, m, out)" by (metis prod_cases3)
  have "mn_registry m = mn_registry (set_object q s (sv_main sv))"
    using play_begin_cases(1) [OF b] by (simp add: keeps_or_clears_def)
  with assms Some ps b show ?thesis
    by (auto simp: server_rtsp_def Let_def set_object_def allocated_def update_session_def split: if_splits play_next.splits)
qed (use assms in \<open>simp add: server_rtsp_def\<close>)

lemma read_allocates:
  assumes "allocated (sv_registry (server_read lb menv cid piece sv)) p"
  shows "allocated (sv_registry sv) p"
  using assms
  by (auto simp: server_read_def dest!: rtsp_allocates split: option.splits read_result.splits)

lemma control_registry: "server_control lb menv ev sv = Some sv' \<Longrightarrow> sv_registry sv' = sv_registry sv"
  by (auto simp: server_control_def keeps_or_clears_def dest!: perform_all_keeps split: option.splits)

lemma launch_registry: "sv_registry (server_launch lb menv p sv) = sv_registry sv"
proof -
  obtain ok m out where l: "play_launch menv (lb_render_node lb) p (sv_main sv) = (ok, m, out)" by (metis prod_cases3)
  show ?thesis using play_launch_cases(1) [OF l] by (simp add: server_launch_def l)
qed

lemma step_allocates:
  assumes "server_step lb sv ev sv'" "allocated (sv_registry sv') p"
  shows "allocated (sv_registry sv) p \<or>
    (\<exists>menv rq pem. ev = ev_https menv r_launch rq \<and> client_if_paired (lb_pairing lb) rq (https_view sv) = Some pem)"
proof (rule server_stepE [OF assms(1)])
  fix menv r rq assume "ev = ev_https menv r rq" "sv' = server_https lb menv r rq sv"
  with assms(2) https_allocates [of "lb_pairing lb" menv r rq "https_view sv" p] show ?thesis
    by (auto simp: server_https_def registry_of_def https_view_def simp del: https_handle.simps)
next
  fix menv cid piece assume "sv' = server_read lb menv cid piece sv"
  with read_allocates assms(2) show ?thesis by blast
next
  fix cid remote assume "sv' = server_accept cid remote sv"
  with assms(2) show ?thesis by (simp add: server_accept_def split: option.splits)
next
  fix penv assume "sv' = sv\<lparr>sv_main := poll_pointer penv (sv_main sv)\<rparr>"
  with assms(2) show ?thesis by (simp add: poll_pointer_def)
qed (use assms(2) in \<open>auto simp: control_registry launch_registry app_up_def\<close>)

lemma rtsp_pairing: "sv_pairing (server_rtsp lb menv ip msg sv) = sv_pairing sv"
  by (simp add: server_rtsp_def Let_def split: option.split prod.split play_next.split)

lemma read_pairing: "sv_pairing (server_read lb menv cid piece sv) = sv_pairing sv"
  "sv_pairing (server_accept cid remote sv) = sv_pairing sv"
  by (simp_all add: server_read_def server_accept_def rtsp_pairing split: option.split read_result.split prod.split)

text \<open>The clients in the store of a running server are backed by the pairing events of the run.\<close>

lemma run_backed_clients:
  assumes "server_run lb sv evs sv'" "backed (lb_pairing lb) old [] (sv_pairing sv)"
  shows "backed (lb_pairing lb) old (pair_events evs) (sv_pairing sv')"
  using assms
proof (induction rule: server_run.induct)
  case (run_step evs sv1 ev sv2)
  note IH = run_step.IH [OF run_step.prems]
  show ?case
  proof (cases ev)
    case (ev_pair e)
    then obtain pr out where p: "pair_step (lb_pairing lb) e (sv_pairing sv1) = Some (pr, out)" "sv2 = sv1\<lparr>sv_pairing := pr\<rparr>"
      using run_step.hyps(2) by (auto simp: server_step_simps)
    with run_backed [OF IH, of "[e]"] show ?thesis by (simp add: ev_pair)
  qed (use IH run_step.hyps(2) in \<open>auto simp: server_step_simps server_https_def server_launch_def server_control_def
      read_pairing split: option.splits prod.splits\<close>)
qed simp

text \<open>The launch that created an object.\<close>

definition granted :: "libraries \<Rightarrow> server \<Rightarrow> server_event list \<Rightarrow> session_ptr \<Rightarrow> string \<Rightarrow> bool" where
  "granted lb sv0 evs p pem \<longleftrightarrow>
     (\<exists>evs1 menv rq evs2 sv1. evs = evs1 @ ev_https menv r_launch rq # evs2 \<and> server_run lb sv0 evs1 sv1 \<and>
        client_if_paired (lb_pairing lb) rq (https_view sv1) = Some pem \<and>
        \<not> allocated (sv_registry sv1) p \<and> allocated (sv_registry (server_https lb menv r_launch rq sv1)) p)"

lemma granted_snoc: "granted lb sv0 evs p pem \<Longrightarrow> granted lb sv0 (evs @ [ev]) p pem"
  unfolding granted_def by (metis append.assoc append_Cons)

lemma run_granted:
  assumes "server_run lb sv0 evs sv" "allocated (sv_registry sv) p" "\<not> allocated (sv_registry sv0) p"
  shows "\<exists>pem. granted lb sv0 evs p pem"
  using assms
proof (induction rule: server_run.induct)
  case (run_step evs sv1 ev sv2)
  show ?case
  proof (cases "allocated (sv_registry sv1) p")
    case True
    with run_step.IH run_step.prems(2) granted_snoc show ?thesis by blast
  next
    case False
    then obtain menv rq pem where e: "ev = ev_https menv r_launch rq"
      "client_if_paired (lb_pairing lb) rq (https_view sv1) = Some pem"
      using step_allocates [OF run_step.hyps(2) run_step.prems(1)] by blast
    then have "sv2 = server_https lb menv r_launch rq sv1" using run_step.hyps(2) by (simp add: server_step_simps)
    with e False run_step.hyps(1) run_step.prems(1) show ?thesis unfolding granted_def by blast
  qed
qed simp

lemma granted_client:
  assumes "granted lb (server_start app disk files world) evs p pem" "as_pairing_cache app = []"
  shows "pem \<in> set (as_paired_clients app) \<or> (\<exists>evs1. prefix evs1 evs \<and> paired_by (lb_pairing lb) (pair_events evs1) pem)"
proof -
  obtain evs1 rq sv1 where g: "prefix evs1 evs" "server_run lb (server_start app disk files world) evs1 sv1"
    "client_if_paired (lb_pairing lb) rq (https_view sv1) = Some pem"
    using assms(1) unfolding granted_def by (auto simp: prefix_def)
  have "backed (lb_pairing lb) (set (as_paired_clients app)) [] (sv_pairing (server_start app disk files world))"
    using assms(2) by (simp add: backed_def threads_ok_def cache_ok_def clients_ok_def mfind_def get_pair_cache_def server_start_def)
  from run_backed_clients [OF g(2) this]
  have "clients_ok (lb_pairing lb) (set (as_paired_clients app)) (pair_events evs1) (pr_app (sv_pairing sv1))"
    by (simp add: backed_def)
  moreover have "pem \<in> set (as_paired_clients (pr_app (sv_pairing sv1)))"
    using g(3) by (auto simp: client_if_paired_def get_client_via_ssl_def https_view_def dest: find_SomeD split: option.splits)
  ultimately show ?thesis using g(1) by (auto simp: clients_ok_def intro: client_backed_paired_by)
qed

section \<open>A run\<close>

text \<open>The phone, which is paired, launches the first application and asks for its stream.\<close>

definition demo_libraries :: libraries where
  "demo_libraries = \<lparr>lb_pairing = demo_pairing_env, lb_gcm = demo_gcm,
     lb_peg = rtsp_peg (\<lambda>s. 1) dec_value (\<lambda>t. int (dec_value t)),
     lb_render_node = []\<rparr>"

definition demo_start :: server where
  "demo_start = server_start demo_app_state [] demo_config_os (mn_world demo_main)"

definition demo_launch_request :: https_request where
  "demo_launch_request = demo_request\<lparr>rq_path := ''/launch'', rq_headers := [(''surroundAudioInfo'', ''2'')]\<rparr>"

lemma demo_gate: "client_if_paired (lb_pairing demo_libraries) demo_launch_request (https_view demo_start) \<noteq> None"
proof -
  have "ht_app (https_view demo_start) = ht_app (demo_https [])" "lb_pairing demo_libraries = demo_pairing_env"
    "rq_cert demo_launch_request = rq_cert demo_request"
    by (simp_all add: https_view_def demo_start_def server_start_def demo_https_def demo_libraries_def demo_launch_request_def)
  then show ?thesis using demo_https_facts(2) [of "[]"] by (simp add: client_if_paired_def)
qed

lemma demo_launch:
  obtains s where "session_id s = 1" "rtsp_fake_ip s = ''1.2.3.4''"
    "server_https demo_libraries demo_media_env r_launch demo_launch_request demo_start =
       demo_start\<lparr>sv_main := (sv_main demo_start)\<lparr>mn_registry := reg_add s (snd (next_id empty_registry))\<rparr>\<rparr>"
proof -
  have f: "fake_ip (rq_octets demo_launch_request) = ''1.2.3.4''"
    unfolding demo_launch_request_def demo_request_def by code_simp
  have "stoi (header_or (rq_headers demo_launch_request) ''surroundAudioInfo'' ''196610'') \<noteq> None"
    unfolding demo_launch_request_def demo_request_def by code_simp
  moreover obtain w ht fps where "scan_mode (header_or (rq_headers demo_launch_request) ''mode'' ''1920x1080x60'') = (w, ht, fps)"
    by (metis prod_cases3)
  ultimately obtain s where s: "create_launch_session demo_launch_request (ht_app (https_view demo_start)) empty_registry
      = (Some s, snd (next_id empty_registry))" "session_id s = 1" "rtsp_fake_ip s = ''1.2.3.4''"
    by (auto simp: create_launch_session_def Let_def next_id_def empty_registry_def f)
  have "get_by_client_ip empty_registry ip = None" for ip by (simp add: get_by_client_ip_def empty_registry_def)
  moreover have "fst (https_handle (lb_pairing demo_libraries) demo_media_env r_launch demo_launch_request (https_view demo_start))
      = fst (launch_session (lb_pairing demo_libraries) demo_launch_request (https_view demo_start))"
  proof -
    obtain pem where "client_if_paired (lb_pairing demo_libraries) demo_launch_request (https_view demo_start) = Some pem"
      using demo_gate by blast
    then show ?thesis by (simp add: handle_cases del: https_handle.simps)
  qed
  ultimately have "server_https demo_libraries demo_media_env r_launch demo_launch_request demo_start =
       demo_start\<lparr>sv_main := (sv_main demo_start)\<lparr>mn_registry := reg_add s (snd (next_id empty_registry))\<rparr>\<rparr>"
    using s(1) by (simp add: server_https_def launch_session_def Let_def update_registry_def https_view_def
        demo_start_def server_start_def del: https_handle.simps)
  with s that show ?thesis by blast
qed

text \<open>The message for PLAY.\<close>

definition demo_play_request :: RTSP_PACKET where
  "demo_play_request = empty_packet\<lparr>rp_seq_number := 7, rp_request :=
     (rp_request empty_packet)\<lparr>rq_cmd := ''PLAY'', rq_uri := \<lparr>uri_protocol = ''rtsp'', uri_ip = ''1.2.3.4'', uri_port = 48010\<rparr>\<rparr>\<rparr>"

definition demo_play_text :: string where
  "demo_play_text = rtsp_to_string demo_play_request"

lemma demo_play_text: "demo_play_text = ''PLAY rtsp://1.2.3.4:48010 RTSP/1.0'' @ crlf @ ''CSeq: 7'' @ crlf @ crlf"
  by (simp add: demo_play_text_def demo_play_request_def rtsp_to_string_def empty_packet_def int_to_string_def to_string.simps digit_def crlf_def)
    (simp add: char_of_def bit_Suc_0_iff)

lemma demo_play_length: "announced_length demo_play_text = no_length"
proof -
  have "find_sub content_length_key (''PLAY rtsp://1.2.3.4:48010 RTSP/1.0'' @ crlf @ ''CSeq: 7'' @ crlf @ crlf) = None" by code_simp
  then show ?thesis by (simp add: announced_length_def demo_play_text)
qed

lemma demo_play_request_ok: "packet_ok demo_play_request"
  by (simp add: packet_ok_def demo_play_request_def empty_packet_def request_ok_def word_of_def map_ok_def class_defs)

definition demo_events :: "server_event list" where
  "demo_events = [ev_https demo_media_env r_launch demo_launch_request, ev_rtsp_accept 0 (Some ''10.0.0.9''),
     ev_rtsp_read demo_media_env 0 (Some demo_play_text), ev_launch demo_media_env]"

lemma demo_play:
  assumes "session_id s = 1" "rtsp_fake_ip s = ''1.2.3.4''"
  shows "handle_message (lb_peg demo_libraries) (reg_add s (snd (next_id empty_registry))) ip demo_play_text =
    \<lparr>rr_reply = Some (ok_msg 7 [] []), rr_session = Some (1, s\<lparr>playing := True\<rparr>), rr_play = True\<rparr>"
proof -
  have p: "rtsp_parse (lb_peg demo_libraries) demo_play_text = Some (wire_packet demo_play_request)"
    using parse_printed [OF demo_play_request_ok demo_numbers, of "\<lambda>s. 1" "[]"]
    by (simp add: demo_libraries_def demo_play_text_def junk_ok_def)
  show ?thesis
    unfolding handle_message_def p
    using assms by (simp add: wire_packet_def demo_play_request_def empty_packet_def mfind_def get_for_rtsp_def reg_add_def
        next_id_def empty_registry_def deref_def message_handler_def Let_def)
qed

lemma demo_run:
  obtains sv where "server_run demo_libraries demo_start demo_events sv" "held_sessions sv = [1]" "mn_media (sv_main sv) \<noteq> None"
proof -
  obtain s where s: "session_id s = 1" "rtsp_fake_ip s = ''1.2.3.4''"
    and l: "server_https demo_libraries demo_media_env r_launch demo_launch_request demo_start =
       demo_start\<lparr>sv_main := (sv_main demo_start)\<lparr>mn_registry := reg_add s (snd (next_id empty_registry))\<rparr>\<rparr>"
    by (rule demo_launch)
  define sv1 where "sv1 = server_https demo_libraries demo_media_env r_launch demo_launch_request demo_start"
  define sva where "sva = server_accept 0 (Some ''10.0.0.9'') sv1"
  define sv2 where "sv2 = server_read demo_libraries demo_media_env 0 (Some demo_play_text) sva"
  define sv3 where "sv3 = server_launch demo_libraries demo_media_env 1 sv2"
  have r1: "sv_registry sv1 = reg_add s (snd (next_id empty_registry))" "mn_media (sv_main sv1) = None" "sv_launching sv1 = None"
    "cs_clients (sv_control sv1) = []" "mn_files (sv_main sv1) = demo_config_os"
    "sv_conns sv1 = []"
    unfolding sv1_def l by (simp_all add: demo_start_def server_start_def)
  define m where "m = set_object 1 (s\<lparr>playing := True\<rparr>) (sv_main sv1)"
  have "get_by_id (mn_registry m) 1 = Some 1"
    using s(1) by (simp add: m_def set_object_def r1(1) get_by_id_def reg_add_def next_id_def empty_registry_def deref_def update_session_def)
  then have "play_begin demo_media_env (s\<lparr>playing := True\<rparr>) m = (play_start 1, m, [])"
    using s(1) r1(2) by (simp add: play_begin_def m_def set_object_def)
  then have play: "server_rtsp demo_libraries demo_media_env ip demo_play_text sv1 = sv1\<lparr>sv_main := m, sv_launching := Some 1\<rparr>" for ip
    unfolding server_rtsp_def r1(1) demo_play [OF s] by (simp add: m_def)
  have "read_step [] (Some demo_play_text) = read_message demo_play_text"
    by (simp add: read_step_def demo_play_length)
  moreover have "sva = sv1\<lparr>sv_conns := [(0, ''10.0.0.9'', [])]\<rparr>" by (simp add: sva_def server_accept_def r1(6))
  moreover have "sv1\<lparr>sv_conns := []\<rparr> = sv1" using r1(6) by simp
  ultimately have sv2: "sv2 = sv1\<lparr>sv_main := m, sv_launching := Some 1\<rparr>"
    unfolding sv2_def by (simp add: server_read_def mfind_def merase_def play)
  obtain ok m' out where p: "play_launch demo_media_env (lb_render_node demo_libraries) 1 (sv_main sv2) = (ok, m', out)" by (metis prod_cases3)
  have "mn_files (sv_main sv2) = demo_config_os" by (simp add: sv2 m_def set_object_def r1(5))
  then have ok
    using p demo_start_ok by (auto simp: play_launch_def Let_def split: prod.splits) (metis fst_conv)
  then have "media_object m' = Some 1" using play_launch_cases(2) [OF p] by simp
  moreover have "sv_main sv3 = m'" "sv_launching sv3 = None" "cs_clients (sv_control sv3) = []"
    unfolding sv3_def server_launch_def p by (simp_all add: sv2 r1(4))
  ultimately have sv3: "held_sessions sv3 = [1]" "mn_media (sv_main sv3) \<noteq> None"
    by (simp add: held_sessions_def) (use \<open>media_object m' = Some 1\<close> \<open>sv_main sv3 = m'\<close> in \<open>auto simp: media_object_def\<close>)
  have "server_run demo_libraries demo_start ([] @ [ev_https demo_media_env r_launch demo_launch_request]) sv1"
    unfolding sv1_def by (rule run_step [OF run_start step_https])
  from run_step [OF this step_accept [OF r1(3), of _ 0 "Some ''10.0.0.9''"], folded sva_def]
  have a: "server_run demo_libraries demo_start
      ([] @ [ev_https demo_media_env r_launch demo_launch_request] @ [ev_rtsp_accept 0 (Some ''10.0.0.9'')]) sva"
    by simp
  have "sv_launching sva = None" by (simp add: sva_def server_accept_def r1(3))
  from run_step [OF a step_read [OF this, of _ demo_media_env 0 "Some demo_play_text"], folded sv2_def]
  have "server_run demo_libraries demo_start ([ev_https demo_media_env r_launch demo_launch_request,
      ev_rtsp_accept 0 (Some ''10.0.0.9''), ev_rtsp_read demo_media_env 0 (Some demo_play_text)]) sv2"
    by simp
  from run_step [OF this step_launch, of 1] have "server_run demo_libraries demo_start demo_events sv3"
    by (simp add: sv2 sv3_def demo_events_def)
  then show ?thesis using sv3 by (rule that)
qed

theorem server_invariant_witness:
  "\<exists>sv. server_run demo_libraries demo_start demo_events sv \<and> mn_media (sv_main sv) \<noteq> None \<and>
     session_id (deref (sv_registry sv) 1) = 1"
proof -
  obtain sv where r: "server_run demo_libraries demo_start demo_events sv" "held_sessions sv = [1]" "mn_media (sv_main sv) \<noteq> None"
    by (rule demo_run)
  from server_invariant [OF r(1) [unfolded demo_start_def]] r show ?thesis by (auto simp: Let_def)
qed

end
