(* ===== verification/System_Props.thy ===== *)
theory System_Props
  imports System
begin

text \<open>
  A paired client gets its stream: the path of one session through the threads, from the launch over HTTPS to the
  control connection.
\<close>

section \<open>The steps of the path\<close>

lemma created_session:
  assumes "stoi (header_or (rq_headers rq) ''surroundAudioInfo'' ''196610'') = Some surround"
  obtains s where "create_launch_session rq app reg = (Some s, snd (next_id reg))" "session_id s = reg_next_id reg"
    "client_ip s = rq_client_ip rq" "rtsp_fake_ip s = fake_ip (rq_octets rq)" "enet_secret_payload s = rq_enet_secret rq"
    "s_aes_key s = header_or (rq_headers rq) ''rikey'' []" "s_aes_iv s = header_or (rq_headers rq) ''rikeyid'' []"
proof -
  obtain w ht fps where "scan_mode (header_or (rq_headers rq) ''mode'' ''1920x1080x60'') = (w, ht, fps)"
    by (metis prod_cases3)
  with assms show ?thesis by (intro that) (auto simp: create_launch_session_def Let_def next_id_def)
qed

lemma launch_step:
  assumes "client_if_paired (lb_pairing lb) rq (https_view sv) = Some pem" "reg_sessions (sv_registry sv) = []"
    and "create_launch_session rq (ht_app (https_view sv)) (sv_registry sv) = (Some s, reg)"
  shows "server_https lb menv r_launch rq sv = sv\<lparr>sv_main := (sv_main sv)\<lparr>mn_registry := reg_add s reg\<rparr>\<rparr>"
proof -
  have "get_by_client_ip (sv_registry sv) (rq_client_ip rq) = None" using assms(2) by (simp add: get_by_client_ip_def)
  moreover have "fst (https_handle (lb_pairing lb) menv r_launch rq (https_view sv))
      = fst (launch_session (lb_pairing lb) rq (https_view sv))"
    using assms(1) by (simp add: handle_cases del: https_handle.simps)
  ultimately show ?thesis
    using assms(3) by (simp add: server_https_def launch_session_def Let_def update_registry_def https_view_def del: https_handle.simps)
qed




lemma connect_step:
  assumes "reg_sessions (sv_registry sv) = [p]" "enet_secret_payload (deref (sv_registry sv) p) = secret"
  shows "server_control lb menv (CONNECT pe secret ip) sv =
    Some (sv\<lparr>sv_control := (sv_control sv)\<lparr>cs_clients := mput pe p (cs_clients (sv_control sv))\<rparr>\<rparr>)"
  using assms by (simp add: server_control_def match_session_def get_running_def Let_def)

lemma run_two: "server_run lb sv evs sv1 \<Longrightarrow> server_run lb sv1 evs' sv2 \<Longrightarrow> server_run lb sv (evs @ evs') sv2"
  by (rotate_tac 1, induction rule: server_run.induct) (auto intro: run_step simp flip: append_assoc)

lemma run_Cons: "server_step lb sv ev sv1 \<Longrightarrow> server_run lb sv1 evs sv2 \<Longrightarrow> server_run lb sv (ev # evs) sv2"
  using run_two [OF run_step [OF run_start]] by simp

section \<open>The property\<close>





section \<open>From the disk to a session\<close>

lemma init_clients:
  assumes "AppState.init os x dir d = (Inr app, ds)"
  shows "as_pairing_cache app = [] \<and> as_paired_clients app = load_clients os (clients_dir dir) d"
  using assms by (auto simp: AppState.init_def Let_def split: if_splits prod.splits option.splits)

lemma main_starts:
  assumes "server_main lb menv d files world = Some sv"
  obtains app d' files' where "sv = server_start app d' files' world" "as_pairing_cache app = []"
    "as_paired_clients app = load_clients (pv_os (lb_pairing lb))
       (clients_dir (env_or (so_getenv (pv_os (lb_pairing lb))) ''STEAM_STREAM_STATE_DIR'' ''/var/lib/steam-stream'')) d"
  using assms by (auto simp: server_main_def Let_def dest!: init_clients split: prod.splits sum.splits option.splits)

text \<open>
  C5: Streaming needs pairing, end to end: from the start of the process on a disk, in every run of the server, a session
  for which the media pipeline runs, which is being launched, or for which an ENet peer acts, was created by a
  launch request over HTTPS that came, at that moment, with a certificate that passed the gate against a paired
  client; and that paired client was either on the disk at the start or had been paired before by the
  complete handshake with the PIN the user typed. No RTSP message and no control packet makes a session.
\<close>

theorem streaming_needs_pairing:
  assumes "server_main lb menv d files world = Some sv0" "server_run lb sv0 evs sv" "p \<in> set (held_sessions sv)"
  shows "let os = pv_os (lb_pairing lb);
      dir = env_or (so_getenv os) ''STEAM_STREAM_STATE_DIR'' ''/var/lib/steam-stream'' in
    \<exists>pem. granted lb sv0 evs p pem \<and>
      (if pem \<in> set (load_clients os (clients_dir dir) d) then True
       else \<exists>evs1. prefix evs1 evs \<and> paired_by (lb_pairing lb) (pair_events evs1) pem)"
proof -
  obtain app d' files' where sv0: "sv0 = server_start app d' files' world" "as_pairing_cache app = []"
    and cl: "as_paired_clients app = load_clients (pv_os (lb_pairing lb))
       (clients_dir (env_or (so_getenv (pv_os (lb_pairing lb))) ''STEAM_STREAM_STATE_DIR'' ''/var/lib/steam-stream'')) d"
    by (rule main_starts [OF assms(1)])
  have "allocated (sv_registry sv) p"
    using run_ok [OF assms(2)] start_ok assms(3) by (simp add: server_ok_def list_all_iff sv0(1))
  moreover have "\<not> allocated (sv_registry sv0) p"
    by (simp add: sv0(1) server_start_def empty_registry_def allocated_def)
  ultimately obtain pem where g: "granted lb sv0 evs p pem" using run_granted [OF assms(2)] by blast
  from granted_client [OF this [unfolded sv0(1)] sv0(2)] g show ?thesis unfolding cl Let_def by auto
qed

text \<open>A disk with an identity and one client.\<close>

definition demo_main_libraries :: libraries where
  "demo_main_libraries = demo_libraries\<lparr>lb_pairing := demo_pairing_env\<lparr>pv_os := demo_state_os\<lparr>so_getenv := (\<lambda>_. Some ''s'')\<rparr>\<rparr>\<rparr>"

definition demo_main_env :: media_env where
  "demo_main_env = demo_media_env\<lparr>me_config := demo_config_os\<lparr>co_getenv := (\<lambda>_. Some ''1'')\<rparr>\<rparr>"

definition demo_main_disk :: disk where
  "demo_main_disk = [(''s/cert.pem'', ''CERT''), (''s/clients/7.pem'', ''PHONE''), (''s/key.pem'', ''KEY''), (''s/uuid'', ''u'')]"

lemma demo_main:
  obtains sv0 app d' files' where
    "server_main demo_main_libraries demo_main_env demo_main_disk demo_config_os (mn_world demo_main) = Some sv0"
    "sv0 = server_start app d' files' (mn_world demo_main)" "as_paired_clients app = [''PHONE'']"
proof -
  let ?os = "demo_state_os\<lparr>so_getenv := (\<lambda>_. Some ''s'')\<rparr>" and ?d = demo_main_disk
  have f: "file_ok ''s/uuid'' ?d" "file_ok ''s/key.pem'' ?d" "file_ok ''s/cert.pem'' ?d"
    "mfind ?d ''s/key.pem'' = Some ''KEY''" "mfind ?d ''s/cert.pem'' = Some ''CERT''" by code_simp+
  have mk: "so_mkdir ?os = (\<lambda>_. True)" by (simp add: demo_state_os_def)
  have "ensure_identity ?os ''s/key.pem'' ''s/cert.pem'' ?d = (None, [?d])" using f by (simp add: ensure_identity_def Let_def)
  then obtain app ds where i: "AppState.init ?os demo_x509 ''s'' ?d = (Inr app, ds)"
    using f by (simp add: AppState.init_def Let_def mk ensure_uuid_def)
  have cl: "load_clients ?os (clients_dir ''s'') ?d = [''PHONE'']" by code_simp
  have "stoi (env_or (me_getenv demo_main_env) k v) = Some 1" for k v
  proof -
    have "env_or (me_getenv demo_main_env) k v = ''1''" by (simp add: env_or_def me_getenv_def demo_main_env_def)
    moreover have "stoi ''1'' = Some 1" by code_simp
    ultimately show ?thesis by simp
  qed
  moreover obtain cfg files1 where
    "load_or_seed (create_default_if_missing (config_path demo_config_os) demo_config_os) = (cfg, files1)" by force
  ultimately obtain ports files where "configure demo_main_env demo_config_os = Some (ports, files)"
    by (simp add: configure_def Let_def)
  moreover have "pv_os (lb_pairing demo_main_libraries) = ?os" "pv_x509 (lb_pairing demo_main_libraries) = demo_x509"
    by (simp_all add: demo_main_libraries_def demo_pairing_env_def)
  ultimately show ?thesis using i init_clients [OF i] cl
    by (intro that) (auto simp: server_main_def Let_def env_or_def)
qed

theorem streaming_needs_pairing_witness:
  "\<exists>sv0 sv. server_main demo_main_libraries demo_main_env demo_main_disk demo_config_os (mn_world demo_main) = Some sv0 \<and>
     server_run demo_main_libraries sv0 [ev_https demo_media_env r_launch demo_launch_request,
       ev_control demo_media_env (CONNECT 3 (rq_enet_secret demo_launch_request) ''10.0.0.7'')] sv \<and>
     (\<exists>p pem. p \<in> set (held_sessions sv) \<and> granted demo_main_libraries sv0
       [ev_https demo_media_env r_launch demo_launch_request,
        ev_control demo_media_env (CONNECT 3 (rq_enet_secret demo_launch_request) ''10.0.0.7'')] p pem)"
proof -
  let ?lb = demo_main_libraries and ?rq = demo_launch_request
  obtain sv0 app d' files' where m: "server_main ?lb demo_main_env demo_main_disk demo_config_os (mn_world demo_main) = Some sv0"
    and sv0: "sv0 = server_start app d' files' (mn_world demo_main)" "as_paired_clients app = [''PHONE'']"
    by (rule demo_main)
  have empty: "reg_sessions (sv_registry sv0) = []" by (simp add: sv0(1) server_start_def empty_registry_def)
  have "as_paired_clients (ht_app (https_view sv0)) = as_paired_clients (ht_app (demo_https []))"
    using sv0 by (simp add: https_view_def server_start_def demo_https_def demo_app_state_def)
  moreover have "pv_x509 (lb_pairing ?lb) = pv_x509 demo_pairing_env" "rq_cert ?rq = rq_cert demo_request"
    by (simp_all add: demo_main_libraries_def demo_launch_request_def)
  ultimately have "client_if_paired (lb_pairing ?lb) ?rq (https_view sv0) = client_if_paired demo_pairing_env demo_request (demo_https [])"
    by (simp add: client_if_paired_def get_client_via_ssl_def split: option.split)
  then obtain pem where gate: "client_if_paired (lb_pairing ?lb) ?rq (https_view sv0) = Some pem"
    using demo_https_facts(2) [of "[]"] by auto
  have "stoi (header_or (rq_headers ?rq) ''surroundAudioInfo'' ''196610'') \<noteq> None"
    unfolding demo_launch_request_def demo_request_def by code_simp
  then obtain n where n: "stoi (header_or (rq_headers ?rq) ''surroundAudioInfo'' ''196610'') = Some n" by blast
  obtain s where s: "create_launch_session ?rq (ht_app (https_view sv0)) (sv_registry sv0) = (Some s, snd (next_id (sv_registry sv0)))"
    "session_id s = reg_next_id (sv_registry sv0)" "enet_secret_payload s = rq_enet_secret ?rq"
    by (rule created_session [OF n])
  let ?r = "reg_add s (snd (next_id (sv_registry sv0)))"
  define sv1 where "sv1 = server_https ?lb demo_media_env r_launch ?rq sv0"
  have sv1: "sv_registry sv1 = ?r" unfolding sv1_def launch_step [OF gate empty s(1)] by simp
  have r: "reg_sessions (sv_registry sv1) = [session_id s]" "deref (sv_registry sv1) (session_id s) = s"
    unfolding sv1 using empty by (simp_all add: reg_add_def next_id_def deref_def)
  define sv2 where "sv2 = sv1\<lparr>sv_control := (sv_control sv1)\<lparr>cs_clients := mput 3 (session_id s) (cs_clients (sv_control sv1))\<rparr>\<rparr>"
  have c: "server_control ?lb demo_media_env (CONNECT 3 (rq_enet_secret ?rq) ''10.0.0.7'') sv1 = Some sv2"
    unfolding sv2_def by (rule connect_step) (simp_all add: r s(3))
  have run: "server_run ?lb sv0 [ev_https demo_media_env r_launch ?rq,
       ev_control demo_media_env (CONNECT 3 (rq_enet_secret ?rq) ''10.0.0.7'')] sv2"
    by (rule run_Cons [OF step_https run_Cons [OF step_control [OF c [unfolded sv1_def]] run_start]])
  have "session_id s \<in> snd ` set (mput 3 (session_id s) (cs_clients (sv_control sv1)))"
    using mput_find [of 3 "session_id s" "cs_clients (sv_control sv1)" 3] by (force simp: mfind_def dest!: map_of_SomeD)
  then have h: "session_id s \<in> set (held_sessions sv2)" by (simp add: held_iff sv2_def)
  from streaming_needs_pairing [OF m run h] m run h show ?thesis by (auto simp: Let_def)
qed

end
