(* ===== verification/RtspServer.thy ===== *)
theory RtspServer
  imports RtspGrammar_Props
begin

text \<open>
  The connections of the RTSP server (\<open>server/rtsp_server.cpp\<close>): the acceptor, the life of a connection from its
  start to the reply and its end, and the loop that outlives exceptions of handlers. Asio completes one operation
  at a time; the sequence of completions is a list.
\<close>

section \<open>A connection\<close>

datatype conn_state =
    conn_reading string
  | conn_sending string bool
  | conn_closed

text \<open>
  \<open>start\<close>: without a remote end the connection is closed. A reading connection keeps \<open>prev_read_\<close>; a sending one the text
  that is being written and whether \<open>close\<close> is called after it (else the connection goes with its last handler).
\<close>

record connection =
  cn_peer_ip :: string
  cn_state :: conn_state

definition conn_start :: "string option \<Rightarrow> connection" where
  "conn_start remote = (case remote of
     None \<Rightarrow> \<lparr>cn_peer_ip = [], cn_state = conn_closed\<rparr>
   | Some ip \<Rightarrow> \<lparr>cn_peer_ip = ip, cn_state = conn_reading []\<rparr>)"

definition send_message :: "RTSP_PACKET \<Rightarrow> bool \<Rightarrow> connection \<Rightarrow> connection" where
  "send_message response close_after c = c\<lparr>cn_state := conn_sending (rtsp_to_string response) close_after\<rparr>"

text \<open>
  A read completes: the registry, the connection and whether the callback for PLAY is called. The exception of
  \<open>std::stoi\<close> drops the connection with the handler that held it.
\<close>

definition conn_read :: "peg_lib \<Rightarrow> string option \<Rightarrow> registry \<Rightarrow> connection \<Rightarrow> registry \<times> connection \<times> bool" where
  "conn_read pg piece reg c =
     (case cn_state c of
        conn_reading prev \<Rightarrow>
          (case read_step prev piece of
             read_more full \<Rightarrow> (reg, c\<lparr>cn_state := conn_reading full\<rparr>, False)
           | read_failed \<Rightarrow> (reg, send_message (error_msg 400 ''BAD REQUEST'' 0) False c, False)
           | read_throws \<Rightarrow> (reg, c\<lparr>cn_state := conn_closed\<rparr>, False)
           | read_message msg \<Rightarrow>
               let r = handle_message pg reg (cn_peer_ip c) msg in
               (case rr_session r of None \<Rightarrow> reg | Some (p, s) \<Rightarrow> update_session p (\<lambda>_. s) reg,
                case rr_reply r of None \<Rightarrow> c\<lparr>cn_state := conn_closed\<rparr> | Some reply \<Rightarrow> send_message reply True c,
                rr_play r))
      | _ \<Rightarrow> (reg, c, False))"

definition conn_written :: "connection \<Rightarrow> connection" where
  "conn_written c = (case cn_state c of conn_sending _ _ \<Rightarrow> c\<lparr>cn_state := conn_closed\<rparr> | _ \<Rightarrow> c)"

section \<open>The server\<close>

record tcp_server =
  ts_armed :: bool
  ts_registry :: registry
  ts_conns :: "connection list"
  ts_plays :: nat

text \<open>The acceptor is set up and waits for the first connection.\<close>

definition new_server :: "registry \<Rightarrow> tcp_server" where
  "new_server reg = \<lparr>ts_armed = True, ts_registry = reg, ts_conns = [], ts_plays = 0\<rparr>"

datatype completion =
    accepted "string option option"
  | read_done nat "string option"
  | written nat

text \<open>
  \<open>handle_accept\<close> arms the acceptor again before it looks at the result (\<open>None\<close> is an error); \<open>Some None\<close> is a client that
  has gone. A completion for a connection that is not there does not happen.
\<close>

fun server_completion :: "peg_lib \<Rightarrow> completion \<Rightarrow> tcp_server \<Rightarrow> tcp_server" where
  "server_completion pg (accepted res) ts =
     (let ts = ts\<lparr>ts_armed := False\<rparr>; ts = ts\<lparr>ts_armed := True\<rparr> in
      case res of None \<Rightarrow> ts | Some remote \<Rightarrow> ts\<lparr>ts_conns := ts_conns ts @ [conn_start remote]\<rparr>)"
| "server_completion pg (read_done i piece) ts =
     (if i < length (ts_conns ts) then
        (case conn_read pg piece (ts_registry ts) (ts_conns ts ! i) of
           (reg, c, play) \<Rightarrow> ts\<lparr>ts_registry := reg, ts_conns := (ts_conns ts)[i := c],
             ts_plays := ts_plays ts + (if play then 1 else 0)\<rparr>)
      else ts)"
| "server_completion pg (written i) ts =
     (if i < length (ts_conns ts) then ts\<lparr>ts_conns := (ts_conns ts)[i := conn_written (ts_conns ts ! i)]\<rparr> else ts)"

text \<open>\<open>run_server\<close>: an exception that leaves \<open>run\<close> is logged and the loop goes on with the next completion.\<close>

definition run_server :: "peg_lib \<Rightarrow> registry \<Rightarrow> completion list \<Rightarrow> tcp_server" where
  "run_server pg reg cs = fold (server_completion pg) cs (new_server reg)"

section \<open>Properties\<close>

lemma run_server_snoc: "run_server pg reg (cs @ [c]) = server_completion pg c (run_server pg reg cs)"
  by (simp add: run_server_def)

text \<open>No completion, failure or exception stops the server from accepting.\<close>

lemma run_server_armed: "ts_armed (run_server pg reg cs)"
proof (induction cs rule: rev_induct)
  case Nil
  show ?case by (simp add: run_server_def new_server_def)
next
  case (snoc c cs)
  then show ?case by (cases c) (auto simp: run_server_snoc Let_def split: option.splits prod.splits)
qed

text \<open>A connection goes through reading, sending and closed in this order, and sends one text at most.\<close>

fun conn_rank :: "conn_state \<Rightarrow> nat" where
  "conn_rank (conn_reading _) = 0"
| "conn_rank (conn_sending _ _) = 1"
| "conn_rank conn_closed = 2"

lemma conn_read_rank:
  "conn_read pg piece reg c = (reg', c', play) \<Longrightarrow>
   conn_rank (cn_state c) \<le> conn_rank (cn_state c') \<and> cn_peer_ip c' = cn_peer_ip c \<and>
   (if conn_rank (cn_state c) = 0 then True else c' = c \<and> reg' = reg \<and> \<not> play)"
  by (auto simp: conn_read_def Let_def send_message_def split: conn_state.splits read_result.splits option.splits)

lemma conn_written_rank: "conn_rank (cn_state c) \<le> conn_rank (cn_state (conn_written c))"
  by (cases "cn_state c") (simp_all add: conn_written_def)

lemma completion_conns:
  assumes "i < length (ts_conns ts)"
  shows "i < length (ts_conns (server_completion pg c ts)) \<and>
    conn_rank (cn_state (ts_conns ts ! i)) \<le> conn_rank (cn_state (ts_conns (server_completion pg c ts) ! i)) \<and>
    (if conn_rank (cn_state (ts_conns ts ! i)) = 1 \<and> conn_rank (cn_state (ts_conns (server_completion pg c ts) ! i)) = 1
     then cn_state (ts_conns (server_completion pg c ts) ! i) = cn_state (ts_conns ts ! i) else True)"
proof (cases c)
  case (accepted res)
  with assms show ?thesis by (auto simp: Let_def nth_append split: option.splits)
next
  case (read_done j piece)
  obtain reg cn play where r: "conn_read pg piece (ts_registry ts) (ts_conns ts ! j) = (reg, cn, play)" by (metis prod_cases3)
  from conn_read_rank [OF r] assms r read_done show ?thesis by (auto simp: nth_list_update split: if_splits)
next
  case (written j)
  with assms conn_written_rank [of "ts_conns ts ! j"] show ?thesis
    by (auto simp: nth_list_update conn_written_def split: conn_state.splits)
qed

end
