(* ===== verification/Evp.thy ===== *)
theory Evp
  imports Crypto
begin

text \<open>
  The calls of OpenSSL below the crypto wrapper (\<open>crypto/src/aes.hpp\<close>, \<open>crypto.cpp\<close>, \<open>sign.hpp\<close>): contexts, buffers and
  the codes the calls return. \<open>handle_openssl_error\<close> prints and goes on, so the functions here return what was printed
  beside their result; \<open>None\<close> is undefined behaviour, a read outside a buffer or of bytes nothing has written. At
  the end the functions are shown to implement those of \<open>Crypto\<close>, which the rest of the development uses.
\<close>

section \<open>The library\<close>

datatype cipher = aes_128_ecb | aes_128_cbc | aes_128_gcm

record cipher_ctx =
  cx_cipher :: cipher
  cx_key :: bytes
  cx_iv :: bytes
  cx_encrypt :: bool
  cx_padding :: bool
  cx_tag :: bytes

text \<open>
  A call that fails gives \<open>None\<close> (or \<open>False\<close>). \<open>ev_final\<close> and \<open>ev_tag\<close> are the calls after one update with the given bytes.
  \<open>ev_left n\<close> is the length a failed final call leaves in a variable that held \<open>n\<close>: releases of the library differ.
  A key is the text it is read from.
\<close>

record evp =
  ev_init :: "cipher_ctx \<Rightarrow> bool"
  ev_ivlen :: "int \<Rightarrow> bool"
  ev_update :: "cipher_ctx \<Rightarrow> bytes \<Rightarrow> bytes option"
  ev_final :: "cipher_ctx \<Rightarrow> bytes \<Rightarrow> bytes option"
  ev_left :: "nat \<Rightarrow> nat"
  ev_tag :: "cipher_ctx \<Rightarrow> bytes \<Rightarrow> bytes option"
  ev_rand :: "nat \<Rightarrow> bytes option"
  ev_readable :: "bool \<Rightarrow> string \<Rightarrow> bool"
  ev_sign :: "string \<Rightarrow> bytes \<Rightarrow> bytes option"
  ev_verify :: "string \<Rightarrow> bytes \<Rightarrow> bytes \<Rightarrow> bool"

type_synonym 'r logged = "(string list \<times> 'r) option"

definition log_unless :: "bool \<Rightarrow> string \<Rightarrow> string list" where
  "log_unless ok msg = (if ok then [] else [msg])"

section \<open>\<open>aes.hpp\<close>\<close>

definition AES_BLOCK_SIZE :: nat where "AES_BLOCK_SIZE = 16"

text \<open>The bytes an initialisation reads behind the pointer to the vector.\<close>

fun default_iv_size :: "cipher \<Rightarrow> nat" where
  "default_iv_size aes_128_ecb = 0"
| "default_iv_size aes_128_cbc = 16"
| "default_iv_size aes_128_gcm = 12"

definition evp_init :: "evp \<Rightarrow> cipher \<Rightarrow> bytes \<Rightarrow> bytes \<Rightarrow> bool \<Rightarrow> bool \<Rightarrow> cipher_ctx logged" where
  "evp_init lib cipher key_data iv is_encryption padding =
     (if length key_data < 16 \<or> length iv < default_iv_size cipher then None
      else let ctx = \<lparr>cx_cipher = cipher, cx_key = take 16 key_data, cx_iv = take (default_iv_size cipher) iv,
             cx_encrypt = is_encryption, cx_padding = padding, cx_tag = []\<rparr> in
        Some (log_unless (ev_init lib ctx)
          (if is_encryption then ''EVP_EncryptInit_ex failed'' else ''EVP_DecryptInit_ex failed''), ctx))"

definition encrypt_symmetric :: "evp \<Rightarrow> cipher_ctx \<Rightarrow> bytes \<Rightarrow> bytes logged" where
  "encrypt_symmetric lib ctx plaintext =
     (let ctx = ctx\<lparr>cx_encrypt := True\<rparr>; ciphertext_size = length plaintext + AES_BLOCK_SIZE;
          log = log_unless (ev_init lib ctx) ''EVP_EncryptInit_ex failed'' in
      case ev_update lib ctx plaintext of None \<Rightarrow> None
      | Some out \<Rightarrow>
        (case ev_final lib ctx plaintext of
           None \<Rightarrow> if ev_left lib 0 > 0 then None else Some (log @ [''EVP_EncryptFinal_ex failed''], out)
         | Some rest \<Rightarrow> if length out + length rest > ciphertext_size then None else Some (log, out @ rest)))"

definition decrypt_symmetric :: "evp \<Rightarrow> cipher_ctx \<Rightarrow> bytes \<Rightarrow> bytes logged" where
  "decrypt_symmetric lib ctx ciphertext =
     (let ctx = ctx\<lparr>cx_encrypt := False\<rparr>; cipher_length = length ciphertext;
          log = log_unless (ev_init lib ctx) ''EVP_DecryptInit_ex failed'' in
      case ev_update lib ctx ciphertext of None \<Rightarrow> None
      | Some out \<Rightarrow>
        (case ev_final lib ctx ciphertext of
           None \<Rightarrow> if ev_left lib (length out) > 0 then None else Some (log @ [''EVP_DecryptFinal_ex failed''], out)
         | Some rest \<Rightarrow> if length out + length rest > cipher_length then None else Some (log, out @ rest)))"

definition encrypt_authenticated :: "evp \<Rightarrow> cipher_ctx \<Rightarrow> bytes \<Rightarrow> (bytes \<times> bytes) logged" where
  "encrypt_authenticated lib ctx plaintext =
     (case encrypt_symmetric lib ctx plaintext of None \<Rightarrow> None
      | Some (log, out) \<Rightarrow>
        (case ev_tag lib (ctx\<lparr>cx_encrypt := True\<rparr>) plaintext of None \<Rightarrow> None
         | Some c_tag \<Rightarrow> Some (log, out, c_tag)))"

text \<open>The tag is set between the update and the final call, which compares it.\<close>

definition decrypt_authenticated :: "evp \<Rightarrow> cipher_ctx \<Rightarrow> bytes \<Rightarrow> bytes \<Rightarrow> bytes logged" where
  "decrypt_authenticated lib ctx ciphertext tag =
     (if length tag < AES_GCM_TAG_SIZE then None
      else decrypt_symmetric lib (ctx\<lparr>cx_tag := take AES_GCM_TAG_SIZE tag\<rparr>) ciphertext)"

section \<open>\<open>crypto.cpp\<close>\<close>

definition log_bind :: "'a logged \<Rightarrow> ('a \<Rightarrow> 'b logged) \<Rightarrow> 'b logged" where
  "log_bind m f = (case m of None \<Rightarrow> None
     | Some (log, x) \<Rightarrow> map_option (\<lambda>(log', y). (log @ log', y)) (f x))"

definition evp_random :: "evp \<Rightarrow> nat \<Rightarrow> string list \<times> bytes" where
  "evp_random lib n = (case ev_rand lib n of None \<Rightarrow> ([''RAND_bytes failed''], replicate n 0) | Some b \<Rightarrow> ([], b))"

definition evp_encrypt_ecb :: "evp \<Rightarrow> bytes \<Rightarrow> bytes \<Rightarrow> bytes \<Rightarrow> bool \<Rightarrow> bytes logged" where
  "evp_encrypt_ecb lib msg enc_key iv padding =
     log_bind (evp_init lib aes_128_ecb enc_key iv True padding) (\<lambda>ctx. encrypt_symmetric lib ctx msg)"

definition evp_decrypt_ecb :: "evp \<Rightarrow> bytes \<Rightarrow> bytes \<Rightarrow> bytes \<Rightarrow> bool \<Rightarrow> bytes logged" where
  "evp_decrypt_ecb lib msg enc_key iv padding =
     log_bind (evp_init lib aes_128_ecb enc_key iv False padding) (\<lambda>ctx. decrypt_symmetric lib ctx msg)"

definition evp_encrypt_cbc :: "evp \<Rightarrow> bytes \<Rightarrow> bytes \<Rightarrow> bytes \<Rightarrow> bool \<Rightarrow> bytes logged" where
  "evp_encrypt_cbc lib msg enc_key iv padding =
     log_bind (evp_init lib aes_128_cbc enc_key iv True padding) (\<lambda>ctx. encrypt_symmetric lib ctx msg)"

definition evp_decrypt_cbc :: "evp \<Rightarrow> bytes \<Rightarrow> bytes \<Rightarrow> bytes \<Rightarrow> bool \<Rightarrow> bytes logged" where
  "evp_decrypt_cbc lib msg enc_key iv padding =
     log_bind (evp_init lib aes_128_cbc enc_key iv False padding) (\<lambda>ctx. decrypt_symmetric lib ctx msg)"

text \<open>The length of the vector, unless it is -1, and a second initialisation that reads it; a refused length changes nothing.\<close>

definition set_iv_size :: "evp \<Rightarrow> bytes \<Rightarrow> int \<Rightarrow> cipher_ctx \<Rightarrow> cipher_ctx logged" where
  "set_iv_size lib iv iv_size ctx =
     (if iv_size = -1 then Some ([], ctx)
      else let ok = ev_ivlen lib iv_size; n = (if ok then nat iv_size else default_iv_size (cx_cipher ctx)) in
        if length iv < n then None
        else let ctx = ctx\<lparr>cx_iv := take n iv\<rparr> in
          Some (log_unless ok ''EVP_CTRL_GCM_SET_IVLEN failed'' @
            log_unless (ev_init lib ctx) ''EVP_DecryptInit_ex (2) failed'', ctx))"

definition evp_encrypt_gcm :: "evp \<Rightarrow> bytes \<Rightarrow> bytes \<Rightarrow> bytes \<Rightarrow> int \<Rightarrow> bool \<Rightarrow> (bytes \<times> bytes) logged" where
  "evp_encrypt_gcm lib msg enc_key iv iv_size padding =
     log_bind (log_bind (evp_init lib aes_128_gcm enc_key iv False padding) (set_iv_size lib iv iv_size))
       (\<lambda>ctx. encrypt_authenticated lib ctx msg)"

definition evp_decrypt_gcm :: "evp \<Rightarrow> bytes \<Rightarrow> bytes \<Rightarrow> bytes \<Rightarrow> bytes \<Rightarrow> int \<Rightarrow> bool \<Rightarrow> bytes logged" where
  "evp_decrypt_gcm lib msg enc_key tag iv iv_size padding =
     log_bind (log_bind (evp_init lib aes_128_gcm enc_key iv False padding) (set_iv_size lib iv iv_size))
       (\<lambda>ctx. decrypt_authenticated lib ctx msg tag)"

section \<open>\<open>sign.hpp\<close>\<close>

text \<open>
  A key that cannot be read is a null pointer, with which every later call fails. What the digest calls print is left out:
  they print where the signature is undefined or the verification fails.
\<close>

definition create_key :: "evp \<Rightarrow> string \<Rightarrow> bool \<Rightarrow> string list \<times> string option" where
  "create_key lib k is_private =
     (if k = [] then ([''BIO_write failed'', ''PEM_read_bio_PrivateKey failed''], None)
      else if ev_readable lib is_private k then ([], Some k) else ([''PEM_read_bio_PrivateKey failed''], None))"

definition digest_capacity :: nat where "digest_capacity = 256"

text \<open>When a call fails the buffer of 256 bytes is returned as it is, never written.\<close>

definition evp_sign :: "evp \<Rightarrow> bytes \<Rightarrow> string \<Rightarrow> bytes logged" where
  "evp_sign lib msg private_key =
     (case create_key lib private_key True of (log, None) \<Rightarrow> None
      | (log, Some k) \<Rightarrow>
        (case ev_sign lib k msg of None \<Rightarrow> None
         | Some digest \<Rightarrow> if length digest > digest_capacity then None else Some (log, digest)))"

definition evp_verify :: "evp \<Rightarrow> bytes \<Rightarrow> bytes \<Rightarrow> string \<Rightarrow> string list \<times> bool" where
  "evp_verify lib msg sig public_key =
     (case create_key lib public_key False of (log, None) \<Rightarrow> (log, False)
      | (log, Some k) \<Rightarrow> (log, ev_verify lib k msg sig))"

section \<open>The wrapper implements the abstract operations\<close>

text \<open>
  Documented behaviour of the calls, in terms of the ciphers of \<open>Crypto\<close> and of the padded CBC the audio
  payloader uses: initialisation succeeds; without padding an update processes the whole blocks and the final call
  fails on a rest; with padding, update and final call together give the padded text, one block longer at most.
\<close>

definition evp_law :: "evp \<Rightarrow> openssl \<Rightarrow> (bytes \<Rightarrow> bytes \<Rightarrow> bytes \<Rightarrow> bytes) \<Rightarrow> gcm \<Rightarrow> bool" where
  "evp_law lib l cbc g \<longleftrightarrow> (\<forall>ctx. ev_init lib ctx) \<and> ev_ivlen lib 16 \<and> (\<forall>k m. length (os_ecb_dec l k m) = length m) \<and>
     (\<forall>ctx msg. cx_cipher ctx = aes_128_ecb \<and> \<not> cx_padding ctx \<longrightarrow>
        ev_update lib ctx msg = Some ((if cx_encrypt ctx then os_ecb_enc l else os_ecb_dec l) (cx_key ctx) (whole_blocks msg)) \<and>
        ev_final lib ctx msg = (if 16 dvd length msg then Some [] else None)) \<and>
     (\<forall>ctx msg. cx_cipher ctx = aes_128_cbc \<and> cx_padding ctx \<and> cx_encrypt ctx \<longrightarrow>
        (\<exists>out rest. ev_update lib ctx msg = Some out \<and> ev_final lib ctx msg = Some rest \<and>
           out @ rest = cbc msg (cx_key ctx) (cx_iv ctx) \<and> length (out @ rest) \<le> length msg + 16)) \<and>
     (\<forall>ctx msg. cx_cipher ctx = aes_128_gcm \<longrightarrow>
        (if cx_encrypt ctx then ev_update lib ctx msg = Some (gcm_enc g (cx_key ctx) (cx_iv ctx) msg) \<and> ev_final lib ctx msg = Some [] \<and>
           ev_tag lib ctx msg = Some (gcm_tag g (cx_key ctx) (cx_iv ctx) (gcm_enc g (cx_key ctx) (cx_iv ctx) msg))
         else ev_update lib ctx msg = Some (gcm_dec g (cx_key ctx) (cx_iv ctx) msg) \<and>
           ev_final lib ctx msg = (if cx_tag ctx = gcm_tag g (cx_key ctx) (cx_iv ctx) msg then Some [] else None)))"

lemmas evp_defs = log_bind_def evp_init_def encrypt_symmetric_def decrypt_symmetric_def encrypt_authenticated_def
  decrypt_authenticated_def set_iv_size_def log_unless_def AES_BLOCK_SIZE_def

lemma length_whole_blocks:
  "length (whole_blocks msg) = 16 * (length msg div 16)" "16 * (length msg div 16) \<le> length msg"
  by (simp_all add: whole_blocks_def)

lemma ecb_refines:
  assumes "evp_law lib l cbc g" "openssl_law l" "length key = 16"
  shows "evp_encrypt_ecb lib msg key iv False =
      (if 16 dvd length msg then Some ([], aes_encrypt_ecb l msg key)
       else if ev_left lib 0 > 0 then None else Some ([''EVP_EncryptFinal_ex failed''], aes_encrypt_ecb l msg key))"
    and "evp_decrypt_ecb lib msg key iv False =
      (if 16 dvd length msg then Some ([], aes_decrypt_ecb l msg key)
       else if ev_left lib (16 * (length msg div 16)) > 0 then None
       else Some ([''EVP_DecryptFinal_ex failed''], aes_decrypt_ecb l msg key))"
  using assms length_whole_blocks [of msg]
  by (auto simp: evp_encrypt_ecb_def evp_decrypt_ecb_def evp_defs evp_law_def openssl_law_def aes_encrypt_ecb_def
      aes_decrypt_ecb_def Let_def)

lemma cbc_refines:
  assumes "evp_law lib l cbc g" "length key = 16" "length iv = 16"
  shows "evp_encrypt_cbc lib msg key iv True = Some ([], cbc msg key iv)"
proof -
  let ?ctx = "\<lparr>cx_cipher = aes_128_cbc, cx_key = key, cx_iv = iv, cx_encrypt = True, cx_padding = True, cx_tag = []\<rparr>"
  have "cx_cipher ?ctx = aes_128_cbc \<and> cx_padding ?ctx \<and> cx_encrypt ?ctx" by simp
  then obtain out rest where "ev_update lib ?ctx msg = Some out" "ev_final lib ?ctx msg = Some rest"
    "out @ rest = cbc msg key iv" and len: "length (out @ rest) \<le> length msg + 16"
    using assms(1) unfolding evp_law_def by (metis cipher_ctx.select_convs(2,3))
  moreover have "ev_init lib ?ctx" using assms(1) by (simp add: evp_law_def)
  moreover have "\<not> length msg + 16 < length out + length rest" using len by simp
  ultimately show ?thesis using assms(2,3) by (simp add: evp_encrypt_cbc_def evp_defs)
qed

lemma gcm_refines:
  assumes "evp_law lib l cbc g" "gcm_law g" "length key = 16" "length iv = 16" "length tag = 16"
  shows "evp_encrypt_gcm lib msg key iv 16 False = Some ([], aes_encrypt_gcm g msg key iv)"
    and "evp_decrypt_gcm lib msg key tag iv 16 False =
      (if tag = gcm_tag g key iv msg then Some ([], gcm_dec g key iv msg)
       else if ev_left lib (length msg) > 0 then None else Some ([''EVP_DecryptFinal_ex failed''], gcm_dec g key iv msg))"
  using assms
  by (simp_all add: evp_encrypt_gcm_def evp_decrypt_gcm_def evp_defs evp_law_def gcm_law_def aes_encrypt_gcm_def Let_def
      AES_GCM_TAG_SIZE_def)

text \<open>
  C22: The wrapper over OpenSSL implements the operations the pairing, the control stream and the audio payloader
  rely on, with keys and vectors of 16 bytes: nothing is printed and the results are theirs for whole blocks and for a
  matching tag. For a rest or a wrong tag the failed final call is printed and its length added all the same: if the
  library leaves that length alone, the result is read past the end of the buffer.
\<close>

theorem wrapper_refines:
  assumes "evp_law lib l cbc g" "openssl_law l" "gcm_law g" "length key = 16" "length iv = 16" "length tag = 16"
  shows "evp_encrypt_ecb lib msg key iv False =
      (if 16 dvd length msg then Some ([], aes_encrypt_ecb l msg key)
       else if ev_left lib 0 > 0 then None else Some ([''EVP_EncryptFinal_ex failed''], aes_encrypt_ecb l msg key)) \<and>
    evp_decrypt_ecb lib msg key iv False =
      (if 16 dvd length msg then Some ([], aes_decrypt_ecb l msg key)
       else if ev_left lib (16 * (length msg div 16)) > 0 then None
       else Some ([''EVP_DecryptFinal_ex failed''], aes_decrypt_ecb l msg key)) \<and>
    evp_encrypt_cbc lib msg key iv True = Some ([], cbc msg key iv) \<and>
    evp_encrypt_gcm lib msg key iv 16 False = Some ([], aes_encrypt_gcm g msg key iv) \<and>
    evp_decrypt_gcm lib msg key tag iv 16 False =
      (if \<not> fst (aes_decrypt_gcm g msg key tag iv) then Some ([], snd (aes_decrypt_gcm g msg key tag iv))
       else if ev_left lib (length msg) > 0 then None
       else Some ([''EVP_DecryptFinal_ex failed''], snd (aes_decrypt_gcm g msg key tag iv)))"
  using ecb_refines [OF assms(1,2,4)] cbc_refines [OF assms(1,4,5)] gcm_refines [OF assms(1,3,4,5,6)]
  by (simp add: aes_decrypt_gcm_def)

text \<open>The failing final call in a library that leaves the length, on two blocks and a byte, and with a wrong tag.\<close>

definition demo_openssl :: openssl where
  "demo_openssl = \<lparr>os_sha256 = (\<lambda>m. replicate 32 0), os_ecb_enc = (\<lambda>k m. m), os_ecb_dec = (\<lambda>k m. m),
     os_sign = (\<lambda>k m. []), os_verify = (\<lambda>k m s. False)\<rparr>"

definition demo_cbc :: "bytes \<Rightarrow> bytes \<Rightarrow> bytes \<Rightarrow> bytes" where
  "demo_cbc msg key iv = msg @ replicate (16 - length msg mod 16) 1"

definition demo_aead :: gcm where
  "demo_aead = \<lparr>gcm_enc = (\<lambda>k iv m. m), gcm_dec = (\<lambda>k iv m. m), gcm_tag = (\<lambda>k iv m. replicate 16 7)\<rparr>"

definition demo_evp :: "(nat \<Rightarrow> nat) \<Rightarrow> evp" where
  "demo_evp left = \<lparr>ev_init = (\<lambda>_. True), ev_ivlen = (\<lambda>n. 0 < n),
     ev_update = (\<lambda>ctx msg. Some (if cx_cipher ctx = aes_128_ecb then whole_blocks msg else msg)),
     ev_final = (\<lambda>ctx msg. case cx_cipher ctx of
        aes_128_ecb \<Rightarrow> if 16 dvd length msg then Some [] else None
      | aes_128_cbc \<Rightarrow> Some (replicate (16 - length msg mod 16) 1)
      | aes_128_gcm \<Rightarrow> if cx_encrypt ctx \<or> cx_tag ctx = replicate 16 7 then Some [] else None),
     ev_left = left, ev_tag = (\<lambda>_ _. Some (replicate 16 7)), ev_rand = (\<lambda>_. None), ev_readable = (\<lambda>_ _. True),
     ev_sign = (\<lambda>_ _. None), ev_verify = (\<lambda>_ _ _. False)\<rparr>"

theorem wrapper_refines_witness:
  "evp_decrypt_ecb (demo_evp id) (replicate 33 5) (replicate 16 1) (replicate 16 0) False = None \<and>
   evp_decrypt_ecb (demo_evp (\<lambda>_. 0)) (replicate 33 5) (replicate 16 1) (replicate 16 0) False =
     Some ([''EVP_DecryptFinal_ex failed''], replicate 32 5)"
proof -
  have l: "evp_law (demo_evp left) demo_openssl demo_cbc demo_aead" for left
    by (auto simp: evp_law_def demo_evp_def demo_openssl_def demo_cbc_def demo_aead_def whole_blocks_def)
  have o: "openssl_law demo_openssl" "gcm_law demo_aead"
    by (simp_all add: openssl_law_def demo_openssl_def gcm_law_def demo_aead_def AES_GCM_TAG_SIZE_def)
  note w = wrapper_refines [OF l o, of "replicate 16 1" "replicate 16 0" "replicate 16 0" _ "replicate 33 5"]
  have d: "\<not> 16 dvd (33 :: nat)" by presburger
  have "aes_decrypt_ecb demo_openssl (replicate 33 5) (replicate 16 1) = replicate 32 5"
    by (simp add: aes_decrypt_ecb_def demo_openssl_def whole_blocks_def)
  then show ?thesis using w [of id] w [of "\<lambda>_. 0"] d by (simp add: demo_evp_def [of id] demo_evp_def [of "\<lambda>_. 0"])
qed

section \<open>Random numbers and signatures\<close>

text \<open>Without randomness the secrets are zeros; a key that is not readable gives no signature and verifies nothing.\<close>

lemma evp_random_fails: "ev_rand lib n = None \<Longrightarrow> snd (evp_random lib n) = replicate n 0"
  by (simp add: evp_random_def)

lemma evp_sign_defined:
  "evp_sign lib msg k \<noteq> None \<longleftrightarrow> k \<noteq> [] \<and> ev_readable lib True k \<and> (\<exists>d. ev_sign lib k msg = Some d \<and> length d \<le> 256)"
  by (auto simp: evp_sign_def create_key_def digest_capacity_def split: option.splits)

lemma evp_verify_iff: "snd (evp_verify lib msg sig k) \<longleftrightarrow> k \<noteq> [] \<and> ev_readable lib False k \<and> ev_verify lib k msg sig"
  by (auto simp: evp_verify_def create_key_def)

end
