(* ===== verification/X509.thy ===== *)
theory X509
  imports AppState_Props
begin

text \<open>
  Keys and certificates (\<open>crypto/src/x509.cpp\<close>) over the calls of OpenSSL: how an identity is generated, and what the
  functions that read and print PEM text return, null pointers included. \<open>AppState\<close> uses their results only, as the
  record \<open>x509_lib\<close>; \<open>x509_of\<close> builds that record from the functions here.
\<close>

section \<open>The library\<close>

text \<open>A certificate before it is signed. Times are in seconds since the epoch; \<open>None\<close> is an unset key.\<close>

record 'k tbs_certificate =
  tb_serial :: int
  tb_version :: int
  tb_not_before :: int
  tb_not_after :: int
  tb_pubkey :: "'k option"
  tb_subject :: "(string \<times> string) list"
  tb_issuer :: "(string \<times> string) list"

record 'k x509_cert =
  xc_tbs :: "'k tbs_certificate"
  xc_signature :: bytes

text \<open>
  The calls, with \<open>False\<close> or \<open>None\<close> for a failure. A key stands for its pair. Printing gets a possibly null pointer, as the
  code hands it on unchecked; \<open>xs_write_key\<close> prints the private or the public part.
\<close>

record 'k x509_calls =
  xs_pkey_new :: bool
  xs_ctx_new :: bool
  xs_keygen_init :: bool
  xs_keygen_bits :: "nat \<Rightarrow> bool"
  xs_keygen :: "nat \<Rightarrow> 'k option"
  xs_x509_new :: bool
  xs_sign :: "'k tbs_certificate \<Rightarrow> 'k \<Rightarrow> bytes option"
  xs_read_cert :: "string \<Rightarrow> 'k x509_cert option"
  xs_write_cert :: "'k x509_cert option \<Rightarrow> string"
  xs_read_key :: "string \<Rightarrow> 'k option"
  xs_write_key :: "bool \<Rightarrow> 'k option \<Rightarrow> string"

section \<open>Generation\<close>

definition generate_key :: "'k x509_calls \<Rightarrow> string + 'k" where
  "generate_key c =
     (if \<not> xs_pkey_new c then Inl ''Unable to create EVP_PKEY structure.''
      else if \<not> xs_ctx_new c then Inl ''Unable to generate 2048-bit RSA key.''
      else if \<not> xs_keygen_init c then Inl ''Unable to generate 2048-bit RSA key.''
      else if \<not> xs_keygen_bits c 2048 then Inl ''Unable to generate 2048-bit RSA key.''
      else case xs_keygen c 2048 of
        None \<Rightarrow> Inl ''Unable to generate 2048-bit RSA key.''
      | Some pkey \<Rightarrow> Inr pkey)"

definition empty_tbs :: "'k tbs_certificate" where
  "empty_tbs = \<lparr>tb_serial = 0, tb_version = 0, tb_not_before = 0, tb_not_after = 0, tb_pubkey = None,
     tb_subject = [], tb_issuer = []\<rparr>"

definition X509_NAME_add_entry :: "string \<Rightarrow> string \<Rightarrow> (string \<times> string) list \<Rightarrow> (string \<times> string) list" where
  "X509_NAME_add_entry field bytes name = name @ [(field, bytes)]"

definition valid_years :: int where "valid_years = 630720000"

definition generate_x509 :: "'k x509_calls \<Rightarrow> int \<Rightarrow> 'k \<Rightarrow> string + 'k x509_cert" where
  "generate_x509 c now pkey =
     (if \<not> xs_x509_new c then Inl ''Unable to create X509 structure.''
      else
        let x509 = empty_tbs\<lparr>tb_serial := 1, tb_version := 2\<rparr>;
            x509 = x509\<lparr>tb_not_before := now + 0\<rparr>;
            x509 = x509\<lparr>tb_not_after := now + valid_years\<rparr>;
            x509 = x509\<lparr>tb_pubkey := Some pkey\<rparr>;
            name = X509_NAME_add_entry ''C'' ''IT'' (tb_subject x509);
            name = X509_NAME_add_entry ''O'' ''GamesOnWhales'' name;
            name = X509_NAME_add_entry ''CN'' ''localhost'' name;
            x509 = x509\<lparr>tb_subject := name, tb_issuer := name\<rparr> in
        (case xs_sign c x509 pkey of
           None \<Rightarrow> Inl ''Error signing certificate.''
         | Some sig \<Rightarrow> Inr \<lparr>xc_tbs = x509, xc_signature = sig\<rparr>))"

section \<open>Reading and printing\<close>

text \<open>\<open>BIO_puts\<close> takes the bytes before the first zero.\<close>

definition cert_from_string :: "'k x509_calls \<Rightarrow> string \<Rightarrow> 'k x509_cert option" where
  "cert_from_string c cert = xs_read_cert c (takeWhile (\<lambda>b. b \<noteq> CHR 0x00) cert)"

definition cert_from_file :: "'k x509_calls \<Rightarrow> string \<Rightarrow> disk \<Rightarrow> string + 'k x509_cert option" where
  "cert_from_file c cert_path d = (case mfind d cert_path of
     None \<Rightarrow> Inl ''Error reading certificate'' | Some content \<Rightarrow> Inr (xs_read_cert c content))"

definition pkey_from_file :: "'k x509_calls \<Rightarrow> string \<Rightarrow> disk \<Rightarrow> string + 'k option" where
  "pkey_from_file c pkey_path d = (case mfind d pkey_path of
     None \<Rightarrow> Inl ''Error reading private key'' | Some content \<Rightarrow> Inr (xs_read_key c content))"

text \<open>The signature of a null pointer is undefined (\<open>None\<close>).\<close>

definition get_cert_signature :: "'k x509_cert option \<Rightarrow> bytes option" where
  "get_cert_signature cert = map_option xc_signature cert"

definition get_cert_pem :: "'k x509_calls \<Rightarrow> 'k x509_cert option \<Rightarrow> string" where
  "get_cert_pem c cert = xs_write_cert c cert"

definition get_key_content :: "'k x509_calls \<Rightarrow> 'k option \<Rightarrow> bool \<Rightarrow> string" where
  "get_key_content c pkey private_key =
     (let bio = (if private_key then xs_write_key c True pkey else xs_write_key c False pkey);
          keylen = length bio in take keylen bio)"

definition get_pkey_content :: "'k x509_calls \<Rightarrow> 'k option \<Rightarrow> string" where
  "get_pkey_content c pkey = get_key_content c pkey True"

definition get_cert_public_key :: "'k x509_calls \<Rightarrow> 'k x509_cert option \<Rightarrow> string" where
  "get_cert_public_key c cert =
     (case Option.bind cert (tb_pubkey \<circ> xc_tbs) of None \<Rightarrow> [] | Some pkey \<Rightarrow> get_key_content c (Some pkey) False)"

section \<open>What the state of the server gets\<close>

definition seen :: "'k x509_calls \<Rightarrow> 'k x509_cert \<Rightarrow> certificate" where
  "seen c cert = \<lparr>x_pem = get_cert_pem c (Some cert), x_signature = xc_signature cert, x_public_key = get_cert_public_key c (Some cert)\<rparr>"

text \<open>A text in memory and the content of a file are parsed alike as long as no byte is zero, and PEM text has none.\<close>

definition x509_of :: "'k x509_calls \<Rightarrow> (certificate option \<Rightarrow> certificate \<Rightarrow> nat list) \<Rightarrow> x509_lib" where
  "x509_of c chain = \<lparr>xl_cert = (\<lambda>t. map_option (seen c) (cert_from_string c t)),
     xl_key = (\<lambda>t. map_option (\<lambda>k. get_pkey_content c (Some k)) (xs_read_key c t)), xl_chain = chain\<rparr>"

text \<open>The identity \<open>init\<close> generates when it has none, and the texts it writes.\<close>

definition generate_identity :: "'k x509_calls \<Rightarrow> int \<Rightarrow> string + 'k \<times> 'k x509_cert" where
  "generate_identity c now = (case generate_key c of
     Inl e \<Rightarrow> Inl e
   | Inr pkey \<Rightarrow> (case generate_x509 c now pkey of Inl e \<Rightarrow> Inl e | Inr cert \<Rightarrow> Inr (pkey, cert)))"

definition with_identity :: "'k x509_calls \<Rightarrow> 'k \<Rightarrow> 'k x509_cert \<Rightarrow> state_os \<Rightarrow> state_os" where
  "with_identity c pkey cert os = os\<lparr>so_new_key := get_pkey_content c (Some pkey), so_new_cert := get_cert_pem c (Some cert)\<rparr>"

text \<open>Documented behaviour: the key and the certificate that are printed are read back, and the text has no zero bytes.\<close>

definition pem_law :: "'k x509_calls \<Rightarrow> 'k \<Rightarrow> 'k x509_cert \<Rightarrow> bool" where
  "pem_law c pkey cert \<longleftrightarrow> xs_read_cert c (xs_write_cert c (Some cert)) = Some cert \<and>
     CHR 0x00 \<notin> set (xs_write_cert c (Some cert)) \<and> xs_read_key c (xs_write_key c True (Some pkey)) = Some pkey"

section \<open>Properties\<close>

lemma generated_identity:
  assumes "generate_identity c now = Inr (pkey, cert)"
  shows "tb_issuer (xc_tbs cert) = tb_subject (xc_tbs cert)" "tb_pubkey (xc_tbs cert) = Some pkey"
    "tb_not_before (xc_tbs cert) = now" "tb_not_after (xc_tbs cert) = now + 20 * 365 * 24 * 60 * 60"
    "xs_sign c (xc_tbs cert) pkey = Some (xc_signature cert)"
  using assms
  by (auto simp: generate_identity_def generate_key_def generate_x509_def valid_years_def Let_def
      split: sum.splits option.splits if_splits)

lemma public_key_of_generated:
  assumes "generate_identity c now = Inr (pkey, cert)"
  shows "x_public_key (seen c cert) = xs_write_key c False (Some pkey)"
  using generated_identity(2) [OF assms] by (simp add: seen_def get_cert_public_key_def get_key_content_def)

lemma takeWhile_no_zero: "CHR 0x00 \<notin> set s \<Longrightarrow> takeWhile (\<lambda>b. b \<noteq> CHR 0x00) s = s"
  by (auto simp: takeWhile_eq_all_conv)

lemma pem_reads_back:
  assumes "pem_law c pkey cert"
  shows "xl_cert (x509_of c chain) (get_cert_pem c (Some cert)) = Some (seen c cert)"
    "xl_key (x509_of c chain) (get_pkey_content c (Some pkey)) = Some (get_pkey_content c (Some pkey))"
proof -
  have "xs_read_cert c (xs_write_cert c (Some cert)) = Some cert" "CHR 0x00 \<notin> set (xs_write_cert c (Some cert))"
    "xs_read_key c (xs_write_key c True (Some pkey)) = Some pkey"
    using assms by (simp_all add: pem_law_def)
  then show "xl_cert (x509_of c chain) (get_cert_pem c (Some cert)) = Some (seen c cert)"
    "xl_key (x509_of c chain) (get_pkey_content c (Some pkey)) = Some (get_pkey_content c (Some pkey))"
    by (simp_all add: x509_of_def cert_from_string_def get_cert_pem_def get_pkey_content_def get_key_content_def takeWhile_no_zero)
qed

text \<open>
  The first start makes a complete identity: with room for both files the server presents the certificate it has
  generated, self-issued, valid for twenty years of 365 days from now, over the public part of the private key the
  pairing signs with, and this private key is the one generated.
\<close>

theorem first_start_identity:
  assumes "pem_law c pkey cert" "generate_identity c now = Inr (pkey, cert)"
    and "\<not> file_ok (dir @ ''/key.pem'') d" "\<not> file_ok (dir @ ''/cert.pem'') d"
    and "length (get_pkey_content c (Some pkey)) \<le> so_room os ((dir @ ''/key.pem'') @ ''.tmp'')"
    and "length (get_cert_pem c (Some cert)) \<le> so_room os ((dir @ ''/cert.pem'') @ ''.tmp'')"
    and "init (with_identity c pkey cert os) (x509_of c chain) dir d = (Inr s, ds)"
  shows "as_cert s = Some (seen c cert) \<and> as_pkey s = Some (xs_write_key c True (Some pkey)) \<and>
    x_public_key (seen c cert) = xs_write_key c False (Some pkey) \<and>
    tb_issuer (xc_tbs cert) = tb_subject (xc_tbs cert) \<and>
    tb_not_after (xc_tbs cert) - tb_not_before (xc_tbs cert) = 20 * 365 * 24 * 60 * 60"
proof -
  let ?os = "with_identity c pkey cert os" and ?K = "dir @ ''/key.pem''" and ?C = "dir @ ''/cert.pem''"
  obtain ds1 ds2 key ct uuid where s: "ensure_identity ?os ?K ?C d = (None, ds1)"
    "mfind (last ds1) ?K = Some key" "mfind (last ds1) ?C = Some ct"
    "as_cert s = xl_cert (x509_of c chain) ct" "as_pkey s = xl_key (x509_of c chain) key"
    by (rule init_Inr [OF assms(7)])
  have "write_to_disk ?os (so_new_key ?os) ?K (so_new_cert ?os) ?C d = (None, ds1)"
    using s(1) assms(3,4) by (simp add: ensure_identity_def Let_def)
  from write_to_disk_done [OF this] s(2,3) assms(5,6)
  have "key = get_pkey_content c (Some pkey)" "ct = get_cert_pem c (Some cert)"
    by (simp_all add: with_identity_def)
  then show ?thesis
    using s(4,5) pem_reads_back [OF assms(1)] generated_identity [OF assms(2)] public_key_of_generated [OF assms(2)]
    by (simp add: get_pkey_content_def get_key_content_def)
qed

text \<open>A first start in an empty directory, with a library that has one key and one certificate.\<close>

definition demo_identity_cert :: "unit x509_cert" where
  "demo_identity_cert = \<lparr>xc_tbs = \<lparr>tb_serial = 1, tb_version = 2, tb_not_before = 0, tb_not_after = valid_years, tb_pubkey = Some (),
       tb_subject = [(''C'', ''IT''), (''O'', ''GamesOnWhales''), (''CN'', ''localhost'')],
       tb_issuer = [(''C'', ''IT''), (''O'', ''GamesOnWhales''), (''CN'', ''localhost'')]\<rparr>, xc_signature = [1, 2]\<rparr>"

definition demo_x509_calls :: "unit x509_calls" where
  "demo_x509_calls = \<lparr>xs_pkey_new = True, xs_ctx_new = True, xs_keygen_init = True, xs_keygen_bits = (\<lambda>n. n = 2048),
     xs_keygen = (\<lambda>_. Some ()), xs_x509_new = True, xs_sign = (\<lambda>_ _. Some [1, 2]),
     xs_read_cert = (\<lambda>t. if t = ''CERT'' then Some demo_identity_cert else None), xs_write_cert = (\<lambda>x. ''CERT''),
     xs_read_key = (\<lambda>t. if t = ''KEY'' then Some () else None),
     xs_write_key = (\<lambda>private k. if private then ''KEY'' else ''PUBLIC'')\<rparr>"

theorem first_start_identity_witness:
  "case init (with_identity demo_x509_calls () demo_identity_cert demo_state_os) (x509_of demo_x509_calls (\<lambda>_ _. [])) ''s'' [] of
     (Inl _, _) \<Rightarrow> False
   | (Inr s, _) \<Rightarrow> as_cert s = Some (seen demo_x509_calls demo_identity_cert) \<and> as_pkey s = Some ''KEY''"
proof -
  let ?os = "with_identity demo_x509_calls () demo_identity_cert demo_state_os" and ?x = "x509_of demo_x509_calls (\<lambda>_ _. [])"
  have g: "generate_identity demo_x509_calls 0 = Inr ((), demo_identity_cert)"
    by (simp add: generate_identity_def generate_key_def generate_x509_def demo_x509_calls_def demo_identity_cert_def empty_tbs_def
        X509_NAME_add_entry_def Let_def)
  have p: "pem_law demo_x509_calls () demo_identity_cert" by (simp add: pem_law_def demo_x509_calls_def)
  have n: "\<not> file_ok (''s'' @ ''/key.pem'') []" "\<not> file_ok (''s'' @ ''/cert.pem'') []" by code_simp+
  have room: "length (get_pkey_content demo_x509_calls (Some ())) \<le> so_room demo_state_os ((''s'' @ ''/key.pem'') @ ''.tmp'')"
    "length (get_cert_pem demo_x509_calls (Some demo_identity_cert)) \<le> so_room demo_state_os ((''s'' @ ''/cert.pem'') @ ''.tmp'')"
    by (simp_all add: get_pkey_content_def get_key_content_def get_cert_pem_def demo_x509_calls_def demo_state_os_def)
  have os: "so_open ?os = (\<lambda>_. True)" "so_rename ?os = (\<lambda>_. True)" "so_writer_ok ?os = (\<lambda>_. True)" "so_mkdir ?os = (\<lambda>_. True)"
    by (simp_all add: with_identity_def demo_state_os_def)
  obtain ds1 where w: "write_to_disk ?os (so_new_key ?os) ''s/key.pem'' (so_new_cert ?os) ''s/cert.pem'' [] = (None, ds1)"
    by (simp add: write_to_disk_def write_pem_def install_def os Let_def)
  then have e: "ensure_identity ?os ''s/key.pem'' ''s/cert.pem'' [] = (None, ds1)"
    using n by (simp add: ensure_identity_def Let_def)
  have "\<exists>k c. mfind (last ds1) ''s/key.pem'' = Some k \<and> mfind (last ds1) ''s/cert.pem'' = Some c"
    using write_to_disk_done [OF w] by simp
  moreover obtain u ds2 where "ensure_uuid ?os ''s/uuid'' (last ds1) = (u, ds2)" by force
  ultimately obtain s ds where i: "init ?os ?x ''s'' [] = (Inr s, ds)"
    using e by (auto simp: init_def os Let_def)
  have "xs_write_key demo_x509_calls True (Some ()) = ''KEY''" by (simp add: demo_x509_calls_def)
  with first_start_identity [OF p g n room i] show ?thesis by (simp add: i)
qed

end
