(* ===== verification/TlsServer.thy ===== *)
theory TlsServer
  imports Https
begin

text \<open>
  The TLS side of the HTTPS server (\<open>server/https_server.cpp\<close>): the context, the acceptor and the handshake, up to the
  point where a connection reads requests. Asio and SimpleWeb complete one operation at a time.
\<close>

section \<open>The context\<close>

text \<open>\<open>verify_none\<close> is the mode without any flag.\<close>

record verify_mode =
  vm_peer :: bool
  vm_fail_if_no_peer_cert :: bool
  vm_client_once :: bool

record tls_context =
  tc_chain_file :: string
  tc_key_file :: string
  tc_mode :: verify_mode
  tc_verify :: "bool \<Rightarrow> bool"

definition new_tls_server :: "string \<Rightarrow> string \<Rightarrow> tls_context" where
  "new_tls_server certification_file private_key_file =
     \<lparr>tc_chain_file = certification_file, tc_key_file = private_key_file,
      tc_mode = \<lparr>vm_peer = True, vm_fail_if_no_peer_cert = True, vm_client_once = True\<rparr>,
      tc_verify = (\<lambda>verified. True)\<rparr>"

text \<open>
  What a handshake does with the certificate the client shows, as the library documents it: without the flag for the
  peer it asks for none; a missing one fails only with the second flag; one that is shown goes to the callback with the
  library's own verdict.
\<close>

definition handshake_accepts :: "tls_context \<Rightarrow> certificate option \<Rightarrow> bool \<Rightarrow> bool" where
  "handshake_accepts ctx cert verified =
     (if \<not> vm_peer (tc_mode ctx) then True
      else case cert of None \<Rightarrow> \<not> vm_fail_if_no_peer_cert (tc_mode ctx) | Some _ \<Rightarrow> tc_verify ctx verified)"

definition SSL_MAX_SSL_SESSION_ID_LENGTH :: nat where "SSL_MAX_SSL_SESSION_ID_LENGTH = 32"

text \<open>\<open>after_bind\<close>: the context of session identifiers, with the address from its last character to its first.\<close>

definition after_bind :: "bool \<Rightarrow> nat \<Rightarrow> string \<Rightarrow> string option" where
  "after_bind set_session_id_context port address =
     (if set_session_id_context then
        let session_id_context = (to_string port @ '':'') @ rev address in
        Some (take (min (length session_id_context) SSL_MAX_SSL_SESSION_ID_LENGTH) session_id_context)
      else None)"

section \<open>The acceptor\<close>

datatype tls_session =
    ts_handshaking
  | ts_reading "certificate option"
  | ts_failed

text \<open>The acceptor waits or not, the sessions in the order they were made, and how often \<open>on_error\<close> was called.\<close>

record tls_server =
  tl_context :: tls_context
  tl_accepting :: bool
  tl_running :: bool
  tl_sessions :: "tls_session list"
  tl_errors :: nat

datatype accept_result = ac_ok | ac_aborted | ac_error

text \<open>
  Completions: an accept, a handshake with the client's certificate, the library's verdict on it and whether the
  protocol went well otherwise, its timeout, and the stop of the handlers, after which \<open>continue_lock\<close> gives nothing.
\<close>

datatype tls_event =
    tl_accepted accept_result
  | tl_handshake nat "certificate option" bool bool
  | tl_timeout nat
  | tl_stop

definition tls_start :: "tls_context \<Rightarrow> tls_server" where
  "tls_start ctx = \<lparr>tl_context = ctx, tl_accepting = True, tl_running = True, tl_sessions = [], tl_errors = 0\<rparr>"

definition finish_handshake :: "nat \<Rightarrow> tls_session \<Rightarrow> tls_server \<Rightarrow> tls_server" where
  "finish_handshake i res s = s\<lparr>tl_sessions := (tl_sessions s)[i := res],
     tl_errors := tl_errors s + (if res = ts_failed then 1 else 0)\<rparr>"

fun tls_step :: "tls_event \<Rightarrow> tls_server \<Rightarrow> tls_server" where
  "tls_step (tl_accepted ec) s =
     (if \<not> tl_accepting s then s
      else let s = s\<lparr>tl_accepting := False\<rparr> in
        if \<not> tl_running s then s
        else
          let s = (if ec \<noteq> ac_aborted then s\<lparr>tl_accepting := True\<rparr> else s) in
          if ec = ac_ok then s\<lparr>tl_sessions := tl_sessions s @ [ts_handshaking]\<rparr>
          else s\<lparr>tl_sessions := tl_sessions s @ [ts_failed], tl_errors := tl_errors s + 1\<rparr>)"
| "tls_step (tl_handshake i cert verified ok) s =
     (if tl_running s \<and> i < length (tl_sessions s) \<and> tl_sessions s ! i = ts_handshaking then
        finish_handshake i (if ok \<and> handshake_accepts (tl_context s) cert verified then ts_reading cert else ts_failed) s
      else s)"
| "tls_step (tl_timeout i) s =
     (if tl_running s \<and> i < length (tl_sessions s) \<and> tl_sessions s ! i = ts_handshaking then finish_handshake i ts_failed s else s)"
| "tls_step tl_stop s = s\<lparr>tl_running := False\<rparr>"

definition tls_run :: "tls_context \<Rightarrow> tls_event list \<Rightarrow> tls_server" where
  "tls_run ctx evs = fold tls_step evs (tls_start ctx)"

text \<open>\<open>get_client_cert\<close>: what the resources see of a request on a connection.\<close>

definition get_client_cert :: "tls_session \<Rightarrow> certificate option" where
  "get_client_cert t = (case t of ts_reading cert \<Rightarrow> cert | _ \<Rightarrow> None)"

section \<open>Properties\<close>

definition tls_inv :: "tls_server \<Rightarrow> bool" where
  "tls_inv s \<longleftrightarrow> (\<forall>cert. ts_reading cert \<in> set (tl_sessions s) \<longrightarrow> cert \<noteq> None)"

lemma tls_step_context [simp]: "tl_context (tls_step ev s) = tl_context s"
  by (cases ev) (auto simp: Let_def finish_handshake_def)

lemma finish_handshake_inv:
  "tls_inv s \<Longrightarrow> res \<noteq> ts_reading None \<Longrightarrow> tls_inv (finish_handshake i res s)"
  by (auto simp: tls_inv_def finish_handshake_def dest!: set_update_subset_insert [THEN subsetD])

lemma accepts_cert: "tl_context s = new_tls_server cf kf \<Longrightarrow> handshake_accepts (tl_context s) cert v = (cert \<noteq> None)"
  by (simp add: handshake_accepts_def new_tls_server_def split: option.splits)

lemma tls_step_inv:
  assumes "tl_context s = new_tls_server cf kf" "tls_inv s"
  shows "tls_inv (tls_step ev s)"
proof (cases ev)
  case (tl_accepted ec)
  with assms(2) show ?thesis by (auto simp: tls_inv_def Let_def)
next
  case (tl_handshake i cert v ok)
  then show ?thesis using assms accepts_cert [OF assms(1), of cert v] by (auto intro!: finish_handshake_inv)
next
  case (tl_timeout i)
  then show ?thesis using assms by (auto intro!: finish_handshake_inv)
next
  case tl_stop
  with assms(2) show ?thesis by (simp add: tls_inv_def)
qed

lemma tls_run_inv:
  "tl_context (tls_run (new_tls_server cf kf) evs) = new_tls_server cf kf \<and> tls_inv (tls_run (new_tls_server cf kf) evs)"
proof (induction evs rule: rev_induct)
  case Nil
  show ?case by (simp add: tls_run_def tls_start_def tls_inv_def)
next
  case (snoc ev evs)
  then show ?case using tls_step_inv [of "tls_run (new_tls_server cf kf) evs" cf kf ev] by (simp add: tls_run_def)
qed

text \<open>Errors never stop the server from accepting; only an abort or the stop of the handlers does.\<close>

lemma tls_accepting:
  assumes "tl_accepted ac_aborted \<notin> set evs" "tl_stop \<notin> set evs"
  shows "tl_accepting (tls_run ctx evs) \<and> tl_running (tls_run ctx evs)"
  using assms
proof (induction evs rule: rev_induct)
  case (snoc ev evs)
  then show ?case by (cases ev) (auto simp: tls_run_def Let_def finish_handshake_def)
qed (simp add: tls_run_def tls_start_def)

text \<open>
  TLS decides nothing about who a client is, and the resources decide everything: in every run a connection that
  reads requests has shown a certificate, whichever it was and whatever the library thought of it, and a request on it
  is let in only if this certificate passes against a paired client's; a request without a session that finished its
  handshake has no certificate, and is refused.
\<close>

theorem tls_admits_any_certificate:
  assumes "t \<in> set (tl_sessions (tls_run (new_tls_server cf kf) evs))" "rq_cert rq = get_client_cert t"
    "client_if_paired env rq st \<noteq> None"
  shows "\<exists>c. t = ts_reading (Some c) \<and>
    (\<exists>pem\<in>set (as_paired_clients (ht_app st)). verification_error (pv_x509 env) (xl_cert (pv_x509 env) pem) c = None)"
proof -
  obtain c where c: "rq_cert rq = Some c"
    "find (\<lambda>pem. verification_error (pv_x509 env) (xl_cert (pv_x509 env) pem) c = None) (as_paired_clients (ht_app st)) \<noteq> None"
    using assms(3) by (auto simp: client_if_paired_def get_client_via_ssl_def split: option.splits)
  then have "t = ts_reading (Some c)" using assms(2) by (auto simp: get_client_cert_def split: tls_session.splits)
  then show ?thesis using c(2) by (auto simp: find_None_iff)
qed

end
