(* ===== verification/ControlLayout.thy ===== *)
theory ControlLayout
  imports Control
begin

text \<open>
  The structures of the control protocol (\<open>moonlight/control.hpp\<close>) and the server's own copies of those it handles
  (\<open>server/control_packets.hpp\<close>): where each field lies in memory. The copies agree with the protocol, and every read of
  \<open>handle_input\<close> is shown to be the named field of the protocol's structure.
\<close>

section \<open>Structures\<close>

datatype ctype = c_i8 | c_n8 | c_i16 | c_n16 | c_i32 | c_n32 | c_netfloat | c_bytes nat

text \<open>\<open>netfloat\<close> is an array of four bytes.\<close>

fun sizeof :: "ctype \<Rightarrow> nat" where
  "sizeof c_i8 = 1"
| "sizeof c_n8 = 1"
| "sizeof c_i16 = 2"
| "sizeof c_n16 = 2"
| "sizeof c_i32 = 4"
| "sizeof c_n32 = 4"
| "sizeof c_netfloat = 4"
| "sizeof (c_bytes n) = n"

fun alignof :: "ctype \<Rightarrow> nat" where
  "alignof c_netfloat = 1"
| "alignof (c_bytes n) = 1"
| "alignof c = sizeof c"

type_synonym cstruct = "(string \<times> ctype) list"

text \<open>The bytes skipped before a field at \<open>off\<close>: none under \<open>#pragma pack(push, 1)\<close>.\<close>

definition padding :: "bool \<Rightarrow> nat \<Rightarrow> ctype \<Rightarrow> nat" where
  "padding pack off t = (if pack then 0 else (alignof t - off mod alignof t) mod alignof t)"

fun place :: "bool \<Rightarrow> nat \<Rightarrow> cstruct \<Rightarrow> (string \<times> nat \<times> ctype) list" where
  "place pack off [] = []"
| "place pack off ((f, t) # s) = (let o' = off + padding pack off t in (f, o', t) # place pack (o' + sizeof t) s)"

definition struct_size :: "bool \<Rightarrow> cstruct \<Rightarrow> nat" where
  "struct_size pack s =
     (let e = (case last (place pack 0 s) of (_, o', t) \<Rightarrow> o' + sizeof t);
          a = (if pack then 1 else fold max (map (alignof \<circ> snd) s) 1) in
      e + (a - e mod a) mod a)"

definition get_field :: "bool \<Rightarrow> cstruct \<Rightarrow> string \<Rightarrow> bytes \<Rightarrow> bytes option" where
  "get_field pack s f b = (case map_of (place pack 0 s) f of None \<Rightarrow> None
     | Some (o', t) \<Rightarrow> if length b < o' + sizeof t then None else Some (bslice b o' (sizeof t)))"

fun put_struct :: "bool \<Rightarrow> nat \<Rightarrow> cstruct \<Rightarrow> (string \<Rightarrow> bytes) \<Rightarrow> bytes" where
  "put_struct pack off [] env = []"
| "put_struct pack off ((f, t) # s) env =
     replicate (padding pack off t) 0 @ env f @ put_struct pack (off + padding pack off t + sizeof t) s env"

section \<open>\<open>moonlight/control.hpp\<close>: input\<close>

definition protocol_input_codes :: "(string \<times> u32) list" where
  "protocol_input_codes =
     [(''MOUSE_MOVE_REL'', 0x00000007), (''MOUSE_MOVE_ABS'', 0x00000005), (''MOUSE_BUTTON_PRESS'', 0x00000008),
      (''MOUSE_BUTTON_RELEASE'', 0x00000009), (''KEY_PRESS'', 0x00000003), (''KEY_RELEASE'', 0x00000004),
      (''MOUSE_SCROLL'', 0x0000000A), (''MOUSE_HSCROLL'', 0x55000001), (''TOUCH'', 0x55000002), (''PEN'', 0x55000003),
      (''CONTROLLER_MULTI'', 0x0000000C), (''CONTROLLER_ARRIVAL'', 0x55000004), (''CONTROLLER_TOUCH'', 0x55000005),
      (''CONTROLLER_MOTION'', 0x55000006), (''CONTROLLER_BATTERY'', 0x55000007), (''HAPTICS'', 0x0000000D),
      (''UTF8_TEXT'', 0x00000017)]"

definition UTF8_TEXT_MAX_LEN :: nat where "UTF8_TEXT_MAX_LEN = 32"

definition INPUT_PKT_fields :: cstruct where
  "INPUT_PKT_fields =
     [(''packet_type'', c_n16), (''packet_len'', c_n16), (''data_size'', c_n32), (''type'', c_i32)]"

definition MOUSE_MOVE_REL_PACKET :: cstruct where
  "MOUSE_MOVE_REL_PACKET = INPUT_PKT_fields @
     [(''delta_x'', c_i16), (''delta_y'', c_i16)]"

definition MOUSE_MOVE_ABS_PACKET :: cstruct where
  "MOUSE_MOVE_ABS_PACKET = INPUT_PKT_fields @
     [(''x'', c_i16), (''y'', c_i16), (''unused'', c_i16), (''width'', c_i16), (''height'', c_i16)]"

definition MOUSE_BUTTON_PACKET :: cstruct where
  "MOUSE_BUTTON_PACKET = INPUT_PKT_fields @
     [(''button'', c_n8)]"

definition MOUSE_SCROLL_PACKET :: cstruct where
  "MOUSE_SCROLL_PACKET = INPUT_PKT_fields @
     [(''scroll_amt1'', c_i16), (''scroll_amt2'', c_i16), (''zero1'', c_i16)]"

definition MOUSE_HSCROLL_PACKET :: cstruct where
  "MOUSE_HSCROLL_PACKET = INPUT_PKT_fields @
     [(''scroll_amount'', c_i16)]"

definition KEYBOARD_PACKET :: cstruct where
  "KEYBOARD_PACKET = INPUT_PKT_fields @
     [(''flags'', c_n8), (''key_code'', c_i16), (''modifiers'', c_i8), (''zero1'', c_i16)]"

definition UTF8_TEXT_PACKET :: cstruct where
  "UTF8_TEXT_PACKET = INPUT_PKT_fields @
     [(''text'', c_bytes UTF8_TEXT_MAX_LEN)]"

definition CONTROLLER_MULTI_PACKET :: cstruct where
  "CONTROLLER_MULTI_PACKET = INPUT_PKT_fields @
     [(''header_b'', c_i16), (''controller_number'', c_i16), (''active_gamepad_mask'', c_i16), (''mid_b'', c_i16),
      (''button_flags'', c_i16), (''left_trigger'', c_n8), (''right_trigger'', c_n8), (''left_stick_x'', c_i16),
      (''left_stick_y'', c_i16), (''right_stick_x'', c_i16), (''right_stick_y'', c_i16), (''tail_a'', c_i16),
      (''buttonFlags2'', c_i16), (''tailB'', c_i16)]"

definition HAPTICS_PACKET :: cstruct where
  "HAPTICS_PACKET = INPUT_PKT_fields @
     [(''enable'', c_n16)]"

definition TOUCH_PACKET :: cstruct where
  "TOUCH_PACKET = INPUT_PKT_fields @
     [(''event_type'', c_n8), (''zero'', c_bytes 1), (''rotation'', c_n16), (''pointer_id'', c_n32),
      (''x'', c_netfloat), (''y'', c_netfloat), (''pressure_or_distance'', c_netfloat),
      (''contact_area_major'', c_netfloat), (''contact_area_minor'', c_netfloat)]"

definition PEN_PACKET :: cstruct where
  "PEN_PACKET = INPUT_PKT_fields @
     [(''event_type'', c_n8), (''tool_type'', c_n8), (''pen_buttons'', c_n8), (''zero'', c_bytes 1),
      (''x'', c_netfloat), (''y'', c_netfloat), (''pressure_or_distance'', c_netfloat), (''rotation'', c_n16),
      (''tilt'', c_n8), (''zero2'', c_bytes 1), (''contact_area_major'', c_netfloat),
      (''contact_area_minor'', c_netfloat)]"

definition CONTROLLER_ARRIVAL_PACKET :: cstruct where
  "CONTROLLER_ARRIVAL_PACKET = INPUT_PKT_fields @
     [(''controller_number'', c_n8), (''controller_type'', c_n8), (''capabilities'', c_n8),
      (''support_button_flags'', c_n32)]"

definition CONTROLLER_TOUCH_PACKET :: cstruct where
  "CONTROLLER_TOUCH_PACKET = INPUT_PKT_fields @
     [(''controller_number'', c_n8), (''event_type'', c_n8), (''zero'', c_bytes 2), (''pointer_id'', c_n32),
      (''x'', c_netfloat), (''y'', c_netfloat), (''pressure'', c_netfloat)]"

definition CONTROLLER_MOTION_PACKET :: cstruct where
  "CONTROLLER_MOTION_PACKET = INPUT_PKT_fields @
     [(''controller_number'', c_n8), (''motion_type'', c_n8), (''zero'', c_bytes 2), (''x'', c_netfloat),
      (''y'', c_netfloat), (''z'', c_netfloat)]"

definition CONTROLLER_BATTERY_PACKET :: cstruct where
  "CONTROLLER_BATTERY_PACKET = INPUT_PKT_fields @
     [(''controller_number'', c_n8), (''battery_state'', c_n16), (''battery_percentage'', c_n8),
      (''zero'', c_bytes 1)]"

definition protocol_packets :: "(string \<times> cstruct) list" where
  "protocol_packets =
    [(''MOUSE_MOVE_REL_PACKET'', MOUSE_MOVE_REL_PACKET),
     (''MOUSE_MOVE_ABS_PACKET'', MOUSE_MOVE_ABS_PACKET),
     (''MOUSE_BUTTON_PACKET'', MOUSE_BUTTON_PACKET),
     (''MOUSE_SCROLL_PACKET'', MOUSE_SCROLL_PACKET),
     (''MOUSE_HSCROLL_PACKET'', MOUSE_HSCROLL_PACKET),
     (''KEYBOARD_PACKET'', KEYBOARD_PACKET),
     (''UTF8_TEXT_PACKET'', UTF8_TEXT_PACKET),
     (''CONTROLLER_MULTI_PACKET'', CONTROLLER_MULTI_PACKET),
     (''HAPTICS_PACKET'', HAPTICS_PACKET),
     (''TOUCH_PACKET'', TOUCH_PACKET),
     (''PEN_PACKET'', PEN_PACKET),
     (''CONTROLLER_ARRIVAL_PACKET'', CONTROLLER_ARRIVAL_PACKET),
     (''CONTROLLER_TOUCH_PACKET'', CONTROLLER_TOUCH_PACKET),
     (''CONTROLLER_MOTION_PACKET'', CONTROLLER_MOTION_PACKET),
     (''CONTROLLER_BATTERY_PACKET'', CONTROLLER_BATTERY_PACKET)]"

definition CONTROLLER_BTN :: "(string \<times> u32) list" where
  "CONTROLLER_BTN =
     [(''DPAD_UP'', 0x0001), (''DPAD_DOWN'', 0x0002), (''DPAD_LEFT'', 0x0004), (''DPAD_RIGHT'', 0x0008),
      (''START'', 0x0010), (''BACK'', 0x0020), (''HOME'', 0x0400), (''LEFT_STICK'', 0x0040),
      (''RIGHT_STICK'', 0x0080), (''LEFT_BUTTON'', 0x0100), (''RIGHT_BUTTON'', 0x0200), (''SPECIAL_FLAG'', 0x0400),
      (''PADDLE1_FLAG'', 0x010000), (''PADDLE2_FLAG'', 0x020000), (''PADDLE3_FLAG'', 0x040000),
      (''PADDLE4_FLAG'', 0x080000), (''TOUCHPAD_FLAG'', 0x100000), (''MISC_FLAG'', 0x200000), (''A'', 0x1000),
      (''B'', 0x2000), (''X'', 0x4000), (''Y'', 0x8000)]"

section \<open>\<open>moonlight/control.hpp\<close>: control packets\<close>

definition ControlPacket_fields :: cstruct where
  "ControlPacket_fields =
     [(''type'', c_n16), (''length'', c_n16)]"

definition ControlTerminatePacket :: cstruct where
  "ControlTerminatePacket = ControlPacket_fields @
     [(''reason'', c_n32)]"

definition ControlRumblePacket :: cstruct where
  "ControlRumblePacket = ControlPacket_fields @
     [(''useless'', c_n32), (''controller_number'', c_n16), (''low_freq'', c_n16), (''high_freq'', c_n16)]"

definition ControlRumbleTriggerPacket :: cstruct where
  "ControlRumbleTriggerPacket = ControlPacket_fields @
     [(''controller_number'', c_n16), (''left'', c_n16), (''right'', c_n16)]"

definition ControlMotionEventPacket :: cstruct where
  "ControlMotionEventPacket = ControlPacket_fields @
     [(''controller_number'', c_n16), (''reportrate'', c_n16), (''type'', c_n8)]"

definition ControlRGBLedPacket :: cstruct where
  "ControlRGBLedPacket = ControlPacket_fields @
     [(''controller_number'', c_n16), (''r'', c_n8), (''g'', c_n8), (''b'', c_n8)]"

definition ControlAdaptiveTriggerPacket :: "ctype \<Rightarrow> cstruct" where
  "ControlAdaptiveTriggerPacket effect = ControlPacket_fields @
     [(''controller_number'', c_n16), (''effect'', effect)]"

definition ControlEncryptedPacket_fields :: cstruct where
  "ControlEncryptedPacket_fields = ControlPacket_fields @
     [(''seq'', c_n32), (''gcm_tag'', c_bytes GCM_TAG_SIZE), (''payload'', c_bytes MAX_PAYLOAD_SIZE)]"

text \<open>What the default values of a termination packet are in memory: its type, the length of the rest and the reason.\<close>

definition terminate_packet :: bytes where
  "terminate_packet = le16 (packet_code TERMINATION) @ le16 4 @ be32 0x80030023"

section \<open>\<open>server/control_packets.hpp\<close>\<close>

definition server_input_pkt :: cstruct where
  "server_input_pkt =
     [(''packet_type'', c_n16), (''packet_len'', c_n16), (''data_size'', c_n32), (''type'', c_i32)]"

definition server_packets :: "(string \<times> cstruct) list" where
  "server_packets =
    [(''MOUSE_MOVE_REL_PACKET'', server_input_pkt @
     [(''delta_x'', c_i16), (''delta_y'', c_i16)]),
     (''MOUSE_MOVE_ABS_PACKET'', server_input_pkt @
     [(''x'', c_i16), (''y'', c_i16), (''unused'', c_i16), (''width'', c_i16), (''height'', c_i16)]),
     (''MOUSE_BUTTON_PACKET'', server_input_pkt @
     [(''button'', c_n8)]),
     (''MOUSE_SCROLL_PACKET'', server_input_pkt @
     [(''scroll_amt1'', c_i16), (''scroll_amt2'', c_i16), (''zero1'', c_i16)]),
     (''MOUSE_HSCROLL_PACKET'', server_input_pkt @
     [(''scroll_amount'', c_i16)]),
     (''KEYBOARD_PACKET'', server_input_pkt @
     [(''flags'', c_n8), (''key_code'', c_i16), (''modifiers'', c_i8), (''zero1'', c_i16)]),
     (''CONTROLLER_MULTI_PACKET'', server_input_pkt @
     [(''header_b'', c_i16), (''controller_number'', c_i16), (''active_gamepad_mask'', c_i16), (''mid_b'', c_i16),
      (''button_flags'', c_i16), (''left_trigger'', c_n8), (''right_trigger'', c_n8), (''left_stick_x'', c_i16),
      (''left_stick_y'', c_i16), (''right_stick_x'', c_i16), (''right_stick_y'', c_i16), (''tail_a'', c_i16),
      (''buttonFlags2'', c_i16), (''tailB'', c_i16)]),
     (''CONTROLLER_ARRIVAL_PACKET'', server_input_pkt @
     [(''controller_number'', c_n8), (''controller_type'', c_n8), (''capabilities'', c_n8),
      (''support_button_flags'', c_n32)])]"

definition server_control_packet :: cstruct where
  "server_control_packet =
     [(''type'', c_n16), (''length'', c_n16)]"

definition server_encrypted_packet :: cstruct where
  "server_encrypted_packet = server_control_packet @
     [(''seq'', c_n32), (''gcm_tag'', c_bytes GCM_TAG_SIZE), (''payload'', c_bytes MAX_PAYLOAD_SIZE)]"

section \<open>Fields\<close>

lemma map_of_place_less: "map_of (place pack off s) f = Some (o', t) \<Longrightarrow> off \<le> o'"
  by (induction pack off s rule: place.induct) (auto simp: Let_def split: if_splits)

lemma put_struct_get:
  assumes "\<forall>(g, t)\<in>set s. length (env g) = sizeof t" "distinct (map fst s)" "f \<in> fst ` set s" "length pre = off"
  shows "\<exists>o' t. map_of (place pack off s) f = Some (o', t) \<and> o' + sizeof t \<le> length (pre @ put_struct pack off s env) \<and>
    bslice (pre @ put_struct pack off s env @ rest) o' (sizeof t) = env f"
  using assms
proof (induction pack off s env arbitrary: pre rule: put_struct.induct)
  case (2 pack off g t s env)
  let ?p = "replicate (padding pack off t) 0" and ?o = "off + padding pack off t"
  show ?case
  proof (cases "g = f")
    case True
    then show ?thesis using 2(2,5) by (auto simp: Let_def bslice_def)
  next
    case False
    then have f: "f \<in> fst ` set s" using 2(4) by auto
    have len: "length (pre @ ?p @ env g) = ?o + sizeof t" using 2(2,5) by simp
    have "\<forall>(g, t)\<in>set s. length (env g) = sizeof t" "distinct (map fst s)" using 2(2,3) by simp_all
    from 2(1) [OF this f len] False show ?thesis by (simp add: Let_def)
  qed
qed simp

text \<open>A structure that is written is read back field by field, whatever follows it.\<close>

lemma struct_roundtrip:
  assumes "\<forall>(g, t)\<in>set s. length (env g) = sizeof t" "distinct (map fst s)" "f \<in> fst ` set s"
  shows "get_field pack s f (put_struct pack 0 s env @ rest) = Some (env f)"
proof -
  obtain o' t where p: "map_of (place pack 0 s) f = Some (o', t)" "o' + sizeof t \<le> length (put_struct pack 0 s env)"
    "bslice (put_struct pack 0 s env @ rest) o' (sizeof t) = env f"
    using put_struct_get [OF assms, of "[]" 0 pack rest] by auto
  then have "\<not> length (put_struct pack 0 s env @ rest) < o' + sizeof t" by simp
  with p show ?thesis by (simp add: get_field_def)
qed

section \<open>The copies\<close>

text \<open>
  The server's structures are those of the protocol, and its codes too; in the other structures of the protocol
  nothing is padded either, but for the ends of three.
\<close>

lemma copies_agree:
  "list_all (\<lambda>(n, s). map_of protocol_packets n = Some s) server_packets"
  "server_input_pkt = INPUT_PKT_fields" "server_control_packet = ControlPacket_fields"
  "server_encrypted_packet = ControlEncryptedPacket_fields"
  by code_simp+

lemma codes_agree:
  "list_all (\<lambda>(n, t). map_of protocol_input_codes n = Some (input_code t))
     [(''MOUSE_MOVE_REL'', MOUSE_MOVE_REL), (''MOUSE_MOVE_ABS'', MOUSE_MOVE_ABS), (''MOUSE_BUTTON_PRESS'', MOUSE_BUTTON_PRESS),
      (''MOUSE_BUTTON_RELEASE'', MOUSE_BUTTON_RELEASE), (''KEY_PRESS'', KEY_PRESS), (''KEY_RELEASE'', KEY_RELEASE),
      (''MOUSE_SCROLL'', MOUSE_SCROLL), (''MOUSE_HSCROLL'', MOUSE_HSCROLL), (''CONTROLLER_MULTI'', CONTROLLER_MULTI),
      (''CONTROLLER_ARRIVAL'', CONTROLLER_ARRIVAL)]"
  by code_simp

lemma control_sizes:
  "map (struct_size False) [ControlTerminatePacket, ControlRumblePacket, ControlRumbleTriggerPacket, ControlMotionEventPacket,
     ControlRGBLedPacket, ControlEncryptedPacket_fields] = [8, 16, 10, 10, 10, 152]"
  by code_simp

text \<open>
  The masks of the virtual gamepad are buttons of the protocol; its paddles, its touchpad button and the miscellaneous one
  have masks that the 16 bits of \<open>button_flags\<close> cannot carry, and \<open>buttonFlags2\<close> is never read.
\<close>

lemma pad_masks:
  "list_all (\<lambda>(m, _). m \<in> set (map snd CONTROLLER_BTN)) kPadButtons"
  "map fst (filter (\<lambda>(_, m). 0x10000 \<le> m) CONTROLLER_BTN) =
     [''PADDLE1_FLAG'', ''PADDLE2_FLAG'', ''PADDLE3_FLAG'', ''PADDLE4_FLAG'', ''TOUCHPAD_FLAG'', ''MISC_FLAG'']"
  by code_simp+

section \<open>The reads of \<open>handle_input\<close>\<close>

definition be_field :: "cstruct \<Rightarrow> string \<Rightarrow> bytes \<Rightarrow> int option" where
  "be_field s f b = (case map_of (place True 0 s) f of Some (o', c_i16) \<Rightarrow> be_short b o' | _ \<Rightarrow> None)"

definition le_field :: "cstruct \<Rightarrow> string \<Rightarrow> bytes \<Rightarrow> int option" where
  "le_field s f b = (case map_of (place True 0 s) f of Some (o', c_i16) \<Rightarrow> le_short b o' | _ \<Rightarrow> None)"

definition le_ufield :: "cstruct \<Rightarrow> string \<Rightarrow> bytes \<Rightarrow> u16 option" where
  "le_ufield s f b = (case map_of (place True 0 s) f of Some (o', c_i16) \<Rightarrow> le_ushort b o' | _ \<Rightarrow> None)"

definition byte_field :: "cstruct \<Rightarrow> string \<Rightarrow> bytes \<Rightarrow> u8 option" where
  "byte_field s f b = (case map_of (place True 0 s) f of Some (o', c_n8) \<Rightarrow> byte_at b o' | _ \<Rightarrow> None)"

text \<open>\<open>handle_input\<close> written with the names of the fields.\<close>

definition handle_by_name :: "int \<times> int \<Rightarrow> bytes \<Rightarrow> bool \<Rightarrow> media_call list option" where
  "handle_by_name dims b mm =
     (case read_input_type b of None \<Rightarrow> None | Some ty \<Rightarrow>
      (case input_type_of ty of
         None \<Rightarrow> Some []
       | Some MOUSE_MOVE_ABS \<Rightarrow>
           (let p = MOUSE_MOVE_ABS_PACKET in
            case (be_field p ''x'' b, be_field p ''y'' b, be_field p ''width'' b, be_field p ''height'' b) of
              (Some x, Some y, Some w, Some h) \<Rightarrow>
                let out_w = (if fst dims > 0 then fst dims else w);
                    out_h = (if snd dims > 0 then snd dims else h) in
                Some (if mm \<and> w > 0 \<and> h > 0 then [mouse_move_abs (scale_axis x w out_w) (scale_axis y h out_h)] else [])
            | _ \<Rightarrow> None)
       | Some t \<Rightarrow>
         if \<not> mm \<and> t \<noteq> KEY_PRESS \<and> t \<noteq> KEY_RELEASE then Some []
         else (case t of
           MOUSE_MOVE_REL \<Rightarrow>
             (case (be_field MOUSE_MOVE_REL_PACKET ''delta_x'' b, be_field MOUSE_MOVE_REL_PACKET ''delta_y'' b) of
                (Some dx, Some dy) \<Rightarrow> Some [mouse_move_rel dx dy] | _ \<Rightarrow> None)
         | MOUSE_BUTTON_PRESS \<Rightarrow>
             map_option (\<lambda>v. [mouse_button (moonlight_button_to_linux (uint v)) True]) (byte_field MOUSE_BUTTON_PACKET ''button'' b)
         | MOUSE_BUTTON_RELEASE \<Rightarrow>
             map_option (\<lambda>v. [mouse_button (moonlight_button_to_linux (uint v)) False]) (byte_field MOUSE_BUTTON_PACKET ''button'' b)
         | MOUSE_SCROLL \<Rightarrow> map_option (\<lambda>v. [mouse_axis 0 (- v)]) (be_field MOUSE_SCROLL_PACKET ''scroll_amt1'' b)
         | MOUSE_HSCROLL \<Rightarrow> map_option (\<lambda>v. [mouse_axis v 0]) (be_field MOUSE_HSCROLL_PACKET ''scroll_amount'' b)
         | CONTROLLER_ARRIVAL \<Rightarrow> map_option (\<lambda>v. [gamepad_arrival (uint v)]) (byte_field CONTROLLER_ARRIVAL_PACKET ''controller_number'' b)
         | CONTROLLER_MULTI \<Rightarrow>
             (let p = CONTROLLER_MULTI_PACKET in
              case (le_ufield p ''controller_number'' b, le_ufield p ''active_gamepad_mask'' b, le_ufield p ''button_flags'' b,
                    byte_field p ''left_trigger'' b, byte_field p ''right_trigger'' b, le_field p ''left_stick_x'' b,
                    le_field p ''left_stick_y'' b, le_field p ''right_stick_x'' b, le_field p ''right_stick_y'' b) of
                (Some nr, Some active, Some buttons, Some lt, Some rt, Some lx, Some ly, Some rx, Some ry) \<Rightarrow>
                  Some [gamepad_update (uint nr) active (ucast buttons) (uint lt) (uint rt) lx ly rx ry]
              | _ \<Rightarrow> None)
         | _ \<Rightarrow>
             (case le_ufield KEYBOARD_PACKET ''key_code'' b of None \<Rightarrow> None
              | Some code \<Rightarrow>
                let linux_key = moonlight_key_to_linux (uint (code AND 0x7fff)) in
                Some (if mm \<and> linux_key \<ge> 0 then [keyboard_key linux_key (t = KEY_PRESS)] else [])))))"

lemma field_places:
  "map_of (place True 0 MOUSE_MOVE_ABS_PACKET) ''x'' = Some (12, c_i16)"
  "map_of (place True 0 MOUSE_MOVE_ABS_PACKET) ''y'' = Some (14, c_i16)"
  "map_of (place True 0 MOUSE_MOVE_ABS_PACKET) ''width'' = Some (18, c_i16)"
  "map_of (place True 0 MOUSE_MOVE_ABS_PACKET) ''height'' = Some (20, c_i16)"
  "map_of (place True 0 MOUSE_MOVE_REL_PACKET) ''delta_x'' = Some (12, c_i16)"
  "map_of (place True 0 MOUSE_MOVE_REL_PACKET) ''delta_y'' = Some (14, c_i16)"
  "map_of (place True 0 MOUSE_BUTTON_PACKET) ''button'' = Some (12, c_n8)"
  "map_of (place True 0 MOUSE_SCROLL_PACKET) ''scroll_amt1'' = Some (12, c_i16)"
  "map_of (place True 0 MOUSE_HSCROLL_PACKET) ''scroll_amount'' = Some (12, c_i16)"
  "map_of (place True 0 CONTROLLER_ARRIVAL_PACKET) ''controller_number'' = Some (12, c_n8)"
  "map_of (place True 0 KEYBOARD_PACKET) ''key_code'' = Some (13, c_i16)"
  "map_of (place True 0 CONTROLLER_MULTI_PACKET) ''controller_number'' = Some (14, c_i16)"
  "map_of (place True 0 CONTROLLER_MULTI_PACKET) ''active_gamepad_mask'' = Some (16, c_i16)"
  "map_of (place True 0 CONTROLLER_MULTI_PACKET) ''button_flags'' = Some (20, c_i16)"
  "map_of (place True 0 CONTROLLER_MULTI_PACKET) ''left_trigger'' = Some (22, c_n8)"
  "map_of (place True 0 CONTROLLER_MULTI_PACKET) ''right_trigger'' = Some (23, c_n8)"
  "map_of (place True 0 CONTROLLER_MULTI_PACKET) ''left_stick_x'' = Some (24, c_i16)"
  "map_of (place True 0 CONTROLLER_MULTI_PACKET) ''left_stick_y'' = Some (26, c_i16)"
  "map_of (place True 0 CONTROLLER_MULTI_PACKET) ''right_stick_x'' = Some (28, c_i16)"
  "map_of (place True 0 CONTROLLER_MULTI_PACKET) ''right_stick_y'' = Some (30, c_i16)"
  by code_simp+

text \<open>Every offset the handler reads is that of the field it stands for.\<close>

theorem handler_reads_fields: "handle_input = handle_by_name"
  by (intro ext) (simp add: handle_input_def handle_by_name_def be_field_def le_field_def le_ufield_def byte_field_def
      field_places Let_def cong: option.case_cong INPUT_TYPE.case_cong)

text \<open>The termination packet the server could send says how long it is, and the reason is in network order.\<close>

lemma terminate_packet_fields:
  "get_field False ControlTerminatePacket ''length'' terminate_packet = Some (le16 (word_of_nat (struct_size False ControlTerminatePacket - struct_size False ControlPacket_fields)))"
  "get_field False ControlTerminatePacket ''reason'' terminate_packet = Some [0x80, 0x03, 0x00, 0x23]"
  by code_simp+

end
