(* ===== verification/Children.thy ===== *)
theory Children
  imports Launcher
begin

text \<open>
  The children of the server and who waits for them: the SIGCHLD handler of \<open>server/main.cpp\<close> reaps every child that
  has ended, and \<open>ensure_audio_sink\<close> (\<open>server/launcher.cpp\<close>) waits for its own. Both run concurrently, so a run
  is a list of events in any order.
\<close>

datatype child_state = ch_running | ch_zombie nat

text \<open>The children by process number, without repetition.\<close>

type_synonym children = "(nat \<times> child_state) list"

text \<open>\<open>waitpid(-1, nullptr, WNOHANG)\<close>: some child that has ended, or nothing.\<close>

fun reap_one :: "children \<Rightarrow> children option" where
  "reap_one [] = None"
| "reap_one ((pid, ch_zombie st) # cs) = Some cs"
| "reap_one ((pid, ch_running) # cs) = map_option ((#) (pid, ch_running)) (reap_one cs)"

lemma reap_one_length: "reap_one cs = Some cs' \<Longrightarrow> length cs' < length cs"
  by (induction cs arbitrary: cs' rule: reap_one.induct) auto

function reap_children :: "children \<Rightarrow> children" where
  "reap_children cs = (case reap_one cs of None \<Rightarrow> cs | Some cs' \<Rightarrow> reap_children cs')"
  by pat_completeness auto
termination by (relation "measure length") (auto dest: reap_one_length)

declare reap_children.simps [simp del]

text \<open>
  \<open>waitpid(pid, &status, 0)\<close>: \<open>None\<close> while the child runs (the caller stays blocked), \<open>Some None\<close> for the error that there is
  no such child, \<open>Some (Some st)\<close> for its status.
\<close>

definition wait_for :: "nat \<Rightarrow> children \<Rightarrow> nat option option \<times> children" where
  "wait_for pid cs = (case map_of cs pid of
     None \<Rightarrow> (Some None, cs)
   | Some ch_running \<Rightarrow> (None, cs)
   | Some (ch_zombie st) \<Rightarrow> (Some (Some st), filter (\<lambda>(p, _). p \<noteq> pid) cs))"

datatype child_event =
    ev_fork nat
  | ev_exit nat nat
  | ev_sigchld
  | ev_wait nat

text \<open>A run: the children and what the waits that returned have returned, with their process numbers.\<close>

fun child_step :: "child_event \<Rightarrow> children \<times> (nat \<times> nat option) list \<Rightarrow> children \<times> (nat \<times> nat option) list" where
  "child_step (ev_fork pid) (cs, ws) = (if pid \<in> fst ` set cs then (cs, ws) else ((pid, ch_running) # cs, ws))"
| "child_step (ev_exit pid st) (cs, ws) =
     (map (\<lambda>(p, c). if p = pid \<and> c = ch_running then (p, ch_zombie st) else (p, c)) cs, ws)"
| "child_step ev_sigchld (cs, ws) = (reap_children cs, ws)"
| "child_step (ev_wait pid) (cs, ws) =
     (case wait_for pid cs of (None, cs) \<Rightarrow> (cs, ws) | (Some r, cs) \<Rightarrow> (cs, ws @ [(pid, r)]))"

definition child_run :: "child_event list \<Rightarrow> children \<Rightarrow> children \<times> (nat \<times> nat option) list" where
  "child_run evs cs = fold child_step evs (cs, [])"

section \<open>Properties\<close>

lemma reap_one_None: "reap_one cs = None \<Longrightarrow> filter (\<lambda>(_, c). c = ch_running) cs = cs"
  by (induction cs rule: reap_one.induct) auto

lemma reap_one_Some:
  "reap_one cs = Some cs' \<Longrightarrow> filter (\<lambda>(_, c). c = ch_running) cs' = filter (\<lambda>(_, c). c = ch_running) cs"
  by (induction cs arbitrary: cs' rule: reap_one.induct) auto

text \<open>The loop ends with no zombie left and every running child still there.\<close>

lemma reap_children_eq: "reap_children cs = filter (\<lambda>(_, c). c = ch_running) cs"
proof (induction cs rule: reap_children.induct)
  case (1 cs)
  then show ?case by (cases "reap_one cs") (simp_all add: reap_children.simps [of cs] reap_one_None reap_one_Some)
qed

text \<open>
  The sink script and its wait: whether the script is taken as having succeeded depends on who comes first, the signal's
  handler or the launcher.
\<close>

definition audio_sink_run :: "bool \<Rightarrow> launch_os \<Rightarrow> nat \<Rightarrow> nat \<Rightarrow> children \<Rightarrow> int \<Rightarrow> string \<Rightarrow> (bool \<times> child option) option" where
  "audio_sink_run handler_first os pid st cs channels sink =
     (let (_, ws) = child_run ([ev_fork pid, ev_exit pid st] @ (if handler_first then [ev_sigchld, ev_wait pid] else [ev_wait pid, ev_sigchld])) cs in
      ensure_audio_sink os (case map_of ws pid of Some r \<Rightarrow> r | None \<Rightarrow> None) channels sink)"

lemma audio_sink_race:
  assumes "pid \<notin> fst ` set cs"
  shows "audio_sink_run True os pid st cs channels sink = ensure_audio_sink os None channels sink"
    and "audio_sink_run False os pid st cs channels sink = ensure_audio_sink os (Some st) channels sink"
proof -
  have m: "map_of cs pid = None" using assms by (simp add: map_of_eq_None_iff)
  have id: "map (\<lambda>(p, c). if p = pid \<and> c = ch_running then (p, ch_zombie st) else (p, c)) cs = cs"
    using assms by (intro map_idI) force
  have "map_of (filter (\<lambda>(_, c). c = ch_running) cs) pid = None"
    using assms by (auto simp: map_of_eq_None_iff)
  then show "audio_sink_run True os pid st cs channels sink = ensure_audio_sink os None channels sink"
    using assms id by (simp add: audio_sink_run_def child_run_def reap_children_eq wait_for_def)
  show "audio_sink_run False os pid st cs channels sink = ensure_audio_sink os (Some st) channels sink"
    using assms id by (simp add: audio_sink_run_def child_run_def reap_children_eq wait_for_def)
qed

text \<open>With the handler first a script that has succeeded is reported as failed, although the sink is there.\<close>

theorem reaper_hides_success:
  assumes "pid \<notin> fst ` set cs" "ensure_audio_sink os (Some 0) channels sink = Some (True, c)"
  shows "audio_sink_run False os pid 0 cs channels sink = Some (True, c) \<and>
    audio_sink_run True os pid 0 cs channels sink = Some (False, c)"
  using assms(2) unfolding audio_sink_race [OF assms(1)]
  by (auto simp: ensure_audio_sink_def Let_def split: if_splits option.splits)

end
