(* ===== verification/Diagnostics.thy ===== *)
theory Diagnostics
  imports StdText
begin

text \<open>
  What only reports: the levels of the logger (\<open>helpers/logger.hpp\<close>) and the diagnostics of the video encoder
  (\<open>server/media.cpp\<close>), its read-back and the probe that counts what it puts out. Where a line is printed, its numbers
  are the result.
\<close>

section \<open>Levels\<close>

text \<open>\<open>boost::log::trivial::severity_level\<close>, in increasing order.\<close>

datatype severity_level = lv_trace | lv_debug | lv_info | lv_warning | lv_error | lv_fatal

definition severities :: "severity_level list" where
  "severities = [lv_trace, lv_debug, lv_info, lv_warning, lv_error, lv_fatal]"

fun rank :: "severity_level \<Rightarrow> nat" where
  "rank lv_trace = 0"
| "rank lv_debug = 1"
| "rank lv_info = 2"
| "rank lv_warning = 3"
| "rank lv_error = 4"
| "rank lv_fatal = 5"

instantiation severity_level :: linorder
begin

definition less_eq_severity_level :: "severity_level \<Rightarrow> severity_level \<Rightarrow> bool" where
  "less_eq_severity_level a b \<longleftrightarrow> rank a \<le> rank b"

definition less_severity_level :: "severity_level \<Rightarrow> severity_level \<Rightarrow> bool" where
  "less_severity_level a b \<longleftrightarrow> rank a < rank b"

instance
proof
  fix a b :: severity_level
  show "a \<le> b \<Longrightarrow> b \<le> a \<Longrightarrow> a = b"
    by (cases a; cases b) (simp_all add: less_eq_severity_level_def)
qed (auto simp: less_eq_severity_level_def less_severity_level_def)

end

fun get_color :: "severity_level \<Rightarrow> string" where
  "get_color lv_debug = CHR 0x1B # ''[37;1m''"
| "get_color lv_trace = CHR 0x1B # ''[37;1m''"
| "get_color lv_info = CHR 0x1B # ''[37;1m''"
| "get_color lv_warning = CHR 0x1B # ''[33;1m''"
| "get_color lv_error = CHR 0x1B # ''[31;1m''"
| "get_color lv_fatal = CHR 0x1B # ''[31;1m''"

fun get_name :: "severity_level \<Rightarrow> string" where
  "get_name lv_trace = ''TRACE''"
| "get_name lv_debug = ''DEBUG''"
| "get_name lv_info = ''INFO''"
| "get_name lv_warning = ''WARN''"
| "get_name lv_error = ''ERROR''"
| "get_name lv_fatal = ''FATAL''"

text \<open>\<open>std::toupper\<close> in the C locale.\<close>

definition toupper :: "char \<Rightarrow> char" where
  "toupper c = (if (97 :: nat) \<le> of_char c \<and> of_char c \<le> (122 :: nat) then char_of (of_char c - 32 :: nat) else c)"

definition parse_level :: "string \<Rightarrow> severity_level" where
  "parse_level level =
     (let lvl = map toupper level in
      if lvl = ''TRACE'' then lv_trace
      else if lvl = ''DEBUG'' then lv_debug
      else if lvl = ''INFO'' then lv_info
      else if lvl = ''WARNING'' then lv_warning
      else if lvl = ''ERROR'' then lv_error
      else lv_fatal)"

text \<open>The filter \<open>init\<close> sets, and a line as the sink prints it after the time.\<close>

definition passes :: "severity_level \<Rightarrow> severity_level \<Rightarrow> bool" where
  "passes min_log_level lvl \<longleftrightarrow> min_log_level \<le> lvl"

definition log_line :: "string \<Rightarrow> severity_level \<Rightarrow> string \<Rightarrow> string" where
  "log_line now lvl msg =
     get_color lvl @ now @ '' '' @ get_name lvl @ replicate (5 - length (get_name lvl)) (CHR '' '') @ '' | '' @ msg
       @ CHR 0x1B # ''[0m''"

text \<open>
  A name that is printed is read back as its level, but for \<open>WARN\<close>: that one, and every misspelt level, silences
  everything below fatal.
\<close>

lemma level_names:
  "parse_level (get_name lvl) = (if lvl = lv_warning then lv_fatal else lvl)"
proof -
  have "list_all (\<lambda>lvl. parse_level (get_name lvl) = (if lvl = lv_warning then lv_fatal else lvl)) severities" by code_simp
  then show ?thesis by (cases lvl) (simp_all add: severities_def)
qed

lemma level_case: "parse_level (map toupper level) = parse_level level"
proof -
  have "toupper (toupper c) = toupper c" for c
  proof (cases "(97 :: nat) \<le> of_char c \<and> of_char c \<le> (122 :: nat)")
    case True
    then have "(of_char c :: nat) - 32 < 97 \<and> (of_char c :: nat) - 32 < 256" by linarith
    then show ?thesis using True by (simp add: toupper_def)
  next
    case False
    then have "toupper c = c" by (auto simp: toupper_def)
    then show ?thesis by simp
  qed
  then show ?thesis by (simp add: parse_level_def comp_def)
qed

section \<open>Encoder diagnostics\<close>

text \<open>The properties are 0 unless the encoder has them.\<close>

definition encoder_readback :: "(string \<Rightarrow> nat option) option \<Rightarrow> (nat \<times> nat) option" where
  "encoder_readback enc = map_option (\<lambda>prop.
     (case prop ''bitrate'' of Some n \<Rightarrow> n | None \<Rightarrow> 0, case prop ''vbv-buffer-size'' of Some n \<Rightarrow> n | None \<Rightarrow> 0)) enc"

record rate_probe =
  rp_bytes :: u64
  rp_buffers :: u64
  rp_window_start_ns :: int

definition new_probe :: rate_probe where
  "new_probe = \<lparr>rp_bytes = 0, rp_buffers = 0, rp_window_start_ns = 0\<rparr>"

text \<open>
  A buffer passes at the monotonic time \<open>now\<close>, in microseconds; the line printed has the bytes, the buffers and the
  nanoseconds of the window.
\<close>

definition encoder_rate_cb :: "int \<Rightarrow> nat option \<Rightarrow> rate_probe \<Rightarrow> rate_probe \<times> (u64 \<times> u64 \<times> int) option" where
  "encoder_rate_cb now_us buf p =
     (case buf of None \<Rightarrow> (p, None)
      | Some n \<Rightarrow>
        let p = p\<lparr>rp_bytes := rp_bytes p + word_of_nat n, rp_buffers := rp_buffers p + 1\<rparr>;
            now = now_us * 1000; start = rp_window_start_ns p in
        if start = 0 then (p\<lparr>rp_window_start_ns := now\<rparr>, None)
        else if now - start \<ge> 1000000000 then
          (p\<lparr>rp_bytes := 0, rp_buffers := 0, rp_window_start_ns := now\<rparr>, Some (rp_bytes p, rp_buffers p, now - start))
        else (p, None))"

text \<open>A fresh probe on the encoder's source pad, if there is an encoder with one; the boolean says whether there is a pad.\<close>

definition attach_encoder_rate_probe :: "bool option \<Rightarrow> rate_probe option" where
  "attach_encoder_rate_probe enc = (case enc of None \<Rightarrow> None | Some src \<Rightarrow> if src then Some new_probe else None)"

definition encoder_diag_enabled :: "(string \<Rightarrow> string option) \<Rightarrow> bool" where
  "encoder_diag_enabled getenv \<longleftrightarrow> getenv ''STEAM_STREAM_ENCODER_DIAG'' \<noteq> None"

text \<open>The end of \<open>launch\<close>: the numbers read back and the probe, for a pipeline with the given encoder.\<close>

definition launch_diagnostics ::
  "(string \<Rightarrow> string option) \<Rightarrow> ((string \<Rightarrow> nat option) \<times> bool) option \<Rightarrow> (nat \<times> nat) option \<times> rate_probe option" where
  "launch_diagnostics getenv enc =
     (if encoder_diag_enabled getenv \<and> enc \<noteq> None
      then (encoder_readback (map_option fst enc), attach_encoder_rate_probe (map_option snd enc))
      else (None, None))"

fun probe_run :: "(int \<times> nat option) list \<Rightarrow> rate_probe \<Rightarrow> rate_probe \<times> (u64 \<times> u64 \<times> int) list" where
  "probe_run [] p = (p, [])"
| "probe_run ((now, buf) # evs) p =
     (case encoder_rate_cb now buf p of (p, line) \<Rightarrow>
        case probe_run evs p of (p, lines) \<Rightarrow> (p, (case line of None \<Rightarrow> lines | Some l \<Rightarrow> l # lines)))"

text \<open>
  Every byte and every buffer is reported once or still pending, and no window is shorter than a second, so that the rate
  divides by at least one.
\<close>

theorem probe_counts:
  assumes "probe_run evs p = (p', lines)"
  shows "sum_list (map fst lines) + rp_bytes p' = rp_bytes p + sum_list (map (\<lambda>(_, b). case b of Some n \<Rightarrow> word_of_nat n | None \<Rightarrow> 0) evs)
    \<and> sum_list (map (fst \<circ> snd) lines) + rp_buffers p' = rp_buffers p + sum_list (map (\<lambda>(_, b). case b of Some _ \<Rightarrow> 1 | None \<Rightarrow> 0) evs)
    \<and> list_all (\<lambda>(_, _, ns). 1000000000 \<le> ns) lines"
  using assms
proof (induction evs arbitrary: p p' lines)
  case (Cons ev evs)
  obtain now buf where ev: "ev = (now, buf)" by force
  obtain q line where q: "encoder_rate_cb now buf p = (q, line)" by force
  obtain ls where r: "probe_run evs q = (p', ls)" "lines = (case line of None \<Rightarrow> ls | Some l \<Rightarrow> l # ls)"
    using Cons.prems q by (auto simp: ev split: prod.splits)
  note IH = Cons.IH [OF r(1)]
  show ?case
    using q IH unfolding r(2) ev
    by (auto simp: encoder_rate_cb_def Let_def algebra_simps split: option.splits if_splits)
qed simp

end
