(* ===== verification/GF256.thy ===== *)
theory GF256
  imports Prelude
begin

unbundle bit_operations_syntax

text \<open>
  Arithmetic of the 256 element field used by the Reed-Solomon code
  (\<open>nanors-upstream/deps/obl\<close>): the logarithm, exponential and inverse tables of
  \<open>gf2_8_tables.h\<close> and the multiplication \<open>gf2_8_mul\<close> of \<open>oblas_lite.c\<close>. The lemmas show that
  the tables describe multiplication modulo the polynomial 285 (their comment's claim): the product
  equals a shift-and-xor reference multiplication, and \<open>XOR\<close> with \<open>gf2_8_mul\<close> is a field. The
  type \<open>gf\<close> is a copy of the byte type that carries this field structure, so that the algebra of
  the library's class \<open>field\<close> applies to the code.
\<close>

section \<open>The tables of \<open>gf2_8_tables.h\<close>\<close>

definition GF2_8_LOG :: bytes where
  "GF2_8_LOG = [
     255, 0, 1, 25, 2, 50, 26, 198, 3, 223, 51, 238, 27, 104, 199, 75,
     4, 100, 224, 14, 52, 141, 239, 129, 28, 193, 105, 248, 200, 8, 76, 113,
     5, 138, 101, 47, 225, 36, 15, 33, 53, 147, 142, 218, 240, 18, 130, 69,
     29, 181, 194, 125, 106, 39, 249, 185, 201, 154, 9, 120, 77, 228, 114, 166,
     6, 191, 139, 98, 102, 221, 48, 253, 226, 152, 37, 179, 16, 145, 34, 136,
     54, 208, 148, 206, 143, 150, 219, 189, 241, 210, 19, 92, 131, 56, 70, 64,
     30, 66, 182, 163, 195, 72, 126, 110, 107, 58, 40, 84, 250, 133, 186, 61,
     202, 94, 155, 159, 10, 21, 121, 43, 78, 212, 229, 172, 115, 243, 167, 87,
     7, 112, 192, 247, 140, 128, 99, 13, 103, 74, 222, 237, 49, 197, 254, 24,
     227, 165, 153, 119, 38, 184, 180, 124, 17, 68, 146, 217, 35, 32, 137, 46,
     55, 63, 209, 91, 149, 188, 207, 205, 144, 135, 151, 178, 220, 252, 190, 97,
     242, 86, 211, 171, 20, 42, 93, 158, 132, 60, 57, 83, 71, 109, 65, 162,
     31, 45, 67, 216, 183, 123, 164, 118, 196, 23, 73, 236, 127, 12, 111, 246,
     108, 161, 59, 82, 41, 157, 85, 170, 251, 96, 134, 177, 187, 204, 62, 90,
     203, 89, 95, 176, 156, 169, 160, 81, 11, 245, 22, 235, 122, 117, 44, 215,
     79, 174, 213, 233, 230, 231, 173, 232, 116, 214, 244, 234, 168, 80, 88, 175]"

definition GF2_8_EXP :: bytes where
  "GF2_8_EXP = [
     1, 2, 4, 8, 16, 32, 64, 128, 29, 58, 116, 232, 205, 135, 19, 38,
     76, 152, 45, 90, 180, 117, 234, 201, 143, 3, 6, 12, 24, 48, 96, 192,
     157, 39, 78, 156, 37, 74, 148, 53, 106, 212, 181, 119, 238, 193, 159, 35,
     70, 140, 5, 10, 20, 40, 80, 160, 93, 186, 105, 210, 185, 111, 222, 161,
     95, 190, 97, 194, 153, 47, 94, 188, 101, 202, 137, 15, 30, 60, 120, 240,
     253, 231, 211, 187, 107, 214, 177, 127, 254, 225, 223, 163, 91, 182, 113, 226,
     217, 175, 67, 134, 17, 34, 68, 136, 13, 26, 52, 104, 208, 189, 103, 206,
     129, 31, 62, 124, 248, 237, 199, 147, 59, 118, 236, 197, 151, 51, 102, 204,
     133, 23, 46, 92, 184, 109, 218, 169, 79, 158, 33, 66, 132, 21, 42, 84,
     168, 77, 154, 41, 82, 164, 85, 170, 73, 146, 57, 114, 228, 213, 183, 115,
     230, 209, 191, 99, 198, 145, 63, 126, 252, 229, 215, 179, 123, 246, 241, 255,
     227, 219, 171, 75, 150, 49, 98, 196, 149, 55, 110, 220, 165, 87, 174, 65,
     130, 25, 50, 100, 200, 141, 7, 14, 28, 56, 112, 224, 221, 167, 83, 166,
     81, 162, 89, 178, 121, 242, 249, 239, 195, 155, 43, 86, 172, 69, 138, 9,
     18, 36, 72, 144, 61, 122, 244, 245, 247, 243, 251, 235, 203, 139, 11, 22,
     44, 88, 176, 125, 250, 233, 207, 131, 27, 54, 108, 216, 173, 71, 142, 1,
     2, 4, 8, 16, 32, 64, 128, 29, 58, 116, 232, 205, 135, 19, 38, 76,
     152, 45, 90, 180, 117, 234, 201, 143, 3, 6, 12, 24, 48, 96, 192, 157,
     39, 78, 156, 37, 74, 148, 53, 106, 212, 181, 119, 238, 193, 159, 35, 70,
     140, 5, 10, 20, 40, 80, 160, 93, 186, 105, 210, 185, 111, 222, 161, 95,
     190, 97, 194, 153, 47, 94, 188, 101, 202, 137, 15, 30, 60, 120, 240, 253,
     231, 211, 187, 107, 214, 177, 127, 254, 225, 223, 163, 91, 182, 113, 226, 217,
     175, 67, 134, 17, 34, 68, 136, 13, 26, 52, 104, 208, 189, 103, 206, 129,
     31, 62, 124, 248, 237, 199, 147, 59, 118, 236, 197, 151, 51, 102, 204, 133,
     23, 46, 92, 184, 109, 218, 169, 79, 158, 33, 66, 132, 21, 42, 84, 168,
     77, 154, 41, 82, 164, 85, 170, 73, 146, 57, 114, 228, 213, 183, 115, 230,
     209, 191, 99, 198, 145, 63, 126, 252, 229, 215, 179, 123, 246, 241, 255, 227,
     219, 171, 75, 150, 49, 98, 196, 149, 55, 110, 220, 165, 87, 174, 65, 130,
     25, 50, 100, 200, 141, 7, 14, 28, 56, 112, 224, 221, 167, 83, 166, 81,
     162, 89, 178, 121, 242, 249, 239, 195, 155, 43, 86, 172, 69, 138, 9, 18,
     36, 72, 144, 61, 122, 244, 245, 247, 243, 251, 235, 203, 139, 11, 22, 44,
     88, 176, 125, 250, 233, 207, 131, 27, 54, 108, 216, 173, 71, 142]"

definition GF2_8_INV :: bytes where
  "GF2_8_INV = [
     0, 1, 142, 244, 71, 167, 122, 186, 173, 157, 221, 152, 61, 170, 93, 150,
     216, 114, 192, 88, 224, 62, 76, 102, 144, 222, 85, 128, 160, 131, 75, 42,
     108, 237, 57, 81, 96, 86, 44, 138, 112, 208, 31, 74, 38, 139, 51, 110,
     72, 137, 111, 46, 164, 195, 64, 94, 80, 34, 207, 169, 171, 12, 21, 225,
     54, 95, 248, 213, 146, 78, 166, 4, 48, 136, 43, 30, 22, 103, 69, 147,
     56, 35, 104, 140, 129, 26, 37, 97, 19, 193, 203, 99, 151, 14, 55, 65,
     36, 87, 202, 91, 185, 196, 23, 77, 82, 141, 239, 179, 32, 236, 47, 50,
     40, 209, 17, 217, 233, 251, 218, 121, 219, 119, 6, 187, 132, 205, 254, 252,
     27, 84, 161, 29, 124, 204, 228, 176, 73, 49, 39, 45, 83, 105, 2, 245,
     24, 223, 68, 79, 155, 188, 15, 92, 11, 220, 189, 148, 172, 9, 199, 162,
     28, 130, 159, 198, 52, 194, 70, 5, 206, 59, 13, 60, 156, 8, 190, 183,
     135, 229, 238, 107, 235, 242, 191, 175, 197, 100, 7, 123, 149, 154, 174, 182,
     18, 89, 165, 53, 101, 184, 163, 158, 210, 247, 98, 90, 133, 125, 168, 58,
     41, 113, 200, 246, 249, 67, 215, 214, 16, 115, 118, 120, 153, 10, 25, 145,
     20, 63, 230, 240, 134, 177, 226, 241, 250, 116, 243, 180, 109, 33, 178, 106,
     227, 231, 181, 234, 3, 143, 211, 201, 66, 212, 232, 117, 127, 255, 126, 253]"

section \<open>Multiplication\<close>

text \<open>
  \<open>gf2_8_mul(a, b)\<close>: zero operands are tested first, since zero has no logarithm; otherwise the
  sum of the logarithms, as an \<open>int\<close>, indexes the exponential table.
\<close>

definition gf2_8_mul :: "u8 \<Rightarrow> u8 \<Rightarrow> u8" where
  "gf2_8_mul a b =
     (if a = 0 \<or> b = 0 then 0
      else GF2_8_EXP ! (unat (GF2_8_LOG ! unat a) + unat (GF2_8_LOG ! unat b)))"

text \<open>The inverse, read from its table.\<close>

definition gf2_8_inv :: "u8 \<Rightarrow> u8" where
  "gf2_8_inv a = GF2_8_INV ! unat a"

text \<open>
  Reference multiplication: shift and xor, reducing by the polynomial \<open>x^8 + x^4 + x^3 + x^2 + 1\<close>
  (285, that is \<open>0x11d\<close>).
\<close>

definition xtime :: "u8 \<Rightarrow> u8" where
  "xtime a = push_bit 1 a XOR (if bit a 7 then 0x1d else 0)"

fun ref_mul :: "nat \<Rightarrow> u8 \<Rightarrow> u8 \<Rightarrow> u8" where
  "ref_mul 0 a b = 0"
| "ref_mul (Suc n) a b = (if bit a 0 then b else 0) XOR ref_mul n (drop_bit 1 a) (xtime b)"

section \<open>Evaluation of the tables\<close>

lemma length_tables [simp]:
  "length GF2_8_LOG = 256" "length GF2_8_EXP = 510" "length GF2_8_INV = 256"
  by (simp_all add: GF2_8_LOG_def GF2_8_EXP_def GF2_8_INV_def)

lemma exp_table_step: "tl GF2_8_EXP = map xtime (butlast GF2_8_EXP)"
  by (simp add: GF2_8_EXP_def xtime_def)

lemma exp_table_0: "GF2_8_EXP ! 0 = 1"
  by (simp add: GF2_8_EXP_def)

lemma exp_table_nonzero: "0 \<notin> set GF2_8_EXP"
  by (simp add: GF2_8_EXP_def)

lemma exp_table_period: "drop 255 GF2_8_EXP = take 255 GF2_8_EXP"
  by (simp add: GF2_8_EXP_def)


lemma log_table:
  "list_all (\<lambda>a. GF2_8_LOG ! a < 255 \<and> GF2_8_EXP ! unat (GF2_8_LOG ! a) = word_of_nat a) [1..<256]"
  by code_simp

lemma inv_table: "list_all (\<lambda>a. gf2_8_mul (word_of_nat a) (GF2_8_INV ! a) = 1) [1..<256]"
  by code_simp

lemma mul_1_table: "GF2_8_LOG ! 1 = 0" and mul_2_table: "GF2_8_LOG ! 2 = 1"
  by (simp_all add: GF2_8_LOG_def)

section \<open>The tables describe a field\<close>

abbreviation lg :: "u8 \<Rightarrow> nat" where
  "lg a \<equiv> unat (GF2_8_LOG ! unat a)"

lemma exp_Suc: "i < 509 \<Longrightarrow> GF2_8_EXP ! Suc i = xtime (GF2_8_EXP ! i)"
proof -
  assume i: "i < 509"
  have "tl GF2_8_EXP ! i = map xtime (butlast GF2_8_EXP) ! i" by (simp only: exp_table_step)
  with i show ?thesis by (simp add: nth_tl nth_butlast)
qed

lemma exp_funpow: "i + n < 510 \<Longrightarrow> GF2_8_EXP ! (i + n) = (xtime ^^ n) (GF2_8_EXP ! i)"
  by (induction n) (simp_all add: exp_Suc)

lemma unat_u8_range: "a \<noteq> 0 \<Longrightarrow> unat (a :: u8) \<in> set [1..<256]"
proof -
  assume "a \<noteq> 0"
  moreover have "unat a < 2 ^ LENGTH(8)" by (rule unsigned_less)
  ultimately show ?thesis by (simp add: unat_gt_0 Suc_le_eq)
qed

lemma lg_less: "a \<noteq> 0 \<Longrightarrow> lg a < 255"
  and exp_lg: "a \<noteq> 0 \<Longrightarrow> GF2_8_EXP ! lg a = a"
proof -
  assume "a \<noteq> 0"
  then have "GF2_8_LOG ! unat a < 255 \<and> GF2_8_EXP ! lg a = word_of_nat (unat a)"
    using log_table unat_u8_range [of a] by (simp only: list_all_iff) blast
  then show "lg a < 255" "GF2_8_EXP ! lg a = a" by (simp_all add: word_less_nat_alt)
qed

lemma xtime_0 [simp]: "xtime 0 = 0"
  by (simp add: xtime_def)

lemma xtime_xor: "xtime (a XOR b) = xtime a XOR xtime b"
  by (simp add: xtime_def push_bit_xor bit_xor_iff xor.assoc xor.left_commute)

lemma xtime_funpow_0 [simp]: "(xtime ^^ n) 0 = 0"
  by (induction n) simp_all

lemma xtime_funpow_xor: "(xtime ^^ n) (a XOR b) = (xtime ^^ n) a XOR (xtime ^^ n) b"
  by (induction n) (simp_all add: xtime_xor)

lemma mul_0 [simp]: "gf2_8_mul 0 b = 0" "gf2_8_mul a 0 = 0"
  by (simp_all add: gf2_8_mul_def)

lemma mul_funpow: "a \<noteq> 0 \<Longrightarrow> gf2_8_mul a b = (xtime ^^ lg a) b"
proof (cases "b = 0")
  case False
  assume a: "a \<noteq> 0"
  have "GF2_8_EXP ! (lg b + lg a) = (xtime ^^ lg a) (GF2_8_EXP ! lg b)"
    using lg_less [OF a] lg_less [OF False] by (intro exp_funpow) simp
  with a False show ?thesis by (simp add: gf2_8_mul_def exp_lg add.commute)
qed simp

lemma mul_commute: "gf2_8_mul a b = gf2_8_mul b a"
  by (simp add: gf2_8_mul_def add.commute)

lemma mul_left_commute: "gf2_8_mul a (gf2_8_mul b c) = gf2_8_mul b (gf2_8_mul a c)"
proof (cases "a = 0 \<or> b = 0")
  case False
  have "(xtime ^^ m) ((xtime ^^ n) c) = (xtime ^^ (m + n)) c" for m n by (simp add: funpow_add)
  with False show ?thesis by (simp add: mul_funpow add.commute)
qed auto

lemma mul_assoc: "gf2_8_mul (gf2_8_mul a b) c = gf2_8_mul a (gf2_8_mul b c)"
  using mul_left_commute [of c a b] mul_commute by metis

lemma mul_xor_right: "gf2_8_mul a (b XOR c) = gf2_8_mul a b XOR gf2_8_mul a c"
  by (cases "a = 0") (simp_all add: mul_funpow xtime_funpow_xor)

lemma mul_xor_left: "gf2_8_mul (a XOR b) c = gf2_8_mul a c XOR gf2_8_mul b c"
  using mul_xor_right mul_commute by metis

lemma mul_1_left [simp]: "gf2_8_mul 1 b = b"
  using mul_funpow [of 1 b] mul_1_table by simp

lemma mul_1_right [simp]: "gf2_8_mul b 1 = b"
  using mul_commute mul_1_left by metis

lemma mul_2: "gf2_8_mul 2 b = xtime b"
  using mul_funpow [of 2 b] by (simp add: mul_2_table)

lemma mul_inv: "a \<noteq> 0 \<Longrightarrow> gf2_8_mul a (gf2_8_inv a) = 1"
proof -
  assume "a \<noteq> 0"
  then have "gf2_8_mul (word_of_nat (unat a)) (GF2_8_INV ! unat a) = 1"
    using inv_table unat_u8_range [of a] by (simp only: list_all_iff) blast
  then show ?thesis by (simp add: gf2_8_inv_def)
qed

lemma inv_0 [simp]: "gf2_8_inv 0 = 0"
  by (simp add: gf2_8_inv_def GF2_8_INV_def)

lemma mul_eq_0_iff: "gf2_8_mul a b = 0 \<longleftrightarrow> a = 0 \<or> b = 0"
proof
  assume z: "gf2_8_mul a b = 0"
  show "a = 0 \<or> b = 0"
  proof (rule ccontr)
    assume "\<not> (a = 0 \<or> b = 0)"
    then have "gf2_8_mul a b = GF2_8_EXP ! (lg a + lg b)" "lg a < 255" "lg b < 255"
      by (simp_all add: gf2_8_mul_def lg_less)
    then have "gf2_8_mul a b \<in> set GF2_8_EXP" by simp
    with z exp_table_nonzero show False by simp
  qed
qed auto

text \<open>The reference multiplication computes the same product.\<close>

lemma take_bit_Suc_low:
  fixes a :: u8
  shows "take_bit (Suc n) a = (if bit a 0 then 1 else 0) XOR push_bit 1 (take_bit n (drop_bit 1 a))"
proof (rule bit_word_eqI)
  fix m assume "m < LENGTH(8)"
  then show "bit (take_bit (Suc n) a) m =
     bit ((if bit a 0 then 1 else 0) XOR push_bit 1 (take_bit n (drop_bit 1 a))) m"
    by (cases m)
      (simp_all add: bit_xor_iff bit_take_bit_iff bit_push_bit_iff bit_drop_bit_eq bit_1_iff del: push_bit_Suc)
qed

lemma ref_mul_take_bit: "n \<le> 8 \<Longrightarrow> ref_mul n a b = gf2_8_mul (take_bit n a) b"
proof (induction n arbitrary: a b)
  case 0
  then show ?case by simp
next
  case (Suc n)
  define x where "x = take_bit n (drop_bit 1 a)"
  note split = take_bit_Suc_low [of n a, folded x_def]
  have "\<not> bit x 7" using Suc.prems by (simp add: x_def bit_simps)
  then have "push_bit 1 x = gf2_8_mul x 2" by (simp add: mul_2 mul_commute [of x] xtime_def)
  then have "gf2_8_mul (push_bit 1 x) b = gf2_8_mul x (xtime b)"
    by (simp add: mul_assoc mul_2)
  with Suc show ?case by (simp add: split mul_xor_left x_def)
qed

lemma gf2_8_mul_ref: "gf2_8_mul a b = ref_mul 8 a b"
  using ref_mul_take_bit [of 8 a b] take_bit_length_eq [of a] by simp

section \<open>The field as a type\<close>

typedef gf = "UNIV :: u8 set" morphisms of_gf to_gf ..

setup_lifting type_definition_gf

instantiation gf :: field
begin

lift_definition zero_gf :: gf is 0 .
lift_definition one_gf :: gf is 1 .
lift_definition plus_gf :: "gf \<Rightarrow> gf \<Rightarrow> gf" is "(XOR)" .
lift_definition minus_gf :: "gf \<Rightarrow> gf \<Rightarrow> gf" is "(XOR)" .
lift_definition uminus_gf :: "gf \<Rightarrow> gf" is "\<lambda>a. a" .
lift_definition times_gf :: "gf \<Rightarrow> gf \<Rightarrow> gf" is gf2_8_mul .
lift_definition inverse_gf :: "gf \<Rightarrow> gf" is gf2_8_inv .

definition divide_gf :: "gf \<Rightarrow> gf \<Rightarrow> gf" where
  "divide_gf a b = a * inverse b"

instance
proof
  fix a b c :: gf
  show "a * b * c = a * (b * c)" by transfer (rule mul_assoc)
  show "a * b = b * a" by transfer (rule mul_commute)
  show "1 * a = a" by transfer simp
  show "a + b + c = a + (b + c)" by transfer (rule xor.assoc)
  show "a + b = b + a" by transfer (rule xor.commute)
  show "0 + a = a" by transfer simp
  show "- a + a = 0" by transfer simp
  show "a - b = a + - b" by transfer simp
  show "(a + b) * c = a * c + b * c" by transfer (rule mul_xor_left)
  show "(0 :: gf) \<noteq> 1" by transfer simp
  show "a \<noteq> 0 \<Longrightarrow> inverse a * a = 1" by transfer (simp add: mul_inv mul_commute)
  show "a div b = a * inverse b" by (rule divide_gf_def)
  show "inverse (0 :: gf) = 0" by transfer simp
qed

end

lemma gf_hom [simp]:
  "to_gf 0 = 0" "to_gf 1 = 1" "to_gf (x XOR y) = to_gf x + to_gf y"
  "to_gf (gf2_8_mul x y) = to_gf x * to_gf y" "to_gf (gf2_8_inv x) = inverse (to_gf x)"
  by (simp_all add: zero_gf_def one_gf_def plus_gf.abs_eq times_gf.abs_eq inverse_gf.abs_eq)

lemma to_gf_inject [simp]: "to_gf x = to_gf y \<longleftrightarrow> x = y"
  by (simp add: to_gf_inject)

lemma to_gf_eq_0 [simp]: "to_gf x = 0 \<longleftrightarrow> x = 0"
  using to_gf_inject [of x 0] by simp

lemma gf_add_self: "a + a = (0 :: gf)"
  by transfer simp

lemma gf_uminus [simp]: "- a = (a :: gf)"
  by transfer simp

end
