(* ===== verification/Oblas.thy ===== *)
theory Oblas
  imports GF256
begin

unbundle bit_operations_syntax

text \<open>
  The vector kernels under the Reed-Solomon code: \<open>oblas_lite.c\<close> and the two wrappers \<open>axpy\<close> and
  \<open>scal\<close> of \<open>rs.c\<close>. A pointer to \<open>k\<close> bytes is a byte list; a kernel returns the new contents of
  its destination. The loops run over the first \<open>k\<close> bytes and leave the rest alone; every call of
  the code passes a \<open>k\<close> that both operands reach.

  These are the kernels as \<open>oblas_lite.c\<close> compiles them with \<open>OBLAS_TINY\<close>, which multiply by
  \<open>gf2_8_mul\<close>. The other builds, over the generated tables and with vectors, are in \<open>Kernels\<close>,
  with the proof that they compute the same.
\<close>

section \<open>\<open>oblas_lite.c\<close>\<close>

fun obl_axpy_ref :: "bytes \<Rightarrow> bytes \<Rightarrow> u8 \<Rightarrow> nat \<Rightarrow> bytes" where
  "obl_axpy_ref (x # a) (y # b) u (Suc k) = (x XOR gf2_8_mul u y) # obl_axpy_ref a b u k"
| "obl_axpy_ref a b u k = a"

fun obl_scal_ref :: "bytes \<Rightarrow> u8 \<Rightarrow> nat \<Rightarrow> bytes" where
  "obl_scal_ref (x # a) u (Suc k) = gf2_8_mul u x # obl_scal_ref a u k"
| "obl_scal_ref a u k = a"

text \<open>The exclusive-or loop that \<open>obl_axpy\<close> and \<open>axpy\<close> use for the factor 1.\<close>

fun xor_loop :: "bytes \<Rightarrow> bytes \<Rightarrow> nat \<Rightarrow> bytes" where
  "xor_loop (x # a) (y # b) (Suc k) = (x XOR y) # xor_loop a b k"
| "xor_loop a b k = a"

definition obl_axpy :: "bytes \<Rightarrow> bytes \<Rightarrow> u8 \<Rightarrow> nat \<Rightarrow> bytes" where
  "obl_axpy a b u k = (if u = 1 then xor_loop a b k else obl_axpy_ref a b u k)"

definition obl_scal :: "bytes \<Rightarrow> u8 \<Rightarrow> nat \<Rightarrow> bytes" where
  "obl_scal a u k = obl_scal_ref a u k"

fun obl_swap :: "bytes \<Rightarrow> bytes \<Rightarrow> nat \<Rightarrow> bytes \<times> bytes" where
  "obl_swap (x # a) (y # b) (Suc k) = (let (a', b') = obl_swap a b k in (y # a', x # b'))"
| "obl_swap a b k = (a, b)"

section \<open>\<open>axpy\<close> and \<open>scal\<close> of \<open>rs.c\<close>\<close>

definition axpy :: "bytes \<Rightarrow> bytes \<Rightarrow> u8 \<Rightarrow> nat \<Rightarrow> bytes" where
  "axpy a b u k =
     (if u = 0 then a
      else if u = 1 then xor_loop a b k
      else obl_axpy a b u k)"

definition scal :: "bytes \<Rightarrow> u8 \<Rightarrow> nat \<Rightarrow> bytes" where
  "scal a u k = (if u < 2 then a else obl_scal a u k)"

section \<open>What the kernels compute\<close>

lemma xor_loop_ref: "xor_loop a b k = obl_axpy_ref a b 1 k"
  by (induction a b k rule: xor_loop.induct) simp_all

lemma axpy_ref_0: "obl_axpy_ref a b 0 k = a"
  by (induction a b "0 :: u8" k rule: obl_axpy_ref.induct) simp_all

text \<open>The shortcuts for the factors 0 and 1 are optimisations: the result is the reference loop's.\<close>

lemma axpy_eq_ref: "axpy a b u k = obl_axpy_ref a b u k"
  by (simp add: axpy_def obl_axpy_def xor_loop_ref axpy_ref_0)

lemma length_axpy_ref [simp]: "length (obl_axpy_ref a b u k) = length a"
  by (induction a b u k rule: obl_axpy_ref.induct) simp_all

lemma length_axpy [simp]: "length (axpy a b u k) = length a"
  by (simp add: axpy_eq_ref)

lemma nth_axpy_ref:
  "k \<le> length a \<Longrightarrow> k \<le> length b \<Longrightarrow> i < length a \<Longrightarrow>
   obl_axpy_ref a b u k ! i = (if i < k then a ! i XOR gf2_8_mul u (b ! i) else a ! i)"
  by (induction a b u k arbitrary: i rule: obl_axpy_ref.induct) (auto simp: nth_Cons split: nat.split)

lemma nth_axpy:
  "k \<le> length a \<Longrightarrow> k \<le> length b \<Longrightarrow> i < length a \<Longrightarrow>
   axpy a b u k ! i = (if i < k then a ! i XOR gf2_8_mul u (b ! i) else a ! i)"
  by (simp add: axpy_eq_ref nth_axpy_ref)

lemma length_scal_ref [simp]: "length (obl_scal_ref a u k) = length a"
  by (induction a u k rule: obl_scal_ref.induct) simp_all

lemma length_scal [simp]: "length (scal a u k) = length a"
  by (simp add: scal_def obl_scal_def)

lemma nth_scal_ref:
  "k \<le> length a \<Longrightarrow> i < length a \<Longrightarrow>
   obl_scal_ref a u k ! i = (if i < k then gf2_8_mul u (a ! i) else a ! i)"
  by (induction a u k arbitrary: i rule: obl_scal_ref.induct) (auto simp: nth_Cons split: nat.split)

text \<open>
  The guard \<open>u < 2\<close> of \<open>scal\<close> skips the factor 1, which is right, and the factor 0, which leaves the
  operand alone where a product would clear it: the callers must not scale by 0.
\<close>

lemma u8_less_2: "(u :: u8) < 2 \<longleftrightarrow> u = 0 \<or> u = 1"
proof -
  have "u < 2 \<longleftrightarrow> unat u < 2" by (simp add: word_less_nat_alt)
  also have "\<dots> \<longleftrightarrow> unat u = 0 \<or> unat u = 1" by linarith
  also have "\<dots> \<longleftrightarrow> u = 0 \<or> u = 1" by (metis unat_0 unat_1 unat_eq_0 word_unat_eq_iff)
  finally show ?thesis .
qed

lemma nth_scal:
  "u \<noteq> 0 \<Longrightarrow> k \<le> length a \<Longrightarrow> i < length a \<Longrightarrow>
   scal a u k ! i = (if i < k then gf2_8_mul u (a ! i) else a ! i)"
  by (auto simp: scal_def obl_scal_def nth_scal_ref u8_less_2)

lemma obl_swap_full:
  "length a = k \<Longrightarrow> length b = k \<Longrightarrow> obl_swap a b k = (b, a)"
  by (induction a b k rule: obl_swap.induct) auto

end
