(* ===== verification/Cauchy.thy ===== *)
theory Cauchy
  imports Main
begin

text \<open>
  Gaussian elimination on a Cauchy matrix over any field. Entry \<open>(i, j)\<close> of the matrix is
  \<open>1 / (x i + y j)\<close> with distinct \<open>x\<close>s and distinct \<open>y\<close>s; \<open>schur x y t i j\<close> is the closed form of
  entry \<open>(i, j)\<close> after \<open>t\<close> columns have been eliminated. It satisfies the elimination step and never
  vanishes on the diagonal, which is why the decoder of the Reed-Solomon code needs no pivoting.
\<close>

definition schur_row :: "(nat \<Rightarrow> 'a::field) \<Rightarrow> (nat \<Rightarrow> 'a) \<Rightarrow> nat \<Rightarrow> nat \<Rightarrow> 'a" where
  "schur_row x y t i = (\<Prod>s<t. (x i - x s) / (x i + y s))"

definition schur_col :: "(nat \<Rightarrow> 'a::field) \<Rightarrow> (nat \<Rightarrow> 'a) \<Rightarrow> nat \<Rightarrow> nat \<Rightarrow> 'a" where
  "schur_col x y t j = (\<Prod>s<t. (y j - y s) / (x s + y j))"

definition schur :: "(nat \<Rightarrow> 'a::field) \<Rightarrow> (nat \<Rightarrow> 'a) \<Rightarrow> nat \<Rightarrow> nat \<Rightarrow> nat \<Rightarrow> 'a" where
  "schur x y t i j = schur_row x y t i * schur_col x y t j / (x i + y j)"

text \<open>The data of a Cauchy matrix of size \<open>n\<close>.\<close>

definition cauchy_data :: "nat \<Rightarrow> (nat \<Rightarrow> 'a::field) \<Rightarrow> (nat \<Rightarrow> 'a) \<Rightarrow> bool" where
  "cauchy_data n x y \<longleftrightarrow>
     inj_on x {..<n} \<and> inj_on y {..<n} \<and> (\<forall>i<n. \<forall>j<n. x i + y j \<noteq> 0)"

lemma schur_0 [simp]: "schur x y 0 i j = 1 / (x i + y j)"
  by (simp add: schur_def schur_row_def schur_col_def)

lemma schur_nonzero:
  assumes "cauchy_data n x y" and "t \<le> i" "i < n" and "t \<le> j" "j < n"
  shows "schur x y t i j \<noteq> 0"
proof -
  have "x i \<noteq> x s" "y j \<noteq> y s" if "s < t" for s
    using assms that inj_on_eq_iff [of x "{..<n}" i s] inj_on_eq_iff [of y "{..<n}" j s]
    by (simp_all add: cauchy_data_def)
  then show ?thesis
    using assms by (auto simp: schur_def schur_row_def schur_col_def cauchy_data_def prod_zero_iff)
qed

text \<open>The identity behind one elimination step.\<close>

lemma cauchy_step:
  fixes xi xt yj yt :: "'a::field"
  assumes "xi + yj \<noteq> 0" "xi + yt \<noteq> 0" "xt + yj \<noteq> 0"
  shows "1 / (xi + yj) - (xt + yt) / ((xi + yt) * (xt + yj)) =
    (xi - xt) * (yj - yt) / ((xi + yj) * ((xi + yt) * (xt + yj)))"
  using assms by (simp add: divide_simps) (simp add: algebra_simps)

lemma schur_Suc:
  assumes "cauchy_data n x y" and "t < i" "i < n" and "t < j" "j < n"
  shows "schur x y (Suc t) i j = schur x y t i j - schur x y t i t * schur x y t t j / schur x y t t t"
proof -
  have nz: "x i + y j \<noteq> 0" "x i + y t \<noteq> 0" "x t + y j \<noteq> 0" "x t + y t \<noteq> 0"
    using assms by (auto simp: cauchy_data_def)
  have "schur x y t t t \<noteq> 0" using assms by (intro schur_nonzero [of n]) auto
  then have f: "schur_row x y t t \<noteq> 0" "schur_col x y t t \<noteq> 0" by (auto simp: schur_def)
  have "schur x y (Suc t) i j =
      schur_row x y t i * schur_col x y t j *
        ((x i - x t) * (y j - y t) / ((x i + y j) * ((x i + y t) * (x t + y j))))"
    by (simp add: schur_def schur_row_def schur_col_def algebra_simps)
  also have "\<dots> = schur_row x y t i * schur_col x y t j *
        (1 / (x i + y j) - (x t + y t) / ((x i + y t) * (x t + y j)))"
    using nz by (simp add: cauchy_step)
  also have "\<dots> = schur x y t i j - schur x y t i t * schur x y t t j / schur x y t t t"
    using nz f by (simp add: schur_def right_diff_distrib)
  finally show ?thesis .
qed

end
