(* ===== verification/GF256_Rows.thy ===== *)
theory GF256_Rows
  imports GF256
begin

unbundle bit_operations_syntax

text \<open>
  The products of one factor, as the generated tables list them: sixteen products with the low nibbles,
  sixteen with the high ones, and a whole row as sixteen lines. They are computed by doublings and
  exclusive-or only, so that the tables can be checked by rewriting; the lemmas relate them to the
  multiplication of the field.
\<close>

named_theorems table_rows

definition low_products :: "u8 \<Rightarrow> bytes" where
  "low_products u =
     (let u2 = xtime u; u3 = u2 XOR u; u4 = xtime u2; u8 = xtime u4; u12 = u8 XOR u4 in
      [0, u, u2, u3, u4, u4 XOR u, u4 XOR u2, u4 XOR u3,
       u8, u8 XOR u, u8 XOR u2, u8 XOR u3, u12, u12 XOR u, u12 XOR u2, u12 XOR u3])"

definition high_products :: "u8 \<Rightarrow> bytes" where
  "high_products u = low_products (xtime (xtime (xtime (xtime u))))"

definition product_lines :: "u8 \<Rightarrow> bytes list" where
  "product_lines u = map (\<lambda>h. map ((XOR) h) (low_products u)) (low_products (xtime (xtime (xtime (xtime u)))))"

lemma mul_doubles:
  "gf2_8_mul u 2 = xtime u" "gf2_8_mul u 4 = xtime (xtime u)" "gf2_8_mul u 8 = xtime (xtime (xtime u))"
  "gf2_8_mul u 16 = xtime (xtime (xtime (xtime u)))"
proof -
  have two: "gf2_8_mul u (gf2_8_mul 2 c) = xtime (gf2_8_mul u c)" for c
    using mul_left_commute [of u 2 c] by (simp add: mul_2)
  have c: "gf2_8_mul 2 1 = 2" "gf2_8_mul 2 2 = 4" "gf2_8_mul 2 4 = 8" "gf2_8_mul 2 8 = 16"
    by (simp_all add: mul_2 xtime_def)
  show 2: "gf2_8_mul u 2 = xtime u" using two [of 1] by (simp add: c)
  show 4: "gf2_8_mul u 4 = xtime (xtime u)" using two [of 2] by (simp add: c 2)
  show 8: "gf2_8_mul u 8 = xtime (xtime (xtime u))" using two [of 4] by (simp add: c 4)
  show "gf2_8_mul u 16 = xtime (xtime (xtime (xtime u)))" using two [of 8] by (simp add: c 8)
qed

lemma low_products_mul: "low_products u = map (gf2_8_mul u) [0, 1, 2, 3, 4, 5, 6, 7, 8, 9, 10, 11, 12, 13, 14, 15]"
proof -
  have s: "(3 :: u8) = 2 XOR 1" "(5 :: u8) = 4 XOR 1" "(6 :: u8) = 4 XOR 2" "(7 :: u8) = 4 XOR (2 XOR 1)"
    "(9 :: u8) = 8 XOR 1" "(10 :: u8) = 8 XOR 2" "(11 :: u8) = 8 XOR (2 XOR 1)" "(12 :: u8) = 8 XOR 4"
    "(13 :: u8) = (8 XOR 4) XOR 1" "(14 :: u8) = (8 XOR 4) XOR 2" "(15 :: u8) = (8 XOR 4) XOR (2 XOR 1)"
    by simp_all
  show ?thesis
    unfolding s list.map mul_xor_right mul_doubles mul_1_right mul_0 low_products_def Let_def ..
qed

lemma nth_low_products: "i < 16 \<Longrightarrow> low_products u ! i = gf2_8_mul u (word_of_nat i)"
proof -
  assume "i < 16"
  then have "i \<in> set [0..<16]" by simp
  then show ?thesis unfolding low_products_mul by (auto simp: eval_nat_numeral upt_rec)
qed

lemma length_products [simp]: "length (low_products u) = 16" "length (high_products u) = 16"
  by (simp_all add: low_products_def high_products_def Let_def)

lemma high_products_mul:
  assumes "i < 16"
  shows "high_products u ! i = gf2_8_mul u (word_of_nat (16 * i))"
proof -
  have s: "(word_of_nat (16 * i) :: u8) = gf2_8_mul 16 (word_of_nat i)"
  proof -
    have "i \<in> set [0..<16]" using assms by simp
    moreover have "list_all (\<lambda>i. (word_of_nat (16 * i) :: u8) = gf2_8_mul 16 (word_of_nat i)) [0..<16]" by code_simp
    ultimately show ?thesis by (auto simp: list_all_iff simp del: set_upt)
  qed
  have "gf2_8_mul u (gf2_8_mul 16 c) = gf2_8_mul (gf2_8_mul u 16) c" for c by (simp add: mul_assoc)
  then show ?thesis using assms unfolding s by (simp add: high_products_def nth_low_products mul_doubles)
qed

end
