(* ===== verification/Kernels.thy ===== *)
theory Kernels
  imports ReedSolomon MulTable0 MulTable1 MulTable2 MulTable3 ShufTable
begin

unbundle bit_operations_syntax

text \<open>
  The builds of the kernels that run in production (\<open>oblas_lite.c\<close> under \<open>rswrapper.c\<close>): the loops over
  the multiplication table, and the vector loops of SSSE3, AVX2 and AVX-512, which multiply sixteen bytes
  at a time by two lookups in the shuffle tables. The compiler's intrinsics are modelled on vectors as
  byte lists. \<open>oblas_build\<close> is what the Reed-Solomon code expects of a build; every build
  interprets it, so the model of the code over the field multiplication (\<open>Oblas\<close>) stands for all of them.
\<close>

section \<open>The tables\<close>

definition GF2_8_MUL :: bytes where
  "GF2_8_MUL = concat (concat
     [GF2_8_MUL_0, GF2_8_MUL_1, GF2_8_MUL_2, GF2_8_MUL_3, GF2_8_MUL_4, GF2_8_MUL_5, GF2_8_MUL_6, GF2_8_MUL_7,
      GF2_8_MUL_8, GF2_8_MUL_9, GF2_8_MUL_10, GF2_8_MUL_11, GF2_8_MUL_12, GF2_8_MUL_13, GF2_8_MUL_14, GF2_8_MUL_15,
      GF2_8_MUL_16, GF2_8_MUL_17, GF2_8_MUL_18, GF2_8_MUL_19, GF2_8_MUL_20, GF2_8_MUL_21, GF2_8_MUL_22, GF2_8_MUL_23,
      GF2_8_MUL_24, GF2_8_MUL_25, GF2_8_MUL_26, GF2_8_MUL_27, GF2_8_MUL_28, GF2_8_MUL_29, GF2_8_MUL_30, GF2_8_MUL_31])"

definition GF2_8_SHUF_LO :: bytes where
  "GF2_8_SHUF_LO = concat (GF2_8_SHUF_LO_0 @ GF2_8_SHUF_LO_1)"

definition GF2_8_SHUF_HI :: bytes where
  "GF2_8_SHUF_HI = concat (GF2_8_SHUF_HI_0 @ GF2_8_SHUF_HI_1)"

section \<open>The loops over the multiplication table\<close>

text \<open>\<open>&GF2_8_MUL[u << 8]\<close>.\<close>

definition u_row :: "u8 \<Rightarrow> bytes" where
  "u_row u = bslice GF2_8_MUL (unat u * 256) 256"

fun axpy_table :: "bytes \<Rightarrow> bytes \<Rightarrow> u8 \<Rightarrow> nat \<Rightarrow> bytes" where
  "axpy_table (x # a) (y # b) u (Suc k) = (x XOR u_row u ! unat y) # axpy_table a b u k"
| "axpy_table a b u k = a"

fun scal_table :: "bytes \<Rightarrow> u8 \<Rightarrow> nat \<Rightarrow> bytes" where
  "scal_table (x # a) u (Suc k) = u_row u ! unat x # scal_table a u k"
| "scal_table a u k = a"

section \<open>Vectors\<close>

text \<open>The intrinsics: a vector register is the list of its bytes, lowest address first.\<close>

definition vand :: "bytes \<Rightarrow> bytes \<Rightarrow> bytes" where "vand v w = map2 (AND) v w"
definition vxor :: "bytes \<Rightarrow> bytes \<Rightarrow> bytes" where "vxor v w = map2 (XOR) v w"

definition le64 :: "u64 \<Rightarrow> bytes" where
  "le64 w = map (\<lambda>i. ucast (drop_bit (8 * i) w)) [0..<8]"

definition get_le64 :: "bytes \<Rightarrow> u64" where
  "get_le64 bs = foldr (\<lambda>b w. ucast b OR push_bit 8 w) bs 0"

definition srli_epi64 :: "nat \<Rightarrow> bytes \<Rightarrow> bytes" where
  "srli_epi64 n v = concat (map (\<lambda>i. le64 (drop_bit n (get_le64 (bslice v (i * 8) 8)))) [0..<length v div 8])"

text \<open>\<open>pshufb\<close> and its wider forms: each lane of sixteen bytes looks up in the same lane of the table.\<close>

definition shuffle_epi8 :: "bytes \<Rightarrow> bytes \<Rightarrow> bytes" where
  "shuffle_epi8 tab idx =
     map (\<lambda>i. let x = idx ! i in if bit x 7 then 0 else tab ! (16 * (i div 16) + unat (x AND 15))) [0..<length idx]"

definition broadcast :: "nat \<Rightarrow> bytes \<Rightarrow> bytes" where
  "broadcast w v = concat (replicate (w div 16) v)"

text \<open>The body of the loop \<open>OBL_SHUF\<close> up to the store, for registers of \<open>w\<close> bytes.\<close>

definition shuf_products :: "nat \<Rightarrow> u8 \<Rightarrow> bytes \<Rightarrow> bytes" where
  "shuf_products w u bx =
     (let urow_lo = broadcast w (bslice GF2_8_SHUF_LO (unat u * 16) 16);
          urow_hi = broadcast w (bslice GF2_8_SHUF_HI (unat u * 16) 16);
          mask0f = replicate w 15;
          lo = vand bx mask0f;
          hi = vand (srli_epi64 4 bx) mask0f in
      vxor (shuffle_epi8 urow_lo lo) (shuffle_epi8 urow_hi hi))"

text \<open>The loop: \<open>n\<close> registers, then the rest of \<open>r\<close> bytes by the plain loop.\<close>

fun shuf_loop :: "nat \<Rightarrow> (bytes \<Rightarrow> bytes \<Rightarrow> bytes) \<Rightarrow> (bytes \<Rightarrow> bytes \<Rightarrow> u8 \<Rightarrow> nat \<Rightarrow> bytes) \<Rightarrow> u8 \<Rightarrow> nat \<Rightarrow> nat \<Rightarrow> bytes \<Rightarrow> bytes \<Rightarrow> bytes" where
  "shuf_loop w f op u 0 r a b = op a b u r"
| "shuf_loop w f op u (Suc n) r a b =
     f (take w a) (shuf_products w u (take w b)) @ shuf_loop w f op u n r (drop w a) (drop w b)"

definition obl_shuf ::
  "nat \<Rightarrow> (bytes \<Rightarrow> bytes \<Rightarrow> u8 \<Rightarrow> nat \<Rightarrow> bytes) \<Rightarrow> (bytes \<Rightarrow> bytes \<Rightarrow> bytes) \<Rightarrow> bytes \<Rightarrow> bytes \<Rightarrow> u8 \<Rightarrow> nat \<Rightarrow> bytes" where
  "obl_shuf w op f a b u k = shuf_loop w f op u (k div w) (k mod w) a b"

definition axpy_vec :: "nat \<Rightarrow> bytes \<Rightarrow> bytes \<Rightarrow> u8 \<Rightarrow> nat \<Rightarrow> bytes" where
  "axpy_vec w a b u k = (if u = 1 then xor_loop a b k else obl_shuf w axpy_table vxor a b u k)"

definition scal_vec :: "nat \<Rightarrow> bytes \<Rightarrow> u8 \<Rightarrow> nat \<Rightarrow> bytes" where
  "scal_vec w a u k = obl_shuf w (\<lambda>a b u k. scal_table a u k) (\<lambda>a b. b) a a u k"

text \<open>The build without vectors: \<open>OBL_SHUF\<close> is the plain loop.\<close>

definition axpy_plain :: "bytes \<Rightarrow> bytes \<Rightarrow> u8 \<Rightarrow> nat \<Rightarrow> bytes" where
  "axpy_plain a b u k = (if u = 1 then xor_loop a b k else axpy_table a b u k)"

section \<open>The choice of a build\<close>

text \<open>
  \<open>rswrapper.c\<close> compiles \<open>rs.c\<close> once per instruction set and points the code at the best one the
  processor has; the default build takes what the compiler's macros promise (\<open>autoshim.h\<close>). On
  \<open>aarch64\<close> that is the 16 byte build over \<open>sse2neon.h\<close>.
\<close>

record compiler =
  AVX512F :: bool
  AVX2 :: bool
  SSSE3 :: bool
  MSC_X64 :: bool
  aarch64 :: bool
  x86 :: bool

record cpu_features =
  has_avx512f :: bool
  has_avx512bw :: bool
  has_avx2 :: bool
  has_ssse3 :: bool

datatype isa_suffix = isa_ssse3 | isa_avx2 | isa_avx512 | isa_def

definition autoshim :: "compiler \<Rightarrow> nat option" where
  "autoshim cc =
     (if AVX512F cc then Some 64
      else if AVX2 cc then Some 32
      else if SSSE3 cc \<or> MSC_X64 cc then Some 16
      else if aarch64 cc then Some 16
      else None)"

definition reed_solomon_init :: "compiler \<Rightarrow> cpu_features \<Rightarrow> isa_suffix" where
  "reed_solomon_init cc cpu =
     (if x86 cc \<and> has_avx512f cpu \<and> has_avx512bw cpu then isa_avx512
      else if x86 cc \<and> has_avx2 cpu then isa_avx2
      else if x86 cc \<and> has_ssse3 cpu then isa_ssse3
      else isa_def)"

text \<open>The register width of a build, if it has vectors.\<close>

fun isa_width :: "compiler \<Rightarrow> isa_suffix \<Rightarrow> nat option" where
  "isa_width cc isa_ssse3 = Some 16"
| "isa_width cc isa_avx2 = Some 32"
| "isa_width cc isa_avx512 = Some 64"
| "isa_width cc isa_def = autoshim cc"

definition obl_axpy_isa :: "nat option \<Rightarrow> bytes \<Rightarrow> bytes \<Rightarrow> u8 \<Rightarrow> nat \<Rightarrow> bytes" where
  "obl_axpy_isa wo = (case wo of Some w \<Rightarrow> axpy_vec w | None \<Rightarrow> axpy_plain)"

definition obl_scal_isa :: "nat option \<Rightarrow> bytes \<Rightarrow> u8 \<Rightarrow> nat \<Rightarrow> bytes" where
  "obl_scal_isa wo = (case wo of Some w \<Rightarrow> scal_vec w | None \<Rightarrow> scal_table)"

text \<open>\<open>axpy\<close> and \<open>scal\<close> of \<open>rs.c\<close> in a build.\<close>

definition axpy_isa :: "nat option \<Rightarrow> bytes \<Rightarrow> bytes \<Rightarrow> u8 \<Rightarrow> nat \<Rightarrow> bytes" where
  "axpy_isa wo a b u k =
     (if u = 0 then a
      else if u = 1 then xor_loop a b k
      else obl_axpy_isa wo a b u k)"

definition scal_isa :: "nat option \<Rightarrow> bytes \<Rightarrow> u8 \<Rightarrow> nat \<Rightarrow> bytes" where
  "scal_isa wo a u k = (if u < 2 then a else obl_scal_isa wo a u k)"

text \<open>The encoder of \<open>rs.c\<close> in a build.\<close>

definition gemm_row_isa :: "nat option \<Rightarrow> bytes \<Rightarrow> bytes list \<Rightarrow> bytes \<Rightarrow> nat \<Rightarrow> nat \<Rightarrow> nat \<Rightarrow> bytes" where
  "gemm_row_isa wo a b c0 row k m =
     fold (\<lambda>idx c. axpy_isa wo c (b ! idx) (a ! (row * k + idx)) m) [0..<k] (replicate m 0 @ drop m c0)"

definition gemm_isa :: "nat option \<Rightarrow> bytes \<Rightarrow> bytes list \<Rightarrow> nat \<Rightarrow> nat \<Rightarrow> nat \<Rightarrow> bytes list" where
  "gemm_isa wo a shards n k m =
     fold (\<lambda>row sh. sh[k + row := gemm_row_isa wo a sh (sh ! (k + row)) row k m]) [0..<n] shards"

definition reed_solomon_encode_isa :: "nat option \<Rightarrow> reed_solomon \<Rightarrow> bytes list \<Rightarrow> int \<Rightarrow> nat \<Rightarrow> int \<times> bytes list" where
  "reed_solomon_encode_isa wo rs shards nr_shards bs =
     (if nr_shards < int (rs_ts rs) then (-1, shards)
      else (0, gemm_isa wo (rs_p rs) shards (rs_ps rs) (rs_ds rs) bs))"

section \<open>What the tables hold\<close>

definition all_bytes :: bytes where
  "all_bytes = map word_of_nat [0..<256]"

lemma nth_all_bytes: "all_bytes ! unat u = u" "unat (u :: u8) < length all_bytes"
proof -
  have "unat u < 2 ^ LENGTH(8)" by (rule unsigned_less)
  then show "all_bytes ! unat u = u" "unat u < length all_bytes" by (simp_all add: all_bytes_def)
qed

lemma rows_append: "concat (map f xs) @ concat (map f ys) = concat (map f (xs @ ys))"
  by simp

lemma mul_rows: "GF2_8_MUL = concat (concat (map product_lines all_bytes))"
  unfolding GF2_8_MUL_def table_rows concat.simps append_Nil2 rows_append all_bytes_def
  by (rule arg_cong [where f = "\<lambda>l. concat (concat (map product_lines l))"]) code_simp

lemma shuf_rows:
  "GF2_8_SHUF_LO = concat (map low_products all_bytes)" "GF2_8_SHUF_HI = concat (map high_products all_bytes)"
  unfolding GF2_8_SHUF_LO_def GF2_8_SHUF_HI_def table_rows map_append [symmetric] all_bytes_def
  by (rule arg_cong [where f = "\<lambda>l. concat (map _ l)"], code_simp)+

lemma bslice_rows:
  assumes "\<And>u. length (f u) = n"
  shows "bslice (concat (map f all_bytes)) (unat u * n) n = f u"
  using bslice_concat [of "map f all_bytes" n "unat u"] assms nth_all_bytes [of u] by simp

lemma length_product_lines: "length (concat (product_lines u)) = 256" "length (product_lines u) = 16"
  using length_concat_uniform [of "product_lines u" 16]
  by (auto simp: product_lines_def simp flip: high_products_def)

lemma concat_concat: "concat (concat xss) = concat (map concat xss)"
  by (induction xss) simp_all

lemma u_row_lines: "u_row u = concat (product_lines u)"
proof -
  have "GF2_8_MUL = concat (map (\<lambda>u. concat (product_lines u)) all_bytes)"
    by (simp add: mul_rows concat_concat comp_def)
  then show ?thesis using bslice_rows [of "\<lambda>u. concat (product_lines u)" 256 u] by (simp add: u_row_def length_product_lines)
qed

text \<open>A byte is its two nibbles.\<close>

lemma and_0f: "b AND 15 = take_bit 4 (b :: u8)"
  using take_bit_eq_mask [of 4 b] by (simp add: mask_eq_exp_minus_1)

lemma unat_nibbles: "unat (drop_bit 4 (b :: u8)) = unat b div 16" "unat (b AND 15) = unat b mod 16"
proof -
  show "unat (b AND 15) = unat b mod 16" unfolding and_0f unsigned_take_bit_eq by (simp add: take_bit_eq_mod)
  show "unat (drop_bit 4 b) = unat b div 16" unfolding unat_drop_bit_eq by (simp add: drop_bit_eq_div)
qed

lemma two_nibbles: "(b :: u8) = word_of_nat (16 * (unat b div 16)) XOR word_of_nat (unat b mod 16)"
proof -
  have "word_of_nat (16 * (unat b div 16)) = (16 :: u8) * drop_bit 4 b"
    by (simp only: unat_nibbles(1) [symmetric] of_nat_mult of_nat_unat ucast_id) simp
  also have "\<dots> = push_bit 4 (drop_bit 4 b)" by (simp add: push_bit_eq_mult mult.commute)
  finally have h: "word_of_nat (16 * (unat b div 16)) = push_bit 4 (drop_bit 4 b)" .
  have l: "word_of_nat (unat b mod 16) = b AND 15"
    by (simp only: unat_nibbles(2) [symmetric] of_nat_unat ucast_id)
  show ?thesis unfolding h l and_0f by (auto intro!: bit_word_eqI simp: bit_simps)
qed

lemma unat_u8_div: "unat (b :: u8) div 16 < 16"
proof -
  have "unat b < 2 ^ LENGTH(8)" by (rule unsigned_less)
  then show ?thesis by simp
qed

lemma u_row_mul: "u_row u ! unat b = gf2_8_mul u b"
proof -
  let ?h = "unat b div 16" and ?l = "unat b mod 16"
  have h: "?h < 16" "?l < 16" using unat_u8_div by simp_all
  have "u_row u ! unat b = bslice (concat (product_lines u)) (?h * 16) 16 ! ?l"
    using h length_product_lines [of u] by (subst nth_bslice) (simp_all add: u_row_lines)
  also have "\<dots> = product_lines u ! ?h ! ?l"
    using bslice_concat [of "product_lines u" 16 ?h] h length_product_lines [of u] by (simp add: product_lines_def)
  also have "\<dots> = gf2_8_mul u (word_of_nat (16 * ?h)) XOR gf2_8_mul u (word_of_nat ?l)"
    using h high_products_mul [of ?h u] by (simp add: product_lines_def nth_low_products flip: high_products_def)
  also have "\<dots> = gf2_8_mul u b" using two_nibbles [of b] by (simp add: mul_xor_right [symmetric])
  finally show ?thesis .
qed

lemma shuf_rows_mul:
  assumes "i < 16"
  shows "bslice GF2_8_SHUF_LO (unat u * 16) 16 ! i = gf2_8_mul u (word_of_nat i)"
    "bslice GF2_8_SHUF_HI (unat u * 16) 16 ! i = gf2_8_mul u (word_of_nat (16 * i))"
  using assms by (simp_all add: shuf_rows bslice_rows nth_low_products high_products_mul del: of_nat_mult of_nat_Suc)

section \<open>The vector loop multiplies each byte\<close>

lemma length_le64 [simp]: "length (le64 w) = 8"
  by (simp add: le64_def)

lemma nth_le64: "i < 8 \<Longrightarrow> le64 w ! i = ucast (drop_bit (8 * i) w)"
  by (simp add: le64_def)

lemma bit_get_le64:
  "bit (get_le64 bs) n \<longleftrightarrow> n < 64 \<and> n div 8 < length bs \<and> bit (bs ! (n div 8)) (n mod 8)"
proof (induction bs arbitrary: n)
  case Nil
  then show ?case by (simp add: get_le64_def)
next
  case (Cons b bs)
  have e: "get_le64 (b # bs) = ucast b OR push_bit 8 (get_le64 bs)" by (simp add: get_le64_def)
  show ?case
  proof (cases "n < 8")
    case True
    then show ?thesis by (auto simp: e bit_simps)
  next
    case False
    then have d: "n div 8 = Suc ((n - 8) div 8)" "n mod 8 = (n - 8) mod 8"
      by (simp_all add: le_div_geq le_mod_geq)
    have "\<not> bit b n" using False bit_imp_le_length [of b n] by auto
    then show ?thesis using False Cons.IH [of "n - 8"] by (auto simp: e bit_simps d)
  qed
qed

lemma le64_high_nibble:
  assumes "length bs = 8" "i < 8"
  shows "le64 (drop_bit 4 (get_le64 bs)) ! i AND 15 = drop_bit 4 (bs ! i)"
proof (rule bit_word_eqI)
  fix n assume n: "n < LENGTH(8)"
  show "bit (le64 (drop_bit 4 (get_le64 bs)) ! i AND 15) n \<longleftrightarrow> bit (drop_bit 4 (bs ! i)) n"
  proof (cases "n < 4")
    case True
    then have "(n + (4 + i * 8)) div 8 = i" "(n + (4 + i * 8)) mod 8 = n + 4" by presburger+
    with True assms show ?thesis unfolding and_0f by (auto simp: nth_le64 bit_simps bit_get_le64 ac_simps)
  next
    case False
    then show ?thesis using bit_imp_le_length [of "bs ! i" "n + 4"] unfolding and_0f by (auto simp: bit_simps ac_simps)
  qed
qed

lemma vand_srli:
  assumes "8 dvd length v"
  shows "vand (srli_epi64 4 v) (replicate (length v) 15) = map (drop_bit 4) v"
proof (rule nth_equalityI)
  let ?rows = "map (\<lambda>i. le64 (drop_bit 4 (get_le64 (bslice v (i * 8) 8)))) [0..<length v div 8]"
  have l: "length (srli_epi64 4 v) = length v"
    using length_concat_uniform [of ?rows 8] assms by (simp add: srli_epi64_def)
  show "length (vand (srli_epi64 4 v) (replicate (length v) 15)) = length (map (drop_bit 4) v)"
    by (simp add: vand_def l)
  fix i assume "i < length (vand (srli_epi64 4 v) (replicate (length v) 15))"
  then have i: "i < length v" by (simp add: vand_def l)
  then have q: "i div 8 < length v div 8" using assms by (auto elim!: dvdE)
  have le: "i div 8 * 8 + 8 \<le> length v" using q assms by (auto elim!: dvdE)
  have "srli_epi64 4 v ! i = bslice (srli_epi64 4 v) (i div 8 * 8) 8 ! (i mod 8)"
    using le by (subst nth_bslice) (simp_all add: l)
  also have "\<dots> = ?rows ! (i div 8) ! (i mod 8)"
    using bslice_concat [of ?rows 8 "i div 8"] q by (simp add: srli_epi64_def)
  finally have "srli_epi64 4 v ! i AND 15 = drop_bit 4 (bslice v (i div 8 * 8) 8 ! (i mod 8))"
    using q le by (simp add: le64_high_nibble)
  also have "bslice v (i div 8 * 8) 8 ! (i mod 8) = v ! i"
    using le by (subst nth_bslice) simp_all
  finally show "vand (srli_epi64 4 v) (replicate (length v) 15) ! i = map (drop_bit 4) v ! i"
    using i by (simp add: vand_def l)
qed

lemma nth_broadcast:
  assumes "length t = 16" "i < w div 16" "j < 16"
  shows "broadcast w t ! (16 * i + j) = t ! j"
proof -
  have l: "length (broadcast w t) = w div 16 * 16"
    using length_concat_uniform [of "replicate (w div 16) t" 16] assms by (simp add: broadcast_def)
  have "broadcast w t ! (16 * i + j) = bslice (broadcast w t) (i * 16) 16 ! j"
    using assms by (subst nth_bslice) (simp_all add: l mult.commute)
  then show ?thesis using bslice_concat [of "replicate (w div 16) t" 16 i] assms by (simp add: broadcast_def)
qed

lemma shuffle_nibbles:
  assumes "length t = 16" "16 dvd length v" "\<And>b. unat (g b) < 16"
  shows "shuffle_epi8 (broadcast (length v) t) (map g v) = map (\<lambda>b. t ! unat (g b)) v"
proof (rule nth_equalityI)
  fix i assume "i < length (shuffle_epi8 (broadcast (length v) t) (map g v))"
  then have i: "i < length v" by (simp add: shuffle_epi8_def)
  then have q: "i div 16 < length v div 16" using assms(2) by (auto elim!: dvdE)
  have x: "g (v ! i) AND 15 = g (v ! i)" "\<not> bit (g (v ! i)) 7"
  proof -
    have "unat (g (v ! i) AND 15) = unat (g (v ! i))" using assms(3) [of "v ! i"] by (simp add: unat_nibbles)
    then show e: "g (v ! i) AND 15 = g (v ! i)" by (simp add: word_unat_eq_iff)
    have "\<not> bit (g (v ! i) AND 15) 7" unfolding and_0f by (simp add: bit_simps)
    then show "\<not> bit (g (v ! i)) 7" unfolding e .
  qed
  then show "shuffle_epi8 (broadcast (length v) t) (map g v) ! i = map (\<lambda>b. t ! unat (g b)) v ! i"
    using i q assms by (simp add: shuffle_epi8_def nth_broadcast)
qed (simp add: shuffle_epi8_def)

lemma shuf_products_mul:
  assumes "16 dvd length v"
  shows "shuf_products (length v) u v = map (gf2_8_mul u) v"
proof -
  have lo: "vand v (replicate (length v) 15) = map (\<lambda>b. b AND 15) v"
    by (simp add: vand_def list_eq_iff_nth_eq)
  have hi: "vand (srli_epi64 4 v) (replicate (length v) 15) = map (drop_bit 4) v"
    using assms by (intro vand_srli) (auto elim!: dvdE)
  have b: "gf2_8_mul u (word_of_nat (unat b mod 16)) XOR gf2_8_mul u (word_of_nat (16 * (unat b div 16))) = gf2_8_mul u b" for b
    using two_nibbles [of b] by (simp add: mul_xor_right [symmetric] xor.commute)
  have l: "length (bslice GF2_8_SHUF_LO (unat u * 16) 16) = 16" "length (bslice GF2_8_SHUF_HI (unat u * 16) 16) = 16"
    by (simp_all add: shuf_rows bslice_rows)
  have n: "unat (b AND 15) < 16" "unat (drop_bit 4 b) < 16" for b :: u8
    by (simp_all add: unat_nibbles unat_u8_div)
  show ?thesis
    unfolding shuf_products_def Let_def lo hi
    by (simp only: shuffle_nibbles [OF l(1) assms n(1)] shuffle_nibbles [OF l(2) assms n(2)])
      (simp add: vxor_def list_eq_iff_nth_eq unat_nibbles shuf_rows_mul unat_u8_div b del: of_nat_mult)
qed

section \<open>The builds agree with the field multiplication\<close>

lemma axpy_table_ref: "axpy_table a b u k = obl_axpy_ref a b u k"
  by (induction a b u k rule: axpy_table.induct) (simp_all add: u_row_mul)

lemma scal_table_ref: "scal_table a u k = obl_scal_ref a u k"
  by (induction a u k rule: scal_table.induct) (simp_all add: u_row_mul)

lemma axpy_ref_split:
  "n \<le> length a \<Longrightarrow> n \<le> length b \<Longrightarrow>
   obl_axpy_ref a b u (n + k) = vxor (take n a) (map (gf2_8_mul u) (take n b)) @ obl_axpy_ref (drop n a) (drop n b) u k"
  by (induction a b u n rule: obl_axpy_ref.induct) (auto simp: vxor_def)

lemma scal_ref_split:
  "n \<le> length a \<Longrightarrow>
   obl_scal_ref a u (n + k) = map (gf2_8_mul u) (take n a) @ obl_scal_ref (drop n a) u k"
  by (induction a u n rule: obl_scal_ref.induct) auto

lemma shuf_loop_axpy:
  assumes "16 dvd w"
  shows "n * w \<le> length a \<Longrightarrow> n * w \<le> length b \<Longrightarrow>
    shuf_loop w vxor axpy_table u n r a b = obl_axpy_ref a b u (n * w + r)"
proof (induction n arbitrary: a b)
  case (Suc n)
  then show ?case
    using axpy_ref_split [of w a b u "n * w + r"] shuf_products_mul [of "take w b" u] assms
    by (simp add: add.assoc)
qed (simp add: axpy_table_ref)

lemma shuf_loop_scal:
  assumes "16 dvd w"
  shows "n * w \<le> length a \<Longrightarrow>
    shuf_loop w (\<lambda>a b. b) (\<lambda>a b u k. scal_table a u k) u n r a a = obl_scal_ref a u (n * w + r)"
proof (induction n arbitrary: a)
  case (Suc n)
  then show ?case
    using scal_ref_split [of w a u "n * w + r"] shuf_products_mul [of "take w a" u] assms
    by (simp add: add.assoc)
qed (simp add: scal_table_ref)

lemma axpy_vec_ref:
  assumes "16 dvd w" "k \<le> length a" "k \<le> length b"
  shows "axpy_vec w a b u k = obl_axpy a b u k"
proof -
  have "k div w * w \<le> length a" "k div w * w \<le> length b"
    using assms order_trans [OF div_times_less_eq_dividend [of k w]] by blast+
  with assms(1) show ?thesis by (simp add: axpy_vec_def obl_axpy_def obl_shuf_def shuf_loop_axpy)
qed

lemma scal_vec_ref:
  assumes "16 dvd w" "k \<le> length a"
  shows "scal_vec w a u k = obl_scal a u k"
proof -
  have "k div w * w \<le> length a"
    using assms order_trans [OF div_times_less_eq_dividend [of k w]] by blast
  with assms(1) show ?thesis by (simp add: scal_vec_def obl_scal_def obl_shuf_def shuf_loop_scal)
qed

lemma axpy_plain_ref: "axpy_plain a b u k = obl_axpy a b u k"
  by (simp add: axpy_plain_def obl_axpy_def axpy_table_ref)

text \<open>What \<open>rs.c\<close> relies on, whichever build \<open>rswrapper.c\<close> selected for the processor.\<close>

locale oblas_build =
  fixes axpy_k :: "bytes \<Rightarrow> bytes \<Rightarrow> u8 \<Rightarrow> nat \<Rightarrow> bytes"
    and scal_k :: "bytes \<Rightarrow> u8 \<Rightarrow> nat \<Rightarrow> bytes"
  assumes length_axpy_k: "k \<le> length a \<Longrightarrow> k \<le> length b \<Longrightarrow> length (axpy_k a b u k) = length a"
    and length_scal_k: "k \<le> length a \<Longrightarrow> length (scal_k a u k) = length a"
    and nth_axpy_k: "k \<le> length a \<Longrightarrow> k \<le> length b \<Longrightarrow> i < length a \<Longrightarrow>
      axpy_k a b u k ! i = (if i < k then a ! i XOR gf2_8_mul u (b ! i) else a ! i)"
    and nth_scal_k: "k \<le> length a \<Longrightarrow> i < length a \<Longrightarrow>
      scal_k a u k ! i = (if i < k then gf2_8_mul u (a ! i) else a ! i)"
begin

lemma axpy_k_ref: "k \<le> length a \<Longrightarrow> k \<le> length b \<Longrightarrow> axpy_k a b u k = obl_axpy_ref a b u k"
  by (rule nth_equalityI) (simp_all add: length_axpy_k nth_axpy_k nth_axpy_ref)

lemma scal_k_ref: "k \<le> length a \<Longrightarrow> scal_k a u k = obl_scal_ref a u k"
  by (rule nth_equalityI) (simp_all add: length_scal_k nth_scal_k nth_scal_ref)

text \<open>Adding a multiple of a row twice cancels: what the elimination takes out, the same call puts back.\<close>

lemma axpy_k_twice:
  assumes "k \<le> length a" "k \<le> length b"
  shows "axpy_k (axpy_k a b u k) b u k = a"
  using assms length_axpy_k [of k a b u]
  by (intro nth_equalityI) (simp_all add: length_axpy_k nth_axpy_k xor.assoc)

end

lemma obl_axpy_ref_eq: "obl_axpy a b u k = obl_axpy_ref a b u k"
  by (simp add: obl_axpy_def xor_loop_ref)

interpretation tiny: oblas_build obl_axpy obl_scal
  by unfold_locales (simp_all add: obl_axpy_ref_eq nth_axpy_ref obl_scal_def nth_scal_ref)

interpretation plain: oblas_build axpy_plain scal_table
  by unfold_locales (simp_all add: axpy_plain_ref obl_axpy_ref_eq nth_axpy_ref scal_table_ref nth_scal_ref)

lemma vec_build: "16 dvd w \<Longrightarrow> oblas_build (axpy_vec w) (scal_vec w)"
  by unfold_locales (simp_all add: axpy_vec_ref scal_vec_ref obl_axpy_ref_eq nth_axpy_ref obl_scal_def nth_scal_ref)

interpretation ssse3: oblas_build "axpy_vec 16" "scal_vec 16" by (rule vec_build) simp
interpretation avx2: oblas_build "axpy_vec 32" "scal_vec 32" by (rule vec_build) simp
interpretation avx512: oblas_build "axpy_vec 64" "scal_vec 64" by (rule vec_build) simp

lemma obl_isa_ref:
  assumes "k \<le> length a" "k \<le> length b"
  shows "obl_axpy_isa (isa_width cc isa) a b u k = obl_axpy_ref a b u k"
    "obl_scal_isa (isa_width cc isa) a u k = obl_scal_ref a u k"
  using assms
  by (cases "(cc, isa)" rule: isa_width.cases;
      simp add: obl_axpy_isa_def obl_scal_isa_def autoshim_def plain.axpy_k_ref plain.scal_k_ref ssse3.axpy_k_ref
        ssse3.scal_k_ref avx2.axpy_k_ref avx2.scal_k_ref avx512.axpy_k_ref avx512.scal_k_ref)+

lemma isa_ref:
  assumes "k \<le> length a" "k \<le> length b"
  shows "axpy_isa (isa_width cc isa) a b u k = axpy a b u k" "scal_isa (isa_width cc isa) a u k = scal a u k"
  using obl_isa_ref [OF assms]
  by (simp_all add: axpy_isa_def scal_isa_def axpy_def scal_def obl_axpy_ref_eq obl_scal_def)

text \<open>Two folds that agree on the states an invariant holds of.\<close>

lemma fold_agree:
  assumes "I s" "\<And>x s. x \<in> set xs \<Longrightarrow> I s \<Longrightarrow> f x s = g x s \<and> I (g x s)"
  shows "fold f xs s = fold g xs s \<and> I (fold g xs s)"
  using assms by (induction xs arbitrary: s) auto

lemma gemm_row_isa_ref:
  assumes "k \<le> length b" "\<forall>s\<in>set b. m \<le> length s"
  shows "gemm_row_isa (isa_width cc isa) a b c0 row k m = gemm_row a b c0 row k m \<and> m \<le> length (gemm_row a b c0 row k m)"
  unfolding gemm_row_isa_def gemm_row_def
proof (rule fold_agree)
  fix idx and c :: bytes assume "idx \<in> set [0..<k]" "m \<le> length c"
  moreover from this assms have "m \<le> length (b ! idx)" by simp
  ultimately show "axpy_isa (isa_width cc isa) c (b ! idx) (a ! (row * k + idx)) m = axpy c (b ! idx) (a ! (row * k + idx)) m \<and>
      m \<le> length (axpy c (b ! idx) (a ! (row * k + idx)) m)"
    by (simp add: isa_ref)
qed simp

lemma gemm_isa_ref:
  assumes "k + n \<le> length shards" "\<forall>s\<in>set shards. m \<le> length s"
  shows "gemm_isa (isa_width cc isa) a shards n k m = gemm a shards n k m"
proof -
  let ?I = "\<lambda>sh. length sh = length shards \<and> (\<forall>s\<in>set sh. m \<le> length s)"
  have "gemm_isa (isa_width cc isa) a shards n k m = gemm a shards n k m \<and> ?I (gemm a shards n k m)"
    unfolding gemm_isa_def gemm_def
  proof (rule fold_agree)
    fix row and sh :: "bytes list" assume "row \<in> set [0..<n]" and I: "?I sh"
    with assms have r: "gemm_row_isa (isa_width cc isa) a sh (sh ! (k + row)) row k m = gemm_row a sh (sh ! (k + row)) row k m"
      "m \<le> length (gemm_row a sh (sh ! (k + row)) row k m)"
      using gemm_row_isa_ref [of k sh m cc isa a "sh ! (k + row)" row] by simp_all
    show "sh[k + row := gemm_row_isa (isa_width cc isa) a sh (sh ! (k + row)) row k m] =
        sh[k + row := gemm_row a sh (sh ! (k + row)) row k m] \<and> ?I (sh[k + row := gemm_row a sh (sh ! (k + row)) row k m])"
      unfolding r(1) using I r(2) set_update_subset_insert [of sh] by auto
  qed (use assms in simp)
  then show ?thesis ..
qed

text \<open>\<open>axpy\<close> and \<open>scal\<close> on operands that hold \<open>k\<close> bytes, and the encoder.\<close>

lemma kernels_agree:
  assumes "k \<le> length a" "k \<le> length b"
    and "rs_ds rs + rs_ps rs \<le> length shards" "\<forall>s\<in>set shards. k \<le> length s"
  shows "let wo = isa_width cc (reed_solomon_init cc cpu) in
    axpy_isa wo a b u k = axpy a b u k \<and> scal_isa wo a u k = scal a u k \<and>
    reed_solomon_encode_isa wo rs shards nr k = reed_solomon_encode rs shards nr k"
  using isa_ref [OF assms(1,2)] gemm_isa_ref [OF assms(3,4)]
  by (simp add: Let_def reed_solomon_encode_isa_def reed_solomon_encode_def)

definition demo_compiler :: compiler where
  "demo_compiler = \<lparr>AVX512F = False, AVX2 = False, SSSE3 = False, MSC_X64 = False, aarch64 = False, x86 = True\<rparr>"

definition demo_cpu :: cpu_features where
  "demo_cpu = \<lparr>has_avx512f = False, has_avx512bw = False, has_avx2 = False, has_ssse3 = True\<rparr>"

end
