(* ===== verification/Axpyb32.thy ===== *)
theory Axpyb32
  imports Kernels
begin

unbundle bit_operations_syntax

text \<open>
  \<open>obl_axpyb32\<close> of \<open>oblas_lite.c\<close>: a row of bits, 32 to a word, is added to a row of bytes, each set bit as the
  byte \<open>u\<close>. Nothing in the server calls it. The SSSE3, NEON and AVX2 builds compute what the reference loop does;
  the AVX-512 build spreads each word over 64 bytes and does not.
\<close>

section \<open>The reference loop\<close>

text \<open>\<open>__builtin_ctz\<close>, undefined for 0.\<close>

definition ctz32 :: "u32 \<Rightarrow> nat" where
  "ctz32 w = length (takeWhile (\<lambda>n. \<not> bit w n) [0..<32])"

text \<open>The loop over the bits of one word; a read past \<open>b\<close> or a write past \<open>a\<close> is \<open>None\<close>. (The counter \<open>idx\<close>
  wraps in C when \<open>k\<close> is within 32 of \<open>2 ^ 32\<close>; rows are shorter.)\<close>

lemma clear_lowest_less: "w \<noteq> 0 \<Longrightarrow> unat (w AND (w - 1)) < unat (w :: u32)"
proof -
  assume w: "w \<noteq> 0"
  have "unat (w AND (w - 1)) \<le> unat (w - 1)" by (simp add: word_and_le1 flip: word_le_nat_alt)
  also have "\<dots> < unat w" using w by (simp add: unat_minus_one unat_gt_0)
  finally show ?thesis .
qed

function xor_bits :: "nat \<Rightarrow> u8 \<Rightarrow> u32 \<Rightarrow> bytes \<Rightarrow> bytes option" where
  "xor_bits idx u tmp a =
     (if tmp = 0 then Some a
      else let tz = ctz32 tmp in
        if tz + idx \<ge> length a then None
        else xor_bits idx u (tmp AND (tmp - 1)) (a[tz + idx := a ! (tz + idx) XOR u]))"
  by pat_completeness auto
termination
  by (relation "measure (\<lambda>(idx, u, tmp, a). unat tmp)") (auto simp: clear_lowest_less)

declare xor_bits.simps [simp del]

definition obl_axpyb32_ref :: "bytes \<Rightarrow> u32 list \<Rightarrow> u8 \<Rightarrow> nat \<Rightarrow> bytes option" where
  "obl_axpyb32_ref a b u k =
     fold (\<lambda>p r. Option.bind r (\<lambda>a. if p \<ge> length b then None else xor_bits (32 * p) u (b ! p) a))
       [0..<(k + 31) div 32] (Some a)"

section \<open>The vector loops\<close>

definition scatter :: bytes where
  "scatter = replicate 8 0 @ replicate 8 1 @ replicate 8 2 @ replicate 8 3"

definition cmpmask :: bytes where
  "cmpmask = [0x01, 0x02, 0x04, 0x08, 0x10, 0x20, 0x40, 0x80]"

definition set1_epi32 :: "nat \<Rightarrow> u32 \<Rightarrow> bytes" where
  "set1_epi32 w x = concat (replicate (w div 4) (le32 x))"

definition cmpeq_zero :: "bytes \<Rightarrow> bytes" where
  "cmpeq_zero v = map (\<lambda>x. if x = 0 then 0xff else 0) v"

definition andnot :: "bytes \<Rightarrow> bytes \<Rightarrow> bytes" where
  "andnot v w = map2 (\<lambda>x y. NOT x AND y) v w"

text \<open>One register: the scatter pattern, the word and the byte to add.\<close>

definition spread_bits :: "bytes \<Rightarrow> u32 \<Rightarrow> u8 \<Rightarrow> bytes" where
  "spread_bits sc x u =
     (let w = length sc;
          ret = shuffle_epi8 (set1_epi32 w x) sc;
          ret = andnot ret (concat (replicate (w div 8) cmpmask)) in
      vand (cmpeq_zero ret) (replicate w u))"

definition axpyb32_sse3 :: "bytes \<Rightarrow> u32 list \<Rightarrow> u8 \<Rightarrow> nat \<Rightarrow> bytes" where
  "axpyb32_sse3 a b u k =
     fold (\<lambda>p a. let ret_lo = spread_bits (take 16 scatter) (b ! p) u; ret_hi = spread_bits (drop 16 scatter) (b ! p) u;
           a = patch a (32 * p) (vxor (bslice a (32 * p) 16) ret_lo) in
         patch a (32 * p + 16) (vxor (bslice a (32 * p + 16) 16) ret_hi))
       [0..<(k + 31) div 32] a"

definition axpyb32_avx2 :: "bytes \<Rightarrow> u32 list \<Rightarrow> u8 \<Rightarrow> nat \<Rightarrow> bytes" where
  "axpyb32_avx2 a b u k =
     fold (\<lambda>p a. patch a (32 * p) (vxor (bslice a (32 * p) 32) (spread_bits scatter (b ! p) u))) [0..<(k + 31) div 32] a"

definition axpyb32_avx512 :: "bytes \<Rightarrow> u32 list \<Rightarrow> u8 \<Rightarrow> nat \<Rightarrow> bytes" where
  "axpyb32_avx512 a b u k =
     fold (\<lambda>p a. patch a (64 * p) (vxor (bslice a (64 * p) 64) (spread_bits (scatter @ scatter) (b ! p) u)))
       [0..<(k + 63) div 64] a"

text \<open>What \<open>OBL_AXPYB32\<close> is in a build, named by the width of its registers.\<close>

definition obl_axpyb32 :: "nat option \<Rightarrow> bytes \<Rightarrow> u32 list \<Rightarrow> u8 \<Rightarrow> nat \<Rightarrow> bytes option" where
  "obl_axpyb32 wo a b u k =
     (case wo of None \<Rightarrow> obl_axpyb32_ref a b u k
      | Some w \<Rightarrow> Some (if w = 16 then axpyb32_sse3 a b u k else if w = 32 then axpyb32_avx2 a b u k
                       else axpyb32_avx512 a b u k))"

section \<open>One word\<close>

text \<open>What all but the last build do with a word: 32 bytes from \<open>idx\<close> on.\<close>

definition block_bits :: "u32 \<Rightarrow> u8 \<Rightarrow> bytes" where
  "block_bits x u = map (\<lambda>j. if bit x j then u else 0) [0..<32]"

definition add_block :: "nat \<Rightarrow> u8 \<Rightarrow> u32 \<Rightarrow> bytes \<Rightarrow> bytes" where
  "add_block idx u x a = patch a idx (vxor (bslice a idx 32) (block_bits x u))"

lemma length_add_block [simp]: "idx + 32 \<le> length a \<Longrightarrow> length (add_block idx u x a) = length a"
  by (simp add: add_block_def patch_def vxor_def block_bits_def)

lemma nth_add_block:
  "idx + 32 \<le> length a \<Longrightarrow> i < length a \<Longrightarrow>
   add_block idx u x a ! i = (if idx \<le> i \<and> i < idx + 32 \<and> bit x (i - idx) then a ! i XOR u else a ! i)"
  by (auto simp: add_block_def patch_def vxor_def block_bits_def nth_append nth_bslice min_def)

lemma ctz32_least:
  assumes "w \<noteq> (0 :: u32)"
  shows "ctz32 w < 32" "bit w (ctz32 w)" "n < ctz32 w \<Longrightarrow> \<not> bit w n"
proof -
  let ?xs = "[0..<32] :: nat list" and ?P = "\<lambda>n. \<not> bit w n"
  have "\<exists>n\<in>set ?xs. bit w n" using assms by (auto simp: bit_eq_iff)
  then have l: "length (takeWhile ?P ?xs) < length ?xs" by (metis length_takeWhile_le le_neq_implies_less takeWhile_eq_all_conv takeWhile_eq_take take_all_iff order_refl)
  then show lt: "ctz32 w < 32" by (simp add: ctz32_def)
  show "bit w (ctz32 w)" using nth_length_takeWhile [OF l] lt by (simp add: ctz32_def)
  assume n: "n < ctz32 w"
  then have "takeWhile ?P ?xs ! n = n" using lt by (subst takeWhile_nth) (simp_all add: ctz32_def)
  moreover have "takeWhile ?P ?xs ! n \<in> set (takeWhile ?P ?xs)" using n by (simp add: ctz32_def)
  ultimately show "\<not> bit w n" by (metis set_takeWhileD)
qed

lemma clear_lowest:
  assumes "w \<noteq> (0 :: u32)"
  shows "bit (w AND (w - 1)) n \<longleftrightarrow> bit w n \<and> n \<noteq> ctz32 w"
proof -
  define z s where "z = ctz32 w" and "s = Suc (ctz32 w)"
  let ?h = "push_bit s (drop_bit s w)"
  note z = ctz32_least [OF assms, folded z_def]
  have s: "n < s \<longleftrightarrow> n < z \<or> n = z" for n by (auto simp: s_def z_def)
  have low: "take_bit s w = 2 ^ z"
    using z by (auto intro!: bit_word_eqI simp: bit_simps s)
  have "w = ?h + 2 ^ z" using bits_ident [of s w] low by simp
  then have "w - 1 = ?h + mask z" by (simp add: mask_eq_exp_minus_1 algebra_simps)
  also have "\<dots> = ?h OR mask z"
    by (rule disjunctive_add_eq_or) (auto intro!: bit_word_eqI simp: bit_simps s_def z_def simp del: push_bit_Suc)
  finally have "w - 1 = ?h OR mask z" .
  then have "bit (w AND (w - 1)) n \<longleftrightarrow> bit w n \<and> n \<noteq> ctz32 w" if "n < 32"
    using that s [of n] by (auto simp: bit_simps z_def [symmetric])
  then show ?thesis using bit_imp_le_length [of w n] by (cases "n < 32") (auto simp: bit_and_iff)
qed

lemma xor_bits_block: "idx + 32 \<le> length a \<Longrightarrow> xor_bits idx u tmp a = Some (add_block idx u tmp a)"
proof (induction idx u tmp a rule: xor_bits.induct)
  case (1 idx u tmp a)
  show ?case
  proof (cases "tmp = 0")
    case True
    with "1.prems" show ?thesis by (subst xor_bits.simps) (auto intro!: nth_equalityI simp: nth_add_block)
  next
    case False
    note z = ctz32_least [OF False]
    let ?a = "a[ctz32 tmp + idx := a ! (ctz32 tmp + idx) XOR u]"
    have l: "\<not> ctz32 tmp + idx \<ge> length a" using z(1) "1.prems" by simp
    have "add_block idx u (tmp AND (tmp - 1)) ?a = add_block idx u tmp a"
      using "1.prems" z(1,2) by (intro nth_equalityI) (auto simp: nth_add_block nth_list_update clear_lowest [OF False])
    with "1.IH" [OF False refl l] "1.prems" False l show ?thesis by (subst xor_bits.simps) (simp add: Let_def)
  qed
qed

lemma length_concat_replicate [simp]: "length (concat (replicate n t)) = n * length t"
  by (induction n) simp_all

lemma length_cmpmask [simp]: "length cmpmask = 8"
  by (simp add: cmpmask_def)

lemma nth_concat_replicate: "i < n * length t \<Longrightarrow> concat (replicate n t) ! i = t ! (i mod length t)"
  by (induction n arbitrary: i) (auto simp: nth_append le_mod_geq)

lemma nth_le32: "i < 4 \<Longrightarrow> le32 x ! i = ucast (drop_bit (8 * i) x)"
  by (auto simp: le32_def less_Suc_eq numeral_eq_Suc)

text \<open>A register whose byte \<open>j\<close> looks at bit \<open>(8 * sc ! j + j mod 8)\<close> of the word.\<close>

lemma spread_bits_nth:
  assumes "j < length sc" "16 dvd length sc" "\<And>j. j < length sc \<Longrightarrow> unat (sc ! j) < 4"
  shows "spread_bits sc x u ! j = (if bit x (8 * unat (sc ! j) + j mod 8) then u else 0)"
proof -
  let ?c = "unat (sc ! j)" and ?w = "length sc"
  have c: "?c < 4" using assms(1,3) by simp
  then have "unat (sc ! j AND 15) = ?c" by (simp add: unat_nibbles)
  moreover have "\<not> bit (sc ! j) 7"
  proof
    assume "bit (sc ! j) 7"
    then have "bit (unat (sc ! j)) 7" by (simp add: bit_unsigned_iff)
    then show False using c by (simp add: bit_iff_odd)
  qed
  moreover have "16 * (j div 16) + ?c < ?w div 4 * 4"
  proof -
    from assms(2) obtain k where k: "?w = 16 * k" by (elim dvdE)
    then have "j div 16 < k" using assms(1) by simp
    then show ?thesis using k c by simp
  qed
  moreover have "(16 * (j div 16) + ?c) mod 4 = ?c" using c by presburger
  ultimately have sh: "shuffle_epi8 (set1_epi32 ?w x) sc ! j = ucast (drop_bit (8 * ?c) x)"
    using assms(1) c by (simp add: shuffle_epi8_def Let_def set1_epi32_def nth_concat_replicate nth_le32 le32_def [THEN arg_cong [where f = length]])
  have m: "concat (replicate (?w div 8) cmpmask) ! j = push_bit (j mod 8) 1"
  proof -
    have "j < ?w div 8 * length cmpmask" using assms(1,2) by (auto elim!: dvdE)
    then have "concat (replicate (?w div 8) cmpmask) ! j = cmpmask ! (j mod 8)"
      by (simp add: nth_concat_replicate)
    moreover have "list_all (\<lambda>i. cmpmask ! i = push_bit i 1) [0..<8]" by code_simp
    ultimately show ?thesis by (simp add: list_all_iff)
  qed
  have z: "NOT y AND push_bit n 1 = 0 \<longleftrightarrow> bit y n" if "n < 8" for y :: u8 and n
    using that unfolding bit_eq_iff [of "NOT y AND push_bit n 1" 0] by (auto simp: bit_simps)
  have "bit (ucast (drop_bit (8 * ?c) x) :: u8) (j mod 8) \<longleftrightarrow> bit x (8 * ?c + j mod 8)"
    by (auto simp: bit_simps)
  moreover have "8 dvd ?w" using assms(2) by (rule dvd_trans [rotated]) simp
  then have "?w div 8 * 8 = ?w" by simp
  moreover have "length (shuffle_epi8 t sc) = ?w" for t by (simp add: shuffle_epi8_def)
  moreover have "255 AND u = u" 
  proof -
    have "(255 :: u8) = - 1" by simp
    then show ?thesis by (simp only: and.left_neutral)
  qed
  ultimately show ?thesis
    using assms(1) sh m z [of "j mod 8" "ucast (drop_bit (8 * ?c) x)"]
    by (simp add: spread_bits_def Let_def vand_def cmpeq_zero_def andnot_def)
qed

lemma length_spread_bits: "16 dvd length sc \<Longrightarrow> length (spread_bits sc x u) = length sc"
  by (auto simp: spread_bits_def Let_def vand_def cmpeq_zero_def andnot_def shuffle_epi8_def elim!: dvdE)

lemma spread_blocks:
  "spread_bits scatter x u = block_bits x u"
  "spread_bits (take 16 scatter) x u = take 16 (block_bits x u)"
  "spread_bits (drop 16 scatter) x u = drop 16 (block_bits x u)"
  "spread_bits (scatter @ scatter) x u = block_bits x u @ block_bits x u"
proof -
  have sc: "list_all (\<lambda>j. unat (scatter ! j) = j div 8) [0..<32]" "length scatter = 32" by code_simp+
  have spread: "spread_bits sc x u = bs"
    if "length sc = w" "16 dvd w" "length bs = w"
      "\<And>j. j < w \<Longrightarrow> unat (sc ! j) < 4 \<and> bs ! j = (if bit x (8 * unat (sc ! j) + j mod 8) then u else 0)" for sc bs w
    using that
    by (intro nth_equalityI) (simp_all add: length_spread_bits spread_bits_nth)
  have j: "8 * (j div 8) + j mod 8 = j" for j :: nat by simp
  have j16: "8 * ((16 + j) div 8) + j mod 8 = 16 + j" for j :: nat by presburger
  have j32: "8 * ((j - 32) div 8) + j mod 8 = j - 32" if "\<not> j < 32" for j :: nat using that by presburger
  have n: "unat (scatter ! j) = j div 8" if "j < 32" for j using sc(1) that by (simp add: list_all_iff)
  have d: "j div 8 < 4" if "j < 32" for j :: nat using that by simp
  show "spread_bits scatter x u = block_bits x u"
    by (rule spread [where w = 32]) (simp_all add: sc(2) n j d block_bits_def)
  show "spread_bits (take 16 scatter) x u = take 16 (block_bits x u)"
    by (rule spread [where w = 16]) (simp_all add: sc(2) n j d block_bits_def)
  show "spread_bits (drop 16 scatter) x u = drop 16 (block_bits x u)"
    by (rule spread [where w = 16]) (simp_all add: sc(2) n j16 d block_bits_def)
  show "spread_bits (scatter @ scatter) x u = block_bits x u @ block_bits x u"
    by (rule spread [where w = 64]) (simp_all add: sc(2) n j j32 d block_bits_def nth_append)
qed

section \<open>The builds\<close>

lemma add_block_halves:
  assumes "idx + 32 \<le> length a"
  shows "(let a' = patch a idx (vxor (bslice a idx 16) (take 16 (block_bits x u))) in
          patch a' (idx + 16) (vxor (bslice a' (idx + 16) 16) (drop 16 (block_bits x u)))) = add_block idx u x a"
  using assms by (intro nth_equalityI)
    (auto simp: add_block_def Let_def patch_def vxor_def block_bits_def nth_append nth_bslice min_def)

lemma fold_blocks:
  assumes "\<And>p a. p \<in> set ps \<Longrightarrow> length a = l \<Longrightarrow> f p a = add_block (32 * p) u (b ! p) a"
    and "list_all (\<lambda>p. 32 * p + 32 \<le> l) ps" "length a = l"
  shows "fold f ps a = fold (\<lambda>p. add_block (32 * p) u (b ! p)) ps a"
  using assms by (induction ps arbitrary: a) auto

lemma fold_xor_bits:
  "list_all (\<lambda>p. 32 * p + 32 \<le> length a) ps \<Longrightarrow> list_all (\<lambda>p. p < length b) ps \<Longrightarrow>
   fold (\<lambda>p r. Option.bind r (\<lambda>a. if p \<ge> length b then None else xor_bits (32 * p) u (b ! p) a)) ps (Some a)
     = Some (fold (\<lambda>p. add_block (32 * p) u (b ! p)) ps a)"
  by (induction ps arbitrary: a) (simp_all add: xor_bits_block)

text \<open>On a row that holds every block, the SSSE3 and NEON build, the AVX2 build and the reference loop agree.\<close>

theorem axpyb32_agree:
  assumes "32 * ((k + 31) div 32) \<le> length a" "(k + 31) div 32 \<le> length b"
  shows "obl_axpyb32_ref a b u k = Some (axpyb32_sse3 a b u k)"
    and "obl_axpyb32_ref a b u k = Some (axpyb32_avx2 a b u k)"
proof -
  let ?ps = "[0..<(k + 31) div 32]"
  have ps: "list_all (\<lambda>p. 32 * p + 32 \<le> length a) ?ps"
    using assms by (simp add: list_all_iff)
  have pb: "list_all (\<lambda>p. p < length b) ?ps" using assms(2) by (simp add: list_all_iff)
  from ps have l: "32 * p + 32 \<le> length a" if "p \<in> set ?ps" for p using that by (auto simp: list_all_iff)
  show "obl_axpyb32_ref a b u k = Some (axpyb32_sse3 a b u k)"
    unfolding obl_axpyb32_ref_def axpyb32_sse3_def fold_xor_bits [OF ps pb] spread_blocks
    by (subst fold_blocks [OF _ ps refl]) (use l add_block_halves in \<open>auto simp: Let_def\<close>)
  show "obl_axpyb32_ref a b u k = Some (axpyb32_avx2 a b u k)"
    unfolding obl_axpyb32_ref_def axpyb32_avx2_def fold_xor_bits [OF ps pb] spread_blocks add_block_def [symmetric] by simp
qed

corollary obl_axpyb32_builds:
  assumes "32 * ((k + 31) div 32) \<le> length a" "(k + 31) div 32 \<le> length b" "isa_width cc isa \<noteq> Some 64"
  shows "obl_axpyb32 (isa_width cc isa) a b u k = obl_axpyb32_ref a b u k"
  using assms axpyb32_agree [OF assms(1,2)]
  by (cases "(cc, isa)" rule: isa_width.cases) (auto simp: obl_axpyb32_def autoshim_def split: option.splits if_splits)

text \<open>The AVX-512 build adds one word to two blocks and steps over both: bit 0 of the first word also reaches byte 32,
  which belongs to the second.\<close>

lemma add_block_avx512:
  "idx + 64 \<le> length a \<Longrightarrow>
   patch a idx (vxor (bslice a idx 64) (spread_bits (scatter @ scatter) x u)) = add_block (idx + 32) u x (add_block idx u x a)"
  unfolding spread_blocks
  by (intro nth_equalityI)
    (auto simp: add_block_def patch_def vxor_def block_bits_def nth_append nth_bslice min_def)

theorem axpyb32_avx512_differs:
  "obl_axpyb32_ref (replicate 64 0) [1, 0] 1 64 \<noteq> Some (axpyb32_avx512 (replicate 64 0) [1, 0] 1 64)"
proof -
  define z :: bytes and b :: "u32 list" where "z = replicate 64 0" and "b = [1, 0]"
  have z: "length z = 64" "z ! 32 = 0" and b: "b ! 0 = 1" "b ! 1 = 0" by (simp_all add: z_def b_def)
  have ps: "[0..<(64 + 31) div 32] = [0, 1 :: nat]" "[0..<(64 + 63) div 64] = [0 :: nat]" by code_simp+
  have "list_all (\<lambda>p. 32 * p + 32 \<le> length z) [0, 1]" "list_all (\<lambda>p. p < length b) [0, 1]" by (simp_all add: z b_def)
  note ref = fold_xor_bits [OF this, of 1]
  have "obl_axpyb32_ref z b 1 64 = Some (add_block 32 1 0 (add_block 0 1 1 z))"
    unfolding obl_axpyb32_ref_def ps ref by (simp add: b [simplified])
  moreover have "axpyb32_avx512 z b 1 64 = add_block 32 1 1 (add_block 0 1 1 z)"
    unfolding axpyb32_avx512_def ps using add_block_avx512 [of 0 z 1 1] by (simp add: z b)
  moreover have "add_block 32 1 0 (add_block 0 1 1 z) ! 32 \<noteq> add_block 32 1 1 (add_block 0 1 1 z) ! 32"
    by (simp add: nth_add_block z)
  ultimately show ?thesis unfolding z_def [symmetric] b_def [symmetric] by fastforce
qed

end
