(* ===== verification/RS_Decode.thy ===== *)
theory RS_Decode
  imports ReedSolomon
begin

unbundle bit_operations_syntax

text \<open>
  Correctness of the Reed-Solomon decoder. The bytes of the work area and of the shards are read as
  elements of the field \<open>gf\<close>; \<open>represents\<close> relates them to a matrix \<open>A\<close> and to one right-hand side
  \<open>b t\<close> for each byte position \<open>t\<close>. Each loop of \<open>invert_mat\<close> is shown to keep the linear system
  solved by the lost data (\<open>solves\<close>), the first one to make the matrix unit upper triangular
  (\<open>stage\<close>), the second to turn the right-hand side into the solution.
\<close>

section \<open>Linear systems\<close>

definition solves :: "nat \<Rightarrow> nat \<Rightarrow> (nat \<Rightarrow> nat \<Rightarrow> gf) \<Rightarrow> (nat \<Rightarrow> nat \<Rightarrow> gf) \<Rightarrow> (nat \<Rightarrow> nat \<Rightarrow> gf) \<Rightarrow> bool" where
  "solves W T A v b \<longleftrightarrow> (\<forall>t<T. \<forall>i<W. (\<Sum>j<W. A i j * v t j) = b t i)"

definition scale_row :: "nat \<Rightarrow> gf \<Rightarrow> (nat \<Rightarrow> nat \<Rightarrow> gf) \<Rightarrow> nat \<Rightarrow> nat \<Rightarrow> gf" where
  "scale_row x u A = A(x := \<lambda>j. u * A x j)"

definition add_row :: "nat \<Rightarrow> nat \<Rightarrow> gf \<Rightarrow> (nat \<Rightarrow> nat \<Rightarrow> gf) \<Rightarrow> nat \<Rightarrow> nat \<Rightarrow> gf" where
  "add_row r x u A = A(r := \<lambda>j. A r j + u * A x j)"

definition scale_rhs :: "nat \<Rightarrow> gf \<Rightarrow> (nat \<Rightarrow> nat \<Rightarrow> gf) \<Rightarrow> nat \<Rightarrow> nat \<Rightarrow> gf" where
  "scale_rhs x u b = (\<lambda>t. (b t)(x := u * b t x))"

definition add_rhs :: "nat \<Rightarrow> nat \<Rightarrow> gf \<Rightarrow> (nat \<Rightarrow> nat \<Rightarrow> gf) \<Rightarrow> nat \<Rightarrow> nat \<Rightarrow> gf" where
  "add_rhs r x u b = (\<lambda>t. (b t)(r := b t r + u * b t x))"

lemmas row_ops = scale_row_def add_row_def scale_rhs_def add_rhs_def

lemma solves_scale: "solves W T A v b \<Longrightarrow> solves W T (scale_row x u A) v (scale_rhs x u b)"
  by (auto simp: solves_def row_ops mult.assoc simp flip: sum_distrib_left)

lemma solves_add:
  "solves W T A v b \<Longrightarrow> x < W \<Longrightarrow> solves W T (add_row r x u A) v (add_rhs r x u b)"
  by (auto simp: solves_def row_ops distrib_right sum.distrib mult.assoc simp flip: sum_distrib_left)

section \<open>The memory that represents a system\<close>

text \<open>
  The shards of the system are the last \<open>W\<close> entries of the column permutation \<open>c\<close>, from \<open>V0\<close> on.
  The other shards keep the contents \<open>dst0\<close>.
\<close>

definition layout :: "nat \<Rightarrow> nat \<Rightarrow> nat list \<Rightarrow> nat \<Rightarrow> bool" where
  "layout W V0 c n \<longleftrightarrow>
     inj_on (\<lambda>i. c ! (V0 + i)) {..<W} \<and> (\<forall>i<W. c ! (V0 + i) < n)"

definition represents ::
  "nat \<Rightarrow> nat \<Rightarrow> nat \<Rightarrow> nat list \<Rightarrow> bytes list \<Rightarrow> nat \<Rightarrow> bytes \<times> bytes list \<Rightarrow>
   (nat \<Rightarrow> nat \<Rightarrow> gf) \<Rightarrow> (nat \<Rightarrow> nat \<Rightarrow> gf) \<Rightarrow> bool" where
  "represents W T V0 c dst0 L s A b \<longleftrightarrow> (case s of (wrk, dst) \<Rightarrow>
     length wrk = L \<and> W * W \<le> L \<and> length dst = length dst0 \<and>
     (\<forall>k<length dst. length (dst ! k) = T) \<and>
     (\<forall>k<length dst. k \<notin> (\<lambda>i. c ! (V0 + i)) ` {..<W} \<longrightarrow> dst ! k = dst0 ! k) \<and>
     (\<forall>i<W. \<forall>j<W. to_gf (wrk ! (i * W + j)) = A i j) \<and>
     (\<forall>t<T. \<forall>i<W. to_gf (dst ! (c ! (V0 + i)) ! t) = b t i))"

lemma layout_eq: "layout W V0 c n \<Longrightarrow> i < W \<Longrightarrow> j < W \<Longrightarrow> c ! (V0 + i) = c ! (V0 + j) \<longleftrightarrow> i = j"
  by (auto simp: layout_def inj_on_def)

lemma layout_less: "layout W V0 c n \<Longrightarrow> i < W \<Longrightarrow> c ! (V0 + i) < n"
  by (auto simp: layout_def)

text \<open>A change of one shard of the system.\<close>

lemma represents_dst:
  assumes "represents W T V0 c dst0 L (wrk, dst) A b" and lay: "layout W V0 c (length dst0)" and r: "r < W"
    and "length s = T" and "\<And>t. t < T \<Longrightarrow> to_gf (s ! t) = b' t r"
    and "\<And>t i. i \<noteq> r \<Longrightarrow> b' t i = b t i"
  shows "represents W T V0 c dst0 L (wrk, dst[c ! (V0 + r) := s]) A b'"
  using assms layout_less [OF lay r] layout_eq [OF lay]
  by (auto simp: represents_def nth_list_update)

lemma represents_axpy:
  assumes rep: "represents W T V0 c dst0 L (wrk, dst) A b" and lay: "layout W V0 c (length dst0)"
    and r: "r < W" and x: "x < W"
  shows "represents W T V0 c dst0 L
    (wrk, dst[c ! (V0 + r) := axpy (dst ! (c ! (V0 + r))) (dst ! (c ! (V0 + x))) u T])
    A (add_rhs r x (to_gf u) b)"
proof (rule represents_dst [OF rep lay r])
  have len: "length (dst ! (c ! (V0 + i))) = T" if "i < W" for i
    using rep layout_less [OF lay that] by (simp add: represents_def)
  then show "length (axpy (dst ! (c ! (V0 + r))) (dst ! (c ! (V0 + x))) u T) = T" using r by simp
  show "to_gf (axpy (dst ! (c ! (V0 + r))) (dst ! (c ! (V0 + x))) u T ! t) = add_rhs r x (to_gf u) b t r"
    if "t < T" for t
    using rep r x that len by (simp add: represents_def row_ops nth_axpy)
qed (simp add: row_ops)

lemma represents_scal:
  assumes rep: "represents W T V0 c dst0 L (wrk, dst) A b" and lay: "layout W V0 c (length dst0)"
    and x: "x < W" and u: "u \<noteq> 0"
  shows "represents W T V0 c dst0 L (wrk, dst[c ! (V0 + x) := scal (dst ! (c ! (V0 + x))) u T])
    A (scale_rhs x (to_gf u) b)"
proof (rule represents_dst [OF rep lay x])
  have len: "length (dst ! (c ! (V0 + x))) = T"
    using rep layout_less [OF lay x] by (simp add: represents_def)
  then show "length (scal (dst ! (c ! (V0 + x))) u T) = T" by simp
  show "to_gf (scal (dst ! (c ! (V0 + x))) u T ! t) = scale_rhs x (to_gf u) b t x" if "t < T" for t
    using rep x u that len by (simp add: represents_def row_ops nth_scal)
qed (simp add: row_ops)

text \<open>A change of the work area.\<close>

lemma represents_wrk:
  assumes "represents W T V0 c dst0 L (wrk, dst) A b" and "length wrk' = L"
    and "\<And>i j. i < W \<Longrightarrow> j < W \<Longrightarrow> to_gf (wrk' ! (i * W + j)) = A' i j"
  shows "represents W T V0 c dst0 L (wrk', dst) A' b"
  using assms by (auto simp: represents_def)

lemma represents_add_row:
  assumes rep: "represents W T V0 c dst0 L (wrk, dst) A b" and r: "r < W" and x: "x < W"
  shows "represents W T V0 c dst0 L
    (patch wrk (r * W) (axpy (bslice wrk (r * W) W) (bslice wrk (x * W) W) u W), dst)
    (add_row r x (to_gf u) A) b"
proof (rule represents_wrk [OF rep])
  have len: "length wrk = L" "W * W \<le> L" using rep by (simp_all add: represents_def)
  have inside: "i * W + W \<le> L" if "i < W" for i
    using mult_le_mono1 [of "Suc i" W W] that len by simp
  note bnd = inside [OF r] inside [OF x]
  show "length (patch wrk (r * W) (axpy (bslice wrk (r * W) W) (bslice wrk (x * W) W) u W)) = L"
    using bnd len by simp
  fix i j assume ij: "i < W" "j < W"
  then have idx: "i * W + j < L" using row_index_less [of i W j W] len by simp
  have "patch wrk (r * W) (axpy (bslice wrk (r * W) W) (bslice wrk (x * W) W) u W) ! (i * W + j)
      = (if i = r then wrk ! (r * W + j) XOR gf2_8_mul u (wrk ! (x * W + j)) else wrk ! (i * W + j))"
    using ij idx bnd len row_index_range [of j W r i] by (auto simp: nth_patch nth_axpy nth_bslice)
  then show "to_gf (patch wrk (r * W) (axpy (bslice wrk (r * W) W) (bslice wrk (x * W) W) u W) ! (i * W + j))
      = add_row r x (to_gf u) A i j"
    using rep ij r x by (auto simp: represents_def row_ops)
qed

text \<open>
  Scaling \<open>W\<close> bytes from the diagonal on is scaling the row when the row and the next one are
  zero before the diagonal column.
\<close>

lemma diag_range:
  assumes "x < W" "i < W" "j < (W::nat)"
  shows "x * W + x \<le> i * W + j \<and> i * W + j < x * W + x + W \<longleftrightarrow> i = x \<and> x \<le> j \<or> i = Suc x \<and> j < x"
proof (cases "i \<le> x")
  case True
  then consider "i = x" | "Suc i \<le> x" by linarith
  then show ?thesis
  proof cases
    case 2
    then have "Suc i * W \<le> x * W" by (intro mult_le_mono1)
    with 2 assms show ?thesis by auto
  qed (use assms in auto)
next
  case False
  then consider "i = Suc x" | "Suc (Suc x) \<le> i" by linarith
  then show ?thesis
  proof cases
    case 2
    then have "Suc (Suc x) * W \<le> i * W" by (intro mult_le_mono1)
    with 2 assms show ?thesis by auto
  qed (use assms in auto)
qed

lemma represents_scal_diag:
  assumes rep: "represents W T V0 c dst0 L (wrk, dst) A b" and x: "x < W" and u: "u \<noteq> 0"
    and zero: "\<forall>j<x. A x j = 0" "Suc x < W \<Longrightarrow> \<forall>j<x. A (Suc x) j = 0"
    and room: "x * W + x + W \<le> L \<or> u < 2"
  obtains wrk' where "scal_diag W x u wrk = Some wrk'"
    and "represents W T V0 c dst0 L (wrk', dst) (scale_row x (to_gf u) A) b"
proof (cases "u < 2")
  case True
  with u have "u = 1" using u8_less_2 by blast
  then have "scale_row x (to_gf u) A = A" by (simp add: scale_row_def)
  with that rep True show ?thesis by (simp add: scal_diag_def)
next
  case False
  have len: "length wrk = L" "W * W \<le> L" using rep by (simp_all add: represents_def)
  define wrk' where "wrk' = patch wrk (x * W + x) (scal (bslice wrk (x * W + x) W) u W)"
  from False room len have b: "x * W + x + W \<le> length wrk" by auto
  then have res: "scal_diag W x u wrk = Some wrk'" using False by (simp add: scal_diag_def wrk'_def)
  have "represents W T V0 c dst0 L (wrk', dst) (scale_row x (to_gf u) A) b"
  proof (rule represents_wrk [OF rep])
    show "length wrk' = L" using b len by (simp add: wrk'_def)
    fix i j assume ij: "i < W" "j < W"
    then have idx: "i * W + j < length wrk" using row_index_less [of i W j W] len by simp
    have w: "to_gf (wrk ! (i * W + j)) = A i j" using rep ij by (simp add: represents_def)
    have "wrk' ! (i * W + j) = (if i = x \<and> x \<le> j \<or> i = Suc x \<and> j < x
        then gf2_8_mul u (wrk ! (i * W + j)) else wrk ! (i * W + j))"
    proof -
      have "scal (bslice wrk (x * W + x) W) u W ! (k - (x * W + x)) = gf2_8_mul u (wrk ! k)"
        if "x * W + x \<le> k \<and> k < x * W + x + W" for k
        using that b u by (simp add: nth_scal nth_bslice less_diff_conv2)
      then show ?thesis
        using idx b unfolding wrk'_def diag_range [OF x ij, symmetric] by (simp add: nth_patch)
    qed
    then show "to_gf (wrk' ! (i * W + j)) = scale_row x (to_gf u) A i j"
      using w ij zero by (auto simp: scale_row_def)
  qed
  with that res show ?thesis by blast
qed

section \<open>Forward elimination\<close>

text \<open>
  \<open>stage W x y n A\<close>: the first \<open>n\<close> columns are eliminated; the first \<open>n\<close> rows are unit upper
  triangular and the rest is the \<open>n\<close>-th Schur complement of the Cauchy matrix.
\<close>

definition stage :: "nat \<Rightarrow> (nat \<Rightarrow> gf) \<Rightarrow> (nat \<Rightarrow> gf) \<Rightarrow> nat \<Rightarrow> (nat \<Rightarrow> nat \<Rightarrow> gf) \<Rightarrow> bool" where
  "stage W x y n A \<longleftrightarrow>
     (\<forall>i<W. i < n \<longrightarrow> A i i = 1 \<and> (\<forall>j<i. A i j = 0)) \<and>
     (\<forall>i<W. n \<le> i \<longrightarrow> (\<forall>j<n. A i j = 0) \<and> (\<forall>j<W. n \<le> j \<longrightarrow> A i j = schur x y n i j))"

lemma represents_elim_row:
  assumes "represents W T V0 c dst0 L (wrk, dst) A b" and "layout W V0 c (length dst0)"
    and "r < W" "x < W"
  shows "represents W T V0 c dst0 L (elim_row W T V0 c x r (wrk, dst))
    (add_row r x (A r x) A) (add_rhs r x (A r x) b)"
proof -
  have "to_gf (wrk ! (r * W + x)) = A r x" using assms by (simp add: represents_def)
  then show ?thesis
    using represents_axpy [OF represents_add_row [OF assms(1,3,4)] assms(2,3,4), of "wrk ! (r * W + x)" "wrk ! (r * W + x)"]
    by (simp add: elim_row_def Let_def)
qed

text \<open>The inner loop: rows \<open>Suc x\<close> up to \<open>m\<close> have had row \<open>x\<close> added.\<close>

definition eliminated :: "nat \<Rightarrow> nat \<Rightarrow> (nat \<Rightarrow> nat \<Rightarrow> gf) \<Rightarrow> nat \<Rightarrow> nat \<Rightarrow> gf" where
  "eliminated x m A i j = (if x < i \<and> i < m then A i j + A i x * A x j else A i j)"

lemma forward_inner:
  assumes "represents W T V0 c dst0 L s A b" and "layout W V0 c (length dst0)" and "x < W" "solves W T A v b"
    and "Suc x \<le> m" "m \<le> W"
  shows "\<exists>b'. represents W T V0 c dst0 L (fold (elim_row W T V0 c x) [Suc x..<m] s) (eliminated x m A) b'
    \<and> solves W T (eliminated x m A) v b'"
  using assms(5,6)
proof (induction m rule: dec_induct)
  case base
  have "eliminated x (Suc x) A = A" by (auto simp: eliminated_def fun_eq_iff)
  with assms show ?case by auto
next
  case (step m)
  then obtain b' where rep: "represents W T V0 c dst0 L (fold (elim_row W T V0 c x) [Suc x..<m] s) (eliminated x m A) b'"
    and sol: "solves W T (eliminated x m A) v b'" by auto
  obtain wrk dst where s: "fold (elim_row W T V0 c x) [Suc x..<m] s = (wrk, dst)" by force
  have eq: "add_row m x (eliminated x m A m x) (eliminated x m A) = eliminated x (Suc m) A"
    using step.hyps by (auto simp: eliminated_def add_row_def fun_eq_iff less_Suc_eq)
  show ?case
    using represents_elim_row [OF rep [unfolded s] assms(2), of m x] step assms(3)
      solves_add [OF sol assms(3), of m "eliminated x m A m x"]
    unfolding eq by (auto simp: s)
qed

lemma stage_step:
  assumes st: "stage W x y n A" and cd: "cauchy_data W x y" and n: "n < W"
  shows "stage W x y (Suc n) (eliminated n W (scale_row n (inverse (A n n)) A))"
proof -
  have p: "A n n = schur x y n n n" and nz: "schur x y n n n \<noteq> 0"
    using st n schur_nonzero [OF cd, of n n n] by (auto simp: stage_def)
  have zero: "A i j = 0" if "i < W" "n \<le> i" "j < n" for i j using st that by (auto simp: stage_def)
  have val: "A i j = schur x y n i j" if "i < W" "n \<le> i" "n \<le> j" "j < W" for i j
    using st that by (auto simp: stage_def)
  have nxt: "schur x y (Suc n) i j = schur x y n i j + schur x y n i n * (inverse (schur x y n n n) * schur x y n n j)"
    if "n < i" "i < W" "n < j" "j < W" for i j
  proof -
    have "schur x y (Suc n) i j = schur x y n i j - schur x y n i n * schur x y n n j / schur x y n n n"
      using that by (intro schur_Suc [OF cd])
    also have "\<dots> = schur x y n i j + - (schur x y n i n * schur x y n n j / schur x y n n n)"
      by (simp only: diff_conv_add_uminus)
    also have "\<dots> = schur x y n i j + schur x y n i n * (inverse (schur x y n n n) * schur x y n n j)"
      by (simp add: divide_inverse mult.commute mult.left_commute)
    finally show ?thesis .
  qed
  have old: "A i i = 1" "\<forall>j<i. A i j = 0" if "i < n" for i
    using st n that by (auto simp: stage_def)
  show ?thesis
    unfolding stage_def
  proof (intro conjI allI impI)
    fix i assume i: "i < W" "i < Suc n"
    show "eliminated n W (scale_row n (inverse (A n n)) A) i i = 1"
      using i old nz p by (cases "i = n") (auto simp: eliminated_def scale_row_def)
    show "eliminated n W (scale_row n (inverse (A n n)) A) i j = 0" if "j < i" for j
      using i that old zero by (cases "i = n") (auto simp: eliminated_def scale_row_def)
  next
    fix i j assume i: "i < W" "Suc n \<le> i"
    show "eliminated n W (scale_row n (inverse (A n n)) A) i j = 0" if "j < Suc n"
      using i n that zero val nz p gf_add_self
      by (cases "j = n") (auto simp: eliminated_def scale_row_def)
    show "eliminated n W (scale_row n (inverse (A n n)) A) i j = schur x y (Suc n) i j"
      if "j < W" "Suc n \<le> j"
      using i n that val p nxt by (auto simp: eliminated_def scale_row_def)
  qed
qed

lemma represents_forward_step:
  assumes rep: "represents W T V0 c dst0 L s A b" and lay: "layout W V0 c (length dst0)"
    and st: "stage W x y n A" and cd: "cauchy_data W x y" and sol: "solves W T A v b"
    and n: "n < W" and room: "n * W + n + W \<le> L"
  obtains s' A' b' where "forward_step W T V0 c n s = Some s'" and "represents W T V0 c dst0 L s' A' b'"
    and "stage W x y (Suc n) A'" and "solves W T A' v b'"
proof -
  obtain wrk dst where s: "s = (wrk, dst)" by force
  define u where "u = gf2_8_inv (wrk ! (n * W + n))"
  have "to_gf (wrk ! (n * W + n)) = A n n" using rep n by (simp add: represents_def s)
  then have gu: "to_gf u = inverse (A n n)" by (simp only: u_def gf_hom)
  have "A n n \<noteq> 0" using st n schur_nonzero [OF cd, of n n n] by (auto simp: stage_def)
  with gu have u: "u \<noteq> 0" by (metis gf_hom(1) inverse_nonzero_iff_nonzero)
  have z: "\<forall>j<n. A n j = 0" "Suc n < W \<Longrightarrow> \<forall>j<n. A (Suc n) j = 0" using st n by (auto simp: stage_def)
  obtain wrk' where w': "scal_diag W n u wrk = Some wrk'"
    and r1: "represents W T V0 c dst0 L (wrk', dst) (scale_row n (to_gf u) A) b"
    using represents_scal_diag [OF rep [unfolded s] n u z disjI1 [OF room]] by blast
  have r2: "represents W T V0 c dst0 L (wrk', dst[c ! (V0 + n) := scal (dst ! (c ! (V0 + n))) u T])
      (scale_row n (to_gf u) A) (scale_rhs n (to_gf u) b)"
    by (rule represents_scal [OF r1 lay n u])
  obtain b' where "represents W T V0 c dst0 L
      (fold (elim_row W T V0 c n) [Suc n..<W] (wrk', dst[c ! (V0 + n) := scal (dst ! (c ! (V0 + n))) u T]))
      (eliminated n W (scale_row n (to_gf u) A)) b'"
    and "solves W T (eliminated n W (scale_row n (to_gf u) A)) v b'"
    using forward_inner [OF r2 lay n solves_scale [OF sol], of W] n by auto
  moreover have "stage W x y (Suc n) (eliminated n W (scale_row n (to_gf u) A))"
    unfolding gu by (rule stage_step [OF st cd n])
  ultimately show ?thesis
    using that w' by (simp add: forward_step_def s flip: u_def)
qed

lemma forward_Suc:
  "forward W T V0 c (Suc n) s = Option.bind (forward W T V0 c n s) (forward_step W T V0 c n)"
  by (simp add: forward_def)

lemma forward_correct:
  assumes "represents W T V0 c dst0 L s A b" and "layout W V0 c (length dst0)"
    and "stage W x y 0 A" and "cauchy_data W x y" and "solves W T A v b"
    and room: "W * W + W \<le> Suc L" and "n \<le> W"
  shows "\<exists>s' A' b'. forward W T V0 c n s = Some s' \<and> represents W T V0 c dst0 L s' A' b'
    \<and> stage W x y n A' \<and> solves W T A' v b'"
  using assms(7)
proof (induction n)
  case 0
  then show ?case using assms by (auto simp: forward_def)
next
  case (Suc n)
  then obtain s' A' b' where f: "forward W T V0 c n s = Some s'"
    and IH: "represents W T V0 c dst0 L s' A' b'" "stage W x y n A'" "solves W T A' v b'" by auto
  have n: "n < W" using Suc.prems by simp
  have "n * W + W \<le> W * W" using mult_le_mono1 [of "Suc n" W W] n by simp
  then have "n * W + n + W \<le> L" using room n by linarith
  from represents_forward_step [OF IH(1) assms(2) IH(2) assms(4) IH(3) n this]
  obtain s'' A'' b'' where "forward_step W T V0 c n s' = Some s''"
    and "represents W T V0 c dst0 L s'' A'' b''" "stage W x y (Suc n) A''" "solves W T A'' v b''" by blast
  with f show ?case by (auto simp: forward_Suc)
qed

section \<open>Back substitution\<close>

lemma back_inner:
  assumes "represents W T V0 c dst0 L (wrk, dst) A b" and "layout W V0 c (length dst0)" and "x < W" and "m \<le> x"
  shows "represents W T V0 c dst0 L (wrk, fold (back_row W T V0 c wrk x) [0..<m] dst) A
    (\<lambda>t i. if i < m then b t i + A i x * b t x else b t i)"
  using assms(4)
proof (induction m)
  case 0
  then show ?case using assms(1) by simp
next
  case (Suc m)
  let ?b = "\<lambda>t i. if i < m then b t i + A i x * b t x else b t i"
  have rep: "represents W T V0 c dst0 L (wrk, fold (back_row W T V0 c wrk x) [0..<m] dst) A ?b"
    using Suc by simp
  have m: "m < W" using Suc.prems assms(3) by simp
  have "to_gf (wrk ! (m * W + x)) = A m x" using assms(1,3) m by (simp add: represents_def)
  then have "add_rhs m x (to_gf (wrk ! (m * W + x))) ?b
      = (\<lambda>t i. if i < Suc m then b t i + A i x * b t x else b t i)"
    using Suc.prems by (auto simp: add_rhs_def fun_eq_iff less_Suc_eq)
  then show ?case
    using represents_axpy [OF rep assms(2) m assms(3), of "wrk ! (m * W + x)"]
    by (simp add: back_row_def [of W T V0 c wrk x m])
qed

lemma backward_correct:
  assumes "represents W T V0 c dst0 L (wrk, dst) A b" and "layout W V0 c (length dst0)"
    and tri: "\<forall>i<W. A i i = 1 \<and> (\<forall>j<i. A i j = 0)" and "n \<le> W"
    and "\<forall>t<T. \<forall>i<n. (\<Sum>j<n. A i j * v t j) = b t i" and "\<forall>t<T. \<forall>i<W. n \<le> i \<longrightarrow> b t i = v t i"
  shows "\<exists>b'. represents W T V0 c dst0 L
      (wrk, fold (\<lambda>x. fold (back_row W T V0 c wrk x) [0..<x]) (rev [0..<n]) dst) A b'
    \<and> (\<forall>t<T. \<forall>i<W. b' t i = v t i)"
  using assms(1,4-6)
proof (induction n arbitrary: dst b)
  case 0
  then show ?case by auto
next
  case (Suc n)
  then have n: "n < W" by simp
  let ?b = "\<lambda>t i. if i < n then b t i + A i n * b t n else b t i"
  have bn: "b t n = v t n" if "t < T" for t
  proof -
    have "b t n = (\<Sum>j<Suc n. A n j * v t j)" using Suc.prems(3) that by simp
    also have "\<dots> = v t n" using tri n by simp
    finally show ?thesis .
  qed
  have "(\<Sum>j<n. A i j * v t j) = ?b t i" if "t < T" "i < n" for t i
  proof -
    have "b t i = (\<Sum>j<n. A i j * v t j) + A i n * v t n" using Suc.prems(3) that by simp
    then have "?b t i = (\<Sum>j<n. A i j * v t j) + (A i n * v t n + A i n * v t n)"
      using that bn by (simp add: add.assoc)
    then show ?thesis by (simp add: gf_add_self)
  qed
  moreover have "?b t i = v t i" if "t < T" "i < W" "n \<le> i" for t i
    using Suc.prems(4) that bn by (cases "i = n") auto
  ultimately show ?case
    using Suc.IH [OF back_inner [OF Suc.prems(1) assms(2) n order_refl]] n by simp
qed

section \<open>The index arrays\<close>

definition unmarked :: "bytes \<Rightarrow> nat \<Rightarrow> nat \<Rightarrow> nat list" where
  "unmarked marks j n = filter (\<lambda>i. marks ! i = 0) [j..<n]"

lemma skip_marked_unmarked:
  "skip_marked marks j = (case unmarked marks j (length marks) of [] \<Rightarrow> None | x # _ \<Rightarrow> Some x)"
proof (induction marks j rule: skip_marked.induct)
  case (1 marks j)
  then show ?case
    by (subst skip_marked.simps) (auto simp: unmarked_def upt_conv_Cons split: list.splits)
qed

lemma unmarked_tail:
  "unmarked marks j n = x # xs \<Longrightarrow> unmarked marks (Suc x) n = xs"
proof (induction "n - j" arbitrary: j)
  case 0
  then show ?case by (simp add: unmarked_def)
next
  case (Suc k)
  then have "[j..<n] = j # [Suc j..<n]" by (intro upt_conv_Cons) simp
  moreover have "k = n - Suc j" using Suc.hyps(2) by simp
  ultimately show ?case
    using Suc.prems Suc.hyps(1) [of "Suc j"] by (auto simp: unmarked_def split: if_splits)
qed

lemma known_columns_unmarked:
  "known_columns marks n j =
     (if n \<le> length (unmarked marks j (length marks))
      then Some (take n (unmarked marks j (length marks))) else None)"
proof (induction n arbitrary: j)
  case (Suc n)
  show ?case
  proof (cases "unmarked marks j (length marks)")
    case (Cons x xs)
    with Suc unmarked_tail [OF Cons] show ?thesis by (simp add: skip_marked_unmarked)
  qed (simp add: skip_marked_unmarked)
qed simp

lemma pick_parity_known: "length marks \<le> nr \<Longrightarrow> pick_parity marks nr n j = known_columns marks n j"
proof (induction n arbitrary: j)
  case (Suc n)
  have "j' < length marks" if "skip_marked marks j = Some j'" for j'
    using that by (auto simp: skip_marked_unmarked unmarked_def filter_eq_Cons_iff split: list.splits
      dest!: arg_cong [where f = set] elim!: equalityE)
  with Suc show ?case by (auto split: option.splits)
qed simp

lemma unmarked_append: "j \<le> k \<Longrightarrow> k \<le> n \<Longrightarrow> unmarked marks j n = unmarked marks j k @ unmarked marks k n"
  using upt_add_eq_append [of j k "n - k"] by (simp add: unmarked_def)

lemma length_erasures: "length (erasures_of marks d) + length (unmarked marks 0 d) = d"
  using sum_length_filter_compl [of "\<lambda>i. marks ! i \<noteq> 0" "[0..<d]"]
  by (simp add: erasures_of_def unmarked_def)

text \<open>The column permutation lists the known shards, then the lost ones.\<close>

lemma columns_permutation:
  "distinct (unmarked marks 0 d @ erasures_of marks d)"
  "set (unmarked marks 0 d @ erasures_of marks d) = {..<d}"
  by (auto simp: unmarked_def erasures_of_def)

section \<open>Setting the system up\<close>

lemma concat_nth:
  assumes "\<And>i. i < n \<Longrightarrow> length (f i) = k" and "i < n" "j < k"
  shows "concat (map f [0..<n]) ! (i * k + j) = f i ! j"
    and "length (concat (map f [0..<n])) = n * k"
proof -
  have len: "length (concat (map f [0..<m])) = m * k" if "m \<le> n" for m
    using that assms(1) by (induction m) auto
  then show "length (concat (map f [0..<n])) = n * k" by simp
  have "concat (map f [0..<m]) ! (i * k + j) = f i ! j" if "m \<le> n" "i < m" for m
    using that
  proof (induction m)
    case (Suc m)
    show ?case
    proof (cases "i = m")
      case True
      with Suc len [of m] show ?thesis by (simp add: nth_append)
    next
      case False
      with Suc.prems have "i * k + j < m * k" using row_index_less [of i m j k] assms(3) by simp
      with False Suc len [of m] show ?thesis by (simp add: nth_append)
    qed
  qed simp
  with assms(2) show "concat (map f [0..<n]) ! (i * k + j) = f i ! j" by simp
qed

lemma load_row:
  assumes "i < W" "m \<le> W" "W * W \<le> length w"
  shows "length (fold (\<lambda>j w. w[i * W + j := g j]) [0..<m] w) = length w"
    and "\<And>a b. a < W \<Longrightarrow> b < W \<Longrightarrow> fold (\<lambda>j w. w[i * W + j := g j]) [0..<m] w ! (a * W + b)
      = (if a = i \<and> b < m then g b else w ! (a * W + b))"
proof -
  show len: "length (fold (\<lambda>j w. w[i * W + j := g j]) [0..<m] w) = length w" for m
    by (induction m) simp_all
  fix a b assume ab: "a < W" "b < W"
  show "fold (\<lambda>j w. w[i * W + j := g j]) [0..<m] w ! (a * W + b)
      = (if a = i \<and> b < m then g b else w ! (a * W + b))"
    using assms(2)
  proof (induction m)
    case (Suc m)
    have "i * W + m < length w" using row_index_less [of i W m W] assms Suc.prems by simp
    with Suc ab show ?case
      using row_index_eq [of b W m a i] len [of m]
      by (auto simp: nth_list_update less_Suc_eq)
  qed simp
qed

lemma load_wrk_correct:
  assumes "W * W \<le> length wrk"
  shows "length (load_wrk src V0 K W c d wrk) = length wrk"
    and "\<And>i j. i < W \<Longrightarrow> j < W \<Longrightarrow> load_wrk src V0 K W c d wrk ! (i * W + j) = src ! (d ! i * K + c ! (V0 + j))"
proof -
  let ?f = "\<lambda>i w. fold (\<lambda>j w. w[i * W + j := src ! (d ! i * K + c ! (V0 + j))]) [0..<W] w"
  have len: "length (fold ?f [0..<m] wrk) = length wrk" if "m \<le> W" for m
    using that assms by (induction m) (simp_all add: load_row)
  then show "length (load_wrk src V0 K W c d wrk) = length wrk" by (simp add: load_wrk_def)
  have "fold ?f [0..<m] wrk ! (i * W + j) = src ! (d ! i * K + c ! (V0 + j))"
    if "m \<le> W" "i < m" "j < W" for m i j
    using that
  proof (induction m)
    case (Suc m)
    then show ?case using len [of m] assms by (cases "i = m") (simp_all add: load_row)
  qed simp
  then show "\<And>i j. i < W \<Longrightarrow> j < W \<Longrightarrow>
      load_wrk src V0 K W c d wrk ! (i * W + j) = src ! (d ! i * K + c ! (V0 + j))"
    by (simp add: load_wrk_def)
qed

text \<open>The encoder: every parity byte is a linear combination of the data bytes at its position.\<close>

lemma gemm_row_correct:
  assumes "\<forall>i<k. m \<le> length (b ! i)" and "m \<le> length c0"
  shows "length (gemm_row a b c0 row k m) = length c0"
    and "t < m \<Longrightarrow> to_gf (gemm_row a b c0 row k m ! t) = (\<Sum>i<k. to_gf (a ! (row * k + i)) * to_gf (b ! i ! t))"
proof -
  let ?f = "\<lambda>idx c. axpy c (b ! idx) (a ! (row * k + idx)) m"
  have len: "length (fold ?f [0..<n] (replicate m 0 @ drop m c0)) = length c0" if "n \<le> k" for n
    using that assms by (induction n) simp_all
  then show "length (gemm_row a b c0 row k m) = length c0" by (simp add: gemm_row_def)
  have "to_gf (fold ?f [0..<n] (replicate m 0 @ drop m c0) ! t)
      = (\<Sum>i<n. to_gf (a ! (row * k + i)) * to_gf (b ! i ! t))" if "t < m" "n \<le> k" for n
    using that(2)
  proof (induction n)
    case 0
    then show ?case using that(1) by (simp add: nth_append)
  next
    case (Suc n)
    then show ?case using that(1) len [of n] assms by (simp add: nth_axpy)
  qed
  then show "t < m \<Longrightarrow> to_gf (gemm_row a b c0 row k m ! t)
      = (\<Sum>i<k. to_gf (a ! (row * k + i)) * to_gf (b ! i ! t))"
    by (simp add: gemm_row_def)
qed

lemma gemm_row_cong: "(\<And>i. i < k \<Longrightarrow> b ! i = b' ! i) \<Longrightarrow> gemm_row a b c0 row k m = gemm_row a b' c0 row k m"
  unfolding gemm_row_def by (intro fold_cong) auto

lemma gemm_correct:
  assumes "n + k \<le> length sh"
  shows "length (gemm a sh n k m) = length sh"
    and "\<And>i. i < k \<Longrightarrow> gemm a sh n k m ! i = sh ! i"
    and "\<And>i. n + k \<le> i \<Longrightarrow> gemm a sh n k m ! i = sh ! i"
    and "\<And>row. row < n \<Longrightarrow> gemm a sh n k m ! (k + row) = gemm_row a sh (sh ! (k + row)) row k m"
proof -
  let ?f = "\<lambda>row sh. sh[k + row := gemm_row a sh (sh ! (k + row)) row k m]"
  have all: "length (fold ?f [0..<l] sh) = length sh \<and>
      (\<forall>i. fold ?f [0..<l] sh ! i =
         (if k \<le> i \<and> i < k + l then gemm_row a sh (sh ! i) (i - k) k m else sh ! i))" if "l \<le> n" for l
    using that
  proof (induction l)
    case (Suc l)
    then have IH: "length (fold ?f [0..<l] sh) = length sh"
      and nth: "fold ?f [0..<l] sh ! i = (if k \<le> i \<and> i < k + l then gemm_row a sh (sh ! i) (i - k) k m else sh ! i)" for i
      by simp_all
    have "gemm_row a (fold ?f [0..<l] sh) (sh ! (k + l)) l k m = gemm_row a sh (sh ! (k + l)) l k m"
      by (rule gemm_row_cong) (simp add: nth)
    with Suc.prems assms IH show ?case by (auto simp: nth nth_list_update)
  qed auto
  then show "length (gemm a sh n k m) = length sh"
    and "\<And>i. i < k \<Longrightarrow> gemm a sh n k m ! i = sh ! i"
    and "\<And>i. n + k \<le> i \<Longrightarrow> gemm a sh n k m ! i = sh ! i"
    and "\<And>row. row < n \<Longrightarrow> gemm a sh n k m ! (k + row) = gemm_row a sh (sh ! (k + row)) row k m"
    by (simp_all add: gemm_def)
qed

text \<open>The known data shards are subtracted from the parity shards.\<close>

lemma subtract_row:
  fixes q :: "nat \<Rightarrow> u8"
  assumes "p < length dst" and "\<forall>r<m. c ! r < length dst \<and> c ! r \<noteq> p" and "\<forall>k<length dst. length (dst ! k) = T"
  defines "out \<equiv> fold (\<lambda>r dst. dst[p := axpy (dst ! p) (dst ! (c ! r)) (q r) T]) [0..<m] dst"
  shows "length out = length dst"
    and "\<And>k. k \<noteq> p \<Longrightarrow> out ! k = dst ! k"
    and "length (out ! p) = T"
    and "\<And>t. t < T \<Longrightarrow> to_gf (out ! p ! t)
      = to_gf (dst ! p ! t) + (\<Sum>r<m. to_gf (q r) * to_gf (dst ! (c ! r) ! t))"
proof -
  let ?f = "\<lambda>r dst. dst[p := axpy (dst ! p) (dst ! (c ! r)) (q r) T]"
  have all: "length (fold ?f [0..<l] dst) = length dst \<and> (\<forall>k. k \<noteq> p \<longrightarrow> fold ?f [0..<l] dst ! k = dst ! k) \<and>
      length (fold ?f [0..<l] dst ! p) = T \<and>
      (\<forall>t<T. to_gf (fold ?f [0..<l] dst ! p ! t)
        = to_gf (dst ! p ! t) + (\<Sum>r<l. to_gf (q r) * to_gf (dst ! (c ! r) ! t)))" if "l \<le> m" for l
    using that
  proof (induction l)
    case (Suc l)
    then show ?case using assms by (auto simp: nth_axpy add.assoc)
  qed (use assms in simp)
  from all [of m, folded out_def] show "length out = length dst" "\<And>k. k \<noteq> p \<Longrightarrow> out ! k = dst ! k" "length (out ! p) = T"
    "\<And>t. t < T \<Longrightarrow> to_gf (out ! p ! t) = to_gf (dst ! p ! t) + (\<Sum>r<m. to_gf (q r) * to_gf (dst ! (c ! r) ! t))"
    by auto
qed

lemma subtract_known_correct:
  fixes src :: bytes and d :: "nat list"
  assumes lay: "layout (K - V0) V0 c (length dst)" and V0: "V0 \<le> K"
    and known: "\<forall>r<V0. c ! r < length dst \<and> c ! r \<notin> (\<lambda>i. c ! (V0 + i)) ` {..<K - V0}"
    and len: "\<forall>k<length dst. length (dst ! k) = T"
  defines "out \<equiv> subtract_known src V0 K T c d dst"
  shows "length out = length dst" and "\<forall>k<length dst. length (out ! k) = T"
    and "\<And>k. k \<notin> (\<lambda>i. c ! (V0 + i)) ` {..<K - V0} \<Longrightarrow> out ! k = dst ! k"
    and "\<And>i t. i < K - V0 \<Longrightarrow> t < T \<Longrightarrow> to_gf (out ! (c ! (V0 + i)) ! t)
      = to_gf (dst ! (c ! (V0 + i)) ! t) + (\<Sum>r<V0. to_gf (src ! (d ! i * K + c ! r)) * to_gf (dst ! (c ! r) ! t))"
proof -
  let ?g = "\<lambda>v dst. fold (\<lambda>row dst. dst[c ! v := axpy (dst ! (c ! v)) (dst ! (c ! row))
      (src ! (d ! (v - V0) * K + c ! row)) T]) [0..<V0] dst"
  let ?h = "\<lambda>n. fold ?g [V0..<V0 + n] dst"
  let ?e = "\<lambda>i t. to_gf (dst ! (c ! (V0 + i)) ! t)
      + (\<Sum>r<V0. to_gf (src ! (d ! i * K + c ! r)) * to_gf (dst ! (c ! r) ! t))"
  have all: "length (?h n) = length dst \<and> (\<forall>k<length dst. length (?h n ! k) = T) \<and>
      (\<forall>k. k \<notin> (\<lambda>i. c ! (V0 + i)) ` {..<n} \<longrightarrow> ?h n ! k = dst ! k) \<and>
      (\<forall>i<n. \<forall>t<T. to_gf (?h n ! (c ! (V0 + i)) ! t) = ?e i t)" if "n \<le> K - V0" for n
    using that
  proof (induction n)
    case (Suc n)
    let ?p = "c ! (V0 + n)"
    have IH: "length (?h n) = length dst" "\<forall>k<length dst. length (?h n ! k) = T"
      "\<And>k. k \<notin> (\<lambda>i. c ! (V0 + i)) ` {..<n} \<Longrightarrow> ?h n ! k = dst ! k"
      "\<And>i t. i < n \<Longrightarrow> t < T \<Longrightarrow> to_gf (?h n ! (c ! (V0 + i)) ! t) = ?e i t"
      using Suc by auto
    have p: "?p < length dst" using layout_less [OF lay, of n] Suc.prems by simp
    have pn: "?p \<noteq> c ! (V0 + i)" if "i < n" for i using layout_eq [OF lay, of n i] Suc.prems that by simp
    have kn: "\<forall>r<V0. c ! r < length (?h n) \<and> c ! r \<noteq> ?p" using known IH(1) Suc.prems by auto
    have old: "?h n ! (c ! r) = dst ! (c ! r)" if "r < V0" for r
      using known that Suc.prems by (intro IH(3)) auto
    have oldp: "?h n ! ?p = dst ! ?p" using pn by (intro IH(3)) auto
    define D where "D = ?h (Suc n)"
    have "D = ?g (V0 + n) (?h n)" by (simp add: D_def)
    then have sr: "length D = length dst" "\<And>k. k \<noteq> ?p \<Longrightarrow> D ! k = ?h n ! k" "length (D ! ?p) = T"
      "\<And>t. t < T \<Longrightarrow> to_gf (D ! ?p ! t) = to_gf (?h n ! ?p ! t)
        + (\<Sum>r<V0. to_gf (src ! (d ! n * K + c ! r)) * to_gf (?h n ! (c ! r) ! t))"
      using subtract_row [where p = ?p and dst = "?h n" and m = V0 and c = c and T = T
        and q = "\<lambda>r. src ! (d ! n * K + c ! r)"] p kn IH(1,2) by simp_all
    have "length (D ! k) = T" if "k < length dst" for k
      using sr(2) [of k] sr(3) IH(2) that by (cases "k = ?p") simp_all
    moreover have "D ! k = dst ! k" if "k \<notin> (\<lambda>i. c ! (V0 + i)) ` {..<Suc n}" for k
      by (rule trans [OF sr(2) IH(3)]) (use that in \<open>auto simp: lessThan_Suc\<close>)
    moreover have "to_gf (D ! (c ! (V0 + i)) ! t) = ?e i t" if "i < Suc n" "t < T" for i t
    proof (cases "i = n")
      case True
      with sr(4) that old oldp show ?thesis by simp
    next
      case False
      with that pn [of i] sr(2) [of "c ! (V0 + i)"] IH(4) show ?thesis by simp
    qed
    ultimately show ?case using sr(1) by (simp add: D_def)
  qed (use len in simp)
  have out: "out = ?h (K - V0)" using V0 by (simp add: out_def subtract_known_def)
  from all [of "K - V0"] show "length out = length dst" "\<forall>k<length dst. length (out ! k) = T"
    "\<And>k. k \<notin> (\<lambda>i. c ! (V0 + i)) ` {..<K - V0} \<Longrightarrow> out ! k = dst ! k"
    "\<And>i t. i < K - V0 \<Longrightarrow> t < T \<Longrightarrow> to_gf (out ! (c ! (V0 + i)) ! t) = ?e i t"
    unfolding out by auto
qed

lemma copy_parity_correct:
  assumes "distinct es" and "length js = length es" and "\<forall>k<length data. length (data ! k) = T"
    and "\<forall>e\<in>set es. e < n" and "\<forall>j\<in>set js. n \<le> j \<and> j < length data"
  shows "length (copy_parity T es js data) = length data"
    and "\<And>k. k \<notin> set es \<Longrightarrow> copy_parity T es js data ! k = data ! k"
    and "\<And>i. i < length es \<Longrightarrow> copy_parity T es js data ! (es ! i) = data ! (js ! i)"
proof -
  have "length (copy_parity T es js data) = length data \<and>
      (\<forall>k. k \<notin> set es \<longrightarrow> copy_parity T es js data ! k = data ! k) \<and>
      (\<forall>i<length es. copy_parity T es js data ! (es ! i) = data ! (js ! i))"
    using assms
  proof (induction es arbitrary: js data)
    case Nil
    then show ?case by (simp add: copy_parity_def)
  next
    case (Cons e es)
    then obtain j js' where js: "js = j # js'" by (cases js) auto
    have jn: "n \<le> j" "j < length data" "e < n" using Cons.prems js by auto
    define data' where "data' = data[e := data ! j]"
    have step: "copy_parity T (e # es) js data = copy_parity T es js' data'"
      using Cons.prems(3) jn by (simp add: copy_parity_def js data'_def)
    have IH: "length (copy_parity T es js' data') = length data' \<and>
        (\<forall>k. k \<notin> set es \<longrightarrow> copy_parity T es js' data' ! k = data' ! k) \<and>
        (\<forall>i<length es. copy_parity T es js' data' ! (es ! i) = data' ! (js' ! i))"
      using Cons.prems jn by (intro Cons.IH) (auto simp: js data'_def nth_list_update)
    have far: "data' ! (js' ! i) = data ! (js' ! i)" if "i < length es" for i
    proof -
      have "n \<le> js' ! i" using Cons.prems(2,5) that by (simp add: js)
      with jn show ?thesis by (simp add: data'_def)
    qed
    have "copy_parity T es js' data' ! e = data ! j"
      using IH Cons.prems(1) jn by (simp add: data'_def)
    with IH far show ?case unfolding step by (auto simp: js data'_def nth_Cons split: nat.split)
  qed
  then show "length (copy_parity T es js data) = length data"
    "\<And>k. k \<notin> set es \<Longrightarrow> copy_parity T es js data ! k = data ! k"
    "\<And>i. i < length es \<Longrightarrow> copy_parity T es js data ! (es ! i) = data ! (js ! i)" by auto
qed

section \<open>The code of a \<open>reed_solomon\<close> structure\<close>

definition gf_of :: "nat \<Rightarrow> gf" where
  "gf_of n = to_gf (word_of_nat n)"

lemma gf_of_inj: "m < 256 \<Longrightarrow> n < 256 \<Longrightarrow> gf_of m = gf_of n \<longleftrightarrow> m = n"
  by (simp add: gf_of_def unsigned_word_eqI word_unat_eq_iff unat_of_nat)

lemma gf_of_add_nonzero: "m < 256 \<Longrightarrow> n < 256 \<Longrightarrow> m \<noteq> n \<Longrightarrow> gf_of m + gf_of n \<noteq> 0"
  using gf_of_inj [of m n] by (metis add.commute add_cancel_right_left eq_neg_iff_add_eq_0 gf_uminus)

lemma parity_entry:
  assumes "m < 256" "n < 256"
  shows "to_gf (GF2_8_INV ! (m XOR n)) = 1 / (gf_of m + gf_of n)"
proof -
  have "take_bit 8 (m XOR n) = m XOR n"
    using assms by (simp add: take_bit_xor take_bit_nat_eq_self)
  then have "m XOR n < 256"
    using take_bit_nat_less_exp [of 8 "m XOR n"] by simp
  then have "GF2_8_INV ! (m XOR n) = gf2_8_inv (word_of_nat (m XOR n))"
    by (simp add: gf2_8_inv_def unat_of_nat)
  also have "word_of_nat (m XOR n) = (word_of_nat m XOR word_of_nat n :: u8)"
    by (simp add: of_nat_xor_eq)
  finally show ?thesis by (simp add: gf_of_def divide_inverse)
qed

lemma reed_solomon_new_fields:
  assumes "reed_solomon_new ok (int d) (int p) = Some rs"
  shows "rs_ds rs = d" "rs_ps rs = p" "rs_ts rs = d + p" "length (rs_p rs) = 2 * (p * d)"
    "0 < d" "0 < p" "d + p \<le> 255"
    and "\<And>i j. j < p \<Longrightarrow> i < d \<Longrightarrow> to_gf (rs_p rs ! (j * d + i)) = 1 / (gf_of j + gf_of (p + i))"
proof -
  let ?M = "concat (map (parity_row d p) [0..<p])"
  have rs: "rs = \<lparr>rs_ds = d, rs_ps = p, rs_ts = d + p, rs_p = ?M @ replicate (p * d) 0\<rparr>"
    and b: "0 < d" "0 < p" "d + p \<le> 255"
    using assms by (auto simp: reed_solomon_new_def reed_solomon_new_static_def DATA_SHARDS_MAX_def
        nat_int_add split: if_splits)
  show "rs_ds rs = d" "rs_ps rs = p" "rs_ts rs = d + p" "0 < d" "0 < p" "d + p \<le> 255"
    using rs b by simp_all
  have row: "length (parity_row d p i) = d" for i by (simp add: parity_row_def)
  have lenM: "length ?M = p * d" using concat_nth(2) [of p "parity_row d p" d 0 0] row b by simp
  then show "length (rs_p rs) = 2 * (p * d)" by (simp add: rs)
  fix i j assume ij: "j < p" "i < d"
  have "rs_p rs ! (j * d + i) = parity_row d p j ! i"
    using concat_nth(1) [of p "parity_row d p" d j i] row ij lenM row_index_less [of j p i d]
    by (simp add: rs nth_append)
  then show "to_gf (rs_p rs ! (j * d + i)) = 1 / (gf_of j + gf_of (p + i))"
    using ij b parity_entry [of "p + i" j] by (simp add: parity_row_def add.commute)
qed

end
