(* ===== verification/KernelsDecode.thy ===== *)
theory KernelsDecode
  imports Kernels RS_Decode
begin

text \<open>
  The decoder of \<open>rs.c\<close> in each build: \<open>invert_mat\<close> and \<open>reed_solomon_decode\<close> over the \<open>axpy\<close> and \<open>scal\<close> of a build, and
  the proof that they compute what the decoder over the field multiplication does.
\<close>

section \<open>The decoder in a build\<close>

definition subtract_known_isa ::
  "nat option \<Rightarrow> bytes \<Rightarrow> nat \<Rightarrow> nat \<Rightarrow> nat \<Rightarrow> nat list \<Rightarrow> nat list \<Rightarrow> bytes list \<Rightarrow> bytes list" where
  "subtract_known_isa wo src V0 K T c d dst =
     fold (\<lambda>v dst. fold (\<lambda>row dst.
         dst[c ! v := axpy_isa wo (dst ! (c ! v)) (dst ! (c ! row)) (src ! (d ! (v - V0) * K + c ! row)) T])
       [0..<V0] dst) [V0..<K] dst"

definition scal_diag_isa :: "nat option \<Rightarrow> nat \<Rightarrow> nat \<Rightarrow> u8 \<Rightarrow> bytes \<Rightarrow> bytes option" where
  "scal_diag_isa wo W x u wrk =
     (if u < 2 then Some wrk
      else if x * W + x + W > length wrk then None
      else Some (patch wrk (x * W + x) (scal_isa wo (bslice wrk (x * W + x) W) u W)))"

definition elim_row_isa ::
  "nat option \<Rightarrow> nat \<Rightarrow> nat \<Rightarrow> nat \<Rightarrow> nat list \<Rightarrow> nat \<Rightarrow> nat \<Rightarrow> bytes \<times> bytes list \<Rightarrow> bytes \<times> bytes list" where
  "elim_row_isa wo W T V0 c x row = (\<lambda>(wrk, dst).
     let u = wrk ! (row * W + x) in
     (patch wrk (row * W) (axpy_isa wo (bslice wrk (row * W) W) (bslice wrk (x * W) W) u W),
      dst[c ! (V0 + row) := axpy_isa wo (dst ! (c ! (V0 + row))) (dst ! (c ! (V0 + x))) u T]))"

definition forward_step_isa ::
  "nat option \<Rightarrow> nat \<Rightarrow> nat \<Rightarrow> nat \<Rightarrow> nat list \<Rightarrow> nat \<Rightarrow> bytes \<times> bytes list \<Rightarrow> (bytes \<times> bytes list) option" where
  "forward_step_isa wo W T V0 c x = (\<lambda>(wrk, dst).
     let u = gf2_8_inv (wrk ! (x * W + x)) in
     case scal_diag_isa wo W x u wrk of
       None \<Rightarrow> None
     | Some wrk \<Rightarrow>
         let dst = dst[c ! (V0 + x) := scal_isa wo (dst ! (c ! (V0 + x))) u T] in
         Some (fold (elim_row_isa wo W T V0 c x) [Suc x..<W] (wrk, dst)))"

definition forward_isa ::
  "nat option \<Rightarrow> nat \<Rightarrow> nat \<Rightarrow> nat \<Rightarrow> nat list \<Rightarrow> nat \<Rightarrow> bytes \<times> bytes list \<Rightarrow> (bytes \<times> bytes list) option" where
  "forward_isa wo W T V0 c n s = fold (\<lambda>x r. Option.bind r (forward_step_isa wo W T V0 c x)) [0..<n] (Some s)"

definition back_row_isa ::
  "nat option \<Rightarrow> nat \<Rightarrow> nat \<Rightarrow> nat \<Rightarrow> nat list \<Rightarrow> bytes \<Rightarrow> nat \<Rightarrow> nat \<Rightarrow> bytes list \<Rightarrow> bytes list" where
  "back_row_isa wo W T V0 c wrk x row dst =
     dst[c ! (V0 + row) := axpy_isa wo (dst ! (c ! (V0 + row))) (dst ! (c ! (V0 + x))) (wrk ! (row * W + x)) T]"

definition backward_isa :: "nat option \<Rightarrow> nat \<Rightarrow> nat \<Rightarrow> nat \<Rightarrow> nat list \<Rightarrow> bytes \<Rightarrow> bytes list \<Rightarrow> bytes list" where
  "backward_isa wo W T V0 c wrk dst =
     fold (\<lambda>x dst. fold (back_row_isa wo W T V0 c wrk x) [0..<x] dst) (rev [0..<W]) dst"

definition invert_mat_isa ::
  "nat option \<Rightarrow> bytes \<Rightarrow> bytes \<Rightarrow> bytes list \<Rightarrow> nat \<Rightarrow> nat \<Rightarrow> nat \<Rightarrow> nat list \<Rightarrow> nat list \<Rightarrow> bytes list option" where
  "invert_mat_isa wo src wrk dst V0 K T c d =
     (let W = K - V0;
          wrk = load_wrk src V0 K W c d wrk;
          dst = subtract_known_isa wo src V0 K T c d dst in
      case forward_isa wo W T V0 c W (wrk, dst) of
        None \<Rightarrow> None
      | Some (wrk, dst) \<Rightarrow> Some (backward_isa wo W T V0 c wrk dst))"

definition reed_solomon_decode_isa ::
  "nat option \<Rightarrow> reed_solomon \<Rightarrow> bytes list \<Rightarrow> bytes \<Rightarrow> int \<Rightarrow> nat \<Rightarrow> (int \<times> bytes list) option" where
  "reed_solomon_decode_isa wo rs data marks nr_shards bs =
     (if nr_shards < int (rs_ts rs) then Some (-1, data)
      else
        let d = rs_ds rs; wrk = drop (rs_ps rs * d) (rs_p rs);
            erasures = erasures_of marks d; gaps = length erasures in
        case known_columns marks (d - gaps) 0 of
          None \<Rightarrow> None
        | Some known \<Rightarrow>
          (case pick_parity marks (nat nr_shards) gaps d of
             None \<Rightarrow> None
           | Some js \<Rightarrow>
             let data = copy_parity bs erasures js data in
             if length js < gaps then Some (-1, data)
             else
               map_option (\<lambda>out. (0, out))
                 (invert_mat_isa wo (rs_p rs) wrk data (d - gaps) d bs (known @ erasures)
                    (map (\<lambda>j. j - d) js))))"

section \<open>Agreement\<close>

text \<open>The shards hold \<open>T\<close> bytes; the columns name shards; the work area holds the matrix.\<close>

definition shards_ok :: "nat \<Rightarrow> nat \<Rightarrow> bytes list \<Rightarrow> bool" where
  "shards_ok n T dst \<longleftrightarrow> length dst = n \<and> (\<forall>s\<in>set dst. T \<le> length s)"

lemma shards_update:
  assumes "shards_ok n T dst" "i < n" "j < n"
  shows "axpy_isa (isa_width cc isa) (dst ! i) (dst ! j) u T = axpy (dst ! i) (dst ! j) u T"
    "scal_isa (isa_width cc isa) (dst ! i) u T = scal (dst ! i) u T"
    "shards_ok n T (dst[i := axpy (dst ! i) (dst ! j) u T])" "shards_ok n T (dst[i := scal (dst ! i) u T])"
proof -
  have l: "T \<le> length (dst ! i)" "T \<le> length (dst ! j)" using assms by (auto simp: shards_ok_def)
  with isa_ref show "axpy_isa (isa_width cc isa) (dst ! i) (dst ! j) u T = axpy (dst ! i) (dst ! j) u T"
    "scal_isa (isa_width cc isa) (dst ! i) u T = scal (dst ! i) u T" by blast+
  show "shards_ok n T (dst[i := axpy (dst ! i) (dst ! j) u T])" "shards_ok n T (dst[i := scal (dst ! i) u T])"
    using assms(1) l by (auto simp: shards_ok_def dest!: subsetD [OF set_update_subset_insert])
qed

lemma subtract_known_agree:
  assumes "shards_ok n T dst" "\<forall>k<K. c ! k < n" "V0 \<le> K"
  shows "subtract_known_isa (isa_width cc isa) src V0 K T c d dst = subtract_known src V0 K T c d dst \<and>
    shards_ok n T (subtract_known src V0 K T c d dst)"
  unfolding subtract_known_isa_def subtract_known_def
proof (rule fold_agree [where I = "shards_ok n T", OF assms(1)], rule fold_agree [where I = "shards_ok n T"])
  fix v row and dst :: "bytes list" assume "v \<in> set [V0..<K]" "row \<in> set [0..<V0]" "shards_ok n T dst"
  moreover from this assms have "c ! v < n" "c ! row < n" by auto
  ultimately show "dst[c ! v := axpy_isa (isa_width cc isa) (dst ! (c ! v)) (dst ! (c ! row)) (src ! (d ! (v - V0) * K + c ! row)) T] =
      dst[c ! v := axpy (dst ! (c ! v)) (dst ! (c ! row)) (src ! (d ! (v - V0) * K + c ! row)) T] \<and>
    shards_ok n T (dst[c ! v := axpy (dst ! (c ! v)) (dst ! (c ! row)) (src ! (d ! (v - V0) * K + c ! row)) T])"
    by (simp add: shards_update)
qed

definition system_ok :: "nat \<Rightarrow> nat \<Rightarrow> nat \<Rightarrow> bytes \<times> bytes list \<Rightarrow> bool" where
  "system_ok W n T s \<longleftrightarrow> W * W \<le> length (fst s) \<and> shards_ok n T (snd s)"

lemma row_room: "row < W \<Longrightarrow> W * W \<le> l \<Longrightarrow> row * W + W \<le> (l :: nat)"
  using mult_le_mono1 [of "Suc row" W W] by simp

lemma elim_row_agree:
  assumes "system_ok W n T s" "\<forall>k<W. c ! (V0 + k) < n" "x < W" "row < W"
  shows "elim_row_isa (isa_width cc isa) W T V0 c x row s = elim_row W T V0 c x row s \<and> system_ok W n T (elim_row W T V0 c x row s)"
proof -
  obtain wrk dst where s: "s = (wrk, dst)" by force
  have r: "row * W + W \<le> length wrk" "x * W + W \<le> length wrk" "shards_ok n T dst"
    using assms row_room by (simp_all add: system_ok_def s)
  then have "axpy_isa (isa_width cc isa) (bslice wrk (row * W) W) (bslice wrk (x * W) W) u W
      = axpy (bslice wrk (row * W) W) (bslice wrk (x * W) W) u W" for u
    by (simp add: isa_ref)
  with r assms show ?thesis
    by (simp add: s elim_row_isa_def elim_row_def Let_def system_ok_def shards_update)
qed

lemma forward_step_agree:
  assumes "system_ok W n T s" "\<forall>k<W. c ! (V0 + k) < n" "x < W"
  shows "forward_step_isa (isa_width cc isa) W T V0 c x s = forward_step W T V0 c x s \<and>
    (case forward_step W T V0 c x s of None \<Rightarrow> True | Some s' \<Rightarrow> system_ok W n T s')"
proof -
  obtain wrk dst where s: "s = (wrk, dst)" by force
  let ?u = "gf2_8_inv (wrk ! (x * W + x))"
  have ok: "W * W \<le> length wrk" "shards_ok n T dst" using assms(1) by (simp_all add: system_ok_def s)
  have d: "scal_diag_isa (isa_width cc isa) W x ?u wrk = scal_diag W x ?u wrk"
    using isa_ref(2) [of W "bslice wrk (x * W + x) W" "bslice wrk (x * W + x) W" cc isa]
    by (simp add: scal_diag_isa_def scal_diag_def)
  have l: "length wrk' = length wrk" if "scal_diag W x ?u wrk = Some wrk'" for wrk'
    using that by (auto simp: scal_diag_def split: if_splits)
  let ?dst = "dst[c ! (V0 + x) := scal (dst ! (c ! (V0 + x))) ?u T]"
  have dst: "shards_ok n T ?dst" "scal_isa (isa_width cc isa) (dst ! (c ! (V0 + x))) ?u T = scal (dst ! (c ! (V0 + x))) ?u T"
    using shards_update [OF ok(2)] assms(2,3) by blast+
  have fold: "fold (elim_row_isa (isa_width cc isa) W T V0 c x) [Suc x..<W] (wrk', ?dst) = fold (elim_row W T V0 c x) [Suc x..<W] (wrk', ?dst) \<and>
      system_ok W n T (fold (elim_row W T V0 c x) [Suc x..<W] (wrk', ?dst))" if "length wrk' = length wrk" for wrk'
    by (rule fold_agree [where I = "system_ok W n T"]) (use that ok dst elim_row_agree assms in \<open>auto simp: system_ok_def\<close>)
  show ?thesis
  proof (cases "scal_diag W x ?u wrk")
    case None
    then show ?thesis by (simp add: s forward_step_isa_def forward_step_def Let_def d)
  next
    case (Some wrk')
    with fold [OF l [OF Some]] show ?thesis
      by (simp add: s forward_step_isa_def forward_step_def Let_def d dst(2))
  qed
qed

lemma forward_agree:
  assumes "system_ok W n T s" "\<forall>k<W. c ! (V0 + k) < n" "m \<le> W"
  shows "forward_isa (isa_width cc isa) W T V0 c m s = forward W T V0 c m s \<and>
    (case forward W T V0 c m s of None \<Rightarrow> True | Some s' \<Rightarrow> system_ok W n T s')"
  unfolding forward_isa_def forward_def
proof (rule fold_agree [where I = "\<lambda>r. case r of None \<Rightarrow> True | Some s' \<Rightarrow> system_ok W n T s'"])
  fix x r assume "x \<in> set [0..<m]" and r: "case r of None \<Rightarrow> True | Some s' \<Rightarrow> system_ok W n T s'"
  then have "x < W" using assms(3) by simp
  with r forward_step_agree [OF _ assms(2)] show "Option.bind r (forward_step_isa (isa_width cc isa) W T V0 c x) =
      Option.bind r (forward_step W T V0 c x) \<and>
    (case Option.bind r (forward_step W T V0 c x) of None \<Rightarrow> True | Some s' \<Rightarrow> system_ok W n T s')"
    by (cases r) simp_all
qed (use assms(1) in simp)

lemma backward_agree:
  assumes "shards_ok n T dst" "\<forall>k<W. c ! (V0 + k) < n"
  shows "backward_isa (isa_width cc isa) W T V0 c wrk dst = backward W T V0 c wrk dst \<and> shards_ok n T (backward W T V0 c wrk dst)"
  unfolding backward_isa_def backward_def
proof (rule fold_agree [where I = "shards_ok n T", OF assms(1)], rule fold_agree [where I = "shards_ok n T"])
  fix x row and dst :: "bytes list" assume "x \<in> set (rev [0..<W])" "row \<in> set [0..<x]" "shards_ok n T dst"
  with assms(2) show "back_row_isa (isa_width cc isa) W T V0 c wrk x row dst = back_row W T V0 c wrk x row dst \<and>
      shards_ok n T (back_row W T V0 c wrk x row dst)"
    by (simp add: back_row_isa_def back_row_def shards_update)
qed

lemma invert_mat_agree:
  assumes "shards_ok n T dst" "\<forall>k<K. c ! k < n" "V0 \<le> K" "(K - V0) * (K - V0) \<le> length wrk"
  shows "invert_mat_isa (isa_width cc isa) src wrk dst V0 K T c d = invert_mat src wrk dst V0 K T c d"
proof -
  let ?W = "K - V0" and ?dst = "subtract_known src V0 K T c d dst"
  note sub = subtract_known_agree [OF assms(1-3), of cc isa src d]
  have c: "\<forall>k<?W. c ! (V0 + k) < n" using assms(2) by auto
  have "system_ok ?W n T (load_wrk src V0 K ?W c d wrk, ?dst)"
    using sub assms(4) load_wrk_correct(1) by (simp add: system_ok_def)
  note f = forward_agree [OF this c order_refl, of cc isa]
  show ?thesis
  proof (cases "forward ?W T V0 c ?W (load_wrk src V0 K ?W c d wrk, ?dst)")
    case None
    then show ?thesis using f sub by (simp add: invert_mat_isa_def invert_mat_def Let_def)
  next
    case (Some s)
    obtain w d' where s: "s = (w, d')" by force
    with f Some have "shards_ok n T d'" by (simp add: system_ok_def)
    from backward_agree [OF this c] f sub Some s show ?thesis
      by (simp add: invert_mat_isa_def invert_mat_def Let_def)
  qed
qed

lemma pick_parity_less: "pick_parity marks nr n j = Some js \<Longrightarrow> \<forall>i\<in>set js. i < nr"
  by (induction n arbitrary: j js) (auto split: option.splits if_splits)

lemma copy_parity_ok:
  assumes "shards_ok n T data" "\<forall>e\<in>set es. e < n" "\<forall>j\<in>set js. j < n"
  shows "shards_ok n T (copy_parity T es js data)"
proof -
  have "shards_ok n T (fold (\<lambda>(e, j) d. d[e := take T (d ! j) @ drop T (d ! e)]) xs data)"
    if "\<forall>(e, j)\<in>set xs. e < n \<and> j < n" "shards_ok n T data" for xs data
    using that
  proof (induction xs arbitrary: data)
    case (Cons x xs)
    obtain e j where x: "x = (e, j)" by force
    have i: "e < n" "j < n" and d: "length data = n" "\<forall>s\<in>set data. T \<le> length s"
      using Cons.prems by (simp_all add: x shards_ok_def)
    then have "T \<le> length (data ! j)" by simp
    then have "T \<le> length (take T (data ! j) @ drop T (data ! e))" by simp
    with d have "shards_ok n T (data[e := take T (data ! j) @ drop T (data ! e)])"
      using set_update_subset_insert [of data e "take T (data ! j) @ drop T (data ! e)"] unfolding shards_ok_def by fastforce
    with Cons.IH Cons.prems(1) show ?case by (simp add: x)
  qed simp
  moreover have "\<forall>(e, j)\<in>set (zip es js). e < n \<and> j < n" using assms(2,3) by (auto elim!: in_set_zipE)
  ultimately show ?thesis unfolding copy_parity_def using assms(1) by blast
qed

lemma decoders_agree:
  assumes "2 * (rs_ps rs * rs_ds rs) \<le> length (rs_p rs)" "rs_ds rs \<le> length marks"
    "length (erasures_of marks (rs_ds rs)) \<le> rs_ps rs" "shards_ok n bs data" "rs_ds rs \<le> n" "nr \<le> int n"
  shows "reed_solomon_decode_isa (isa_width cc isa) rs data marks nr bs = reed_solomon_decode rs data marks nr bs"
proof -
  define es where "es = erasures_of marks (rs_ds rs)"
  let ?d = "rs_ds rs" and ?W = "length es" and ?u = "unmarked marks 0 (rs_ds rs)"
  have l: "length es + length ?u = ?d" unfolding es_def by (rule length_erasures)
  have "unmarked marks 0 (length marks) = ?u @ unmarked marks ?d (length marks)"
    by (rule unmarked_append) (simp_all add: assms(2))
  then have known: "known_columns marks (?d - ?W) 0 = Some ?u"
    using l by (simp add: known_columns_unmarked)
  show ?thesis
  proof (cases "pick_parity marks (nat nr) ?W ?d")
    case None
    then show ?thesis by (simp add: reed_solomon_decode_isa_def reed_solomon_decode_def Let_def es_def split: option.splits)
  next
    case (Some js)
    have perm: "set (?u @ es) = {..<?d}" unfolding es_def by (rule columns_permutation)
    have small: "i < n" if "i \<in> set (?u @ es)" for i using that assms(5) unfolding perm by simp
    have c: "\<forall>k<?d. (?u @ es) ! k < n"
    proof (intro allI impI)
      fix k assume "k < ?d"
      with l have "k < length (?u @ es)" by simp
      then show "(?u @ es) ! k < n" by (rule small [OF nth_mem])
    qed
    have "\<forall>e\<in>set es. e < n" using small by simp
    moreover have "\<forall>j\<in>set js. j < n" using pick_parity_less [OF Some] assms(6) by auto
    ultimately have ok: "shards_ok n bs (copy_parity bs es js data)" using assms(4) by (intro copy_parity_ok)
    have "?W * ?W \<le> rs_ps rs * ?d" using assms(3) l unfolding es_def by (intro mult_le_mono) linarith+
    then have "?W * ?W \<le> length (drop (rs_ps rs * ?d) (rs_p rs))" using assms(1) by simp
    moreover have "?d - (?d - ?W) = ?W" using l by linarith
    ultimately have "invert_mat_isa (isa_width cc isa) (rs_p rs) (drop (rs_ps rs * ?d) (rs_p rs)) (copy_parity bs es js data)
        (?d - ?W) ?d bs (?u @ es) (map (\<lambda>j. j - ?d) js) =
      invert_mat (rs_p rs) (drop (rs_ps rs * ?d) (rs_p rs)) (copy_parity bs es js data)
        (?d - ?W) ?d bs (?u @ es) (map (\<lambda>j. j - ?d) js)"
      by (intro invert_mat_agree [OF ok c]) simp_all
    then show ?thesis
      using known Some by (simp add: reed_solomon_decode_isa_def reed_solomon_decode_def Let_def es_def)
  qed
qed

section \<open>Every build\<close>

text \<open>
  C17: Neither the parity nor the recovered data depend on the machine: whatever build the processor and the compiler
  select, \<open>axpy\<close> and \<open>scal\<close> of \<open>rs.c\<close> return, on operands that hold \<open>k\<close> bytes, what the build over the field
  multiplication returns, and for a code that \<open>reed_solomon_new\<close> has made the encoder and the decoder compute the same
  shards, undefined behaviour included: the portable loops over the 64 KiB multiplication table and the SSSE3, NEON,
  AVX2 and AVX-512 loops over the shuffle tables, with their remainders.
\<close>

theorem builds_agree:
  assumes "k \<le> length a" "k \<le> length b"
    and "reed_solomon_new ok (int d) (int p) = Some rs" "length shards = d + p" "\<forall>s\<in>set shards. k \<le> length s"
    and "d \<le> length marks" "length (erasures_of marks d) \<le> p" "nr \<le> int (d + p)"
  shows "let wo = isa_width cc (reed_solomon_init cc cpu) in
    axpy_isa wo a b u k = axpy a b u k \<and> scal_isa wo a u k = scal a u k \<and>
    reed_solomon_encode_isa wo rs shards nr k = reed_solomon_encode rs shards nr k \<and>
    reed_solomon_decode_isa wo rs shards marks nr k = reed_solomon_decode rs shards marks nr k"
proof -
  note rs = reed_solomon_new_fields(1,2,4) [OF assms(3)]
  have e: "rs_ds rs + rs_ps rs \<le> length shards" using assms(4) by (simp add: rs)
  have "shards_ok (d + p) k shards" using assms(4,5) by (simp add: shards_ok_def)
  then have "reed_solomon_decode_isa (isa_width cc isa) rs shards marks nr k = reed_solomon_decode rs shards marks nr k" for isa
    by (intro decoders_agree [of _ _ "d + p"]) (use assms(6-8) in \<open>simp_all add: rs\<close>)
  with kernels_agree [OF assms(1,2) e assms(5), of cc cpu u nr] show ?thesis by (simp add: Let_def)
qed

theorem builds_agree_witness:
  "axpy_isa (Some 16) (replicate 18 7) (replicate 18 3) 142 18 = replicate 18 (7 XOR gf2_8_mul 142 3) \<and>
   (\<exists>rs. reed_solomon_new True 1 1 = Some rs \<and>
     reed_solomon_decode_isa (Some 16) rs [replicate 18 0, replicate 18 9] [1, 0] 2 18 = Some (0, [replicate 18 9, replicate 18 9]))"
proof -
  have x: "axpy (replicate 18 7) (replicate 18 3) 142 18 = replicate 18 (7 XOR gf2_8_mul 142 3)"
    by (simp add: axpy_eq_ref numeral_eq_Suc)
  have i: "isa_width demo_compiler (reed_solomon_init demo_compiler demo_cpu) = Some 16"
    by (simp add: reed_solomon_init_def demo_compiler_def demo_cpu_def)
  let ?rs = "\<lparr>rs_ds = 1, rs_ps = 1, rs_ts = 2, rs_p = [1, 0]\<rparr>"
  have rs: "reed_solomon_new True (int 1) (int 1) = Some ?rs" by code_simp
  have d: "reed_solomon_decode ?rs [replicate 18 0, replicate 18 9] [1, 0] 2 18 = Some (0, [replicate 18 9, replicate 18 9])"
    by code_simp
  have "length (erasures_of [1, 0] 1) \<le> 1" by (simp add: erasures_of_def)
  from builds_agree [of 18 "replicate 18 7" "replicate 18 3" True 1 1 ?rs "[replicate 18 0, replicate 18 9]" "[1, 0]" 2
      demo_compiler demo_cpu 142] rs d x this
  show ?thesis by (simp add: Let_def i)
qed

end
