(* ===== verification/RS_Recovery.thy ===== *)
theory RS_Recovery
  imports RS_Decode
begin

unbundle bit_operations_syntax

text \<open>
  The contract of the Reed-Solomon code: whatever shards are lost, the decoder restores the data
  shards as long as enough parity shards survive, with the one exception in which its elimination
  loop runs past the work area.
\<close>

section \<open>The system that a loss leaves\<close>

text \<open>The coefficient of data column \<open>i\<close> in parity row \<open>j\<close>.\<close>

definition coeff :: "nat \<Rightarrow> nat \<Rightarrow> nat \<Rightarrow> gf" where
  "coeff p j i = 1 / (gf_of j + gf_of (p + i))"

lemma encode_shards:
  assumes rs: "reed_solomon_new ok (int d) (int p) = Some rs"
    and len: "length sh = d + p" "\<forall>k<d + p. length (sh ! k) = bs"
    and enc: "reed_solomon_encode rs sh (int (d + p)) bs = (0, out)"
  shows "length out = d + p" and "\<forall>k<d + p. length (out ! k) = bs"
    and "\<And>i. i < d \<Longrightarrow> out ! i = sh ! i"
    and "\<And>j t. j < p \<Longrightarrow> t < bs \<Longrightarrow>
      to_gf (out ! (d + j) ! t) = (\<Sum>i<d. coeff p j i * to_gf (sh ! i ! t))"
proof -
  note f = reed_solomon_new_fields [OF rs]
  have out: "out = gemm (rs_p rs) sh p d bs"
    using enc f by (simp add: reed_solomon_encode_def)
  have pd: "p + d \<le> length sh" using len by simp
  note g = gemm_correct [OF pd, where a = "rs_p rs" and m = bs, folded out]
  have row: "length (gemm_row (rs_p rs) sh (sh ! (d + j)) j d bs) = bs" if "j < p" for j
    using len that by (simp add: gemm_row_correct(1))
  show "length out = d + p" using g(1) len by simp
  show "\<And>i. i < d \<Longrightarrow> out ! i = sh ! i" by (rule g(2))
  show "\<forall>k<d + p. length (out ! k) = bs"
  proof (intro allI impI)
    fix k assume k: "k < d + p"
    show "length (out ! k) = bs"
      using k len g(2) [of k] g(4) [of "k - d"] row [of "k - d"] by (cases "k < d") simp_all
  qed
  show "to_gf (out ! (d + j) ! t) = (\<Sum>i<d. coeff p j i * to_gf (sh ! i ! t))"
    if "j < p" "t < bs" for j t
    using len that f(8) by (simp add: g(4) gemm_row_correct(2) coeff_def)
qed

lemma sum_permuted:
  assumes "distinct (xs @ ys)" and "set (xs @ ys) = {..<n}"
  shows "(\<Sum>i<n. f i) = (\<Sum>r<length xs. f (xs ! r)) + (\<Sum>j<length ys. f (ys ! j) :: 'a::comm_monoid_add)"
proof -
  have "(\<Sum>i<n. f i) = sum_list (map f (xs @ ys))"
    using assms by (metis sum_list_distinct_conv_sum_set)
  also have "\<dots> = sum_list (map f xs) + sum_list (map f ys)" by simp
  also have "\<dots> = (\<Sum>r<length xs. f (xs ! r)) + (\<Sum>j<length ys. f (ys ! j))"
    by (simp only: sum_list_sum_nth [of "map f xs"] sum_list_sum_nth [of "map f ys"] length_map atLeast0LessThan)
      simp
  finally show ?thesis .
qed

lemma take_unmarked_parity:
  "\<forall>j\<in>set (take n (unmarked marks d m)). d \<le> j \<and> j < m \<and> marks ! j = 0"
  by (auto simp: unmarked_def dest: in_set_takeD)

lemma work_area_room:
  assumes "W \<le> d" "W \<le> p" "\<not> (d = W \<and> p = W \<and> 2 \<le> W)" "0 < d" "0 < p"
  shows "W * W + W \<le> Suc (p * d)"
proof -
  consider "W < d" | "W < p" | "W = d" "W = p" "W < 2" using assms by linarith
  then show ?thesis
  proof cases
    case 1
    then have "W * Suc W \<le> p * d" using assms by (intro mult_le_mono) auto
    then show ?thesis by simp
  next
    case 2
    then have "Suc W * W \<le> p * d" using assms by (intro mult_le_mono) auto
    then show ?thesis by simp
  next
    case 3
    then have "W = 1" using assms by simp
    with 3 show ?thesis by simp
  qed
qed

section \<open>The decoder\<close>

text \<open>
  \<open>invert_mat\<close> on shards whose lost entries hold parity: \<open>es\<close> are the lost data shards, \<open>ks\<close> the known
  ones, \<open>js\<close> the rows of the parity shards that replace the lost ones, \<open>v\<close> the original data.
\<close>

lemma invert_mat_correct:
  assumes perm: "distinct (ks @ es)" "set (ks @ es) = {..<d}" and js: "distinct js" "length js = length es"
      "\<forall>j\<in>set js. j < p"
    and small: "d + p \<le> 255"
    and src: "\<And>i j. j < p \<Longrightarrow> i < d \<Longrightarrow> to_gf (src ! (j * d + i)) = coeff p j i"
    and dst: "d \<le> length dst" "\<forall>k<length dst. length (dst ! k) = T"
    and known: "\<And>r t. r \<in> set ks \<Longrightarrow> t < T \<Longrightarrow> to_gf (dst ! r ! t) = v r t"
    and parity: "\<And>i t. i < length es \<Longrightarrow> t < T \<Longrightarrow>
      to_gf (dst ! (es ! i) ! t) = (\<Sum>k<d. coeff p (js ! i) k * v k t)"
    and room: "length es * length es + length es \<le> Suc (length wrk)" "length es * length es \<le> length wrk"
  shows "\<exists>out. invert_mat src wrk dst (length ks) d T (ks @ es) js = Some out \<and> length out = length dst
    \<and> (\<forall>k<length dst. length (out ! k) = T)
    \<and> (\<forall>k. k \<notin> set es \<longrightarrow> k < length dst \<longrightarrow> out ! k = dst ! k)
    \<and> (\<forall>i<length es. \<forall>t<T. to_gf (out ! (es ! i) ! t) = v (es ! i) t)"
proof -
  define W where "W = length es"
  let ?c = "ks @ es" and ?V = "length ks"
  have dW: "d = ?V + W"
  proof -
    have "card (set (ks @ es)) = length (ks @ es)" using perm(1) by (rule distinct_card)
    then show ?thesis using perm(2) by (simp add: W_def)
  qed
  have col: "?c ! (?V + i) = es ! i" for i by (simp add: nth_append)
  have colr: "?c ! r = ks ! r" if "r < ?V" for r using that by (simp add: nth_append)
  have inds: "k < d" if "k \<in> set ks \<or> k \<in> set es" for k
  proof -
    from that have "k \<in> set (ks @ es)" by auto
    then show "k < d" unfolding perm(2) by simp
  qed
  have es: "es ! i \<in> set es" "es ! i < d" if "i < W" for i
    using that by (simp_all add: W_def inds)
  have dis: "distinct es" using perm(1) by simp
  have lay: "layout W ?V ?c (length dst)"
    unfolding layout_def col
  proof
    show "inj_on (\<lambda>i. es ! i) {..<W}" using dis by (simp add: inj_on_def W_def nth_eq_iff_index_eq)
    show "\<forall>i<W. es ! i < length dst" using es(2) dst(1) by (meson less_le_trans)
  qed
  have img: "(\<lambda>i. ?c ! (?V + i)) ` {..<W} = set es" by (auto simp: col W_def in_set_conv_nth)
  define x where "x i = gf_of (js ! i)" for i
  define y where "y j = gf_of (p + es ! j)" for j
  have jl: "js ! i < p" if "i < W" for i using js that by (simp add: W_def)
  have cd: "cauchy_data W x y"
    unfolding cauchy_data_def
  proof (intro conjI allI impI)
    show "inj_on x {..<W}"
    proof (rule inj_onI)
      fix i j assume ij: "i \<in> {..<W}" "j \<in> {..<W}" "x i = x j"
      then have "js ! i = js ! j" using jl [of i] jl [of j] small by (simp add: x_def gf_of_inj)
      with ij js show "i = j" by (simp add: W_def nth_eq_iff_index_eq)
    qed
    show "inj_on y {..<W}"
    proof (rule inj_onI)
      fix i j assume ij: "i \<in> {..<W}" "j \<in> {..<W}" "y i = y j"
      then have "es ! i = es ! j" using es(2) [of i] es(2) [of j] small by (simp add: y_def gf_of_inj)
      with ij dis show "i = j" by (simp add: W_def nth_eq_iff_index_eq)
    qed
    show "x i + y j \<noteq> 0" if "i < W" "j < W" for i j
      using jl [OF that(1)] es(2) [OF that(2)] small unfolding x_def y_def by (intro gf_of_add_nonzero) auto
  qed
  define A where "A i j = coeff p (js ! i) (es ! j)" for i j
  define w0 where "w0 = load_wrk src ?V d W ?c js wrk"
  define D0 where "D0 = subtract_known src ?V d T ?c js dst"
  have room': "W * W \<le> length wrk" "W * W + W \<le> Suc (length wrk)" using room by (simp_all add: W_def)
  note lw = load_wrk_correct [OF room'(1), where src = src and ?V0.0 = ?V and K = d and c = ?c and d = js, folded w0_def]
  have "layout (d - ?V) ?V ?c (length dst)" "?V \<le> d" using lay dW by simp_all
  moreover have "\<forall>r<?V. ?c ! r < length dst \<and> ?c ! r \<notin> (\<lambda>i. ?c ! (?V + i)) ` {..<d - ?V}"
  proof (intro allI impI)
    fix r assume r: "r < ?V"
    then have "ks ! r \<in> set ks" by simp
    moreover from this have "ks ! r < length dst" using inds dst(1) by (meson less_le_trans)
    moreover have "d - ?V = W" using dW by simp
    moreover have "ks ! r \<notin> set es" using perm(1) nth_mem [OF r] by auto
    ultimately show "?c ! r < length dst \<and> ?c ! r \<notin> (\<lambda>i. ?c ! (?V + i)) ` {..<d - ?V}"
      using r img by (simp add: colr)
  qed
  ultimately have sk: "length D0 = length dst" "\<forall>k<length dst. length (D0 ! k) = T"
    "\<And>k. k \<notin> set es \<Longrightarrow> D0 ! k = dst ! k"
    "\<And>i t. i < W \<Longrightarrow> t < T \<Longrightarrow> to_gf (D0 ! (es ! i) ! t)
      = to_gf (dst ! (es ! i) ! t) + (\<Sum>r<?V. to_gf (src ! (js ! i * d + ?c ! r)) * to_gf (dst ! (?c ! r) ! t))"
    using subtract_known_correct [where K = d and ?V0.0 = ?V and c = ?c and dst = dst and T = T
        and src = src and d = js, folded D0_def] dst(2) img dW
    by (simp_all add: col)
  define b where "b t i = to_gf (D0 ! (es ! i) ! t)" for t i
  have rep: "represents W T ?V ?c D0 (length wrk) (w0, D0) A b"
    unfolding represents_def prod.case
  proof (intro conjI allI impI)
    show "to_gf (w0 ! (i * W + j)) = A i j" if "i < W" "j < W" for i j
      using that jl es(2) by (simp add: lw(2) col src A_def)
  qed (use lw(1) room'(1) sk in \<open>simp_all add: b_def col\<close>)
  have sol: "solves W T A (\<lambda>t j. v (es ! j) t) b"
    unfolding solves_def
  proof (intro allI impI)
    fix t i assume t: "t < T" and i: "i < W"
    let ?S = "\<Sum>r<?V. coeff p (js ! i) (ks ! r) * v (ks ! r) t"
    have "(\<Sum>r<?V. to_gf (src ! (js ! i * d + ?c ! r)) * to_gf (dst ! (?c ! r) ! t)) = ?S"
    proof (intro sum.cong refl)
      fix r assume "r \<in> {..<?V}"
      then have r: "r < ?V" "ks ! r \<in> set ks" "ks ! r < d" using inds by auto
      then show "to_gf (src ! (js ! i * d + ?c ! r)) * to_gf (dst ! (?c ! r) ! t)
          = coeff p (js ! i) (ks ! r) * v (ks ! r) t"
        using jl [OF i] t by (simp add: colr src known)
    qed
    then have "b t i = (\<Sum>k<d. coeff p (js ! i) k * v k t) + ?S"
      using sk(4) [OF i t] parity i t by (simp add: b_def W_def)
    also have "(\<Sum>k<d. coeff p (js ! i) k * v k t) = ?S + (\<Sum>j<W. A i j * v (es ! j) t)"
      using sum_permuted [OF perm, of "\<lambda>k. coeff p (js ! i) k * v k t"] by (simp add: A_def W_def)
    also have "?S + (\<Sum>j<W. A i j * v (es ! j) t) + ?S = (\<Sum>j<W. A i j * v (es ! j) t) + (?S + ?S)"
      by (simp only: ac_simps)
    finally show "(\<Sum>j<W. A i j * v (es ! j) t) = b t i" by (simp add: gf_add_self)
  qed
  have "stage W x y 0 A" by (simp add: stage_def A_def coeff_def x_def y_def)
  with forward_correct [OF rep _ _ cd sol room'(2) order_refl] lay sk(1)
  obtain w1 D1 A1 b1 where fw: "forward W T ?V ?c W (w0, D0) = Some (w1, D1)"
    and rep1: "represents W T ?V ?c D0 (length wrk) (w1, D1) A1 b1"
    and st1: "stage W x y W A1" and sol1: "solves W T A1 (\<lambda>t j. v (es ! j) t) b1" by fastforce
  obtain b2 where rep2: "represents W T ?V ?c D0 (length wrk) (w1, backward W T ?V ?c w1 D1) A1 b2"
    and b2: "\<forall>t<T. \<forall>i<W. b2 t i = v (es ! i) t"
    using backward_correct [OF rep1 _ _ order_refl, of "\<lambda>t j. v (es ! j) t"] lay sk(1) st1 sol1
    by (fastforce simp: stage_def solves_def backward_def)
  have "invert_mat src wrk dst ?V d T ?c js = Some (backward W T ?V ?c w1 D1)"
    using fw dW by (simp add: invert_mat_def Let_def w0_def D0_def)
  moreover have "\<forall>i<W. \<forall>t<T. to_gf (backward W T ?V ?c w1 D1 ! (es ! i) ! t) = v (es ! i) t"
    using rep2 b2 by (simp add: represents_def col)
  moreover have "length (backward W T ?V ?c w1 D1) = length dst"
    "\<forall>k<length dst. length (backward W T ?V ?c w1 D1 ! k) = T"
    "\<forall>k<length dst. k \<notin> set es \<longrightarrow> backward W T ?V ?c w1 D1 ! k = dst ! k"
    using rep2 sk(1,3) unfolding represents_def prod.case img by simp_all
  ultimately show ?thesis by (simp add: W_def)
qed

lemma to_gf_list_eq:
  assumes "length xs = T" "length ys = T" and "\<And>t. t < T \<Longrightarrow> to_gf (xs ! t) = to_gf (ys ! t)"
  shows "xs = ys"
  using assms by (auto intro!: nth_equalityI)

section \<open>Recovery\<close>

text \<open>
  The lost shards are named by \<open>marks\<close>; a shard that is not marked is intact. \<open>enough_parity\<close> is the
  condition under which the code promises recovery, \<open>work_area_ok\<close> excludes the shape on which
  \<open>invert_mat\<close> leaves its work area.
\<close>

definition enough_parity :: "bytes \<Rightarrow> nat \<Rightarrow> bool" where
  "enough_parity marks d \<longleftrightarrow> length (erasures_of marks d) \<le> length (unmarked marks d (length marks))"

definition work_area_ok :: "bytes \<Rightarrow> nat \<Rightarrow> nat \<Rightarrow> bool" where
  "work_area_ok marks d p \<longleftrightarrow>
     (let W = length (erasures_of marks d) in \<not> (d = W \<and> p = W \<and> 2 \<le> W))"

definition received :: "bytes list \<Rightarrow> bytes list \<Rightarrow> bytes \<Rightarrow> nat \<Rightarrow> bool" where
  "received damaged sent marks bs \<longleftrightarrow>
     length damaged = length sent \<and> (\<forall>k<length damaged. length (damaged ! k) = bs) \<and>
     (\<forall>k<length damaged. marks ! k = 0 \<longrightarrow> damaged ! k = sent ! k)"

lemma decode_index_arrays:
  assumes "length marks = n" "d \<le> n" "enough_parity marks d"
  defines "es \<equiv> erasures_of marks d"
  shows "known_columns marks (d - length es) 0 = Some (unmarked marks 0 d)"
    and "pick_parity marks n (length es) d = Some (take (length es) (unmarked marks d n))"
    and "length (unmarked marks 0 d) = d - length es" and "length es \<le> d"
    and "length (take (length es) (unmarked marks d n)) = length es"
proof -
  have l: "length es + length (unmarked marks 0 d) = d" unfolding es_def by (rule length_erasures)
  have e: "length es \<le> length (unmarked marks d n)" using assms by (simp add: enough_parity_def)
  show "length (unmarked marks 0 d) = d - length es" "length es \<le> d"
    "length (take (length es) (unmarked marks d n)) = length es" using l e by simp_all
  moreover have "unmarked marks 0 n = unmarked marks 0 d @ unmarked marks d n"
    using assms by (intro unmarked_append) simp_all
  ultimately show "known_columns marks (d - length es) 0 = Some (unmarked marks 0 d)"
    using assms(1) by (simp add: known_columns_unmarked)
  show "pick_parity marks n (length es) d = Some (take (length es) (unmarked marks d n))"
    using assms(1) e by (simp add: pick_parity_known known_columns_unmarked)
qed

lemma decode_recovers:
  assumes rs: "reed_solomon_new ok (int d) (int p) = Some rs"
    and len: "length sh = d + p" "\<forall>k<d + p. length (sh ! k) = bs"
    and enc: "reed_solomon_encode rs sh (int (d + p)) bs = (0, sent)"
    and marks: "length marks = d + p" "enough_parity marks d" "work_area_ok marks d p"
    and rec: "received damaged sent marks bs"
  shows "\<exists>out. reed_solomon_decode rs damaged marks (int (d + p)) bs = Some (0, out) \<and> take d out = take d sh"
proof -
  define es where "es = erasures_of marks d"
  define ks where "ks = unmarked marks 0 d"
  define js where "js = take (length es) (unmarked marks d (d + p))"
  define D where "D = copy_parity bs es js damaged"
  note f = reed_solomon_new_fields [OF rs] and snt = encode_shards [OF rs len enc]
  note ix = decode_index_arrays [OF marks(1) _ marks(2), folded es_def ks_def, folded js_def, simplified]
  have dam: "length damaged = d + p" "\<forall>k<length damaged. length (damaged ! k) = bs"
    "\<And>k. k < d + p \<Longrightarrow> marks ! k = 0 \<Longrightarrow> damaged ! k = sent ! k"
    using rec snt(1) by (simp_all add: received_def)
  have perm: "distinct (ks @ es)" "set (ks @ es) = {..<d}"
    unfolding ks_def es_def by (rule columns_permutation)+
  have js: "\<forall>j\<in>set js. d \<le> j \<and> j < d + p \<and> marks ! j = 0" unfolding js_def by (rule take_unmarked_parity)
  have esd: "\<forall>e\<in>set es. e < d" and dis: "distinct es" by (auto simp: es_def erasures_of_def)
  have jlen: "length js = length es" by (rule ix(5))
  have cp: "length D = length damaged" "\<And>k. k \<notin> set es \<Longrightarrow> D ! k = damaged ! k"
    "\<And>i. i < length es \<Longrightarrow> D ! (es ! i) = damaged ! (js ! i)"
    using copy_parity_correct [OF dis jlen dam(2) esd, folded D_def] js dam(1) by simp_all
  have Dlen: "\<forall>k<length D. length (D ! k) = bs"
  proof (intro allI impI)
    fix k assume k: "k < length D"
    show "length (D ! k) = bs"
    proof (cases "k \<in> set es")
      case True
      then obtain i where i: "i < length es" "k = es ! i" by (auto simp: in_set_conv_nth)
      then have "js ! i < d + p" using js jlen by simp
      with i cp(3) dam show ?thesis by simp
    qed (use k cp dam in simp)
  qed
  define rows where "rows = map (\<lambda>j. j - d) js"
  have rows: "distinct rows" "length rows = length es" "\<forall>j\<in>set rows. j < p"
  proof -
    have "distinct js" by (simp add: js_def unmarked_def)
    moreover have "inj_on (\<lambda>j. j - d) (set js)" using js by (intro inj_onI) (metis le_add_diff_inverse)
    ultimately show "distinct rows" by (simp add: rows_def distinct_map)
    show "\<forall>j\<in>set rows. j < p" using js by (auto simp: rows_def)
  qed (simp add: rows_def jlen)
  define wrk where "wrk = drop (p * d) (rs_p rs)"
  have wl: "length wrk = p * d" by (simp add: wrk_def f(4))
  have esp: "length es \<le> p"
  proof -
    have "length (unmarked marks d (d + p)) \<le> length [d..<d + p]" unfolding unmarked_def by (rule length_filter_le)
    with jlen show ?thesis by (simp add: js_def)
  qed
  have room: "length es * length es + length es \<le> Suc (length wrk)" "length es * length es \<le> length wrk"
    using work_area_room [OF ix(4) esp] marks(3) f(5,6) mult_le_mono [OF esp ix(4)]
    by (auto simp: wl work_area_ok_def Let_def es_def)
  have "\<exists>out. invert_mat (rs_p rs) wrk D (length ks) d bs (ks @ es) rows = Some out \<and> length out = length D
    \<and> (\<forall>k<length D. length (out ! k) = bs) \<and> (\<forall>k. k \<notin> set es \<longrightarrow> k < length D \<longrightarrow> out ! k = D ! k)
    \<and> (\<forall>i<length es. \<forall>t<bs. to_gf (out ! (es ! i) ! t) = to_gf (sh ! (es ! i) ! t))"
  proof (rule invert_mat_correct [OF perm rows])
    show "to_gf (rs_p rs ! (j * d + i)) = coeff p j i" if "j < p" "i < d" for i j
      using f(8) that by (simp add: coeff_def)
    show "to_gf (D ! r ! t) = to_gf (sh ! r ! t)" if "r \<in> set ks" "t < bs" for r t
    proof -
      from that have r: "r < d" "marks ! r = 0" by (auto simp: ks_def unmarked_def)
      then have "r \<notin> set es" by (simp add: es_def erasures_of_def)
      with r cp(2) dam(3) snt(3) show ?thesis by simp
    qed
    show "to_gf (D ! (es ! i) ! t) = (\<Sum>k<d. coeff p (rows ! i) k * to_gf (sh ! k ! t))"
      if i: "i < length es" and t: "t < bs" for i t
    proof -
      have j: "d \<le> js ! i" "js ! i < d + p" "marks ! (js ! i) = 0" using js i jlen by simp_all
      then have "D ! (es ! i) = sent ! (d + (js ! i - d))" using cp(3) i dam(3) by simp
      moreover have "js ! i - d < p" using j by simp
      ultimately show ?thesis using snt(4) [of "js ! i - d" t] i t jlen by (simp add: rows_def)
    qed
  qed (use f(7) cp(1) dam(1) Dlen room in simp_all)
  then obtain out where inv: "invert_mat (rs_p rs) wrk D (length ks) d bs (ks @ es) rows = Some out"
    and out: "length out = length D" "\<forall>k<length D. length (out ! k) = bs"
      "\<And>k. k \<notin> set es \<Longrightarrow> k < length D \<Longrightarrow> out ! k = D ! k"
      "\<And>i t. i < length es \<Longrightarrow> t < bs \<Longrightarrow> to_gf (out ! (es ! i) ! t) = to_gf (sh ! (es ! i) ! t)" by blast
  have "out ! k = sh ! k" if k: "k < d" for k
  proof (cases "k \<in> set es")
    case True
    then obtain i where i: "i < length es" "k = es ! i" by (auto simp: in_set_conv_nth)
    with out(2,4) len k cp(1) dam(1) show ?thesis by (intro to_gf_list_eq [where T = bs]) simp_all
  next
    case False
    with k have "marks ! k = 0" by (simp add: es_def erasures_of_def)
    with False k out(3) cp(1,2) dam(1,3) snt(3) show ?thesis by simp
  qed
  then have "take d out = take d sh" using out(1) cp(1) dam(1) len by (intro nth_equalityI) simp_all
  moreover have "reed_solomon_decode rs damaged marks (int (d + p)) bs = Some (0, out)"
    using inv ix(1,2) jlen
    by (simp add: reed_solomon_decode_def Let_def f(1-3) D_def rows_def wrk_def ix(3) nat_int_add
        flip: es_def ks_def js_def)
  ultimately show ?thesis by blast
qed

text \<open>The shards that are sent: the data and the parity computed over them.\<close>

lemma encode_runs:
  assumes "0 < d" "0 < p" "d + p \<le> 255"
  obtains rs sent where "reed_solomon_new True (int d) (int p) = Some rs"
    and "reed_solomon_encode rs sh (int (d + p)) bs = (0, sent)"
proof -
  have "\<exists>rs. reed_solomon_new True (int d) (int p) = Some rs"
    using assms by (simp add: reed_solomon_new_def reed_solomon_new_static_def DATA_SHARDS_MAX_def)
  then obtain rs where rs: "reed_solomon_new True (int d) (int p) = Some rs" by blast
  moreover have "rs_ts rs = d + p" by (rule reed_solomon_new_fields [OF rs])
  ultimately show ?thesis using that by (auto simp: reed_solomon_encode_def)
qed

text \<open>
  C1: Losses are repaired. For every admissible pair of shard counts the structure is built, encoding
  succeeds, and whatever the marked shards contain on arrival, decoding returns 0 and restores all data
  shards, provided that at least as many parity shards as data shards are lost have survived and that
  the shape is not the one on which the work area overflows.
\<close>

theorem rs_recovery:
  assumes "0 < d" "0 < p" "d + p \<le> 255"
    and "length data = d" "length parity = p" "\<forall>s\<in>set (data @ parity). length s = bs"
    and "length marks = d + p" "enough_parity marks d" "work_area_ok marks d p"
  shows "\<exists>rs sent. reed_solomon_new True (int d) (int p) = Some rs \<and>
    reed_solomon_encode rs (data @ parity) (int (d + p)) bs = (0, sent) \<and> take d sent = data \<and>
    (\<forall>damaged. received damaged sent marks bs \<longrightarrow>
       (\<exists>out. reed_solomon_decode rs damaged marks (int (d + p)) bs = Some (0, out) \<and> take d out = data))"
proof -
  obtain rs sent where rs: "reed_solomon_new True (int d) (int p) = Some rs"
    and enc: "reed_solomon_encode rs (data @ parity) (int (d + p)) bs = (0, sent)"
    using encode_runs [OF assms(1-3)] by blast
  have len: "length (data @ parity) = d + p" "\<forall>k<d + p. length ((data @ parity) ! k) = bs"
  proof -
    show l: "length (data @ parity) = d + p" using assms by simp
    show "\<forall>k<d + p. length ((data @ parity) ! k) = bs"
      using assms(6) unfolding l [symmetric] by (metis nth_mem)
  qed
  have "take d sent = data"
    using encode_shards(1,3) [OF rs len enc] assms(4) by (intro nth_equalityI) (simp_all add: nth_append)
  with rs enc decode_recovers [OF rs len enc assms(7-9)] assms(4) show ?thesis by auto
qed

lemma rs_recovery_witness:
  "\<exists>rs sent. reed_solomon_new True (int 3) (int 2) = Some rs \<and>
    reed_solomon_encode rs ([[1, 2], [3, 4], [5, 6]] @ [[0, 0], [0, 0]]) (int (3 + 2)) 2 = (0, sent) \<and>
    take 3 sent = [[1, 2], [3, 4], [5, 6]] \<and>
    (\<forall>damaged. received damaged sent [1, 0, 1, 0, 0] 2 \<longrightarrow>
       (\<exists>out. reed_solomon_decode rs damaged [1, 0, 1, 0, 0] (int (3 + 2)) 2 = Some (0, out) \<and>
          take 3 out = [[1, 2], [3, 4], [5, 6]]))"
  by (rule rs_recovery) (code_simp | simp)+

text \<open>
  The exception is real. With two data and two parity shards and both data shards lost, enough
  parity is left to recover them, but scaling the last row of the matrix from its diagonal element
  leaves the work area: the decoder writes behind the end of the structure.
\<close>

theorem rs_decode_overflow:
  "(case reed_solomon_new True 2 2 of None \<Rightarrow> False
    | Some rs \<Rightarrow> (case reed_solomon_encode rs [[1], [2], [0], [0]] 4 1 of (r, sent) \<Rightarrow>
        r = 0 \<and> enough_parity [1, 1, 0, 0] 2 \<and> reed_solomon_decode rs sent [1, 1, 0, 0] 4 1 = None))"
  by code_simp

text \<open>
  Too few shards. Announcing fewer shards than the code has is refused with -1 and no shard is
  touched, and shapes outside the field are refused on construction. When more data shards are lost
  than parity shards survive, the check that should answer -1 comes too late: with one mark for each
  shard, the search for the next parity shard has run past the end of \<open>marks\<close> before it.
\<close>

theorem rs_refusals:
  "(nr < int (rs_ts rs) \<longrightarrow> reed_solomon_encode rs sh nr bs = (-1, sh)
      \<and> reed_solomon_decode rs sh marks nr bs = Some (-1, sh)) \<and>
   (int d + int p > DATA_SHARDS_MAX \<or> d = 0 \<or> p = 0 \<longrightarrow> reed_solomon_new ok (int d) (int p) = None) \<and>
   (reed_solomon_new ok (int d) (int p) = Some rs \<and> length marks = d + p \<and> \<not> enough_parity marks d \<longrightarrow>
      reed_solomon_decode rs sh marks (int (d + p)) bs = None)"
proof (intro conjI impI)
  assume a: "reed_solomon_new ok (int d) (int p) = Some rs \<and> length marks = d + p \<and> \<not> enough_parity marks d"
  then have f: "rs_ds rs = d" "rs_ts rs = d + p" using reed_solomon_new_fields [of ok d p rs] by simp_all
  have "pick_parity marks (d + p) (length (erasures_of marks d)) d = None"
    using a by (auto simp: pick_parity_known known_columns_unmarked enough_parity_def)
  with f show "reed_solomon_decode rs sh marks (int (d + p)) bs = None"
    by (simp add: reed_solomon_decode_def Let_def nat_int_add split: option.split)
qed (auto simp: reed_solomon_encode_def reed_solomon_decode_def reed_solomon_new_def
      reed_solomon_new_static_def DATA_SHARDS_MAX_def)

lemma rs_refusals_witness:
  "reed_solomon_decode \<lparr>rs_ds = 1, rs_ps = 1, rs_ts = 2, rs_p = [1, 0]\<rparr> [[7], [9]] [1, 1] (int (1 + 1)) 1 = None \<and>
   reed_solomon_encode \<lparr>rs_ds = 1, rs_ps = 1, rs_ts = 2, rs_p = [1, 0]\<rparr> [[7], [9]] 1 1 = (-1, [[7], [9]]) \<and>
   reed_solomon_new True (int 200) (int 56) = None"
proof (intro conjI)
  let ?rs = "\<lparr>rs_ds = 1, rs_ps = 1, rs_ts = 2, rs_p = [1, 0]\<rparr>"
  have "reed_solomon_new True (int 1) (int 1) = Some ?rs" "\<not> enough_parity [1, 1] 1" by code_simp+
  then show "reed_solomon_decode ?rs [[7], [9]] [1, 1] (int (1 + 1)) 1 = None"
    using rs_refusals [of 2 ?rs "[[7], [9]]" 1 "[1, 1]" 1 1 True] by simp
  show "reed_solomon_encode ?rs [[7], [9]] 1 1 = (-1, [[7], [9]])"
    using rs_refusals [of 1 ?rs "[[7], [9]]" 1 "[1, 1]" 1 1 True] by simp
  show "reed_solomon_new True (int 200) (int 56) = None"
    using rs_refusals [of 1 ?rs "[]" 1 "[]" 200 56 True] by (simp add: DATA_SHARDS_MAX_def)
qed

end
