(* ===== verification/VideoPay.thy ===== *)
theory VideoPay
  imports GstUtils ReedSolomon
begin

unbundle bit_operations_syntax

text \<open>
  The video payloader: \<open>gst-plugin/video.hpp\<close> and the element \<open>gstrtpmoonlightpay_video.cpp\<close> around it.
  A frame becomes a list of RTP packets of equal size, followed by Reed-Solomon parity packets.
  The results are options: \<open>None\<close> is a division by zero, an endless loop or a null pointer
  dereference of the C++ code.

  The element's \<open>int\<close> properties are integers (they are clamped to at most 10240, so no product of
  the code reaches \<open>2 ^ 31\<close> for frames below that size), packet counts are natural numbers, and the
  header fields are words of their width.
\<close>

section \<open>The element\<close>

record video_pay =
  vp_payload_size :: int
  vp_add_padding :: bool
  vp_fec_percentage :: int
  vp_min_required_fec_packets :: int
  vp_cur_seq_number :: u32
  vp_frame_num :: u32

definition video_init :: video_pay where
  "video_init = \<lparr>vp_payload_size = 1392, vp_add_padding = True, vp_fec_percentage = 20,
     vp_min_required_fec_packets = 2, vp_cur_seq_number = 0, vp_frame_num = 0\<rparr>"

datatype video_property =
    PROP_PAYLOAD_SIZE int | PROP_ADD_PADDING bool | PROP_FEC_PERCENTAGE int | PROP_MIN_REQUIRED_FEC_PACKETS int

text \<open>GObject clamps a value to the range of its \<open>g_param_spec_int\<close> before the setter sees it.\<close>

definition clamp :: "int \<Rightarrow> int \<Rightarrow> int \<Rightarrow> int" where
  "clamp lo hi v = (if v < lo then lo else if v > hi then hi else v)"

fun video_set_property :: "video_property \<Rightarrow> video_pay \<Rightarrow> video_pay" where
  "video_set_property (PROP_PAYLOAD_SIZE v) vp = vp\<lparr>vp_payload_size := clamp 0 10240 v\<rparr>"
| "video_set_property (PROP_ADD_PADDING b) vp = vp\<lparr>vp_add_padding := b\<rparr>"
| "video_set_property (PROP_FEC_PERCENTAGE v) vp = vp\<lparr>vp_fec_percentage := clamp 0 100 v\<rparr>"
| "video_set_property (PROP_MIN_REQUIRED_FEC_PACKETS v) vp = vp\<lparr>vp_min_required_fec_packets := clamp 0 255 v\<rparr>"

text \<open>The getter fills the value of the property asked for, here the constructor's argument.\<close>

fun video_get_property :: "video_property \<Rightarrow> video_pay \<Rightarrow> video_property" where
  "video_get_property (PROP_PAYLOAD_SIZE _) vp = PROP_PAYLOAD_SIZE (vp_payload_size vp)"
| "video_get_property (PROP_ADD_PADDING _) vp = PROP_ADD_PADDING (vp_add_padding vp)"
| "video_get_property (PROP_FEC_PERCENTAGE _) vp = PROP_FEC_PERCENTAGE (vp_fec_percentage vp)"
| "video_get_property (PROP_MIN_REQUIRED_FEC_PACKETS _) vp = PROP_MIN_REQUIRED_FEC_PACKETS (vp_min_required_fec_packets vp)"

section \<open>Packet headers\<close>

text \<open>\<open>VideoRTPHeaders\<close>: the RTP header, four reserved bytes and \<open>NV_VIDEO_PACKET\<close>.\<close>

record video_headers =
  vh_rtp :: rtp_packet
  vh_reserved :: u32
  nv_streamPacketIndex :: u32
  nv_frameIndex :: u32
  nv_flags :: u8
  nv_reserved :: u8
  nv_multiFecFlags :: u8
  nv_multiFecBlocks :: u8
  nv_fecInfo :: u32

definition video_headers_size :: nat where "video_headers_size = 32"
definition nv_video_packet_size :: int where "nv_video_packet_size = 16"

definition write_headers :: "video_headers \<Rightarrow> bytes" where
  "write_headers h = rtp_bytes (vh_rtp h) @ le32 (vh_reserved h) @ le32 (nv_streamPacketIndex h) @
     le32 (nv_frameIndex h) @
     [nv_flags h, nv_reserved h, nv_multiFecFlags h, nv_multiFecBlocks h] @ le32 (nv_fecInfo h)"

definition read_headers :: "bytes \<Rightarrow> video_headers" where
  "read_headers b = \<lparr>vh_rtp = read_rtp b, vh_reserved = get_le32 (drop 12 b),
     nv_streamPacketIndex = get_le32 (drop 16 b), nv_frameIndex = get_le32 (drop 20 b),
     nv_flags = b ! 24, nv_reserved = b ! 25, nv_multiFecFlags = b ! 26, nv_multiFecBlocks = b ! 27,
     nv_fecInfo = get_le32 (drop 28 b)\<rparr>"

text \<open>A write through a \<open>VideoRTPHeaders *\<close> into the first bytes of a packet.\<close>

definition via_headers :: "(video_headers \<Rightarrow> video_headers) \<Rightarrow> bytes \<Rightarrow> bytes" where
  "via_headers f b = write_headers (f (read_headers b)) @ drop video_headers_size b"

definition create_rtp_header :: "video_pay \<Rightarrow> nat \<Rightarrow> nat \<Rightarrow> gst_buffer" where
  "create_rtp_header vp packet_nr tot_packets =
     (let sequence_number = vp_cur_seq_number vp + word_of_nat packet_nr;
          flags = FLAG_CONTAINS_PIC_DATA;
          flags = (if packet_nr = 0 then flags OR FLAG_SOF else flags);
          flags = (if int packet_nr = int tot_packets - 1 then flags OR FLAG_EOF else flags) in
      gst_buffer_of (write_headers
        \<lparr>vh_rtp = \<lparr>rp_header = 0x80 OR FLAG_EXTENSION, rp_packetType = 0,
            rp_sequenceNumber = ucast sequence_number, rp_timestamp = 0, rp_ssrc = 0\<rparr>,
         vh_reserved = 0,
         nv_streamPacketIndex = push_bit 8 sequence_number,
         nv_frameIndex = vp_frame_num vp,
         nv_flags = flags, nv_reserved = 0,
         nv_multiFecFlags = 0x10, nv_multiFecBlocks = 0,
         nv_fecInfo = push_bit 12 (word_of_nat packet_nr) OR push_bit 22 (word_of_nat tot_packets)
           OR push_bit 4 0\<rparr>))"

definition update_fec_info :: "video_pay \<Rightarrow> bytes \<Rightarrow> nat \<Rightarrow> nat \<Rightarrow> int \<Rightarrow> nat \<Rightarrow> nat \<Rightarrow> bytes" where
  "update_fec_info vp rtp_packet shard_idx data_shards fec_percentage block_index last_block_index =
     via_headers (\<lambda>h. h\<lparr>
       nv_frameIndex := vp_frame_num vp,
       nv_fecInfo := push_bit 12 (word_of_nat shard_idx) OR push_bit 22 (word_of_nat data_shards)
         OR push_bit 4 (word_of_int fec_percentage),
       nv_multiFecBlocks := push_bit 4 (word_of_nat block_index) OR word_of_nat last_block_index,
       nv_multiFecFlags := 0x10,
       vh_rtp := (vh_rtp h)\<lparr>rp_header := 0x80 OR FLAG_EXTENSION,
         rp_sequenceNumber := ucast (vp_cur_seq_number vp + word_of_nat shard_idx)\<rparr>\<rparr>) rtp_packet"

section \<open>The payload\<close>

text \<open>
  The short header in front of every frame. The divisor \<open>payload_size - sizeof(NV_VIDEO_PACKET)\<close> is a
  \<open>size_t\<close>: 0 for a payload size of 16, near \<open>2 ^ 64\<close> below that.
\<close>

definition short_header_bytes :: "u8 \<Rightarrow> u16 \<Rightarrow> bytes" where
  "short_header_bytes frame_type last_payload_len =
     [0x01, 0, 0, frame_type] @ le16 last_payload_len @ [0, 0]"

definition prepend_video_header :: "video_pay \<Rightarrow> gst_buffer \<Rightarrow> gst_buffer option" where
  "prepend_video_header vp inbuf =
     (let is_key = \<not> gb_delta inbuf;
          divisor = nat ((vp_payload_size vp - nv_video_packet_size) mod 2 ^ 64) in
      if divisor = 0 then None
      else
        let len = word_of_nat ((gst_buffer_get_size inbuf + 8) mod divisor);
            len = (if len = 0 then word_of_nat divisor else len) in
        Some (gst_buffer_append (gst_buffer_of (short_header_bytes (if is_key then 2 else 1) len)) inbuf))"

text \<open>
  \<open>std::ceil((float)in_buf_size / payload_size)\<close> in IEEE single precision: the size is rounded to a
  24 bit significand, then the quotient, then the ceiling is taken. \<open>div_half_even\<close> is the rounding
  mode. A quotient below 1 rounds to a value in \<open>(0, 1]\<close>.
\<close>

definition div_half_even :: "nat \<Rightarrow> nat \<Rightarrow> nat" where
  "div_half_even a b =
     (let q = a div b; r = a mod b in
      if 2 * r > b \<or> 2 * r = b \<and> odd q then q + 1 else q)"

fun bit_length :: "nat \<Rightarrow> nat" where
  "bit_length n = (if n = 0 then 0 else Suc (bit_length (n div 2)))"

declare bit_length.simps [simp del]

definition float_of_nat :: "nat \<Rightarrow> nat" where
  "float_of_nat n = (if n < 2 ^ 24 then n else let e = bit_length n - 24 in div_half_even n (2 ^ e) * 2 ^ e)"

definition ceil_float_div :: "nat \<Rightarrow> nat \<Rightarrow> nat" where
  "ceil_float_div n d =
     (let a = float_of_nat n; q = a div d in
      if a = 0 then 0
      else if q = 0 then 1
      else if q < 2 ^ 24 then
        let k = 24 - bit_length q in (div_half_even (a * 2 ^ k) d + 2 ^ k - 1) div 2 ^ k
      else let e = bit_length q - 24 in div_half_even a (d * 2 ^ e) * 2 ^ e)"

text \<open>
  One packet of \<open>generate_rtp_packets\<close>; the start runs past the payload only when the rounding has
  produced a packet too many, and then GStreamer refuses the region.
\<close>

definition rtp_packet_at :: "video_pay \<Rightarrow> gst_buffer \<Rightarrow> nat \<Rightarrow> nat \<Rightarrow> nat \<Rightarrow> gst_buffer option" where
  "rtp_packet_at vp inbuf payload_size tot_packets packet_nr =
     (let start = packet_nr * payload_size; in_buf_size = gst_buffer_get_size inbuf in
      if start > in_buf_size then None
      else
        let remaining = in_buf_size - start;
            packet_payload_size = min remaining payload_size;
            pkt = create_rtp_header vp packet_nr tot_packets;
            payload = gst_buffer_of (bslice (gb_data inbuf) start packet_payload_size);
            pkt = gst_buffer_append pkt payload;
            pkt = (if remaining < payload_size \<and> vp_add_padding vp
                   then gst_buffer_append pkt (gst_buffer_new_and_fill (payload_size - remaining) 0) else pkt) in
        Some (gst_copy_timestamps inbuf pkt))"

text \<open>
  With a payload size of 16 the quotient is infinite and the loop never ends; below 16 it is
  negative and there is no packet.
\<close>

definition generate_rtp_packets :: "video_pay \<Rightarrow> gst_buffer \<Rightarrow> gst_buffer list option" where
  "generate_rtp_packets vp inbuf =
     (let payload_size = vp_payload_size vp - MAX_RTP_HEADER_SIZE in
      if payload_size = 0 then None
      else if payload_size < 0 then Some []
      else
        let tot_packets = ceil_float_div (gst_buffer_get_size inbuf) (nat payload_size) in
        those (map (rtp_packet_at vp inbuf (nat payload_size) tot_packets) [0..<tot_packets]))"

section \<open>Forward error correction\<close>

record BLOCKS =
  bl_block_size :: int
  bl_data_shards :: nat
  bl_parity_shards :: int
  bl_fec_percentage :: int

definition determine_split :: "video_pay \<Rightarrow> nat \<Rightarrow> BLOCKS option" where
  "determine_split vp data_shards =
     (let blocksize = vp_payload_size vp + int video_headers_size - MAX_RTP_HEADER_SIZE;
          fec_percentage = vp_fec_percentage vp;
          parity_shards = (int data_shards * fec_percentage + 99) div 100 in
      if parity_shards < vp_min_required_fec_packets vp then
        if data_shards = 0 then None
        else
          let parity_shards = vp_min_required_fec_packets vp in
          Some \<lparr>bl_block_size = blocksize, bl_data_shards = data_shards, bl_parity_shards = parity_shards,
            bl_fec_percentage = (100 * parity_shards) div int data_shards\<rparr>
      else
        Some \<lparr>bl_block_size = blocksize, bl_data_shards = data_shards, bl_parity_shards = parity_shards,
          bl_fec_percentage = fec_percentage\<rparr>)"

text \<open>\<open>info.data\<close> seen through the array of shard pointers.\<close>

definition shards_of :: "bytes \<Rightarrow> nat \<Rightarrow> nat \<Rightarrow> bytes list" where
  "shards_of mem block_size nr_shards = map (\<lambda>i. bslice mem (i * block_size) block_size) [0..<nr_shards]"

definition fec_memory :: "gst_buffer list \<Rightarrow> nat \<Rightarrow> nat \<Rightarrow> nat \<Rightarrow> bytes" where
  "fec_memory rtp_packets block_size data_shards parity_shards =
     (let rtp_payload = gb_data (gst_buffer_list_unfold rtp_packets);
          payload_size = length rtp_payload;
          rtp_payload = (if payload_size mod block_size \<noteq> 0
            then rtp_payload @ replicate (data_shards * block_size - payload_size) 0 else rtp_payload) in
      rtp_payload @ replicate (parity_shards * block_size) 0)"

definition generate_fec_packets ::
  "video_pay \<Rightarrow> gst_buffer list \<Rightarrow> gst_buffer \<Rightarrow> nat \<Rightarrow> nat \<Rightarrow> gst_buffer list option" where
  "generate_fec_packets vp rtp_packets inbuf block_index last_block_index =
     (case determine_split vp (length rtp_packets) of
        None \<Rightarrow> None
      | Some blocks \<Rightarrow>
        let d = bl_data_shards blocks; p = bl_parity_shards blocks; nr_shards = int d + p;
            bs = nat (bl_block_size blocks);
            upd = (\<lambda>pkt i. update_fec_info vp pkt i d (bl_fec_percentage blocks) block_index last_block_index) in
        if nr_shards > DATA_SHARDS_MAX then Some rtp_packets
        else
          (case reed_solomon_new True (int d) p of
             None \<Rightarrow> None
           | Some rs \<Rightarrow>
             let shards = shards_of (fec_memory rtp_packets bs d (nat p)) bs (nat nr_shards);
                 shards = snd (reed_solomon_encode rs shards nr_shards bs);
                 data_pkts = map (\<lambda>i. gst_copy_timestamps inbuf
                   ((rtp_packets ! i)\<lparr>gb_data := upd (gb_data (rtp_packets ! i)) i\<rparr>)) [0..<d];
                 parity_pkts = map (\<lambda>i. gst_copy_timestamps inbuf
                   (gst_buffer_of (upd (shards ! i) i))) [d..<nat nr_shards] in
             Some (data_pkts @ parity_pkts)))"

text \<open>\<open>generate_fec_multi_blocks\<close>: three blocks, each numbered on from the last one.\<close>

definition nr_blocks :: nat where "nr_blocks = 3"
definition last_block_index :: nat where "last_block_index = push_bit 6 2"

definition fec_block_step ::
  "gst_buffer list \<Rightarrow> nat \<Rightarrow> gst_buffer \<Rightarrow> nat \<Rightarrow> (video_pay \<times> gst_buffer list) option \<Rightarrow> (video_pay \<times> gst_buffer list) option" where
  "fec_block_step rtp_packets packets_per_block inbuf block_idx r =
     (case r of None \<Rightarrow> None
      | Some (vp, final_packets) \<Rightarrow>
        let list_start = block_idx * packets_per_block;
            list_end = min ((block_idx + 1) * packets_per_block) (length rtp_packets);
            block_packets = gst_buffer_list_sub rtp_packets list_start list_end in
        (case generate_fec_packets vp block_packets inbuf block_idx last_block_index of
           None \<Rightarrow> None
         | Some block_packets \<Rightarrow>
             Some (vp\<lparr>vp_cur_seq_number := vp_cur_seq_number vp + word_of_nat (length block_packets)\<rparr>,
               final_packets @ block_packets)))"

definition generate_fec_multi_blocks ::
  "video_pay \<Rightarrow> gst_buffer list \<Rightarrow> nat \<Rightarrow> gst_buffer \<Rightarrow> (video_pay \<times> gst_buffer list) option" where
  "generate_fec_multi_blocks vp rtp_packets data_shards inbuf =
     (let packets_per_block = ceil_float_div data_shards nr_blocks in
      fold (fec_block_step rtp_packets packets_per_block inbuf) [0..<nr_blocks] (Some (vp, [])))"

definition split_into_rtp :: "video_pay \<Rightarrow> gst_buffer \<Rightarrow> (video_pay \<times> gst_buffer list) option" where
  "split_into_rtp vp inbuf =
     (case prepend_video_header vp inbuf of None \<Rightarrow> None
      | Some full_payload_buf \<Rightarrow>
     (case generate_rtp_packets vp full_payload_buf of None \<Rightarrow> None
      | Some rtp_packets \<Rightarrow>
        let result =
          (if vp_fec_percentage vp > 0 then
             (case determine_split vp (length rtp_packets) of None \<Rightarrow> None
              | Some blocks \<Rightarrow>
                if bl_data_shards blocks > 90
                then generate_fec_multi_blocks vp rtp_packets (bl_data_shards blocks) inbuf
                else
                  (case generate_fec_packets vp rtp_packets inbuf 0 0 of None \<Rightarrow> None
                   | Some pkts \<Rightarrow>
                     Some (vp\<lparr>vp_cur_seq_number := vp_cur_seq_number vp + word_of_nat (length pkts)\<rparr>, pkts)))
           else Some (vp, rtp_packets)) in
        map_option (\<lambda>(vp, pkts). (vp\<lparr>vp_frame_num := vp_frame_num vp + 1\<rparr>, pkts)) result))"

text \<open>
  \<open>generate_output\<close>: the queued frame, if there is one, is split and its packets are pushed; the
  base class is told that there is nothing left to emit.
\<close>

datatype flow_return = GST_FLOW_OK | GST_BASE_TRANSFORM_FLOW_DROPPED

definition video_generate_output ::
  "video_pay \<Rightarrow> gst_buffer option \<Rightarrow> (flow_return \<times> video_pay \<times> gst_buffer list) option" where
  "video_generate_output vp queued =
     (case queued of None \<Rightarrow> Some (GST_FLOW_OK, vp, [])
      | Some inbuf \<Rightarrow> map_option (\<lambda>(vp, pkts). (GST_BASE_TRANSFORM_FLOW_DROPPED, vp, pkts)) (split_into_rtp vp inbuf))"

text \<open>A stream of frames.\<close>

primrec video_stream :: "video_pay \<Rightarrow> gst_buffer list \<Rightarrow> (video_pay \<times> gst_buffer list) option" where
  "video_stream vp [] = Some (vp, [])"
| "video_stream vp (f # fs) =
     (case video_generate_output vp (Some f) of None \<Rightarrow> None
      | Some (_, vp, pkts) \<Rightarrow> map_option (\<lambda>(vp, rest). (vp, pkts @ rest)) (video_stream vp fs))"

end
