(* ===== verification/VideoPay_Proofs.thy ===== *)
theory VideoPay_Proofs
  imports VideoPay RS_Recovery
begin

unbundle bit_operations_syntax

text \<open>
  Lemmas about the video payloader: the header structure is read back as written, the single
  precision ceiling is exact for frames below \<open>2 ^ 24\<close> bytes, the packets of a frame carry its bytes
  in order, and every packet that is pushed has the next RTP sequence number.
\<close>

section \<open>Headers\<close>

lemma length_write_headers [simp]: "length (write_headers h) = 32"
  by (simp add: write_headers_def)

lemma drop_le32 [simp]: "drop 4 (le32 w @ r) = r" and drop_rtp [simp]: "drop 12 (rtp_bytes p @ r) = r"
  by simp_all

lemma read_write_headers [simp]: "read_headers (write_headers h @ r) = h"
proof -
  define X where "X = write_headers h @ r"
  have dd: "drop 16 X = drop 4 (drop 12 X)" "drop 20 X = drop 4 (drop 16 X)" "drop 24 X = drop 4 (drop 20 X)"
    "drop 28 X = drop 4 (drop 24 X)" by simp_all
  have d12: "drop 12 X = le32 (vh_reserved h) @ le32 (nv_streamPacketIndex h) @
      le32 (nv_frameIndex h) @ [nv_flags h, nv_reserved h, nv_multiFecFlags h, nv_multiFecBlocks h] @
      le32 (nv_fecInfo h) @ r"
    by (simp add: write_headers_def X_def)
  note d16 = dd(1) [unfolded d12 drop_le32]
  note d20 = dd(2) [unfolded d16 drop_le32]
  note d24 = dd(3) [unfolded d20 drop_le32]
  have d28: "drop 28 X = le32 (nv_fecInfo h) @ r" by (simp only: dd(4) d24) simp
  have nth: "X ! (24 + k) = drop 24 X ! k" for k by (rule nth_drop [symmetric]) (simp add: X_def)
  have "read_rtp X = vh_rtp h" by (simp add: X_def write_headers_def)
  then have "read_headers X = h"
    using nth [of 0] nth [of 1] nth [of 2] nth [of 3]
    by (simp add: read_headers_def d12 d16 d20 d24 d28)
  then show ?thesis by (simp add: X_def)
qed

lemma read_via_headers [simp]: "read_headers (via_headers f b) = f (read_headers b)"
  and drop_via_headers [simp]: "drop 32 (via_headers f b) = drop 32 b"
  and length_via_headers: "32 \<le> length b \<Longrightarrow> length (via_headers f b) = length b"
  by (simp_all add: via_headers_def video_headers_size_def)

text \<open>The fields the receiver looks at.\<close>

definition seq_of :: "gst_buffer \<Rightarrow> u16" where
  "seq_of b = rp_sequenceNumber (vh_rtp (read_headers (gb_data b)))"

definition numbered :: "u32 \<Rightarrow> gst_buffer list \<Rightarrow> bool" where
  "numbered c pkts \<longleftrightarrow> (\<forall>i<length pkts. seq_of (pkts ! i) = ucast (c + word_of_nat i))"

definition in_frame :: "u32 \<Rightarrow> gst_buffer list \<Rightarrow> bool" where
  "in_frame f pkts \<longleftrightarrow> (\<forall>p\<in>set pkts. nv_frameIndex (read_headers (gb_data p)) = f)"

lemma numbered_append:
  "numbered c xs \<Longrightarrow> numbered (c + word_of_nat (length xs)) ys \<Longrightarrow> numbered c (xs @ ys)"
proof -
  assume x: "numbered c xs" and y: "numbered (c + word_of_nat (length xs)) ys"
  have "seq_of (ys ! (i - length xs)) = ucast (c + word_of_nat i)"
    if "\<not> i < length xs" "i < length xs + length ys" for i
  proof -
    have "(word_of_nat (length xs) + word_of_nat (i - length xs) :: u32) = word_of_nat i"
      using that by (simp flip: of_nat_add)
    with y that show ?thesis by (simp add: numbered_def add.assoc)
  qed
  with x show ?thesis by (auto simp: numbered_def nth_append)
qed

lemma numbered_Nil [simp]: "numbered c []" by (simp add: numbered_def)

lemma in_frame_append [simp]: "in_frame f (xs @ ys) \<longleftrightarrow> in_frame f xs \<and> in_frame f ys"
  by (auto simp: in_frame_def)

lemma create_rtp_header_read:
  "read_headers (gb_data (create_rtp_header vp i n) @ r) =
     \<lparr>vh_rtp = \<lparr>rp_header = 0x90, rp_packetType = 0,
         rp_sequenceNumber = ucast (vp_cur_seq_number vp + word_of_nat i), rp_timestamp = 0, rp_ssrc = 0\<rparr>,
      vh_reserved = 0, nv_streamPacketIndex = push_bit 8 (vp_cur_seq_number vp + word_of_nat i),
      nv_frameIndex = vp_frame_num vp,
      nv_flags = FLAG_CONTAINS_PIC_DATA OR (if i = 0 then FLAG_SOF else 0) OR (if Suc i = n then FLAG_EOF else 0),
      nv_reserved = 0, nv_multiFecFlags = 0x10, nv_multiFecBlocks = 0,
      nv_fecInfo = push_bit 12 (word_of_nat i) OR push_bit 22 (word_of_nat n)\<rparr>"
proof -
  have "int i = int n - 1 \<longleftrightarrow> Suc i = n" by linarith
  then show ?thesis by (simp add: create_rtp_header_def Let_def FLAG_EXTENSION_def or.assoc)
qed

lemma length_create_rtp_header [simp]: "length (gb_data (create_rtp_header vp i n)) = 32"
  by (simp add: create_rtp_header_def Let_def)

lemma update_fec_info_read:
  "rp_sequenceNumber (vh_rtp (read_headers (update_fec_info vp b i d pct blk lst))) = ucast (vp_cur_seq_number vp + word_of_nat i)"
  "nv_frameIndex (read_headers (update_fec_info vp b i d pct blk lst)) = vp_frame_num vp"
  "drop 32 (update_fec_info vp b i d pct blk lst) = drop 32 b"
  by (simp_all add: update_fec_info_def)

section \<open>The single precision ceiling\<close>

lemma div_half_even_exact: "0 < d \<Longrightarrow> div_half_even (m * d) d = m"
  by (simp add: div_half_even_def)

lemma div_half_even_bounds: "a div b \<le> div_half_even a b" "div_half_even a b \<le> a div b + 1"
  by (simp_all add: div_half_even_def Let_def)

lemma bit_length_pos: "0 < n \<Longrightarrow> bit_length n = Suc (bit_length (n div 2))"
  by (simp add: bit_length.simps)

lemma bit_length_bounds:
  assumes "0 < q"
  shows "2 ^ (bit_length q - 1) \<le> q" "q < 2 ^ bit_length q" "0 < bit_length q"
proof -
  have "2 ^ (bit_length q - 1) \<le> q \<and> q < 2 ^ bit_length q \<and> 0 < bit_length q"
    using assms
  proof (induction q rule: bit_length.induct)
    case (1 n)
    show ?case
    proof (cases "n div 2 = 0")
      case True
      then have "n = 1" using 1 by simp
      then show ?thesis by (simp add: bit_length.simps)
    next
      case False
      with 1 have IH: "2 ^ (bit_length (n div 2) - 1) \<le> n div 2" "n div 2 < 2 ^ bit_length (n div 2)"
        "0 < bit_length (n div 2)" by auto
      obtain k where k: "bit_length (n div 2) = Suc k" using IH(3) gr0_implies_Suc by blast
      then have n: "bit_length n = Suc (Suc k)" using bit_length_pos [OF 1(2)] by simp
      from IH k have "2 * 2 ^ k \<le> n" "n < 2 * (2 * 2 ^ k)" by auto
      with n show ?thesis by simp
    qed
  qed
  then show "2 ^ (bit_length q - 1) \<le> q" "q < 2 ^ bit_length q" "0 < bit_length q" by simp_all
qed

lemma ceil_float_div_exact:
  assumes "n < 2 ^ 24" "0 < d"
  shows "ceil_float_div n d = (n + d - 1) div d"
proof (cases "n div d = 0 \<or> n = 0")
  case True
  then have "n < d \<or> n = 0" using assms by (auto simp: div_eq_0_iff)
  moreover have "(n + d - 1) div d = 1" if "0 < n" "n < d"
    using that by (intro div_nat_eqI) auto
  ultimately show ?thesis
    using assms by (auto simp: ceil_float_div_def float_of_nat_def Let_def)
next
  case False
  define q where "q = n div d"
  define r where "r = n mod d"
  have n: "n = q * d + r" and r: "r < d" using assms by (simp_all add: q_def r_def)
  have q: "0 < q" "q * d < 2 ^ 24"
  proof -
    show "0 < q" using False by (simp add: q_def)
    have "q * d \<le> n" by (simp add: n)
    then show "q * d < 2 ^ 24" using assms(1) by (rule le_less_trans)
  qed
  have "q * 1 \<le> q * d" using assms(2) by (intro mult_le_mono) auto
  then have q24: "q < 2 ^ 24" using q(2) by linarith
  define l where "l = bit_length q"
  note fl = bit_length_bounds [OF q(1), folded l_def]
  have l24: "l \<le> 24"
  proof (rule ccontr)
    assume "\<not> l \<le> 24"
    then have "(2::nat) ^ 24 \<le> 2 ^ (l - 1)" by (intro power_increasing) auto
    with fl(1) q24 show False by simp
  qed
  define k where "k = 24 - l"
  have lk: "l - 1 + k = 23" using fl(3) l24 by (simp add: k_def)
  have "(2::nat) ^ 23 = 2 ^ (l - 1) * 2 ^ k" by (simp only: lk flip: power_add)
  also have "\<dots> \<le> q * 2 ^ k" using fl(1) by simp
  finally have big: "2 ^ 23 \<le> q * 2 ^ k" .
  define m where "m = div_half_even (n * 2 ^ k) d"
  have res: "ceil_float_div n d = (m + 2 ^ k - 1) div 2 ^ k"
    using assms q q24 False
    by (simp add: ceil_float_div_def float_of_nat_def Let_def m_def k_def l_def flip: q_def)
  show ?thesis
  proof (cases "r = 0")
    case True
    have "n * 2 ^ k = (q * 2 ^ k) * d" by (simp add: n True)
    then have "m = q * 2 ^ k" using assms(2) by (simp only: m_def div_half_even_exact)
    then have "(m + 2 ^ k - 1) div 2 ^ k = q" using ceil_div_mult [of "2 ^ k" q] by simp
    moreover have "(n + d - 1) div d = q" using assms by (simp only: n True add_0_right ceil_div_mult)
    ultimately show ?thesis using res by simp
  next
    case False
    have e: "n * 2 ^ k = (q * 2 ^ k) * d + r * 2 ^ k" by (simp add: n algebra_simps)
    have dv: "n * 2 ^ k div d = q * 2 ^ k + r * 2 ^ k div d" using assms by (simp add: e)
    have "d < 2 * 2 ^ k"
    proof (rule ccontr)
      assume "\<not> d < 2 * 2 ^ k"
      then have "q * (2 * 2 ^ k) \<le> q * d" by simp
      with big q(2) show False by simp
    qed
    also have "\<dots> \<le> 2 * (r * 2 ^ k)" using False by simp
    finally have half: "d < 2 * (r * 2 ^ k)" .
    have low: "q * 2 ^ k < m"
    proof (cases "r * 2 ^ k < d")
      case True
      then have "n * 2 ^ k div d = q * 2 ^ k" "n * 2 ^ k mod d = r * 2 ^ k" using assms by (simp_all add: e)
      with half show ?thesis by (simp add: m_def div_half_even_def Let_def)
    next
      case False
      then have "1 \<le> r * 2 ^ k div d" using assms by (simp add: Suc_leI div_greater_zero_iff)
      then show ?thesis using div_half_even_bounds(1) [of "n * 2 ^ k" d] dv by (simp add: m_def)
    qed
    have "r * 2 ^ k div d < 2 ^ k" using r assms by (simp add: less_mult_imp_div_less mult.commute)
    then have "m \<le> q * 2 ^ k + 2 ^ k"
      using div_half_even_bounds(2) [of "n * 2 ^ k" d] dv by (simp add: m_def)
    with low have "(m + 2 ^ k - 1) div 2 ^ k = Suc q" by (rule ceil_div_eq)
    moreover have "(n + d - 1) div d = Suc q" using r False by (intro ceil_div_eq) (simp_all add: n)
    ultimately show ?thesis using res by simp
  qed
qed

text \<open>For evaluation: the general case would compute with \<open>2 ^ 24\<close> in unary.\<close>

definition ceil_float_div_general :: "nat \<Rightarrow> nat \<Rightarrow> nat" where
  "ceil_float_div_general = ceil_float_div"

lemma ceil_float_div_code [code]:
  "ceil_float_div n d =
     (if int n < 2 ^ 24 \<and> 0 < d then (n + d - 1) div d else ceil_float_div_general n d)"
proof -
  have "int n < 2 ^ 24 \<longleftrightarrow> n < 2 ^ 24" by simp
  then show ?thesis by (auto simp: ceil_float_div_general_def ceil_float_div_exact)
qed

section \<open>Packets\<close>

text \<open>The configurations for which the element works: the ranges of its properties, and room for a payload.\<close>

definition video_ok :: "video_pay \<Rightarrow> bool" where
  "video_ok vp \<longleftrightarrow> 16 < vp_payload_size vp \<and> vp_payload_size vp \<le> 10240 \<and>
     0 \<le> vp_fec_percentage vp \<and> vp_fec_percentage vp \<le> 100 \<and>
     0 \<le> vp_min_required_fec_packets vp \<and> vp_min_required_fec_packets vp \<le> 255"

definition payload_room :: "video_pay \<Rightarrow> nat" where
  "payload_room vp = nat (vp_payload_size vp - 16)"

definition packet_count :: "video_pay \<Rightarrow> nat \<Rightarrow> nat" where
  "packet_count vp len = (len + payload_room vp - 1) div payload_room vp"

definition packet_payload :: "video_pay \<Rightarrow> bytes \<Rightarrow> nat \<Rightarrow> bytes" where
  "packet_payload vp d i = (let c = chunk (payload_room vp) d i in
     c @ (if vp_add_padding vp then replicate (payload_room vp - length c) 0 else []))"

definition plain_packet :: "video_pay \<Rightarrow> gst_buffer \<Rightarrow> nat \<Rightarrow> gst_buffer" where
  "plain_packet vp buf i =
     \<lparr>gb_data = gb_data (create_rtp_header vp i (packet_count vp (gst_buffer_get_size buf))) @
        packet_payload vp (gb_data buf) i,
      gb_delta = False, gb_ts = gb_ts buf\<rparr>"

lemma payload_room_pos: "video_ok vp \<Longrightarrow> 0 < payload_room vp"
  by (simp add: video_ok_def payload_room_def)

lemma packet_count_bounds:
  assumes "video_ok vp" "0 < len"
  shows "(packet_count vp len - 1) * payload_room vp < len" "len \<le> packet_count vp len * payload_room vp"
    "0 < packet_count vp len"
  using ceil_div_bounds [OF payload_room_pos [OF assms(1)] assms(2)] by (simp_all add: packet_count_def)

lemma packet_count_0 [simp]: "video_ok vp \<Longrightarrow> packet_count vp 0 = 0"
  using payload_room_pos [of vp] by (simp add: packet_count_def)

lemma packet_start:
  assumes "video_ok vp" "i < packet_count vp len"
  shows "i * payload_room vp < len"
proof (cases "len = 0")
  case False
  have "i * payload_room vp \<le> (packet_count vp len - 1) * payload_room vp"
    using assms(2) by (intro mult_le_mono1) simp
  also have "\<dots> < len" using packet_count_bounds [OF assms(1)] False by simp
  finally show ?thesis .
qed (use assms in simp)

lemma generate_rtp_packets_eq:
  assumes ok: "video_ok vp" and small: "gst_buffer_get_size buf < 2 ^ 24"
  shows "generate_rtp_packets vp buf
    = Some (map (plain_packet vp buf) [0..<packet_count vp (gst_buffer_get_size buf)])"
proof -
  let ?n = "packet_count vp (gst_buffer_get_size buf)" and ?P = "payload_room vp"
  have n: "ceil_float_div (gst_buffer_get_size buf) ?P = ?n"
    using small payload_room_pos [OF ok] by (simp add: ceil_float_div_exact packet_count_def)
  have "rtp_packet_at vp buf ?P ?n i = Some (plain_packet vp buf i)" if "i \<in> set [0..<?n]" for i
  proof -
    have "i * ?P < gst_buffer_get_size buf" using packet_start [OF ok] that by simp
    then show ?thesis
      by (auto simp: rtp_packet_at_def plain_packet_def packet_payload_def Let_def chunk_def bslice_def
          gst_buffer_get_size_def gst_buffer_append_def gst_copy_timestamps_def create_rtp_header_def
          gst_buffer_of_def min_def not_less)
  qed
  then have "those (map (rtp_packet_at vp buf ?P ?n) [0..<?n]) = Some (map (plain_packet vp buf) [0..<?n])"
    by (rule those_map)
  moreover have "nat (vp_payload_size vp - MAX_RTP_HEADER_SIZE) = ?P" "0 < vp_payload_size vp - MAX_RTP_HEADER_SIZE"
    using ok by (simp_all add: payload_room_def MAX_RTP_HEADER_SIZE_def video_ok_def)
  ultimately show ?thesis by (simp add: generate_rtp_packets_def Let_def n)
qed

lemma plain_packet_read:
  "read_headers (gb_data (plain_packet vp buf i)) = read_headers (gb_data
     (create_rtp_header vp i (packet_count vp (gst_buffer_get_size buf))) @ packet_payload vp (gb_data buf) i)"
  "drop 32 (gb_data (plain_packet vp buf i)) = packet_payload vp (gb_data buf) i"
  by (simp_all add: plain_packet_def)

lemma seq_of_plain [simp]: "seq_of (plain_packet vp buf i) = ucast (vp_cur_seq_number vp + word_of_nat i)"
  by (simp add: seq_of_def plain_packet_read create_rtp_header_read)

lemma length_packet_payload:
  assumes "vp_add_padding vp"
  shows "length (packet_payload vp d i) = payload_room vp"
  using assms by (simp add: packet_payload_def Let_def chunk_def)

text \<open>The payloads together are the frame, followed by the padding of the last packet.\<close>

lemma concat_payloads:
  assumes ok: "video_ok vp"
  shows "take (length d) (concat (map (packet_payload vp d) [0..<packet_count vp (length d)])) = d"
proof (cases "d = []")
  case False
  let ?n = "packet_count vp (length d)" and ?P = "payload_room vp"
  note b = packet_count_bounds [OF ok, of "length d"]
  obtain m where m: "?n = Suc m" using b(3) False by (metis gr0_implies_Suc length_greater_0_conv)
  have full: "packet_payload vp d i = chunk ?P d i" if "i < m" for i
  proof -
    have "Suc i * ?P \<le> m * ?P" using that by (intro mult_le_mono1) simp
    also have "\<dots> < length d" using b(1) False m by simp
    finally show ?thesis by (auto simp: packet_payload_def Let_def chunk_def)
  qed
  obtain z where z: "packet_payload vp d m = chunk ?P d m @ z" by (auto simp: packet_payload_def Let_def)
  have "concat (map (packet_payload vp d) [0..<?n]) = concat (map (chunk ?P d) [0..<?n]) @ z"
  proof -
    have "map (packet_payload vp d) [0..<m] = map (chunk ?P d) [0..<m]" using full by simp
    then have "concat (map (packet_payload vp d) [0..<m]) = concat (map (chunk ?P d) [0..<m])" by (rule arg_cong)
    then show ?thesis by (simp add: m z)
  qed
  also have "concat (map (chunk ?P d) [0..<?n]) = d" using b(2) False by (simp add: concat_chunks)
  finally show ?thesis by simp
qed (use ok in simp)

section \<open>FEC blocks\<close>

text \<open>The number of parity packets of a block.\<close>

definition parity_count :: "video_pay \<Rightarrow> nat \<Rightarrow> nat" where
  "parity_count vp d =
     nat (max ((int d * vp_fec_percentage vp + 99) div 100) (vp_min_required_fec_packets vp))"

definition advertised_percentage :: "video_pay \<Rightarrow> nat \<Rightarrow> int" where
  "advertised_percentage vp d =
     (if (int d * vp_fec_percentage vp + 99) div 100 < vp_min_required_fec_packets vp
      then 100 * vp_min_required_fec_packets vp div int d else vp_fec_percentage vp)"

lemma parity_count_pos:
  assumes "0 < vp_fec_percentage vp" "0 < d"
  shows "0 < parity_count vp d"
proof -
  have "1 * 1 \<le> int d * vp_fec_percentage vp" using assms by (intro mult_mono) auto
  then have "1 \<le> (int d * vp_fec_percentage vp + 99) div 100" by simp
  then show ?thesis by (simp add: parity_count_def)
qed

lemma parity_count_mono:
  assumes "0 \<le> vp_fec_percentage vp" "d \<le> e"
  shows "parity_count vp d \<le> parity_count vp e"
proof -
  have "int d * vp_fec_percentage vp \<le> int e * vp_fec_percentage vp"
    using assms by (intro mult_right_mono) auto
  then have "(int d * vp_fec_percentage vp + 99) div 100 \<le> (int e * vp_fec_percentage vp + 99) div 100"
    by (intro zdiv_mono1) auto
  then show ?thesis unfolding parity_count_def by (intro nat_mono max.mono) auto
qed

lemma determine_split_eq:
  assumes "video_ok vp" "0 < d"
  shows "determine_split vp d = Some \<lparr>bl_block_size = vp_payload_size vp + 16, bl_data_shards = d,
    bl_parity_shards = int (parity_count vp d), bl_fec_percentage = advertised_percentage vp d\<rparr>"
proof -
  have "0 \<le> int d * vp_fec_percentage vp" using assms by (simp add: video_ok_def)
  then have "0 \<le> (int d * vp_fec_percentage vp + 99) div 100" by simp
  with assms show ?thesis
    by (auto simp: determine_split_def Let_def parity_count_def advertised_percentage_def max_def
        video_headers_size_def MAX_RTP_HEADER_SIZE_def video_ok_def)
qed

definition fec_skipped :: "video_pay \<Rightarrow> nat \<Rightarrow> bool" where
  "fec_skipped vp d \<longleftrightarrow> 255 < d + parity_count vp d"

lemma fec_skipped_mono: "0 \<le> vp_fec_percentage vp \<Longrightarrow> d \<le> e \<Longrightarrow> fec_skipped vp d \<Longrightarrow> fec_skipped vp e"
  using parity_count_mono [of vp d e] by (simp add: fec_skipped_def)

definition block_bytes :: "video_pay \<Rightarrow> nat" where
  "block_bytes vp = payload_room vp + 32"

definition block_shards :: "video_pay \<Rightarrow> gst_buffer list \<Rightarrow> bytes list" where
  "block_shards vp pkts = shards_of (fec_memory pkts (block_bytes vp) (length pkts) (parity_count vp (length pkts)))
     (block_bytes vp) (length pkts + parity_count vp (length pkts))"

text \<open>The packets that come out of one block whose parity is computed.\<close>

definition fec_packet :: "video_pay \<Rightarrow> gst_buffer \<Rightarrow> gst_buffer list \<Rightarrow> bytes list \<Rightarrow> nat \<Rightarrow> nat \<Rightarrow> nat \<Rightarrow> gst_buffer" where
  "fec_packet vp inbuf pkts sent blk lst i =
     (let d = length pkts; upd = (\<lambda>b. update_fec_info vp b i d (advertised_percentage vp d) blk lst) in
      if i < d then (pkts ! i)\<lparr>gb_data := upd (gb_data (pkts ! i)), gb_ts := gb_ts inbuf\<rparr>
      else \<lparr>gb_data = upd (sent ! i), gb_delta = False, gb_ts = gb_ts inbuf\<rparr>)"

lemma generate_fec_packets_eq:
  assumes ok: "video_ok vp" and fec: "0 < vp_fec_percentage vp" and pkts: "pkts \<noteq> []"
  shows "fec_skipped vp (length pkts) \<Longrightarrow> generate_fec_packets vp pkts inbuf blk lst = Some pkts"
    and "\<not> fec_skipped vp (length pkts) \<Longrightarrow> \<exists>rs sent.
      reed_solomon_new True (int (length pkts)) (int (parity_count vp (length pkts))) = Some rs \<and>
      reed_solomon_encode rs (block_shards vp pkts) (int (length pkts + parity_count vp (length pkts))) (block_bytes vp)
        = (0, sent) \<and>
      generate_fec_packets vp pkts inbuf blk lst
        = Some (map (fec_packet vp inbuf pkts sent blk lst) [0..<length pkts + parity_count vp (length pkts)])"
proof -
  let ?d = "length pkts" and ?p = "parity_count vp (length pkts)"
  have d: "0 < ?d" using pkts by simp
  note sp = determine_split_eq [OF ok d]
  have bs: "nat (vp_payload_size vp + 16) = block_bytes vp"
    using ok unfolding block_bytes_def payload_room_def video_ok_def by linarith
  show "generate_fec_packets vp pkts inbuf blk lst = Some pkts" if "fec_skipped vp ?d"
    using that by (simp add: generate_fec_packets_def sp Let_def fec_skipped_def DATA_SHARDS_MAX_def)
  assume ns: "\<not> fec_skipped vp ?d"
  then have le: "?d + ?p \<le> 255" by (simp add: fec_skipped_def)
  obtain rs sent where rs: "reed_solomon_new True (int ?d) (int ?p) = Some rs"
    and enc: "reed_solomon_encode rs (block_shards vp pkts) (int (?d + ?p)) (block_bytes vp) = (0, sent)"
    using encode_runs [OF d parity_count_pos [OF fec d] le] by blast
  have split: "[0..<?d + ?p] = [0..<?d] @ [?d..<?d + ?p]" using upt_add_eq_append [of 0 ?d ?p] by simp
  have "generate_fec_packets vp pkts inbuf blk lst
      = Some (map (fec_packet vp inbuf pkts sent blk lst) [0..<?d + ?p])"
    using le rs enc unfolding split
    by (auto simp: generate_fec_packets_def sp Let_def DATA_SHARDS_MAX_def nat_int_add bs
        fec_packet_def gst_copy_timestamps_def gst_buffer_of_def simp flip: block_shards_def)
  with rs enc show "\<exists>rs sent. reed_solomon_new True (int ?d) (int ?p) = Some rs \<and>
      reed_solomon_encode rs (block_shards vp pkts) (int (?d + ?p)) (block_bytes vp) = (0, sent) \<and>
      generate_fec_packets vp pkts inbuf blk lst
        = Some (map (fec_packet vp inbuf pkts sent blk lst) [0..<?d + ?p])" by blast
qed

section \<open>Whole frames\<close>

text \<open>The packet and frame counters do not enter the shape of a block.\<close>

lemma counter_irrelevant [simp]:
  "parity_count (vp\<lparr>vp_cur_seq_number := c\<rparr>) d = parity_count vp d"
  "fec_skipped (vp\<lparr>vp_cur_seq_number := c\<rparr>) d = fec_skipped vp d"
  "video_ok (vp\<lparr>vp_cur_seq_number := c\<rparr>) = video_ok vp"
  "video_ok (vp\<lparr>vp_frame_num := c\<rparr>) = video_ok vp"
  by (simp_all add: parity_count_def fec_skipped_def video_ok_def)

lemma fec_packet_read:
  "seq_of (fec_packet vp inbuf pkts sent blk lst i) = ucast (vp_cur_seq_number vp + word_of_nat i)"
  "nv_frameIndex (read_headers (gb_data (fec_packet vp inbuf pkts sent blk lst i))) = vp_frame_num vp"
  by (simp_all add: fec_packet_def Let_def seq_of_def update_fec_info_read)

lemma fec_block:
  assumes ok: "video_ok vp" and fec: "0 < vp_fec_percentage vp" and "pkts \<noteq> []"
    and "in_frame (vp_frame_num vp) pkts" and "fec_skipped vp (length pkts) \<Longrightarrow> numbered (vp_cur_seq_number vp) pkts"
  obtains out where "generate_fec_packets vp pkts inbuf blk lst = Some out"
    and "numbered (vp_cur_seq_number vp) out" "in_frame (vp_frame_num vp) out"
    and "fec_skipped vp (length pkts) \<Longrightarrow> length out = length pkts"
proof (cases "fec_skipped vp (length pkts)")
  case True
  with that assms generate_fec_packets_eq(1) [OF ok fec assms(3) True] show ?thesis by blast
next
  case False
  then obtain sent where "generate_fec_packets vp pkts inbuf blk lst
      = Some (map (fec_packet vp inbuf pkts sent blk lst) [0..<length pkts + parity_count vp (length pkts)])"
    using generate_fec_packets_eq(2) [OF ok fec assms(3) False] by blast
  then show ?thesis
    by (rule that) (auto simp: numbered_def in_frame_def fec_packet_read False)
qed

lemma fec_block_step_some:
  assumes ok: "video_ok vp" and fec: "0 < vp_fec_percentage vp"
    and out: "numbered (vp_cur_seq_number vp) out" "in_frame (vp_frame_num vp) out"
    and bnd: "k * ppb < hi" "hi = min ((k + 1) * ppb) n"
    and skip: "fec_skipped vp (hi - k * ppb) \<Longrightarrow> length out = k * ppb"
  obtains out' where
    "fec_block_step (map (plain_packet vp buf) [0..<n]) ppb inbuf k
       (Some (vp\<lparr>vp_cur_seq_number := vp_cur_seq_number vp + word_of_nat (length out)\<rparr>, out))
     = Some (vp\<lparr>vp_cur_seq_number := vp_cur_seq_number vp + word_of_nat (length out')\<rparr>, out')"
    and "numbered (vp_cur_seq_number vp) out'" "in_frame (vp_frame_num vp) out'"
    and "fec_skipped vp (hi - k * ppb) \<Longrightarrow> length out' = hi"
proof -
  let ?vp = "vp\<lparr>vp_cur_seq_number := vp_cur_seq_number vp + word_of_nat (length out)\<rparr>"
  let ?pk = "map (plain_packet vp buf) [0..<n]"
  define blk where "blk = map (plain_packet vp buf) [k * ppb..<hi]"
  have sub: "gst_buffer_list_sub ?pk (k * ppb) hi = blk"
    using bnd(2) by (simp add: list_sub_eq blk_def take_map drop_map)
  have len: "length blk = hi - k * ppb" and ne: "blk \<noteq> []" using bnd(1) by (simp_all add: blk_def)
  have "numbered (vp_cur_seq_number ?vp) blk" if "fec_skipped ?vp (length blk)"
    using skip that by (auto simp: numbered_def blk_def add.assoc)
  moreover have "in_frame (vp_frame_num ?vp) blk"
    by (auto simp: in_frame_def blk_def plain_packet_read create_rtp_header_read)
  ultimately obtain new where new: "generate_fec_packets ?vp blk inbuf k last_block_index = Some new"
    "numbered (vp_cur_seq_number ?vp) new" "in_frame (vp_frame_num ?vp) new"
    "fec_skipped ?vp (length blk) \<Longrightarrow> length new = length blk"
    using fec_block [of ?vp blk inbuf k last_block_index] ok fec ne len by auto
  show ?thesis
  proof (rule that [of "out @ new"])
    have m: "min ((k + 1) * ppb) (length ?pk) = hi" using bnd(2) by simp
    show "fec_block_step ?pk ppb inbuf k (Some (?vp, out))
        = Some (vp\<lparr>vp_cur_seq_number := vp_cur_seq_number vp + word_of_nat (length (out @ new))\<rparr>, out @ new)"
      using new(1) unfolding fec_block_step_def option.case prod.case Let_def m sub
      by (simp add: add.assoc)
    show "numbered (vp_cur_seq_number vp) (out @ new)" using out(1) new(2) by (intro numbered_append) simp_all
    show "in_frame (vp_frame_num vp) (out @ new)" using out(2) new(3) by simp
    show "length (out @ new) = hi" if "fec_skipped vp (hi - k * ppb)"
      using skip new(4) len that bnd(1) by simp
  qed
qed

lemma multi_blocks:
  assumes ok: "video_ok vp" and fec: "0 < vp_fec_percentage vp" and n: "4 < n" "n < 2 ^ 24"
  obtains out where
    "generate_fec_multi_blocks vp (map (plain_packet vp buf) [0..<n]) n inbuf
      = Some (vp\<lparr>vp_cur_seq_number := vp_cur_seq_number vp + word_of_nat (length out)\<rparr>, out)"
    and "numbered (vp_cur_seq_number vp) out" "in_frame (vp_frame_num vp) out"
proof -
  define m where "m = ceil_float_div n nr_blocks"
  have "m = (n + 2) div 3" using n by (simp add: m_def ceil_float_div_exact nr_blocks_def)
  then have m: "0 < m" "2 * m < n" "n \<le> 3 * m" using n by linarith+
  let ?pk = "map (plain_packet vp buf) [0..<n]" and ?nil = "[] :: gst_buffer list"
  let ?st = "\<lambda>out. Some (vp\<lparr>vp_cur_seq_number := vp_cur_seq_number vp + word_of_nat (length out)\<rparr>, out)"
  have "in_frame (vp_frame_num vp) ?nil" by (simp add: in_frame_def)
  from fec_block_step_some [OF ok fec numbered_Nil this, of 0 m m n buf inbuf] m
  obtain o1 where o1: "fec_block_step ?pk m inbuf 0 (?st ?nil) = ?st o1"
    "numbered (vp_cur_seq_number vp) o1" "in_frame (vp_frame_num vp) o1" "fec_skipped vp m \<Longrightarrow> length o1 = m"
    by auto
  from fec_block_step_some [OF ok fec o1(2,3), of 1 m "2 * m" n buf inbuf] m o1(4)
  obtain o2 where o2: "fec_block_step ?pk m inbuf 1 (?st o1) = ?st o2"
    "numbered (vp_cur_seq_number vp) o2" "in_frame (vp_frame_num vp) o2" "fec_skipped vp m \<Longrightarrow> length o2 = 2 * m"
    by auto
  have "fec_skipped vp m" if "fec_skipped vp (n - 2 * m)"
    using fec_skipped_mono [of vp "n - 2 * m" m] fec m that by auto
  with fec_block_step_some [OF ok fec o2(2,3), of 2 m n n buf inbuf] m o2(4)
  obtain o3 where o3: "fec_block_step ?pk m inbuf 2 (?st o2) = ?st o3"
    "numbered (vp_cur_seq_number vp) o3" "in_frame (vp_frame_num vp) o3" by auto
  have "[0..<nr_blocks] = [0, 1, 2]" by (simp add: nr_blocks_def upt_rec)
  then have "generate_fec_multi_blocks vp ?pk n inbuf = ?st o3"
    using o1(1) o2(1) o3(1) by (simp add: generate_fec_multi_blocks_def Let_def flip: m_def)
  with that o3 show ?thesis by blast
qed

text \<open>The short header is eight bytes.\<close>

definition last_payload_len :: "video_pay \<Rightarrow> nat \<Rightarrow> u16" where
  "last_payload_len vp len = (let l = word_of_nat (len mod payload_room vp) in
     if l = 0 then word_of_nat (payload_room vp) else l)"

definition framed :: "video_pay \<Rightarrow> gst_buffer \<Rightarrow> gst_buffer" where
  "framed vp f = gst_buffer_of (short_header_bytes (if gb_delta f then 1 else 2)
     (last_payload_len vp (gst_buffer_get_size f + 8)) @ gb_data f)"

lemma length_short_header [simp]: "length (short_header_bytes t l) = 8"
  by (simp add: short_header_bytes_def)

lemma size_framed [simp]: "gst_buffer_get_size (framed vp f) = gst_buffer_get_size f + 8"
  by (simp add: framed_def gst_buffer_get_size_def)

lemma prepend_eq:
  assumes "video_ok vp"
  shows "prepend_video_header vp f = Some (framed vp f)"
proof -
  have "nat ((vp_payload_size vp - nv_video_packet_size) mod 2 ^ 64) = payload_room vp"
    using assms by (simp add: video_ok_def nv_video_packet_size_def payload_room_def)
  with payload_room_pos [OF assms] show ?thesis
    by (simp add: prepend_video_header_def Let_def framed_def gst_buffer_append_def gst_buffer_of_def last_payload_len_def)
qed

lemma split_fec:
  assumes ok: "video_ok vp" and fec: "0 < vp_fec_percentage vp" and small: "gst_buffer_get_size f + 8 < 2 ^ 24"
  obtains pkts where "split_into_rtp vp f = Some (vp\<lparr>vp_cur_seq_number := vp_cur_seq_number vp + word_of_nat (length pkts),
      vp_frame_num := vp_frame_num vp + 1\<rparr>, pkts)"
    and "numbered (vp_cur_seq_number vp) pkts" "in_frame (vp_frame_num vp) pkts"
proof -
  define n where "n = packet_count vp (gst_buffer_get_size f + 8)"
  let ?pk = "map (plain_packet vp (framed vp f)) [0..<n]"
  have n: "0 < n" using packet_count_bounds(3) [OF ok, of "gst_buffer_get_size f + 8"] by (simp add: n_def)
  have gen: "generate_rtp_packets vp (framed vp f) = Some ?pk"
    using generate_rtp_packets_eq [OF ok, of "framed vp f"] small by (simp add: n_def)
  have pk: "in_frame (vp_frame_num vp) ?pk" "numbered (vp_cur_seq_number vp) ?pk"
    by (auto simp: in_frame_def plain_packet_read create_rtp_header_read numbered_def)
  show ?thesis
  proof (cases "90 < n")
    case True
    have "(n - 1) * 1 \<le> (n - 1) * payload_room vp" using payload_room_pos [OF ok] by (intro mult_le_mono2) simp
    also have "\<dots> < gst_buffer_get_size f + 8" using packet_count_bounds(1) [OF ok] by (simp add: n_def)
    finally have "n < 2 ^ 24" using small by linarith
    then obtain out where "generate_fec_multi_blocks vp ?pk n f
      = Some (vp\<lparr>vp_cur_seq_number := vp_cur_seq_number vp + word_of_nat (length out)\<rparr>, out)"
      and "numbered (vp_cur_seq_number vp) out" "in_frame (vp_frame_num vp) out"
      using multi_blocks [OF ok fec, of n "framed vp f" f] True by auto
    with that True show ?thesis
      by (simp add: split_into_rtp_def prepend_eq [OF ok] gen fec determine_split_eq [OF ok n])
  next
    case False
    obtain out where "generate_fec_packets vp ?pk f 0 0 = Some out"
      and "numbered (vp_cur_seq_number vp) out" "in_frame (vp_frame_num vp) out"
      using fec_block [OF ok fec _ pk(1), of f 0 0] pk(2) n by auto
    with that False show ?thesis
      by (simp add: split_into_rtp_def prepend_eq [OF ok] gen fec determine_split_eq [OF ok n])
  qed
qed

end
