(* ===== verification/Erasure.thy ===== *)
theory Erasure
  imports RS_Recovery
begin

unbundle bit_operations_syntax

text \<open>
  The interface between the payloaders and the Reed-Solomon code: a systematic erasure code that
  works byte position by byte position. The payloaders rewrite packet headers after the parity has
  been computed; the last law is why that does no harm to the payload behind the header. The locale
  is interpreted by \<open>rs_encode\<close> and \<open>rs_decode\<close>, the calls of \<open>moonlight/fec.hpp\<close>.
\<close>

section \<open>The interface\<close>

definition uniform :: "nat \<Rightarrow> nat \<Rightarrow> bytes list \<Rightarrow> bool" where
  "uniform n bs sh \<longleftrightarrow> length sh = n \<and> (\<forall>s\<in>set sh. length s = bs)"

locale erasure_code =
  fixes shape :: "nat \<Rightarrow> nat \<Rightarrow> bool"
    and encode :: "nat \<Rightarrow> nat \<Rightarrow> nat \<Rightarrow> bytes list \<Rightarrow> bytes list"
    and decode :: "nat \<Rightarrow> nat \<Rightarrow> nat \<Rightarrow> bytes list \<Rightarrow> bytes \<Rightarrow> bytes list option"
    and recoverable :: "nat \<Rightarrow> nat \<Rightarrow> bytes \<Rightarrow> bool"
  assumes encode_uniform: "shape d p \<Longrightarrow> uniform (d + p) bs sh \<Longrightarrow> uniform (d + p) bs (encode d p bs sh)"
    and encode_systematic: "shape d p \<Longrightarrow> uniform (d + p) bs sh \<Longrightarrow> take d (encode d p bs sh) = take d sh"
    and decode_recover: "shape d p \<Longrightarrow> uniform (d + p) bs sh \<Longrightarrow> recoverable d p marks \<Longrightarrow>
      received damaged (encode d p bs sh) marks bs \<Longrightarrow>
      \<exists>out. decode d p bs damaged marks = Some out \<and> take d out = take d sh"
    and encode_drop: "shape d p \<Longrightarrow> uniform (d + p) bs sh \<Longrightarrow> h \<le> bs \<Longrightarrow>
      map (drop h) (encode d p bs sh) = encode d p (bs - h) (map (drop h) sh)"
begin

lemma uniform_drop: "uniform n bs sh \<Longrightarrow> uniform n (bs - h) (map (drop h) sh)"
  by (auto simp: uniform_def)

text \<open>
  Packets that agree with the encoded shards behind a header of \<open>h\<close> bytes: their payloads are
  recovered from the payloads that arrive.
\<close>

lemma recover_behind_header:
  assumes "shape d p" "uniform (d + p) bs sh" "h \<le> bs" "recoverable d p marks"
    and "map (drop h) pkts = map (drop h) (encode d p bs sh)"
    and "received damaged (map (drop h) pkts) marks (bs - h)"
  shows "\<exists>out. decode d p (bs - h) damaged marks = Some out \<and> take d out = map (drop h) (take d sh)"
  using decode_recover [OF assms(1) uniform_drop [OF assms(2), of h] assms(4), of damaged] assms
    encode_drop [OF assms(1,2,3)]
  by (simp add: take_map)

end

section \<open>The code of \<open>fec.hpp\<close>\<close>

definition rs_shape :: "nat \<Rightarrow> nat \<Rightarrow> bool" where
  "rs_shape d p \<longleftrightarrow> 0 < d \<and> 0 < p \<and> d + p \<le> 255"

definition rs_encode :: "nat \<Rightarrow> nat \<Rightarrow> nat \<Rightarrow> bytes list \<Rightarrow> bytes list" where
  "rs_encode d p bs sh = (case reed_solomon_new True (int d) (int p) of
     None \<Rightarrow> sh | Some rs \<Rightarrow> snd (reed_solomon_encode rs sh (int (d + p)) bs))"

definition rs_decode :: "nat \<Rightarrow> nat \<Rightarrow> nat \<Rightarrow> bytes list \<Rightarrow> bytes \<Rightarrow> bytes list option" where
  "rs_decode d p bs sh marks = (case reed_solomon_new True (int d) (int p) of
     None \<Rightarrow> None
   | Some rs \<Rightarrow> (case reed_solomon_decode rs sh marks (int (d + p)) bs of
       None \<Rightarrow> None | Some (r, out) \<Rightarrow> if r = 0 then Some out else None))"

definition rs_recoverable :: "nat \<Rightarrow> nat \<Rightarrow> bytes \<Rightarrow> bool" where
  "rs_recoverable d p marks \<longleftrightarrow> length marks = d + p \<and> enough_parity marks d \<and> work_area_ok marks d p"

lemma rs_encode_runs:
  assumes "rs_shape d p"
  obtains rs where "reed_solomon_new True (int d) (int p) = Some rs"
    and "\<And>sh bs. reed_solomon_encode rs sh (int (d + p)) bs = (0, rs_encode d p bs sh)"
proof -
  obtain rs where rs: "reed_solomon_new True (int d) (int p) = Some rs"
    using assms encode_runs [of d p] by (metis rs_shape_def)
  then have "rs_ts rs = d + p" by (rule reed_solomon_new_fields)
  then have "reed_solomon_encode rs sh (int (d + p)) bs = (0, rs_encode d p bs sh)" for sh bs
    by (simp add: rs_encode_def rs reed_solomon_encode_def)
  with that rs show ?thesis by blast
qed

lemma rs_encode_facts:
  assumes "rs_shape d p" "uniform (d + p) bs sh"
  shows "length (rs_encode d p bs sh) = d + p" and "\<forall>k<d + p. length (rs_encode d p bs sh ! k) = bs"
    and "\<And>i. i < d \<Longrightarrow> rs_encode d p bs sh ! i = sh ! i"
    and "\<And>j t. j < p \<Longrightarrow> t < bs \<Longrightarrow>
      to_gf (rs_encode d p bs sh ! (d + j) ! t) = (\<Sum>i<d. coeff p j i * to_gf (sh ! i ! t))"
proof -
  obtain rs where rs: "reed_solomon_new True (int d) (int p) = Some rs"
    and enc: "reed_solomon_encode rs sh (int (d + p)) bs = (0, rs_encode d p bs sh)"
    using rs_encode_runs [OF assms(1)] by metis
  have "length sh = d + p" "\<forall>k<d + p. length (sh ! k) = bs" using assms(2) by (simp_all add: uniform_def)
  from encode_shards [OF rs this enc]
  show "length (rs_encode d p bs sh) = d + p" "\<forall>k<d + p. length (rs_encode d p bs sh ! k) = bs"
    "\<And>i. i < d \<Longrightarrow> rs_encode d p bs sh ! i = sh ! i"
    "\<And>j t. j < p \<Longrightarrow> t < bs \<Longrightarrow>
      to_gf (rs_encode d p bs sh ! (d + j) ! t) = (\<Sum>i<d. coeff p j i * to_gf (sh ! i ! t))"
    by blast+
qed

lemma rs_encode_uniform: "rs_shape d p \<Longrightarrow> uniform (d + p) bs sh \<Longrightarrow> uniform (d + p) bs (rs_encode d p bs sh)"
  using rs_encode_facts(1,2) [of d p bs sh] by (auto simp: uniform_def in_set_conv_nth)

lemma rs_encode_systematic: "rs_shape d p \<Longrightarrow> uniform (d + p) bs sh \<Longrightarrow> take d (rs_encode d p bs sh) = take d sh"
  using rs_encode_facts(1,3) [of d p bs sh] by (intro nth_equalityI) (simp_all add: uniform_def)

lemma rs_decode_recover:
  assumes "rs_shape d p" "uniform (d + p) bs sh" "rs_recoverable d p marks"
    and "received damaged (rs_encode d p bs sh) marks bs"
  shows "\<exists>out. rs_decode d p bs damaged marks = Some out \<and> take d out = take d sh"
proof -
  obtain rs where rs: "reed_solomon_new True (int d) (int p) = Some rs"
    and enc: "reed_solomon_encode rs sh (int (d + p)) bs = (0, rs_encode d p bs sh)"
    using rs_encode_runs [OF assms(1)] by metis
  have "length sh = d + p" "\<forall>k<d + p. length (sh ! k) = bs" using assms(2) by (simp_all add: uniform_def)
  from decode_recovers [OF rs this enc] assms(3,4) obtain out where
    "reed_solomon_decode rs damaged marks (int (d + p)) bs = Some (0, out)" "take d out = take d sh"
    by (auto simp: rs_recoverable_def)
  then show ?thesis by (simp add: rs_decode_def rs)
qed

lemma rs_encode_drop:
  assumes shp: "rs_shape d p" and u: "uniform (d + p) bs sh" and h: "h \<le> bs"
  shows "map (drop h) (rs_encode d p bs sh) = rs_encode d p (bs - h) (map (drop h) sh)"
proof -
  have u': "uniform (d + p) (bs - h) (map (drop h) sh)" using u by (auto simp: uniform_def)
  note f = rs_encode_facts [OF shp u] and f' = rs_encode_facts [OF shp u']
  have len: "length sh = d + p" "\<And>k. k < d + p \<Longrightarrow> length (sh ! k) = bs" using u by (simp_all add: uniform_def)
  have "drop h (rs_encode d p bs sh ! k) = rs_encode d p (bs - h) (map (drop h) sh) ! k" if k: "k < d + p" for k
  proof (cases "k < d")
    case True
    then show ?thesis using f(3) f'(3) len by simp
  next
    case False
    then have j: "k - d < p" "d + (k - d) = k" using k by simp_all
    show ?thesis
    proof (rule to_gf_list_eq [where T = "bs - h"])
      show "length (drop h (rs_encode d p bs sh ! k)) = bs - h" using f(2) k by simp
      show "length (rs_encode d p (bs - h) (map (drop h) sh) ! k) = bs - h" using f'(2) k by simp
      fix t assume t: "t < bs - h"
      have "to_gf (rs_encode d p bs sh ! k ! (h + t)) = (\<Sum>i<d. coeff p (k - d) i * to_gf (sh ! i ! (h + t)))"
        using f(4) [OF j(1), of "h + t"] t j(2) by simp
      also have "\<dots> = (\<Sum>i<d. coeff p (k - d) i * to_gf (map (drop h) sh ! i ! t))"
        using len h t by (intro sum.cong) simp_all
      also have "\<dots> = to_gf (rs_encode d p (bs - h) (map (drop h) sh) ! k ! t)"
        using f'(4) [OF j(1) t] j(2) by simp
      finally show "to_gf (drop h (rs_encode d p bs sh ! k) ! t)
          = to_gf (rs_encode d p (bs - h) (map (drop h) sh) ! k ! t)"
        using f(2) k h by simp
    qed
  qed
  with f(1) f'(1) show ?thesis by (intro nth_equalityI) simp_all
qed

interpretation rs: erasure_code rs_shape rs_encode rs_decode rs_recoverable
  by unfold_locales (fact rs_encode_uniform rs_encode_systematic rs_decode_recover rs_encode_drop)+

end
