(* ===== verification/VideoPay_Props.thy ===== *)
theory VideoPay_Props
  imports VideoPay_Proofs Erasure
begin

unbundle bit_operations_syntax

text \<open>
  The properties of the video payloader: what a client finds on the wire, what it can rebuild after
  losses, and where the element stops working.
\<close>

section \<open>Sequence numbers\<close>

text \<open>
  C3: RTP sequence numbers never skip or repeat. With forward error correction enabled, every stream
  of frames is packetised without failure, the packets of the whole stream carry the sequence numbers
  that follow the counter one by one, across packets, FEC blocks (one or three for each frame, with or
  without parity) and frames, and the counters end where the next packet continues.
\<close>

theorem video_stream_numbered:
  assumes "video_ok vp" "0 < vp_fec_percentage vp" "\<forall>f\<in>set frames. gst_buffer_get_size f + 8 < 2 ^ 24"
  shows "\<exists>vp' pkts. video_stream vp frames = Some (vp', pkts) \<and> numbered (vp_cur_seq_number vp) pkts \<and>
    vp_cur_seq_number vp' = vp_cur_seq_number vp + word_of_nat (length pkts) \<and>
    vp_frame_num vp' = vp_frame_num vp + word_of_nat (length frames)"
  using assms
proof (induction frames arbitrary: vp)
  case (Cons f fs)
  then have h: "video_ok vp" "0 < vp_fec_percentage vp" "gst_buffer_get_size f + 8 < 2 ^ 24" by simp_all
  obtain pkts where one: "split_into_rtp vp f = Some (vp\<lparr>vp_cur_seq_number := vp_cur_seq_number vp + word_of_nat (length pkts),
      vp_frame_num := vp_frame_num vp + 1\<rparr>, pkts)" and n1: "numbered (vp_cur_seq_number vp) pkts"
    using split_fec [OF h] by blast
  let ?vp = "vp\<lparr>vp_cur_seq_number := vp_cur_seq_number vp + word_of_nat (length pkts), vp_frame_num := vp_frame_num vp + 1\<rparr>"
  obtain vp' rest where "video_stream ?vp fs = Some (vp', rest)" "numbered (vp_cur_seq_number ?vp) rest"
    "vp_cur_seq_number vp' = vp_cur_seq_number ?vp + word_of_nat (length rest)"
    "vp_frame_num vp' = vp_frame_num ?vp + word_of_nat (length fs)"
    using Cons.IH [of ?vp] Cons.prems by auto
  with one n1 numbered_append [OF n1, of rest] show ?case
    by (auto simp: video_generate_output_def add.assoc)
qed simp

text \<open>Three frames of a small configuration; \<open>gst_buffer_of\<close> makes key frames.\<close>

lemma video_stream_numbered_witness:
  "\<exists>vp' pkts. video_stream (video_init\<lparr>vp_payload_size := 20\<rparr>) [gst_buffer_of [1, 2, 3], gst_buffer_of []]
      = Some (vp', pkts) \<and> numbered 0 pkts \<and> vp_cur_seq_number vp' = 0 + word_of_nat (length pkts) \<and>
    vp_frame_num vp' = 0 + 2"
  using video_stream_numbered [of "video_init\<lparr>vp_payload_size := 20\<rparr>" "[gst_buffer_of [1, 2, 3], gst_buffer_of []]"]
  by (simp add: video_init_def video_ok_def gst_buffer_get_size_def)

text \<open>
  Without forward error correction the counter is stuck. The advance of \<open>cur_seq_number\<close> is inside
  the branch that generates parity, so with \<open>fec_percentage\<close> 0 each frame starts again at the sequence
  number of the one before it, although the frame number moves on.
\<close>

theorem fec_off_restarts:
  assumes "video_ok vp" "vp_fec_percentage vp = 0"
    and "gst_buffer_get_size f + 8 < 2 ^ 24" "gst_buffer_get_size g + 8 < 2 ^ 24"
  shows "\<exists>p q. video_stream vp [f, g] = Some (vp\<lparr>vp_frame_num := vp_frame_num vp + 2\<rparr>, p @ q) \<and> p \<noteq> [] \<and> q \<noteq> [] \<and>
    seq_of (hd p) = seq_of (hd q) \<and> in_frame (vp_frame_num vp) p \<and> in_frame (vp_frame_num vp + 1) q"
proof -
  define pk where "pk vp h = map (plain_packet vp (framed vp h)) [0..<packet_count vp (gst_buffer_get_size h + 8)]" for vp h
  have one: "split_into_rtp v h = Some (v\<lparr>vp_frame_num := vp_frame_num v + 1\<rparr>, pk v h)"
    if "video_ok v" "vp_fec_percentage v = 0" "gst_buffer_get_size h + 8 < 2 ^ 24" for v h
    using that generate_rtp_packets_eq [OF that(1), of "framed v h"]
    by (simp add: split_into_rtp_def prepend_eq pk_def)
  have pk: "pk v h \<noteq> []" "seq_of (hd (pk v h)) = ucast (vp_cur_seq_number v)" "in_frame (vp_frame_num v) (pk v h)"
    if "video_ok v" for v h
    using packet_count_bounds(3) [OF that, of "gst_buffer_get_size h + 8"]
    by (auto simp: pk_def hd_map in_frame_def plain_packet_read create_rtp_header_read)
  let ?v = "vp\<lparr>vp_frame_num := vp_frame_num vp + 1\<rparr>"
  have "video_stream vp [f, g] = Some (vp\<lparr>vp_frame_num := vp_frame_num vp + 2\<rparr>, pk vp f @ pk ?v g)"
    using one [of vp f] one [of ?v g] assms by (simp add: video_generate_output_def)
  with pk [of vp f] pk [of ?v g] assms show ?thesis by force
qed

lemma fec_off_restarts_witness:
  "\<exists>p q. video_stream (video_init\<lparr>vp_fec_percentage := 0\<rparr>) [gst_buffer_of [1], gst_buffer_of [2]]
      = Some (video_init\<lparr>vp_fec_percentage := 0, vp_frame_num := 2\<rparr>, p @ q) \<and> p \<noteq> [] \<and> q \<noteq> [] \<and>
    seq_of (hd p) = seq_of (hd q) \<and> in_frame 0 p \<and> in_frame 1 q"
  using fec_off_restarts [of "video_init\<lparr>vp_fec_percentage := 0\<rparr>" "gst_buffer_of [1]" "gst_buffer_of [2]"]
  by (simp add: video_init_def video_ok_def gst_buffer_get_size_def)

section \<open>What a frame becomes\<close>

lemma flag_bits:
  fixes a b :: bool
  defines "w \<equiv> FLAG_CONTAINS_PIC_DATA OR (if a then FLAG_SOF else 0) OR (if b then FLAG_EOF else 0)"
  shows "w AND FLAG_SOF \<noteq> 0 \<longleftrightarrow> a" "w AND FLAG_EOF \<noteq> 0 \<longleftrightarrow> b" "w AND FLAG_CONTAINS_PIC_DATA \<noteq> 0"
  unfolding w_def FLAG_SOF_def FLAG_EOF_def FLAG_CONTAINS_PIC_DATA_def by (cases a; cases b; simp)+

text \<open>
  C7: Packetisation keeps the frame. The payloads of the packets, joined and cut to length, are the
  bytes that were handed in; each packet is a 32 byte header and, with padding, exactly
  \<open>payload_size - 16\<close> bytes; the first packet and only it has the start flag, the last one and only it
  the end flag, and the stream index counts the packets in order.
\<close>

theorem packets_carry_frame:
  assumes "video_ok vp" "gst_buffer_get_size buf < 2 ^ 24"
  shows "\<exists>pkts. generate_rtp_packets vp buf = Some pkts \<and>
    take (gst_buffer_get_size buf) (concat (map (\<lambda>p. drop 32 (gb_data p)) pkts)) = gb_data buf \<and>
    (\<forall>p\<in>set pkts. gb_ts p = gb_ts buf \<and> (vp_add_padding vp \<longrightarrow> length (gb_data p) = nat (vp_payload_size vp) + 16)) \<and>
    (\<forall>i<length pkts. let h = read_headers (gb_data (pkts ! i)) in
       nv_streamPacketIndex h = push_bit 8 (vp_cur_seq_number vp + word_of_nat i) \<and>
       (nv_flags h AND FLAG_SOF \<noteq> 0) = (i = 0) \<and> (nv_flags h AND FLAG_EOF \<noteq> 0) = (Suc i = length pkts) \<and>
       nv_flags h AND FLAG_CONTAINS_PIC_DATA \<noteq> 0)"
proof -
  let ?n = "packet_count vp (gst_buffer_get_size buf)"
  let ?pk = "map (plain_packet vp buf) [0..<?n]"
  have "take (gst_buffer_get_size buf) (concat (map (\<lambda>p. drop 32 (gb_data p)) ?pk)) = gb_data buf"
    using concat_payloads [OF assms(1), of "gb_data buf"]
    by (simp add: comp_def plain_packet_read(2) gst_buffer_get_size_def)
  moreover have "gb_ts p = gb_ts buf \<and> (vp_add_padding vp \<longrightarrow> length (gb_data p) = nat (vp_payload_size vp) + 16)"
    if "p \<in> set ?pk" for p
  proof -
    have "nat (vp_payload_size vp) + 16 = payload_room vp + 32"
      using assms(1) unfolding payload_room_def video_ok_def by linarith
    with that show ?thesis by (auto simp: plain_packet_def length_packet_payload)
  qed
  moreover have "\<forall>i<length ?pk. let h = read_headers (gb_data (?pk ! i)) in
       nv_streamPacketIndex h = push_bit 8 (vp_cur_seq_number vp + word_of_nat i) \<and>
       (nv_flags h AND FLAG_SOF \<noteq> 0) = (i = 0) \<and> (nv_flags h AND FLAG_EOF \<noteq> 0) = (Suc i = length ?pk) \<and>
       nv_flags h AND FLAG_CONTAINS_PIC_DATA \<noteq> 0"
    by (simp add: plain_packet_read create_rtp_header_read flag_bits) (simp add: FLAG_CONTAINS_PIC_DATA_def)
  ultimately show ?thesis using generate_rtp_packets_eq [OF assms] by blast
qed

lemma packets_carry_frame_witness:
  "\<exists>pkts. generate_rtp_packets (video_init\<lparr>vp_payload_size := 18\<rparr>) (gst_buffer_of [1, 2, 3]) = Some pkts \<and>
    take 3 (concat (map (\<lambda>p. drop 32 (gb_data p)) pkts)) = [1, 2, 3]"
  using packets_carry_frame [of "video_init\<lparr>vp_payload_size := 18\<rparr>" "gst_buffer_of [1, 2, 3]"]
  by (auto simp: video_init_def video_ok_def gst_buffer_get_size_def numeral_3_eq_3)

text \<open>
  The length in the short header is the length of the last payload without its padding, which is
  what decoders that cannot take trailing zeros rely on.
\<close>

theorem last_payload_length:
  assumes "video_ok vp" "prepend_video_header vp f = Some buf"
  shows "unat (get_le16 (drop 4 (gb_data buf)))
      = gst_buffer_get_size buf - (packet_count vp (gst_buffer_get_size buf) - 1) * payload_room vp
    \<and> drop 8 (gb_data buf) = gb_data f"
proof -
  let ?P = "payload_room vp" and ?l = "gst_buffer_get_size f + 8"
  have buf: "buf = framed vp f" using assms prepend_eq [OF assms(1)] by simp
  have P: "0 < ?P" "?P < 65536"
    using payload_room_pos [OF assms(1)] assms(1) unfolding payload_room_def video_ok_def by linarith+
  note c = packet_count_bounds [OF assms(1), of ?l]
  obtain m where m: "packet_count vp ?l = Suc m" using c(3) by (metis gr0_implies_Suc zero_less_numeral add_gr_0)
  have b: "m * ?P < ?l" "?l \<le> m * ?P + ?P" using c(1,2) m by simp_all
  have md: "?l mod ?P = (if ?l = m * ?P + ?P then 0 else ?l - m * ?P)"
  proof (cases "?l = m * ?P + ?P")
    case False
    have "?l = (?l - m * ?P) + m * ?P" using b by simp
    then have "?l mod ?P = (?l - m * ?P) mod ?P" by (metis mod_mult_self1)
    also have "\<dots> = ?l - m * ?P" using b False by (intro mod_less) simp
    finally show ?thesis using False by simp
  qed simp
  have "unat (last_payload_len vp ?l) = ?l - m * ?P"
  proof (cases "?l = m * ?P + ?P")
    case True
    then have "last_payload_len vp ?l = word_of_nat ?P" by (simp add: last_payload_len_def md)
    with P True show ?thesis by (simp add: unat_of_nat)
  next
    case False
    have s: "0 < ?l - m * ?P" "?l - m * ?P < 65536" using b P by linarith+
    have u: "unat (word_of_nat k :: u16) = k" if "k < 65536" for k using that by (simp add: unat_of_nat)
    define k where "k = ?l - m * ?P"
    have "(word_of_nat k :: u16) \<noteq> 0" using u [OF s(2), folded k_def] s(1) by (auto simp: k_def [symmetric])
    with u [OF s(2)] False show ?thesis by (simp add: last_payload_len_def md flip: k_def)
  qed
  then show ?thesis
    unfolding buf size_framed m by (simp add: framed_def short_header_bytes_def)
qed

lemma last_payload_length_witness:
  "unat (get_le16 (drop 4 (gb_data (framed (video_init\<lparr>vp_payload_size := 20\<rparr>) (gst_buffer_of [1, 2, 3]))))) = 3"
  using last_payload_length [of "video_init\<lparr>vp_payload_size := 20\<rparr>" "gst_buffer_of [1, 2, 3]", OF _ prepend_eq]
  by (simp add: video_init_def video_ok_def packet_count_def payload_room_def)
    (simp add: gst_buffer_get_size_def)

section \<open>Recovery of a frame\<close>

lemma concat_zeros: "concat (replicate m (replicate n x)) = replicate (m * n) x"
  by (induction m) (simp_all add: replicate_add)

lemma block_shards_padded:
  assumes pad: "\<forall>q\<in>set pkts. length (gb_data q) = block_bytes vp"
  shows "block_shards vp pkts = map gb_data pkts @ replicate (parity_count vp (length pkts)) (replicate (block_bytes vp) 0)"
proof -
  let ?bs = "block_bytes vp" and ?d = "length pkts" and ?p = "parity_count vp (length pkts)"
  let ?all = "map gb_data pkts @ replicate ?p (replicate ?bs (0 :: u8))"
  have u: "\<forall>q\<in>set ?all. length q = ?bs" using pad by auto
  have "length (concat (map gb_data pkts)) = ?d * ?bs"
    using pad length_concat_uniform [of "map gb_data pkts" ?bs] by simp
  then have mem: "fec_memory pkts ?bs ?d ?p = concat ?all"
    by (simp add: fec_memory_def Let_def concat_zeros)
  have "shards_of (concat ?all) ?bs (?d + ?p) = map (\<lambda>i. ?all ! i) [0..<?d + ?p]"
    unfolding shards_of_def by (intro map_cong refl bslice_concat [OF u]) simp
  also have "\<dots> = ?all" by (intro nth_equalityI) simp_all
  finally show ?thesis by (simp add: block_shards_def mem)
qed

text \<open>The packets of a frame that is sent in one block agree, behind the headers, with the encoded shards.\<close>

lemma single_block:
  assumes "video_ok vp" "vp_add_padding vp" "0 < vp_fec_percentage vp" "gst_buffer_get_size f + 8 < 2 ^ 24"
    and "d = packet_count vp (gst_buffer_get_size f + 8)" "p = parity_count vp d" "d \<le> 90" "d + p \<le> 255"
    and "split_into_rtp vp f = Some (vp', pkts)"
  obtains sh where "rs_shape d p" and "uniform (d + p) (block_bytes vp) sh"
    and "map (drop 32) (map gb_data pkts) = map (drop 32) (rs_encode d p (block_bytes vp) sh)"
    and "map (drop 32) (take d sh) = map (packet_payload vp (gb_data (framed vp f))) [0..<d]"
proof -
  let ?buf = "framed vp f"
  define pk where "pk = map (plain_packet vp ?buf) [0..<d]"
  define bs where "bs = block_bytes vp"
  have d: "0 < d" using packet_count_bounds(3) [OF assms(1), of "gst_buffer_get_size f + 8"] assms(5) by simp
  have len: "length pk = d" "pk \<noteq> []" using d by (simp_all add: pk_def)
  have shp: "rs_shape d p" using d assms parity_count_pos [of vp d] by (simp add: rs_shape_def)
  have gen: "generate_rtp_packets vp ?buf = Some pk"
    using generate_rtp_packets_eq [OF assms(1), of ?buf] assms(4,5) by (simp add: pk_def)
  have plen: "\<forall>q\<in>set pk. length (gb_data q) = bs"
    using assms(2) by (auto simp: pk_def plain_packet_def length_packet_payload bs_def block_bytes_def)
  define sh where "sh = map gb_data pk @ replicate p (replicate bs (0 :: u8))"
  have shards: "block_shards vp pk = sh"
    using block_shards_padded [of pk vp] plen len assms(6) by (simp add: sh_def bs_def)
  have u: "uniform (d + p) bs sh" using plen len by (auto simp: uniform_def sh_def)
  define sent where "sent = rs_encode d p bs sh"
  have ns: "\<not> fec_skipped vp (length pk)" using assms(6,8) len by (simp add: fec_skipped_def)
  obtain rs sent' where rs: "reed_solomon_new True (int d) (int p) = Some rs"
    and enc: "reed_solomon_encode rs sh (int (d + p)) bs = (0, sent')"
    and out: "generate_fec_packets vp pk f 0 0 = Some (map (fec_packet vp f pk sent' 0 0) [0..<d + p])"
    using generate_fec_packets_eq(2) [OF assms(1,3) len(2) ns, of f 0 0] len assms(6)
    by (auto simp: shards bs_def)
  have "sent' = sent" using rs enc by (simp add: sent_def rs_encode_def)
  have sp: "determine_split vp d = Some \<lparr>bl_block_size = vp_payload_size vp + 16, bl_data_shards = d,
      bl_parity_shards = int (parity_count vp d), bl_fec_percentage = advertised_percentage vp d\<rparr>"
    by (rule determine_split_eq [OF assms(1) d])
  have pkts: "pkts = map (fec_packet vp f pk sent 0 0) [0..<d + p]"
    using assms(9,3,7) out len \<open>sent' = sent\<close>
    by (simp add: split_into_rtp_def prepend_eq [OF assms(1)] gen sp)
  note ef = rs_encode_facts [OF shp u, folded sent_def]
  have tails: "map (drop 32) (map gb_data pkts) = map (drop 32) sent"
  proof (rule nth_equalityI)
    fix i assume "i < length (map (drop 32) (map gb_data pkts))"
    then have i: "i < d + p" by (simp add: pkts)
    then show "map (drop 32) (map gb_data pkts) ! i = map (drop 32) sent ! i"
      using ef(1,3) len
      by (simp add: pkts fec_packet_def Let_def update_fec_info_read sh_def nth_append)
  qed (simp add: pkts ef(1))
  have "map (drop 32) (take d sh) = map (packet_payload vp (gb_data ?buf)) [0..<d]"
    using len by (simp add: sh_def pk_def comp_def plain_packet_read(2))
  with that shp u tails show ?thesis unfolding sent_def bs_def .
qed

text \<open>
  C2: Lost packets are repaired. A frame sent in one FEC block is rebuilt by a client that receives the
  packets with the losses given by \<open>marks\<close>: all payloads behind the 32 byte headers have the same
  length, and feeding them to the decoder, with the shard counts of the block, returns data payloads
  that contain the frame, although the headers were rewritten after the parity had been computed.
\<close>

theorem video_loss_recovery:
  assumes "video_ok vp" "vp_add_padding vp" "0 < vp_fec_percentage vp" "gst_buffer_get_size f + 8 < 2 ^ 24"
    and "d = packet_count vp (gst_buffer_get_size f + 8)" "p = parity_count vp d" "d \<le> 90" "d + p \<le> 255"
    and "split_into_rtp vp f = Some (vp', pkts)"
    and "rs_recoverable d p marks"
  shows "uniform (d + p) (payload_room vp) (map (\<lambda>q. drop 32 (gb_data q)) pkts) \<and>
    (\<forall>damaged. received damaged (map (\<lambda>q. drop 32 (gb_data q)) pkts) marks (payload_room vp) \<longrightarrow>
      (\<exists>out. rs_decode d p (payload_room vp) damaged marks = Some out \<and>
         take (gst_buffer_get_size f) (drop 8 (concat (take d out))) = gb_data f))"
proof (intro conjI allI impI)
  let ?buf = "framed vp f"
  obtain sh where shp: "rs_shape d p" and u: "uniform (d + p) (block_bytes vp) sh"
    and tails: "map (drop 32) (map gb_data pkts) = map (drop 32) (rs_encode d p (block_bytes vp) sh)"
    and data: "map (drop 32) (take d sh) = map (packet_payload vp (gb_data ?buf)) [0..<d]"
    by (rule single_block [OF assms(1-9)])
  have bs: "block_bytes vp - 32 = payload_room vp" "32 \<le> block_bytes vp" by (simp_all add: block_bytes_def)
  show "uniform (d + p) (payload_room vp) (map (\<lambda>q. drop 32 (gb_data q)) pkts)"
    using rs.uniform_drop [OF rs.encode_uniform [OF shp u], of 32] tails by (simp add: comp_def bs)
  fix damaged assume "received damaged (map (\<lambda>q. drop 32 (gb_data q)) pkts) marks (payload_room vp)"
  then have "received damaged (map (drop 32) (map gb_data pkts)) marks (block_bytes vp - 32)"
    by (simp add: comp_def bs)
  from rs.recover_behind_header [OF shp u bs(2) assms(10) tails this]
  obtain out where dec: "rs_decode d p (payload_room vp) damaged marks = Some out"
    and td: "take d out = map (packet_payload vp (gb_data ?buf)) [0..<d]" unfolding bs data by blast
  note l = size_framed [of vp f, unfolded gst_buffer_get_size_def [of ?buf]]
  have "take (gst_buffer_get_size f + 8) (concat (take d out)) = gb_data ?buf"
    using concat_payloads [OF assms(1), of "gb_data ?buf", unfolded l, folded assms(5)] by (simp only: td)
  then have "drop 8 (take (gst_buffer_get_size f + 8) (concat (take d out))) = gb_data f"
    by (simp add: framed_def)
  with dec show "\<exists>out. rs_decode d p (payload_room vp) damaged marks = Some out \<and>
      take (gst_buffer_get_size f) (drop 8 (concat (take d out))) = gb_data f" by (simp add: drop_take)
qed

text \<open>One data packet and two parity packets, of which only the last arrives.\<close>

lemma video_loss_recovery_witness:
  "\<exists>vp' pkts out. split_into_rtp (video_init\<lparr>vp_payload_size := 27\<rparr>) (gst_buffer_of [1, 2, 3]) = Some (vp', pkts) \<and>
     rs_decode 1 2 11 ((map (\<lambda>q. drop 32 (gb_data q)) pkts)[0 := replicate 11 0, 1 := replicate 11 0]) [1, 1, 0] = Some out \<and>
     take 3 (drop 8 (concat (take 1 out))) = [1, 2, 3]"
proof -
  let ?vp = "video_init\<lparr>vp_payload_size := 27\<rparr>" and ?f = "gst_buffer_of [1, 2, 3]" and ?m = "[1, 1, 0] :: bytes"
  have ok: "video_ok ?vp" "vp_add_padding ?vp" "0 < vp_fec_percentage ?vp" by (simp_all add: video_init_def video_ok_def)
  have f: "gst_buffer_get_size ?f = 3" by (simp add: gst_buffer_get_size_def)
  have n: "packet_count ?vp 11 = 1" "parity_count ?vp (Suc 0) = 2" "payload_room ?vp = 11"
    by (simp_all add: packet_count_def payload_room_def parity_count_def video_init_def)
  have m: "rs_recoverable 1 2 ?m" by code_simp
  have small: "gst_buffer_get_size ?f + 8 < 2 ^ 24" "1 = packet_count ?vp (gst_buffer_get_size ?f + 8)"
    "2 = parity_count ?vp 1" by (simp_all add: f n)
  obtain vp' pkts where s: "split_into_rtp ?vp ?f = Some (vp', pkts)" using split_fec [OF ok(1,3) small(1)] by metis
  let ?t = "map (\<lambda>q. drop 32 (gb_data q)) pkts"
  let ?d = "?t[0 := replicate 11 0, 1 := replicate 11 0]"
  have rec: "uniform (1 + 2) 11 ?t \<and> (\<forall>damaged. received damaged ?t ?m 11 \<longrightarrow>
      (\<exists>out. rs_decode 1 2 11 damaged ?m = Some out \<and> take 3 (drop 8 (concat (take 1 out))) = [1, 2, 3]))"
    using video_loss_recovery [OF ok small _ _ s m, unfolded f n(3)] by simp
  then have "length ?t = 3" "\<forall>k<3. length (?t ! k) = 11" by (auto simp: uniform_def)
  then have "received ?d ?t ?m 11"
    by (auto simp: received_def nth_list_update less_Suc_eq numeral_3_eq_3)
  with rec s show ?thesis by blast
qed

section \<open>What the header tells the receiver\<close>

lemma high_bits: "n < 2 ^ m \<Longrightarrow> m \<le> k \<Longrightarrow> \<not> bit (n :: nat) k"
  by (metis bit_take_bit_iff not_less take_bit_nat_eq_self_iff)

text \<open>
  The \<open>fecInfo\<close> word packs three numbers that can be read back: the shard index, the number of data
  shards and the percentage, as long as each fits its field of 10, 10 and 8 bits.
\<close>

theorem fec_info_fields:
  assumes "i < 1024" "d < 1024" "0 \<le> pct" "pct < 256"
  shows "let w = nv_fecInfo (read_headers (update_fec_info vp b i d pct blk lst)) in
    unat (drop_bit 22 w) = d \<and> unat (take_bit 10 (drop_bit 12 w)) = i \<and> uint (take_bit 8 (drop_bit 4 w)) = pct"
proof -
  define w where "w = nv_fecInfo (read_headers (update_fec_info vp b i d pct blk lst))"
  define n where "n = nat pct"
  have n: "n < 256" "pct = int n" using assms by (simp_all add: n_def)
  define iw dw nw where "iw = (word_of_nat i :: u32)" and "dw = (word_of_nat d :: u32)" and "nw = (word_of_nat n :: u32)"
  have high: "\<not> bit iw k" "\<not> bit dw k" if "10 \<le> k" for k
    using that assms(1,2) high_bits [of i 10 k] high_bits [of d 10 k] by (auto simp: iw_def dw_def bit_simps)
  have highn: "\<not> bit nw k" if "8 \<le> k" for k using that n high_bits [of n 8 k] by (auto simp: nw_def bit_simps)
  have w: "w = push_bit 12 iw OR push_bit 22 dw OR push_bit 4 nw"
    unfolding w_def by (simp add: update_fec_info_def iw_def dw_def nw_def n)
  have small: "k < 10" if "bit iw k" for k using that high not_less by blast
  have smalld: "k < 10" if "bit dw k" for k using that high not_less by blast
  have smalln: "k < 8" if "bit nw k" for k using that highn not_less by blast
  have "drop_bit 22 w = dw"
    unfolding w by (rule bit_word_eqI) (auto simp: bit_simps dest: small smalld smalln)
  moreover have "take_bit 10 (drop_bit 12 w) = iw"
    unfolding w by (rule bit_word_eqI) (auto simp: bit_simps dest: small smalld smalln)
  moreover have "take_bit 8 (drop_bit 4 w) = nw"
    unfolding w by (rule bit_word_eqI) (auto simp: bit_simps dest: small smalld smalln)
  moreover have "uint nw = int n" using n by (simp add: nw_def uint_nat unat_of_nat)
  ultimately show ?thesis
    unfolding Let_def w_def [symmetric] using assms n by (simp add: iw_def dw_def unat_of_nat)
qed

text \<open>
  The receiver recomputes the number of parity packets as \<open>(data * percentage + 99) / 100\<close>. For
  blocks of up to 100 data packets this is the number that was sent, also where the percentage was
  raised to reach the required minimum.
\<close>

theorem advertised_parity:
  assumes "video_ok vp" "0 < d" "d \<le> 100"
  shows "\<exists>b. determine_split vp d = Some b \<and> bl_data_shards b = d \<and>
    (int d * bl_fec_percentage b + 99) div 100 = bl_parity_shards b"
proof -
  define m where "m = vp_min_required_fec_packets vp"
  have m: "0 \<le> m" using assms by (simp add: m_def video_ok_def)
  have "(int d * (100 * m div int d) + 99) div 100 = m"
  proof -
    define r where "r = 100 * m mod int d"
    have e: "int d * (100 * m div int d) = 100 * m - r"
      by (simp add: r_def minus_mod_eq_mult_div)
    have "0 \<le> r" "r < int d" using assms(2) by (simp_all add: r_def)
    then have "0 \<le> r" "r \<le> 99" using assms(3) by linarith+
    then have "(100 * m - r + 99) div 100 = m" by linarith
    with e show ?thesis by simp
  qed
  moreover have "0 \<le> (int d * vp_fec_percentage vp + 99) div 100"
  proof -
    have "0 \<le> int d * vp_fec_percentage vp" using assms by (simp add: video_ok_def)
    then show ?thesis by simp
  qed
  ultimately show ?thesis
    using determine_split_eq [OF assms(1,2)] m
    by (auto simp: advertised_percentage_def parity_count_def m_def max_def)
qed

lemma advertised_parity_witness:
  "\<exists>b. determine_split video_init 3 = Some b \<and> bl_data_shards b = 3 \<and>
    (int 3 * bl_fec_percentage b + 99) div 100 = bl_parity_shards b"
  by (rule advertised_parity) (simp_all add: video_init_def video_ok_def)

lemma fec_info_fields_witness:
  "uint (take_bit 8 (drop_bit 4 (nv_fecInfo (read_headers (update_fec_info video_init (replicate 32 0) 2 3 66 0 0))))) = 66"
  using fec_info_fields [of 2 3 66 video_init "replicate 32 0" 0 0] by (simp add: Let_def)

text \<open>
  The minimum asked for by the client can break the header. A one-packet frame with a minimum of
  three parity packets is advertised with 300 percent; the ninth bit of that number lands in the shard
  index, so the receiver takes packet 0 for packet 1.
\<close>

theorem percentage_overflow:
  "let vp = video_init\<lparr>vp_payload_size := 27, vp_min_required_fec_packets := 3\<rparr> in
   case split_into_rtp vp (gst_buffer_of [1, 2, 3]) of None \<Rightarrow> False
   | Some (_, pkts) \<Rightarrow> length pkts = 4 \<and>
      unat (take_bit 10 (drop_bit 12 (nv_fecInfo (read_headers (gb_data (pkts ! 0)))))) = 1 \<and>
      unat (take_bit 10 (drop_bit 12 (nv_fecInfo (read_headers (gb_data (pkts ! 1)))))) = 1"
  by code_simp

section \<open>Where the element stops working\<close>

text \<open>
  Payload sizes the property range allows but the code cannot handle. With 16 the first frame
  divides by zero; below 16 no packet is produced and sizing the parity divides by zero too, whenever
  correction is on and a minimum is set (the default).
\<close>

theorem tiny_payload_crashes:
  assumes "0 \<le> vp_payload_size vp" "vp_payload_size vp \<le> 16"
    and "vp_payload_size vp = 16 \<or> 0 < vp_fec_percentage vp \<and> 0 < vp_min_required_fec_packets vp"
  shows "split_into_rtp vp f = None"
proof (cases "vp_payload_size vp = 16")
  case True
  then show ?thesis by (simp add: split_into_rtp_def prepend_video_header_def nv_video_packet_size_def)
next
  case False
  with assms have "generate_rtp_packets vp b = Some []" for b
    by (simp add: generate_rtp_packets_def Let_def MAX_RTP_HEADER_SIZE_def)
  moreover have "determine_split vp 0 = None" using assms False by (simp add: determine_split_def)
  ultimately show ?thesis using assms False by (auto simp: split_into_rtp_def split: option.splits)
qed

lemma tiny_payload_crashes_witness:
  "split_into_rtp (video_init\<lparr>vp_payload_size := 16\<rparr>) (gst_buffer_of [1]) = None \<and>
   split_into_rtp (video_init\<lparr>vp_payload_size := 7\<rparr>) (gst_buffer_of [1]) = None"
  using tiny_payload_crashes [of "video_init\<lparr>vp_payload_size := 16\<rparr>"]
    tiny_payload_crashes [of "video_init\<lparr>vp_payload_size := 7\<rparr>"]
  by (simp add: video_init_def)

end
