(* ===== verification/AudioPay.thy ===== *)
theory AudioPay
  imports Crypto RS_Recovery
begin

unbundle bit_operations_syntax

text \<open>
  The audio payloader: \<open>gst-plugin/audio.hpp\<close> and the element \<open>gstrtpmoonlightpay_audio.cpp\<close>. Each
  buffer becomes one RTP packet, encrypted when that is switched on; every fourth packet is followed
  by two parity packets over the last four. \<open>cbc\<close> stands for AES-128-CBC with padding. \<open>None\<close> is an
  exception or a write outside the packet buffer.
\<close>

section \<open>The element\<close>

definition AUDIO_DATA_SHARDS :: nat where "AUDIO_DATA_SHARDS = 4"
definition AUDIO_FEC_SHARDS :: nat where "AUDIO_FEC_SHARDS = 2"
definition AUDIO_TOTAL_SHARDS :: nat where "AUDIO_TOTAL_SHARDS = AUDIO_DATA_SHARDS + AUDIO_FEC_SHARDS"
definition AUDIO_MAX_BLOCK_SIZE :: nat where "AUDIO_MAX_BLOCK_SIZE = 1400"
definition AUDIO_FEC_PARITY :: bytes where
  "AUDIO_FEC_PARITY = [0x77, 0x40, 0x38, 0x0e, 0xc7, 0xa7, 0x0d, 0x6c]"

record audio_pay =
  ap_cur_seq_number :: u16
  ap_encrypt :: bool
  ap_aes_key :: bytes
  ap_aes_iv :: string
  ap_packet_duration :: int
  ap_packets_buffer :: "bytes list"
  ap_rs :: reed_solomon

text \<open>\<open>rows\<close> is the uninitialised memory behind \<open>packets_buffer\<close>. \<open>None\<close>: the code has no structure to patch.\<close>

definition audio_init :: "bytes list \<Rightarrow> audio_pay option" where
  "audio_init rows =
     (case reed_solomon_new True (int AUDIO_DATA_SHARDS) (int AUDIO_FEC_SHARDS) of
        None \<Rightarrow> None
      | Some rs \<Rightarrow> Some \<lparr>ap_cur_seq_number = 0, ap_encrypt = True, ap_aes_key = [], ap_aes_iv = '''',
          ap_packet_duration = 5, ap_packets_buffer = rows,
          ap_rs = rs\<lparr>rs_p := patch (rs_p rs) 0 AUDIO_FEC_PARITY\<rparr>\<rparr>)"

datatype audio_property =
    PROP_AES_ENCRYPTION bool | PROP_AES_KEY string | PROP_AES_IV string | PROP_PACKET_DURATION int

fun audio_set_property :: "audio_property \<Rightarrow> audio_pay \<Rightarrow> audio_pay" where
  "audio_set_property (PROP_AES_ENCRYPTION b) ap = ap\<lparr>ap_encrypt := b\<rparr>"
| "audio_set_property (PROP_AES_KEY s) ap = ap\<lparr>ap_aes_key := the (hex_to_str s True)\<rparr>"
| "audio_set_property (PROP_AES_IV s) ap = ap\<lparr>ap_aes_iv := s\<rparr>"
| "audio_set_property (PROP_PACKET_DURATION v) ap =
     ap\<lparr>ap_packet_duration := (if v < 0 then 0 else if v > 60 then 60 else v)\<rparr>"

text \<open>The getter; the key goes through \<open>c_str\<close>, so a key with a zero byte is cut there.\<close>

fun audio_get_property :: "audio_property \<Rightarrow> audio_pay \<Rightarrow> audio_property" where
  "audio_get_property (PROP_AES_ENCRYPTION _) ap = PROP_AES_ENCRYPTION (ap_encrypt ap)"
| "audio_get_property (PROP_AES_KEY _) ap =
     PROP_AES_KEY (map (\<lambda>w. char_of (unat w)) (takeWhile (\<lambda>w. w \<noteq> 0) (ap_aes_key ap)))"
| "audio_get_property (PROP_AES_IV _) ap = PROP_AES_IV (takeWhile (\<lambda>c. c \<noteq> CHR 0x00) (ap_aes_iv ap))"
| "audio_get_property (PROP_PACKET_DURATION _) ap = PROP_PACKET_DURATION (ap_packet_duration ap)"

section \<open>Packets\<close>

definition RTP_HEADER_SIZE :: nat where "RTP_HEADER_SIZE = 12"

definition audio_create_rtp_header :: "audio_pay \<Rightarrow> gst_buffer" where
  "audio_create_rtp_header ap =
     (let timestamp = uint (ap_cur_seq_number ap) * ap_packet_duration ap in
      gst_buffer_of (rtp_bytes \<lparr>rp_header = 0x80, rp_packetType = 97, rp_sequenceNumber = ap_cur_seq_number ap,
        rp_timestamp = word_of_int timestamp, rp_ssrc = 0\<rparr>))"

record audio_fec_header =
  fh_fecShardIndex :: u8
  fh_payloadType :: u8
  fh_baseSequenceNumber :: u16
  fh_baseTimestamp :: u32
  fh_ssrc :: u32

definition fec_header_bytes :: "audio_fec_header \<Rightarrow> bytes" where
  "fec_header_bytes h = [fh_fecShardIndex h, fh_payloadType h] @ be16 (fh_baseSequenceNumber h) @
     be32 (fh_baseTimestamp h) @ le32 (fh_ssrc h)"

definition read_fec_header :: "bytes \<Rightarrow> audio_fec_header" where
  "read_fec_header b = \<lparr>fh_fecShardIndex = b ! 0, fh_payloadType = b ! 1,
     fh_baseSequenceNumber = get_be16 (drop 2 b), fh_baseTimestamp = get_be32 (drop 4 b), fh_ssrc = get_le32 (drop 8 b)\<rparr>"

definition create_rtp_fec_header :: "audio_pay \<Rightarrow> nat \<Rightarrow> gst_buffer" where
  "create_rtp_fec_header ap fec_packet_idx =
     (let base_seq_num = uint (ap_cur_seq_number ap) - (int AUDIO_DATA_SHARDS - 1);
          base_timestamp = base_seq_num * ap_packet_duration ap in
      gst_buffer_of
       (rtp_bytes \<lparr>rp_header = 0x80, rp_packetType = 127,
          rp_sequenceNumber = ap_cur_seq_number ap + word_of_nat fec_packet_idx, rp_timestamp = 0, rp_ssrc = 0\<rparr> @
        fec_header_bytes \<lparr>fh_fecShardIndex = word_of_nat fec_packet_idx, fh_payloadType = 97,
          fh_baseSequenceNumber = word_of_int base_seq_num, fh_baseTimestamp = word_of_int base_timestamp,
          fh_ssrc = 0\<rparr>))"

definition create_rtp_audio_buffer ::
  "(bytes \<Rightarrow> bytes \<Rightarrow> bytes \<Rightarrow> bytes) \<Rightarrow> audio_pay \<Rightarrow> gst_buffer \<Rightarrow> gst_buffer option" where
  "create_rtp_audio_buffer cbc ap inbuf =
     (let payload =
        (if ap_encrypt ap then
           (case derive_iv (ap_aes_iv ap) (uint (ap_cur_seq_number ap)) of
              None \<Rightarrow> None
            | Some derived_iv \<Rightarrow> Some (encrypt_payload cbc (ap_aes_key ap) derived_iv inbuf))
         else Some inbuf) in
      map_option (\<lambda>payload. gst_copy_timestamps inbuf (gst_buffer_append (audio_create_rtp_header ap) payload)) payload)"

definition audio_fec_packets :: "audio_pay \<Rightarrow> bytes list \<Rightarrow> nat \<Rightarrow> gst_buffer list" where
  "audio_fec_packets ap shards payload_size =
     map (\<lambda>i. gst_buffer_append (create_rtp_fec_header ap i)
       (gst_buffer_of (bslice (shards ! (AUDIO_DATA_SHARDS + i)) RTP_HEADER_SIZE payload_size))) [0..<AUDIO_FEC_SHARDS]"

definition audio_split_into_rtp ::
  "(bytes \<Rightarrow> bytes \<Rightarrow> bytes \<Rightarrow> bytes) \<Rightarrow> audio_pay \<Rightarrow> gst_buffer \<Rightarrow> (audio_pay \<times> gst_buffer list) option" where
  "audio_split_into_rtp cbc ap inbuf =
     (let time_to_fec = ((unat (ap_cur_seq_number ap) + 1) mod AUDIO_DATA_SHARDS = 0);
          row = unat (ap_cur_seq_number ap) mod AUDIO_DATA_SHARDS in
      case create_rtp_audio_buffer cbc ap inbuf of None \<Rightarrow> None
      | Some rtp_audio_buf \<Rightarrow>
     (case gst_buffer_copy_into rtp_audio_buf (ap_packets_buffer ap ! row) of None \<Rightarrow> None
      | Some filled \<Rightarrow>
        let packets = (ap_packets_buffer ap)[row := filled];
            rtp_block_size = gst_buffer_get_size rtp_audio_buf;
            payload_size = rtp_block_size - RTP_HEADER_SIZE;
            shards = (if time_to_fec
              then snd (reed_solomon_encode (ap_rs ap) packets (int AUDIO_TOTAL_SHARDS) rtp_block_size) else packets);
            fec = (if time_to_fec then audio_fec_packets ap shards payload_size else []) in
        Some (ap\<lparr>ap_packets_buffer := shards, ap_cur_seq_number := ap_cur_seq_number ap + 1\<rparr>, rtp_audio_buf # fec)))"

definition audio_generate_output :: "(bytes \<Rightarrow> bytes \<Rightarrow> bytes \<Rightarrow> bytes) \<Rightarrow> audio_pay \<Rightarrow> gst_buffer option \<Rightarrow>
    (bool \<times> audio_pay \<times> gst_buffer list) option" where
  "audio_generate_output cbc ap queued =
     (case queued of None \<Rightarrow> Some (True, ap, [])
      | Some inbuf \<Rightarrow> map_option (\<lambda>(ap, pkts). (False, ap, pkts)) (audio_split_into_rtp cbc ap inbuf))"

text \<open>The first component is true for \<open>GST_FLOW_OK\<close>, false for \<open>GST_BASE_TRANSFORM_FLOW_DROPPED\<close>.\<close>

primrec audio_stream ::
  "(bytes \<Rightarrow> bytes \<Rightarrow> bytes \<Rightarrow> bytes) \<Rightarrow> audio_pay \<Rightarrow> gst_buffer list \<Rightarrow> (audio_pay \<times> gst_buffer list) option" where
  "audio_stream cbc ap [] = Some (ap, [])"
| "audio_stream cbc ap (f # fs) =
     (case audio_split_into_rtp cbc ap f of None \<Rightarrow> None
      | Some (ap, pkts) \<Rightarrow> map_option (\<lambda>(ap, rest). (ap, pkts @ rest)) (audio_stream cbc ap fs))"

section \<open>Lemmas\<close>

lemma length_fec_header [simp]: "length (fec_header_bytes h) = 12"
  by (simp add: fec_header_bytes_def)

lemma read_fec_header_bytes [simp]: "read_fec_header (fec_header_bytes h @ r) = h"
  by (simp add: fec_header_bytes_def read_fec_header_def)

text \<open>The well-formed element: six rows, the structure for four and two shards with the fixed matrix.\<close>

definition audio_ok :: "audio_pay \<Rightarrow> bool" where
  "audio_ok ap \<longleftrightarrow> length (ap_packets_buffer ap) = AUDIO_TOTAL_SHARDS \<and>
     (\<forall>r\<in>set (ap_packets_buffer ap). length r = AUDIO_MAX_BLOCK_SIZE) \<and>
     rs_ds (ap_rs ap) = AUDIO_DATA_SHARDS \<and> rs_ps (ap_rs ap) = AUDIO_FEC_SHARDS \<and>
     rs_ts (ap_rs ap) = AUDIO_TOTAL_SHARDS \<and> take 8 (rs_p (ap_rs ap)) = AUDIO_FEC_PARITY \<and>
     (ap_encrypt ap \<longrightarrow> stoul (ap_aes_iv ap) \<noteq> None)"

lemmas audio_consts = AUDIO_DATA_SHARDS_def AUDIO_FEC_SHARDS_def AUDIO_TOTAL_SHARDS_def
  AUDIO_MAX_BLOCK_SIZE_def RTP_HEADER_SIZE_def

definition audio_payload :: "(bytes \<Rightarrow> bytes \<Rightarrow> bytes \<Rightarrow> bytes) \<Rightarrow> audio_pay \<Rightarrow> gst_buffer \<Rightarrow> bytes" where
  "audio_payload cbc ap f = (if ap_encrypt ap
     then cbc (gb_data f) (ap_aes_key ap) (the (derive_iv (ap_aes_iv ap) (uint (ap_cur_seq_number ap)))) else gb_data f)"

lemma create_rtp_audio_buffer_eq:
  assumes "audio_ok ap"
  shows "\<exists>b. create_rtp_audio_buffer cbc ap f = Some b \<and>
    gb_data b = gb_data (audio_create_rtp_header ap) @ audio_payload cbc ap f \<and> gb_ts b = gb_ts f"
  using assms
  by (auto simp: audio_ok_def create_rtp_audio_buffer_def Let_def audio_payload_def derive_iv_def encrypt_payload_def)

lemma length_audio_header [simp]: "length (gb_data (audio_create_rtp_header ap)) = 12"
  by (simp add: audio_create_rtp_header_def Let_def)

definition audio_seq :: "gst_buffer \<Rightarrow> u16" where
  "audio_seq b = rp_sequenceNumber (read_rtp (gb_data b))"

definition audio_type :: "gst_buffer \<Rightarrow> u8" where
  "audio_type b = rp_packetType (read_rtp (gb_data b))"

text \<open>
  What a step does to the rows: the packet is stored in its row, the other data rows stay, and the
  parity packets are linear combinations of the rows behind the RTP header.
\<close>

definition audio_rows_step ::
  "(bytes \<Rightarrow> bytes \<Rightarrow> bytes \<Rightarrow> bytes) \<Rightarrow> audio_pay \<Rightarrow> gst_buffer \<Rightarrow> audio_pay \<Rightarrow> gst_buffer \<Rightarrow> gst_buffer list \<Rightarrow> bool" where
  "audio_rows_step cbc ap f ap' b fec \<longleftrightarrow>
     (let row = unat (ap_cur_seq_number ap) mod 4 in
      ap_encrypt ap' = ap_encrypt ap \<and> ap_aes_key ap' = ap_aes_key ap \<and> ap_aes_iv ap' = ap_aes_iv ap \<and>
      (\<forall>i<4. i \<noteq> row \<longrightarrow> ap_packets_buffer ap' ! i = ap_packets_buffer ap ! i) \<and>
      take (length (gb_data b)) (ap_packets_buffer ap' ! row) = gb_data b \<and>
      (\<forall>j<length fec. \<exists>pl. gb_data (fec ! j) = gb_data (create_rtp_fec_header ap j) @ pl \<and>
         length pl = length (audio_payload cbc ap f) \<and>
         (\<forall>t<length pl. to_gf (pl ! t)
            = (\<Sum>i<4. to_gf (AUDIO_FEC_PARITY ! (j * 4 + i)) * to_gf (ap_packets_buffer ap' ! i ! (12 + t))))))"

text \<open>One step, with everything it does to the buffer of rows.\<close>

lemma audio_split_cases:
  assumes ok: "audio_ok ap"
  shows "audio_split_into_rtp cbc ap f = None \<longleftrightarrow> 12 + length (audio_payload cbc ap f) > AUDIO_MAX_BLOCK_SIZE"
    and "12 + length (audio_payload cbc ap f) \<le> AUDIO_MAX_BLOCK_SIZE \<Longrightarrow>
      \<exists>ap' b fec. audio_split_into_rtp cbc ap f = Some (ap', b # fec) \<and> audio_ok ap' \<and>
        ap_cur_seq_number ap' = ap_cur_seq_number ap + 1 \<and>
        gb_data b = gb_data (audio_create_rtp_header ap) @ audio_payload cbc ap f \<and> gb_ts b = gb_ts f \<and>
        length fec = (if (unat (ap_cur_seq_number ap) + 1) mod 4 = 0 then 2 else 0) \<and>
        audio_rows_step cbc ap f ap' b fec"
proof -
  define row where "row = unat (ap_cur_seq_number ap) mod AUDIO_DATA_SHARDS"
  obtain b where b: "create_rtp_audio_buffer cbc ap f = Some b"
    "gb_data b = gb_data (audio_create_rtp_header ap) @ audio_payload cbc ap f" "gb_ts b = gb_ts f"
    using create_rtp_audio_buffer_eq [OF ok] by blast
  have sz: "gst_buffer_get_size b = 12 + length (audio_payload cbc ap f)" by (simp add: gst_buffer_get_size_def b)
  have r: "row < 4" by (simp add: row_def audio_consts)
  have rows: "length (ap_packets_buffer ap) = 6" "\<forall>r\<in>set (ap_packets_buffer ap). length r = 1400"
    using ok by (simp_all add: audio_ok_def audio_consts)
  then have rl: "length (ap_packets_buffer ap ! row) = 1400" using r by simp
  show "audio_split_into_rtp cbc ap f = None \<longleftrightarrow> 12 + length (audio_payload cbc ap f) > AUDIO_MAX_BLOCK_SIZE"
    using rl sz by (simp add: audio_split_into_rtp_def b gst_buffer_copy_into_def Let_def audio_consts flip: row_def [simplified audio_consts])
  assume fit: "12 + length (audio_payload cbc ap f) \<le> AUDIO_MAX_BLOCK_SIZE"
  define filled where "filled = patch (ap_packets_buffer ap ! row) 0 (gb_data b)"
  define packets where "packets = (ap_packets_buffer ap)[row := filled]"
  have fl: "length filled = 1400" using rl sz fit by (simp add: filled_def audio_consts gst_buffer_get_size_def)
  have pk: "length packets = 6" "\<forall>r\<in>set packets. length r = 1400"
    using rows fl r by (auto simp: packets_def dest: set_update_subset_insert [THEN subsetD])
  have cp: "gst_buffer_copy_into b (ap_packets_buffer ap ! row) = Some filled"
    using rl sz fit by (simp add: gst_buffer_copy_into_def filled_def audio_consts)
  define bs where "bs = gst_buffer_get_size b"
  define enc where "enc = snd (reed_solomon_encode (ap_rs ap) packets (int AUDIO_TOTAL_SHARDS) bs)"
  have enc_eq: "enc = gemm (rs_p (ap_rs ap)) packets 2 4 bs"
    using ok by (simp add: enc_def reed_solomon_encode_def audio_ok_def audio_consts)
  have "length (enc ! i) = 1400" if "i < 6" for i
  proof -
    note g = gemm_correct [of 2 4 packets, where a = "rs_p (ap_rs ap)" and m = bs, folded enc_eq]
    show ?thesis
    proof (cases "i < 4")
      case False
      have "bs \<le> 1400" using sz fit by (simp add: bs_def audio_consts)
      then have "length (gemm_row (rs_p (ap_rs ap)) packets (packets ! i) (i - 4) 4 bs) = 1400"
        using pk that by (simp add: gemm_row_correct(1))
      with g(4) [of "i - 4"] pk(1) that False show ?thesis by simp
    qed (use g(2) pk in simp)
  qed
  moreover have "length enc = 6" using gemm_correct(1) [of 2 4 packets] pk by (simp add: enc_eq)
  ultimately have en: "length enc = 6" "\<forall>r\<in>set enc. length r = 1400" by (auto simp: in_set_conv_nth)
  let ?fec = "(unat (ap_cur_seq_number ap) + 1) mod 4 = 0"
  let ?sh = "if ?fec then enc else packets"
  have "audio_split_into_rtp cbc ap f = Some (ap\<lparr>ap_packets_buffer := ?sh, ap_cur_seq_number := ap_cur_seq_number ap + 1\<rparr>,
      b # (if ?fec then audio_fec_packets ap enc (bs - 12) else []))"
    using cp by (simp add: audio_split_into_rtp_def b Let_def AUDIO_DATA_SHARDS_def RTP_HEADER_SIZE_def enc_def bs_def packets_def
        flip: row_def [simplified AUDIO_DATA_SHARDS_def])
  moreover have "audio_ok (ap\<lparr>ap_packets_buffer := ?sh, ap_cur_seq_number := ap_cur_seq_number ap + 1\<rparr>)"
    using ok pk en by (simp add: audio_ok_def audio_consts)
  moreover have rowsstep: "audio_rows_step cbc ap f (ap\<lparr>ap_packets_buffer := ?sh, ap_cur_seq_number := ap_cur_seq_number ap + 1\<rparr>)
      b (if ?fec then audio_fec_packets ap enc (bs - 12) else [])"
  proof -
    note g = gemm_correct [of 2 4 packets, where a = "rs_p (ap_rs ap)" and m = bs, folded enc_eq]
    have same: "?sh ! i = packets ! i" if "i < 4" for i using g(2) that pk(1) by simp
    have stored: "take (length (gb_data b)) (packets ! row) = gb_data b"
      using rows(1) r by (simp add: packets_def filled_def patch_def)
    have par: "rs_p (ap_rs ap) ! k = AUDIO_FEC_PARITY ! k" if "k < 8" for k
      using ok that by (metis audio_ok_def nth_take)
    have bs: "bs \<le> 1400" "bs = 12 + length (audio_payload cbc ap f)" using sz fit by (simp_all add: bs_def audio_consts)
    have "\<exists>pl. gb_data (audio_fec_packets ap enc (bs - 12) ! j) = gb_data (create_rtp_fec_header ap j) @ pl \<and>
         length pl = length (audio_payload cbc ap f) \<and>
         (\<forall>t<length pl. to_gf (pl ! t)
            = (\<Sum>i<4. to_gf (AUDIO_FEC_PARITY ! (j * 4 + i)) * to_gf (packets ! i ! (12 + t))))" if j: "j < 2" for j
    proof (intro exI conjI allI impI)
      let ?pl = "bslice (enc ! (4 + j)) 12 (bs - 12)"
      show "gb_data (audio_fec_packets ap enc (bs - 12) ! j) = gb_data (create_rtp_fec_header ap j) @ ?pl"
        using j by (simp add: audio_fec_packets_def AUDIO_FEC_SHARDS_def AUDIO_DATA_SHARDS_def RTP_HEADER_SIZE_def)
      have l: "length (enc ! (4 + j)) = 1400" using en j by simp
      then show "length ?pl = length (audio_payload cbc ap f)" using bs by simp
      fix t assume t: "t < length ?pl"
      then have t': "12 + t < bs" using l bs by simp
      have "to_gf (?pl ! t) = to_gf (enc ! (4 + j) ! (12 + t))" using t l bs by (simp add: nth_bslice)
      also have "\<dots> = (\<Sum>i<4. to_gf (rs_p (ap_rs ap) ! (j * 4 + i)) * to_gf (packets ! i ! (12 + t)))"
        using g(4) [of j] j pk t' bs(1) by (simp add: gemm_row_correct(2))
      also have "\<dots> = (\<Sum>i<4. to_gf (AUDIO_FEC_PARITY ! (j * 4 + i)) * to_gf (packets ! i ! (12 + t)))"
        using j by (intro sum.cong refl) (simp add: par)
      finally show "to_gf (?pl ! t) = (\<Sum>i<4. to_gf (AUDIO_FEC_PARITY ! (j * 4 + i)) * to_gf (packets ! i ! (12 + t)))" .
    qed
    then show ?thesis
      using same stored r unfolding audio_rows_step_def Let_def row_def [symmetric, simplified AUDIO_DATA_SHARDS_def]
      by (simp add: audio_fec_packets_def AUDIO_FEC_SHARDS_def packets_def)
  qed
  ultimately show "\<exists>ap' b fec. audio_split_into_rtp cbc ap f = Some (ap', b # fec) \<and> audio_ok ap' \<and>
        ap_cur_seq_number ap' = ap_cur_seq_number ap + 1 \<and>
        gb_data b = gb_data (audio_create_rtp_header ap) @ audio_payload cbc ap f \<and> gb_ts b = gb_ts f \<and>
        length fec = (if (unat (ap_cur_seq_number ap) + 1) mod 4 = 0 then 2 else 0) \<and>
        audio_rows_step cbc ap f ap' b fec"
    using b(2,3) rowsstep by (auto simp: audio_fec_packets_def AUDIO_FEC_SHARDS_def)
qed

end
