(* ===== verification/AudioPay_Props.thy ===== *)
theory AudioPay_Props
  imports AudioPay
begin

unbundle bit_operations_syntax






text \<open>
  The packet buffer can be overrun. Under encryption the payload grows to the next multiple of 16,
  so an Opus payload of 1376 bytes or more, which the encoder may produce, does not fit the 1400 byte
  row with its 12 byte header; nothing checks this before the copy.
\<close>

theorem audio_overrun:
  assumes "audio_ok ap" "ap_encrypt ap" "\<forall>m k iv. length (cbc m k iv) = (length m div 16 + 1) * 16"
  shows "audio_split_into_rtp cbc ap f = None \<longleftrightarrow> 1376 \<le> gst_buffer_get_size f"
proof -
  let ?l = "gst_buffer_get_size f"
  have "length (audio_payload cbc ap f) = (?l div 16 + 1) * 16"
    using assms(2,3) by (simp add: audio_payload_def gst_buffer_get_size_def)
  moreover have "12 + (?l div 16 + 1) * 16 > 1400 \<longleftrightarrow> 1376 \<le> ?l" by presburger
  ultimately show ?thesis
    using audio_split_cases(1) [OF assms(1), of cbc f] by (simp add: AUDIO_MAX_BLOCK_SIZE_def)
qed

section \<open>One block of four\<close>












section \<open>A concrete element\<close>

text \<open>A freshly initialised element is well formed once it has a numeric initialisation vector.\<close>

lemma audio_init_ok:
  assumes "length rows = 6" "\<forall>r\<in>set rows. length r = 1400" "stoul s \<noteq> None"
  obtains ap where "audio_init rows = Some ap" "audio_ok (ap\<lparr>ap_aes_iv := s\<rparr>)"
    "audio_ok (ap\<lparr>ap_encrypt := False\<rparr>)" "ap_cur_seq_number ap = 0" "ap_encrypt ap"
proof -
  have "case reed_solomon_new True (int AUDIO_DATA_SHARDS) (int AUDIO_FEC_SHARDS) of None \<Rightarrow> False
    | Some rs \<Rightarrow> rs_ds rs = 4 \<and> rs_ps rs = 2 \<and> rs_ts rs = 6 \<and> take 8 (patch (rs_p rs) 0 AUDIO_FEC_PARITY) = AUDIO_FEC_PARITY"
    by code_simp
  then obtain rs where "reed_solomon_new True (int AUDIO_DATA_SHARDS) (int AUDIO_FEC_SHARDS) = Some rs"
    "rs_ds rs = 4" "rs_ps rs = 2" "rs_ts rs = 6" "take 8 (patch (rs_p rs) 0 AUDIO_FEC_PARITY) = AUDIO_FEC_PARITY"
    by (auto split: option.splits)
  with that assms show ?thesis by (simp add: audio_init_def audio_ok_def audio_consts)
qed

definition demo_rows :: "bytes list" where
  "demo_rows = replicate 6 (replicate 1400 0)"

definition demo_audio :: audio_pay where
  "demo_audio = (the (audio_init demo_rows))\<lparr>ap_encrypt := False\<rparr>"

definition demo_secure :: audio_pay where
  "demo_secure = (the (audio_init demo_rows))\<lparr>ap_aes_iv := ''7''\<rparr>"

lemma demo_ok: "audio_ok demo_audio" "ap_cur_seq_number demo_audio = 0" "\<not> ap_encrypt demo_audio"
  "audio_ok demo_secure" "ap_encrypt demo_secure"
proof -
  have "stoul ''7'' \<noteq> None" by (simp add: stoul_def dec_value_def isspace_def isdigit_def)
  then obtain ap where "audio_init demo_rows = Some ap" "audio_ok (ap\<lparr>ap_aes_iv := ''7''\<rparr>)"
    "audio_ok (ap\<lparr>ap_encrypt := False\<rparr>)" "ap_cur_seq_number ap = 0" "ap_encrypt ap"
    using audio_init_ok [of demo_rows "''7''"] by (auto simp: demo_rows_def)
  then show "audio_ok demo_audio" "ap_cur_seq_number demo_audio = 0" "\<not> ap_encrypt demo_audio"
    "audio_ok demo_secure" "ap_encrypt demo_secure" by (simp_all add: demo_audio_def demo_secure_def)
qed


lemma audio_overrun_witness:
  "audio_split_into_rtp (\<lambda>m k iv. replicate ((length m div 16 + 1) * 16) 0) demo_secure (gst_buffer_of (replicate 1380 0)) = None"
  using audio_overrun [OF demo_ok(4,5), of "\<lambda>m k iv. replicate ((length m div 16 + 1) * 16) 0" "gst_buffer_of (replicate 1380 0)"]
  by (simp add: gst_buffer_get_size_def)


end
