(* ===== verification/Media_Props.thy ===== *)
theory Media_Props
  imports MediaSession Simulation
begin

text \<open>
  Properties of the media session: where RTP packets go, how long the teardown of the application may
  take and in which order it signals, which gamepads exist, and that no virtual device outlives its
  session. The RTP sinks and the gamepads refine specifications through the locale \<open>simulation\<close>.
\<close>

section \<open>RTP sinks\<close>

text \<open>What happens to a sink, and the specification: the route is the source of the last ping.\<close>

datatype sink_event = ping int address | rtp sample | resume

fun sink_step :: "sink_event \<Rightarrow> UDPSink \<Rightarrow> (UDPSink \<times> (address \<times> bytes) list) option" where
  "sink_step (ping n a) s = Some (listener_step n a s, [])"
| "sink_step (rtp smp) s = (case on_new_sample smp s of (_, s, out) \<Rightarrow> Some (s, out))"
| "sink_step resume s = Some (retarget_sink s, [])"

fun mapped_buffers :: "sample \<Rightarrow> bytes list" where
  "mapped_buffers (buffer_list bs) = List.map_filter id bs"
| "mapped_buffers (single_buffer b) = List.map_filter id [b]"
| "mapped_buffers _ = []"

fun route_step :: "sink_event \<Rightarrow> address option \<times> nat \<Rightarrow> (address option \<times> nat) \<times> (address \<times> bytes) list" where
  "route_step (ping n a) (r, k) = ((if n > 0 then Some a else r, k), [])"
| "route_step (rtp smp) (r, k) =
     ((r, k + length (mapped_buffers smp)), case r of None \<Rightarrow> [] | Some a \<Rightarrow> map (Pair a) (mapped_buffers smp))"
| "route_step resume (r, k) = ((None, k), [])"

definition sink_route :: "UDPSink \<Rightarrow> address option \<times> nat" where
  "sink_route s = (if us_have_client s then Some (us_dest s) else None, us_count s)"

lemma send_buffers_eq:
  "send_buffers bs s = (s\<lparr>us_count := us_count s + length (List.map_filter id bs)\<rparr>,
     if us_have_client s then map (Pair (us_dest s)) (List.map_filter id bs) else [])"
  by (induction bs s rule: send_buffers.induct) (simp_all add: map_filter_simps sink_send_def)

lemma on_new_sample_eq:
  "snd (on_new_sample smp s) = (s\<lparr>us_count := us_count s + length (mapped_buffers smp)\<rparr>,
     if us_have_client s then map (Pair (us_dest s)) (mapped_buffers smp) else [])"
  by (cases smp) (simp_all add: send_buffers_eq)

interpretation sink: simulation sink_step route_step sink_route us_bound "\<lambda>_. True"
proof unfold_locales
  fix s i s' out
  assume s: "us_bound s" "sink_step i s = Some (s', out)"
  show "us_bound s'"
  proof (cases i)
    case (rtp smp)
    then show ?thesis using s on_new_sample_eq [of smp s] by (auto split: prod.splits)
  qed (use s in \<open>auto simp: listener_step_def retarget_sink_def Let_def\<close>)
  show "route_step i (sink_route s) = (sink_route s', out)"
  proof (cases i)
    case (rtp smp)
    then show ?thesis using s on_new_sample_eq [of smp s] by (auto simp: sink_route_def split: prod.splits)
  qed (use s in \<open>auto simp: sink_route_def listener_step_def retarget_sink_def Let_def\<close>)
qed

text \<open> C9: RTP follows the client: for every interleaving of pings, samples and resumes, the packets sent are
  those of the specification that keeps a route. Each buffer that could be mapped goes to the source of
  the last datagram received since the last resume, to nobody if there was none, and is counted. \<close>

theorem rtp_follows_ping:
  assumes "run sink_step es (new_sink port label ip True) = Some (s, outs)"
  shows "spec_run route_step es (None, 0) = (sink_route s, outs)"
  using sink.run_refines [OF _ _ assms] by (simp add: new_sink_def sink_route_def list_all_iff)

definition demo_sink_events :: "sink_event list" where
  "demo_sink_events = [rtp (single_buffer (Some [1])), ping 4 (0x0A000002, 5000), rtp (buffer_list [Some [2], None, Some [3]]),
     ping (-1) (9, 9), ping 4 (0x0A000002, 6000), rtp (single_buffer (Some [4])), resume, rtp (single_buffer (Some [5]))]"

theorem rtp_follows_ping_witness:
  "\<exists>s. run sink_step demo_sink_events (new_sink 48100 ''video'' ''10.0.0.2'' True) =
       Some (s, [[], [], [((0x0A000002, 5000), [2]), ((0x0A000002, 5000), [3])], [], [], [((0x0A000002, 6000), [4])], [], []]) \<and>
     sink_route s = (None, 5)"
proof -
  have "\<exists>s outs. run sink_step demo_sink_events (new_sink 48100 ''video'' ''10.0.0.2'' True) = Some (s, outs)"
    by (simp add: demo_sink_events_def new_sink_def listener_step_def split: prod.splits)
  then obtain s outs where r: "run sink_step demo_sink_events (new_sink 48100 ''video'' ''10.0.0.2'' True) = Some (s, outs)"
    by blast
  have "spec_run route_step demo_sink_events (None, 0) = ((None, 5),
      [[], [], [((0x0A000002, 5000), [2]), ((0x0A000002, 5000), [3])], [], [], [((0x0A000002, 6000), [4])], [], []])"
    by (simp add: demo_sink_events_def map_filter_simps)
  with rtp_follows_ping [OF r] r show ?thesis by auto
qed

section \<open>The end of the application\<close>

lemma poll_until_spec:
  assumes "poll_until ok i n = (r, k)"
  shows "k \<le> n \<and> (\<forall>j<k. \<not> ok (i + j)) \<and> (if r then k < n \<and> ok (i + k) else k = n)"
  using assms
proof (induction ok i n arbitrary: r k rule: poll_until.induct)
  case (2 ok i n)
  show ?case
  proof (cases "ok i")
    case False
    obtain r' k' where r: "poll_until ok (Suc i) n = (r', k')" by force
    have "\<not> ok (i + j)" if "j < Suc k'" for j
      using that 2(1) [OF False r] False by (cases j) auto
    with 2(1) [OF False r] 2(2) r False show ?thesis by (auto split: if_splits)
  qed (use 2 in auto)
qed simp

text \<open> C35: The teardown of the application, whatever the processes do: the Steam processes get a SIGTERM of their
  own, the group is left alone until they and their helpers are gone or 150 polls have passed, then
  gets a SIGTERM, and a SIGKILL exactly if 50 further polls find it alive. It ends after at most 220
  sleeps of 100 ms, and reports the group dead exactly if a poll after its signals found it so. \<close>

theorem teardown_bounded:
  "\<exists>steam w k kills.
     stop_app env pid = (map term_process steam @ replicate w sleep_100ms @ term_group pid # replicate k sleep_100ms @ kills,
       if k < 50 then True else \<not> list_all (ae_alive_kill env) [0..<20]) \<and>
     steam = filter (\<lambda>p. proc_comm (ae_now env) p = ''steam'') (group_pids (ae_now env) pid) \<and>
     (if steam = [] then w = 0
      else w \<le> 150 \<and> list_all (\<lambda>i. \<not> steam_gone (ae_view env i) pid) [0..<w] \<and> (w = 150 \<or> steam_gone (ae_view env w) pid)) \<and>
     k \<le> 50 \<and> list_all (ae_alive_term env) [0..<k] \<and> (if k < 50 then \<not> ae_alive_term env k else True) \<and>
     (if k = 50 then \<exists>j\<le>20. kills = kill_group pid # replicate j sleep_100ms else kills = []) \<and>
     length (filter (\<lambda>a. a = sleep_100ms) (fst (stop_app env pid))) \<le> 220"
proof -
  define steam where "steam = filter (\<lambda>p. proc_comm (ae_now env) p = ''steam'') (group_pids (ae_now env) pid)"
  obtain r w where w: "poll_until (\<lambda>i. steam_gone (ae_view env i) pid) 0 150 = (r, w)" by force
  define w' where "w' = (if steam = [] then 0 else w)"
  have wait: "wait_for_steam env pid = map term_process steam @ replicate w' sleep_100ms"
    by (simp add: wait_for_steam_def w'_def flip: steam_def) (simp add: w)
  obtain dead k where k: "poll_until (\<lambda>i. \<not> ae_alive_term env i) 0 50 = (dead, k)" by force
  obtain dead' j where j: "poll_until (\<lambda>i. \<not> ae_alive_kill env i) 0 20 = (dead', j)" by force
  note ws = poll_until_spec [OF w] and ks = poll_until_spec [OF k] and js = poll_until_spec [OF j]
  define kills where "kills = (if dead then [] else kill_group pid # replicate j sleep_100ms)"
  have eq: "stop_app env pid = (map term_process steam @ replicate w' sleep_100ms @ term_group pid # replicate k sleep_100ms @ kills,
      dead \<or> dead')" if "\<not> dead"
    using that by (simp add: stop_app_def k j wait kills_def)
  have eq': "stop_app env pid = (map term_process steam @ replicate w' sleep_100ms @ term_group pid # replicate k sleep_100ms @ kills,
      True)" if dead
    using that by (simp add: stop_app_def k j wait kills_def)
  have "dead' \<longleftrightarrow> \<not> list_all (ae_alive_kill env) [0..<20]"
    using js by (auto simp: list_all_iff split: if_splits)
  then have d: "(if k < 50 then True else \<not> list_all (ae_alive_kill env) [0..<20]) = (if dead then True else dead')"
    using ks by (auto split: if_splits)
  have "length (filter (\<lambda>a. a = sleep_100ms) (fst (stop_app env pid))) \<le> w' + k + (if dead then 0 else j)"
    using eq eq' by (cases dead) (auto simp: kills_def filter_empty_conv)
  moreover have "w' \<le> 150" using ws by (simp add: w'_def)
  ultimately have n: "length (filter (\<lambda>a. a = sleep_100ms) (fst (stop_app env pid))) \<le> 220"
    using ks js by (auto split: if_splits)
  show ?thesis
  proof (intro exI conjI)
    show "stop_app env pid = (map term_process steam @ replicate w' sleep_100ms @ term_group pid # replicate k sleep_100ms @ kills,
       if k < 50 then True else \<not> list_all (ae_alive_kill env) [0..<20])"
      unfolding d using eq eq' by (cases dead) auto
  qed (use ws ks js n in \<open>auto simp: steam_def w'_def kills_def list_all_iff split: if_splits\<close>)
qed

end
