(* ===== verification/Rtsp_Props.thy ===== *)
theory Rtsp_Props
  imports Rtsp VideoPay_Props
begin

text \<open>
  Properties of the RTSP server: requests are put together from any pieces once the length line has
  arrived, and cut off when a read ends inside it; the surround parameters describe the encoder's
  channel order; what the verbs change; and a negotiated packet size that the video element cannot
  handle.
\<close>

section \<open>Reassembly\<close>












text \<open> A read that ends too early is taken for the whole request: if what has arrived does not yet contain the
  key, or ends inside the number of its line, it is parsed as it is, although more is on its way. \<close>

theorem early_read_truncates:
  assumes "case find_sub content_length_key (prev @ piece) of None \<Rightarrow> True
    | Some p \<Rightarrow> find_sub crlf (drop (p + 16) (prev @ piece)) = None \<and>
        (\<exists>n. stoi (drop (p + 16) (prev @ piece)) = Some (int n) \<and> n < length (prev @ piece))"
  shows "read_step prev (Some piece) = read_message (prev @ piece)"
proof (cases "find_sub content_length_key (prev @ piece)")
  case None
  then show ?thesis by (simp add: read_step_def announced_length_def Let_def)
next
  case (Some p)
  then obtain n where n: "find_sub crlf (drop (p + 16) (prev @ piece)) = None"
    "stoi (drop (p + 16) (prev @ piece)) = Some (int n)" "n < length (prev @ piece)" using assms by auto
  have "int n < 2 ^ 31" using n(2) by (auto simp: stoi_def split: if_splits)
  have "int n + (2 ^ 64 - 1) + 2 = (int n + 1) + 2 ^ 64" by simp
  then have "(int n + (2 ^ 64 - 1) + 2) mod 2 ^ 64 = (int n + 1) mod 2 ^ 64" by (simp only: mod_add_self2)
  also have "\<dots> = int n + 1" using \<open>int n < 2 ^ 31\<close> by (intro mod_pos_pos_trivial) simp_all
  finally have "(int n + (2 ^ 64 - 1) + 2) mod 2 ^ 64 = int n + 1" .
  with n Some show ?thesis by (simp add: read_step_def announced_length_def Let_def)
qed

theorem early_read_truncates_witness:
  "read_step '''' (Some ''ANNOUNCE streamid=video RTSP/1.0'') = read_message ''ANNOUNCE streamid=video RTSP/1.0'' \<and>
   read_step '''' (Some ''ANNOUNCE s=v RTSP/1.0 Content-length: 11'') = read_message ''ANNOUNCE s=v RTSP/1.0 Content-length: 11''"
proof
  have "find_sub content_length_key ''ANNOUNCE streamid=video RTSP/1.0'' = None" by code_simp
  then show "read_step '''' (Some ''ANNOUNCE streamid=video RTSP/1.0'') = read_message ''ANNOUNCE streamid=video RTSP/1.0''"
    using early_read_truncates [of "''''" "''ANNOUNCE streamid=video RTSP/1.0''"] by simp
  define x where "x = ''ANNOUNCE s=v RTSP/1.0 Content-length: 11''"
  have "find_sub content_length_key x = Some 22" "find_sub crlf (drop (22 + 16) x) = None"
    "stoi (drop (22 + 16) x) = Some (int 11)" "11 < length x" unfolding x_def by code_simp+
  then have "read_step '''' (Some x) = read_message ('''' @ x)"
    by (intro early_read_truncates) (simp only: append_Nil option.case, blast)
  then show "read_step '''' (Some ''ANNOUNCE s=v RTSP/1.0 Content-length: 11'') = read_message ''ANNOUNCE s=v RTSP/1.0 Content-length: 11''"
    by (simp add: x_def)
qed

section \<open>What is announced\<close>

text \<open>Moonlight undoes the rotation by moving the last digit back to index 3.\<close>

definition unrotate :: "nat list \<Rightarrow> nat list" where
  "unrotate ds = (if length ds > 2 then take 3 ds @ [last ds] @ butlast (drop 3 ds) else ds)"

text \<open> The surround parameters describe what the encoder sends: for every layout, the digits of the mapping,
  put back in order the way the client does, are the coded channel of each speaker, a permutation of the
  channels, and the stream counts add up to the channels. Any number of channels a client asks for ends
  up as one of the layouts. \<close>

theorem surround_params:
  "list_all (\<lambda>c. let m = unrotate (map (\<lambda>ch. of_char ch - 48) (speaker_string c)) in
      m = opus_mapping (au_channels c) \<and> sort m = [0..<nat (au_channels c)] \<and>
      au_streams c + au_coupled_streams c = au_channels c) configurations \<and>
   for_channels n \<in> set configurations \<and> au_channels (for_channels n) = (if n \<in> {2, 6, 8} then n else 2)"
proof (intro conjI)
  show "list_all (\<lambda>c. let m = unrotate (map (\<lambda>ch. of_char ch - 48) (speaker_string c)) in
      m = opus_mapping (au_channels c) \<and> sort m = [0..<nat (au_channels c)] \<and>
      au_streams c + au_coupled_streams c = au_channels c) configurations" by code_simp
qed (auto simp: for_channels_def configurations_def)

text \<open>What identifies a session.\<close>

definition session_identity :: "StreamSession \<Rightarrow> nat \<times> string \<times> string \<times> string \<times> string \<times> u32" where
  "session_identity s = (session_id s, client_ip s, rtsp_fake_ip s, s_aes_key s, s_aes_iv s, enet_secret_payload s)"

text \<open> The verbs: each request is answered with its own sequence number, by 404 exactly if the verb or the
  stream to set up is unknown; no verb changes what identifies the session, only ANNOUNCE changes its
  parameters, and only PLAY starts the stream, whether or not there was an ANNOUNCE before. \<close>

theorem verb_effects:
  "let (s', reply, plays) = message_handler req s; cmd = rq_cmd (rp_request req) in
   rp_type reply = RESPONSE \<and> rp_seq_number reply = rp_seq_number req \<and>
   rs_status_code (rp_response reply) =
     (if cmd = ''SETUP'' then if st_type (rq_stream (rp_request req)) \<in> {''audio'', ''video'', ''control''} then 200 else 404
      else if cmd \<in> {''OPTIONS'', ''DESCRIBE'', ''ANNOUNCE'', ''PLAY''} then 200 else 404) \<and>
   session_identity s' = session_identity s \<and>
   (if cmd = ''ANNOUNCE'' then announced s' else (s_video s', s_audio s', announced s') = (s_video s, s_audio s, announced s)) \<and>
   plays = (cmd = ''PLAY'')"
  by (auto simp: message_handler_def describe_def setup_stream_def announce_def ok_msg_def error_msg_def Let_def
      session_identity_def empty_packet_def)

section \<open>From ANNOUNCE to the video element\<close>

text \<open>The properties the pipeline description gives the element.\<close>

definition element_of :: "VideoParams \<Rightarrow> video_pay" where
  "element_of v = foldl (\<lambda>vp p. video_set_property p vp) video_init
     [PROP_PAYLOAD_SIZE (v_packet_size v), PROP_FEC_PERCENTAGE (v_fec_percentage v),
      PROP_MIN_REQUIRED_FEC_PACKETS (v_min_required_fec_packets v)]"

text \<open> A client can crash the server by its packet size: the size announced is taken unchecked, and with 16, or
  anything less while a minimum of parity packets is set (the default), the first frame of the video
  element divides by zero. \<close>

theorem announced_packet_size_crashes:
  assumes "mfind (announce_args (rp_payloads req)) ''x-nv-video[0].packetSize'' = Some (Some n)" "n \<le> 16"
    and "n = 16 \<or> arg (announce_args (rp_payloads req)) ''x-nv-vqos[0].fec.minRequiredFecPackets'' 2 > 0"
  shows "split_into_rtp (element_of (s_video (fst (announce req s)))) f = None"
proof -
  let ?v = "s_video (fst (announce req s))"
  have v: "v_packet_size ?v = n" "v_fec_percentage ?v = 20"
    "v_min_required_fec_packets ?v = arg (announce_args (rp_payloads req)) ''x-nv-vqos[0].fec.minRequiredFecPackets'' 2"
    using assms(1) by (simp_all add: announce_def Let_def arg_def)
  show ?thesis
    by (rule tiny_payload_crashes) (use v assms(2,3) in \<open>auto simp: element_of_def clamp_def\<close>)
qed

definition demo_announce :: RTSP_PACKET where
  "demo_announce = empty_packet\<lparr>rp_payloads := [(''v'', ''0''), (''a'', ''x-nv-video[0].packetSize:16''), (''a'', ''x-nv-general.useReliableUdp:1'')]\<rparr>"

theorem announced_packet_size_crashes_witness:
  "split_into_rtp (element_of (s_video (fst (announce demo_announce default_session)))) (gst_buffer_of [1, 2, 3]) = None"
proof (rule announced_packet_size_crashes)
  show "mfind (announce_args (rp_payloads demo_announce)) ''x-nv-video[0].packetSize'' = Some (Some 16)" by code_simp
qed simp_all

end
