(* ===== verification/Spec2Isabelle.thy ===== *)
theory Spec2Isabelle
  imports System_Props RtspServer Evp X509 TlsServer ControlLayout Children Diagnostics Axpyb32 KernelsDecode RS_Recovery VideoPay_Props AudioPay_Props Session Uinput_Props Control_Props PointerSync Media_Props MainLoop Rtsp_Props AppState_Props Pairing_Props Https_Props
begin

text \<open>
  A verification library for the streaming server: a container that runs games for one user and streams
  them to GameStream (Moonlight) clients. All paths below are relative to \<open>src/server/src\<close>.

  \<^bold>\<open>The program.\<close> A client pairs over HTTP (\<open>server/servers.cpp\<close>, with the cryptography of
  \<open>server/moonlight_proto.cpp\<close>), and its certificate is stored (\<open>server/state.cpp\<close>). Over HTTPS it
  launches, resumes or cancels an application, which adds, changes or removes a session in the registry
  (\<open>server/session.hpp\<close>). It negotiates the stream over RTSP (\<open>server/rtsp_server.cpp\<close>,
  \<open>server/rtsp_commands.hpp\<close>); PLAY makes \<open>server/main.cpp\<close> start or re-target the media session
  (\<open>server/media.cpp\<close>), which launches the application (\<open>server/launcher.cpp\<close>), builds GStreamer pipelines from
  the encoder configuration (\<open>server/encoder_config.cpp\<close>) and sends RTP packets that the two payloaders
  (\<open>gst-plugin\<close>) make, with forward error correction by a Reed-Solomon code (\<open>moonlight-protocol/nanors-upstream\<close>).
  Input comes back over an encrypted ENet stream (\<open>server/control.cpp\<close>) and becomes Wayland events or virtual
  gamepads (\<open>server/uinput.cpp\<close>), which are announced to the container without udev (\<open>server/fake_udev.cpp\<close>).

  \<^bold>\<open>Theories.\<close> A theory has the state as records, one definition per function, in the order of the code, and its
  first lemmas; \<open>_Props\<close> theories hold the properties.

  \<^item> \<open>Prelude\<close>, \<open>StdMap\<close>, \<open>StdText\<close>, \<open>GstUtils\<close>: machine words, byte order, buffers (collections \<open>buf\<close> and
    \<open>endian\<close>), \<open>std::map\<close> (locale \<open>map_store\<close>), number parsing, GStreamer buffers and the RTP structures.
    \<open>Simulation\<close>: runs of step functions and the locale \<open>simulation\<close> for refinements.
  \<^item> \<open>GF256\<close>, \<open>Oblas\<close>, \<open>GF256_Rows\<close>, \<open>MulTable0\<close> to \<open>MulTable3\<close>, \<open>ShufTable\<close>, \<open>Kernels\<close>, \<open>Axpyb32\<close>: \<open>deps/obl\<close>. All generated tables
    are there as they are in the source and are proved to be those of the field with 256 elements, an instance
    of the class \<open>field\<close>. \<open>Oblas\<close> is the build over the field multiplication, which the rest uses; \<open>Kernels\<close> has
    the builds over the tables and with vectors and the choice \<open>rswrapper.c\<close> makes; the locale \<open>oblas_build\<close> is what
    \<open>rs.c\<close> needs of a build. \<open>Axpyb32\<close> is \<open>obl_axpyb32\<close>, which nothing calls: every build but AVX-512 does what the
    reference loop does. \<open>KernelsDecode\<close> has the decoder in each build and shows that encoder and decoder do not depend on it.
  \<^item> \<open>Cauchy\<close>, \<open>ReedSolomon\<close>, \<open>RS_Decode\<close>, \<open>RS_Recovery\<close>, \<open>Erasure\<close>: \<open>rs.c\<close> and \<open>moonlight/fec.hpp\<close>. The elimination
    in place is followed step by step on the Cauchy matrix: the pivots never vanish, and the decoder returns the data
    that was encoded. \<open>Erasure\<close> is the interface (locale \<open>erasure_code\<close>) the video payloader's recovery rests on.
  \<^item> \<open>VideoPay\<close>, \<open>AudioPay\<close>: \<open>gst-plugin\<close>. Packet layout, numbering over whole streams, recovery of losses, and
    where the arithmetic or a buffer overflows.
  \<^item> \<open>Crypto\<close>, \<open>Evp\<close>, \<open>Control\<close>, \<open>ControlLayout\<close>: \<open>crypto.cpp\<close>, \<open>aes.hpp\<close>, \<open>sign.hpp\<close>, the control stream. \<open>Crypto\<close> has the ciphers as the program
    relies on them; \<open>Evp\<close> has the calls of OpenSSL with their contexts, buffers and failures, and shows that the
    wrapper implements \<open>Crypto\<close>. \<open>ControlLayout\<close> has the structures of \<open>moonlight/control.hpp\<close> and where their fields lie.
    Round trips, the decoding of every input type, who can act.
  \<^item> \<open>FakeUdev\<close>, \<open>Uinput\<close>, \<open>PointerSync\<close>: devices and the cursor of nested X servers.
  \<^item> \<open>EncoderConfig\<close>, \<open>Launcher\<close>, \<open>Media\<close>, \<open>MediaSession\<close>, \<open>Gamepads\<close>, \<open>MainLoop\<close>: the media session from PLAY to its end.
  \<^item> \<open>Session\<close>, \<open>Rtsp\<close>, \<open>MoonlightProto\<close>, \<open>AppState\<close>, \<open>Pairing\<close>, \<open>Https\<close>: the registry (locale \<open>session_registry\<close>),
    negotiation, pairing and the resources. \<open>X509\<close>: keys and certificates (\<open>crypto/src/x509.cpp\<close>), from which the record of
    parsers that \<open>AppState\<close> uses is built. \<open>TlsServer\<close>: contexts, acceptor and handshakes of \<open>https_server.cpp\<close>.
  \<^item> \<open>Peg\<close>, \<open>RtspGrammar\<close>, \<open>RtspGrammar_Props\<close>, \<open>RtspServer\<close>: what cpp-peglib makes of a grammar, as combinators; the grammar of
    \<open>rtsp/parser.hpp\<close> rule by rule; that printed packets and the server's replies are read back; the connections and the
    acceptor of \<open>rtsp_server.cpp\<close>.
  \<^item> \<open>Diagnostics\<close>: the levels of the logger and the measurements of the video encoder. \<open>Children\<close>: the SIGCHLD handler and
    the wait of the launcher that it races with.
  \<^item> \<open>System\<close>, \<open>System_Props\<close>: all threads together, as the step relation \<open>server_step\<close> on their shared state; every event of one
    thread may come between any two of another. Its runs satisfy the invariant of the whole server and the
    properties that only a paired client can have a session, and that a paired client that asks for one gets it.

  \<^bold>\<open>What the lemmas show.\<close> Round trips (Reed-Solomon recovery, packets, hexadecimal text, control packets, configuration files,
  restarts), invariants over all runs (numbering, pairing, sessions, devices), refinements of small specifications (RTP
  route, gamepad mask), safety of the hard interleavings (launch, resume, cancel, crash during a write), behaviour on
  errors, and the equivalence of the optimised kernels. Where the code does not do what it says, the theorem states what
  it does.

  \<^bold>\<open>Conventions and bounds.\<close> Machine integers are words where they may wrap and \<open>int\<close> where the source uses
  \<open>int\<close> within its range; undefined behaviour (a read past a buffer, a shift too far, a division by zero) and
  exceptions are results of their own, usually \<open>None\<close>. No definition needs fuel: loops are recursions on data, or on
  a bound the code has itself (the teardown sleeps at most 220 times); the sequence of events a run consists of is a
  list of any length. \<open>VideoPay\<close> computes its single precision ceiling exactly below \<open>2 ^ 24\<close> bytes, more than a frame has.
  Libraries (GStreamer, OpenSSL, ENet, toml++, cpp-peglib, Boost, the kernel and the C library's environment) are parameters:
  records of functions such as \<open>openssl\<close>, \<open>gcm\<close>, \<open>media_env\<close>, \<open>peg_lib\<close>. Where a property needs a law of theirs (decryption inverts
  encryption, a certificate is read back), it is a named hypothesis, and the witness instantiates it.

  \<^bold>\<open>Not modelled.\<close> What SimpleWeb does inside a TLS session; the sink of the logger; the class set-up and registration of the
  GStreamer elements; headers that only declare; the part of the vendored \<open>sse2neon.h\<close> the kernels do not use, which is the largest file of the
  repository; scripts and images. The RTSP grammar is a string that cpp-peglib interprets: its operators have the
  meaning its documentation gives them; what \<open>.\<close> takes at a byte outside ASCII and how a number is read are parameters.
\<close>

end
